(* ===== verification/Prelude.thy ===== *)
theory Prelude
  imports Main "HOL-Library.Word"
begin

text \<open>
  Shared base of the development: the theorem collections the component theories fill, the
  names of the types that stand for Go's built-in types, and generic lemmas on lists,
  options and maps that more than one component uses.

  \<^item> \<open>golib\<close> collects evaluation facts about the modelled part of Go's standard library;
  \<^item> \<open>step_defs\<close> collects the definitions that a proof about one operation unfolds;
  \<^item> \<open>frame\<close> collects facts saying that an operation leaves a part of the state alone.
\<close>

named_theorems golib "equations of the modelled part of Go's standard library"
named_theorems step_defs "definitions unfolded by proofs about a single operation"
named_theorems frame "an operation leaves a component of the state unchanged"

subsection \<open>Go's built-in types\<close>

text \<open>
  A Go string is a sequence of bytes, and so is Isabelle's \<^typ>\<open>string\<close> (a list of 8-bit
  characters). \<open>time.Time\<close> is a count of nanoseconds since the zero time (January 1, year 1,
  UTC), and \<open>time.Duration\<close> a count of nanoseconds. Durations that the code only compares
  are \<^typ>\<open>int\<close>; the one it doubles in a loop is kept at its width of 64 bits.
  A float64 is its bit pattern: no code under verification computes with one.
\<close>

type_synonym time = int
type_synonym duration = int
type_synonym int64 = "64 word"
type_synonym float64 = "64 word"

abbreviation second :: duration where "second \<equiv> 1000000000"
abbreviation millisecond :: duration where "millisecond \<equiv> 1000000"

definition max_int64 :: int where "max_int64 = 9223372036854775807"
definition min_int64 :: int where "min_int64 = -9223372036854775808"

text \<open>\<open>time.Since\<close> subtracts two times and saturates at the ends of the int64 range.\<close>

definition sat64 :: "int \<Rightarrow> int" where
  "sat64 i = max min_int64 (min max_int64 i)"

lemma sat64_id [simp]: "min_int64 \<le> i \<Longrightarrow> i \<le> max_int64 \<Longrightarrow> sat64 i = i"
  by (simp add: sat64_def)

lemma sat64_less_iff:
  assumes "min_int64 < t" and "t \<le> max_int64"
  shows "sat64 i < t \<longleftrightarrow> i < t"
  using assms by (auto simp: sat64_def)

lemma sat64_greater_iff:
  assumes "min_int64 \<le> t" and "t < max_int64"
  shows "t < sat64 i \<longleftrightarrow> t < i"
  using assms by (auto simp: sat64_def)

text \<open>Go's int is 64 bits wide: addition wraps around.\<close>

definition wrap64 :: "int \<Rightarrow> int" where
  "wrap64 i = (i + 9223372036854775808) mod 18446744073709551616 - 9223372036854775808"

lemma wrap64_id: "min_int64 \<le> i \<Longrightarrow> i \<le> max_int64 \<Longrightarrow> wrap64 i = i"
  by (simp add: wrap64_def min_int64_def max_int64_def)

lemma wrap64_range: "min_int64 \<le> wrap64 i \<and> wrap64 i \<le> max_int64"
proof -
  have "0 \<le> (i + 9223372036854775808) mod 18446744073709551616"
    and "(i + 9223372036854775808) mod 18446744073709551616 < 18446744073709551616"
    by simp_all
  then show ?thesis unfolding wrap64_def min_int64_def max_int64_def by linarith
qed

subsection \<open>Maps\<close>

lemma ran_upd_in: "r \<in> ran (m(k \<mapsto> v)) \<Longrightarrow> r = v \<or> r \<in> ran m"
  by (auto simp: ran_def split: if_splits)

lemma dom_upd_in [simp]: "k \<in> dom m \<Longrightarrow> dom (m(k \<mapsto> v)) = dom m"
  by auto

subsection \<open>Pages of a list\<close>

text \<open>
  Reading a list page by page, starting at \<open>off\<close> with \<open>n\<close> elements per page. The paging of
  the list operation is proved against this reference.
\<close>

lemma take_drop_append_drop: "take n (drop off xs) @ drop (off + n) xs = drop off xs"
  by (metis add.commute append_take_drop_id drop_drop)

text \<open>\<open>take\<close> with its count as an integer, so that a large one is not counted down in unary.\<close>

primrec take_upto :: "'a list \<Rightarrow> int \<Rightarrow> 'a list" where
  "take_upto [] n = []"
| "take_upto (x # xs) n = (if n \<le> 0 then [] else x # take_upto xs (n - 1))"

lemma take_nat_upto: "take (nat n) xs = take_upto xs n"
proof (induction xs arbitrary: n)
  case (Cons x xs)
  have "nat n - Suc 0 = nat (n - 1)" by simp
  then show ?case using Cons.IH [of "n - 1"] by (simp add: take_Cons')
qed simp

end
