(* ===== verification/GoLib.thy ===== *)
theory GoLib
  imports Prelude "HOL-Library.Char_ord" "HOL-Library.List_Lexorder"
begin

text \<open>
  The part of Go's standard library that the program calls: \<open>strconv\<close>, \<open>strings\<close>,
  \<open>encoding/base64\<close> (raw URL alphabet) and \<open>net/url\<close>. All functions are total and
  executable. Strings are byte sequences.
\<close>

subsection \<open>strconv\<close>

definition digit_char :: "nat \<Rightarrow> char" where
  "digit_char n = char_of (48 + n)"

fun dec_digits :: "nat \<Rightarrow> string" where
  "dec_digits n =
     (if n < 10 then [digit_char n] else dec_digits (n div 10) @ [digit_char (n mod 10)])"

declare dec_digits.simps [simp del]

text \<open>\<open>strconv.Itoa\<close>.\<close>

definition itoa :: "int \<Rightarrow> string" where
  "itoa i = (if i < 0 then CHR ''-'' # dec_digits (nat (- i)) else dec_digits (nat i))"

definition is_digit :: "char \<Rightarrow> bool" where
  "is_digit c \<longleftrightarrow> 48 \<le> (of_char c :: nat) \<and> (of_char c :: nat) \<le> 57"

fun dec_val :: "nat \<Rightarrow> string \<Rightarrow> nat option" where
  "dec_val acc [] = Some acc"
| "dec_val acc (c # cs) =
     (if is_digit c then dec_val (acc * 10 + (of_char c - 48)) cs else None)"

text \<open>
  \<open>strconv.Atoi\<close> on a 64-bit platform: an optional sign, at least one digit and nothing
  else, and a value in the range of int64; \<open>None\<close> stands for either of its errors.
\<close>

definition atoi :: "string \<Rightarrow> int option" where
  "atoi s =
     (let (neg, ds) = (case s of
          c # cs \<Rightarrow> if c = CHR ''-'' then (True, cs) else if c = CHR ''+'' then (False, cs)
                   else (False, s)
        | [] \<Rightarrow> (False, s))
      in if ds = [] then None
         else case dec_val 0 ds of
             None \<Rightarrow> None
           | Some n \<Rightarrow>
               let v = (if neg then - int n else int n)
               in if min_int64 \<le> v \<and> v \<le> max_int64 then Some v else None)"

lemma of_char_digit_char [simp]: "n < 10 \<Longrightarrow> (of_char (digit_char n) :: nat) = 48 + n"
  by (simp add: digit_char_def)

lemma is_digit_digit_char [simp]: "n < 10 \<Longrightarrow> is_digit (digit_char n)"
  by (simp add: is_digit_def)

lemma dec_val_append:
  "dec_val acc (xs @ ys) = (case dec_val acc xs of None \<Rightarrow> None | Some a \<Rightarrow> dec_val a ys)"
  by (induction xs arbitrary: acc) auto

lemma dec_val_dec_digits: "dec_val 0 (dec_digits n) = Some n"
proof (induction n rule: dec_digits.induct)
  case (1 n)
  show ?case
  proof (cases "n < 10")
    case True
    then show ?thesis by (subst dec_digits.simps) simp
  next
    case False
    then have "dec_val 0 (dec_digits (n div 10)) = Some (n div 10)"
      using "1.IH" by simp
    with False show ?thesis
      by (subst dec_digits.simps) (simp add: dec_val_append)
  qed
qed

lemma dec_digits_nonempty [simp]: "dec_digits n \<noteq> []"
  by (subst dec_digits.simps) simp

lemma dec_digits_all_digits: "c \<in> set (dec_digits n) \<Longrightarrow> is_digit c"
proof (induction n rule: dec_digits.induct)
  case (1 n)
  then show ?case
    by (cases "n < 10") (auto simp: dec_digits.simps [of n])
qed

lemma is_digit_not_sign: "is_digit c \<Longrightarrow> c \<noteq> CHR ''-'' \<and> c \<noteq> CHR ''+''"
  by (auto simp: is_digit_def)

lemma dec_digits_Cons_sign:
  "dec_digits n = c # cs \<Longrightarrow> c \<noteq> CHR ''-'' \<and> c \<noteq> CHR ''+''"
  using dec_digits_all_digits [of c n] is_digit_not_sign by auto

text \<open>\<open>Atoi\<close> reads back what \<open>Itoa\<close> writes, for every int64.\<close>

lemma atoi_itoa:
  assumes "min_int64 \<le> i" and "i \<le> max_int64"
  shows "atoi (itoa i) = Some i"
proof (cases "i < 0")
  case True
  then show ?thesis
    using assms by (simp add: itoa_def atoi_def dec_val_dec_digits)
next
  case False
  obtain c cs where ds: "dec_digits (nat i) = c # cs"
    by (cases "dec_digits (nat i)") auto
  have "dec_val 0 (c # cs) = Some (nat i)"
    using dec_val_dec_digits [of "nat i"] ds by simp
  then show ?thesis
    using False assms dec_digits_Cons_sign [OF ds]
    by (simp add: itoa_def atoi_def ds del: dec_val.simps)
qed

text \<open>\<open>Atoi\<close> never leaves the int64 range.\<close>

lemma atoi_range: "atoi s = Some v \<Longrightarrow> min_int64 \<le> v \<and> v \<le> max_int64"
  by (auto simp: atoi_def Let_def split: list.splits option.splits if_splits)

subsection \<open>strings\<close>

text \<open>\<open>strings.Split\<close> with a separator of one byte: always at least one part.\<close>

fun split_on :: "char \<Rightarrow> string \<Rightarrow> string list" where
  "split_on sep [] = [[]]"
| "split_on sep (c # cs) =
     (if c = sep then [] # split_on sep cs
      else (case split_on sep cs of [] \<Rightarrow> [[c]] | p # ps \<Rightarrow> (c # p) # ps))"

text \<open>\<open>strings.Join\<close>.\<close>

fun join_with :: "string \<Rightarrow> string list \<Rightarrow> string" where
  "join_with sep [] = []"
| "join_with sep [p] = p"
| "join_with sep (p # q # ps) = p @ sep @ join_with sep (q # ps)"

text \<open>\<open>strings.TrimRight\<close> with a cutset of one byte.\<close>

definition trim_right :: "char \<Rightarrow> string \<Rightarrow> string" where
  "trim_right c s = rev (dropWhile (\<lambda>x. x = c) (rev s))"

definition has_prefix :: "string \<Rightarrow> string \<Rightarrow> bool" where
  "has_prefix s p \<longleftrightarrow> take (length p) s = p"

fun contains :: "string \<Rightarrow> string \<Rightarrow> bool" where
  "contains [] p = (p = [])"
| "contains (c # cs) p = (has_prefix (c # cs) p \<or> contains cs p)"

text \<open>
  \<open>strings.TrimSpace\<close>: the UTF-8 encodings of the code points for which \<open>unicode.IsSpace\<close>
  holds are removed from both ends.
\<close>

definition space_encodings :: "string list" where
  "space_encodings =
     [[CHR 0x09], [CHR 0x0A], [CHR 0x0B], [CHR 0x0C], [CHR 0x0D], [CHR 0x20],
      [CHR 0xC2, CHR 0x85], [CHR 0xC2, CHR 0xA0], [CHR 0xE1, CHR 0x9A, CHR 0x80],
      [CHR 0xE2, CHR 0x80, CHR 0x80], [CHR 0xE2, CHR 0x80, CHR 0x81],
      [CHR 0xE2, CHR 0x80, CHR 0x82], [CHR 0xE2, CHR 0x80, CHR 0x83],
      [CHR 0xE2, CHR 0x80, CHR 0x84], [CHR 0xE2, CHR 0x80, CHR 0x85],
      [CHR 0xE2, CHR 0x80, CHR 0x86], [CHR 0xE2, CHR 0x80, CHR 0x87],
      [CHR 0xE2, CHR 0x80, CHR 0x88], [CHR 0xE2, CHR 0x80, CHR 0x89],
      [CHR 0xE2, CHR 0x80, CHR 0x8A], [CHR 0xE2, CHR 0x80, CHR 0xA8],
      [CHR 0xE2, CHR 0x80, CHR 0xA9], [CHR 0xE2, CHR 0x80, CHR 0xAF],
      [CHR 0xE2, CHR 0x81, CHR 0x9F], [CHR 0xE3, CHR 0x80, CHR 0x80]]"

fun strip_left :: "string list \<Rightarrow> nat \<Rightarrow> string \<Rightarrow> string" where
  "strip_left encs 0 s = s"
| "strip_left encs (Suc n) s =
     (case List.find (\<lambda>e. e \<noteq> [] \<and> has_prefix s e) encs of
        None \<Rightarrow> s
      | Some e \<Rightarrow> strip_left encs n (drop (length e) s))"

definition trim_space :: "string \<Rightarrow> string" where
  "trim_space s =
     (let l = strip_left space_encodings (length s) s
      in rev (strip_left (map rev space_encodings) (length l) (rev l)))"

lemma join_split [simp]: "join_with [sep] (split_on sep s) = s"
proof (induction s)
  case Nil
  then show ?case by simp
next
  case (Cons c cs)
  then show ?case
    by (cases "split_on sep cs" rule: list.exhaust; cases "tl (split_on sep cs)") auto
qed

lemma split_on_nonempty [simp]: "split_on sep s \<noteq> []"
  by (cases s) (auto split: list.splits)

lemma split_on_no_sep: "p \<in> set (split_on sep s) \<Longrightarrow> sep \<notin> set p"
  by (induction s arbitrary: p) (auto split: list.splits if_splits)

text \<open>Splitting undoes joining, when no part holds the separator.\<close>

lemma split_on_append_sep:
  "sep \<notin> set p \<Longrightarrow> split_on sep (p @ sep # s) = p # split_on sep s"
  by (induction p) auto

lemma split_on_single: "sep \<notin> set p \<Longrightarrow> split_on sep p = [p]"
  by (induction p) auto

lemma split_join:
  assumes "ps \<noteq> []" and "\<forall>p \<in> set ps. sep \<notin> set p"
  shows "split_on sep (join_with [sep] ps) = ps"
  using assms
  by (induction "[sep]" ps rule: join_with.induct)
     (auto simp: split_on_append_sep split_on_single)

lemma has_prefix_append [simp]: "has_prefix (p @ s) p"
  by (simp add: has_prefix_def)

lemma has_prefix_iff: "has_prefix s p \<longleftrightarrow> (\<exists>t. s = p @ t)"
  by (auto simp: has_prefix_def) (metis append_take_drop_id)

subsection \<open>encoding/base64, raw URL alphabet\<close>

definition b64_char :: "nat \<Rightarrow> char" where
  "b64_char n =
     (if n < 26 then char_of (65 + n)
      else if n < 52 then char_of (97 + (n - 26))
      else if n < 62 then char_of (48 + (n - 52))
      else if n = 62 then CHR ''-'' else CHR ''_'')"

definition b64_val :: "char \<Rightarrow> nat option" where
  "b64_val c =
     (let n = (of_char c :: nat)
      in if 65 \<le> n \<and> n \<le> 90 then Some (n - 65)
         else if 97 \<le> n \<and> n \<le> 122 then Some (n - 97 + 26)
         else if 48 \<le> n \<and> n \<le> 57 then Some (n - 48 + 52)
         else if n = 45 then Some 62
         else if n = 95 then Some 63
         else None)"

fun b64_encode_bytes :: "nat list \<Rightarrow> nat list" where
  "b64_encode_bytes [] = []"
| "b64_encode_bytes [x] = [x div 4, x mod 4 * 16]"
| "b64_encode_bytes [x, y] = [x div 4, x mod 4 * 16 + y div 16, y mod 16 * 4]"
| "b64_encode_bytes (x # y # z # r) =
     [x div 4, x mod 4 * 16 + y div 16, y mod 16 * 4 + z div 64, z mod 64] @ b64_encode_bytes r"

fun b64_decode_vals :: "nat list \<Rightarrow> nat list option" where
  "b64_decode_vals [] = Some []"
| "b64_decode_vals [a] = None"
| "b64_decode_vals [a, b] = Some [a * 4 + b div 16]"
| "b64_decode_vals [a, b, c] = Some [a * 4 + b div 16, b mod 16 * 16 + c div 4]"
| "b64_decode_vals (a # b # c # d # r) =
     (case b64_decode_vals r of
        None \<Rightarrow> None
      | Some bs \<Rightarrow>
          Some ([a * 4 + b div 16, b mod 16 * 16 + c div 4, c mod 4 * 64 + d] @ bs))"

text \<open>\<open>base64.RawURLEncoding.EncodeToString\<close>.\<close>

definition b64_encode :: "string \<Rightarrow> string" where
  "b64_encode s = map b64_char (b64_encode_bytes (map of_char s))"

fun vals_of :: "string \<Rightarrow> nat list option" where
  "vals_of [] = Some []"
| "vals_of (c # cs) =
     (case b64_val c of
        None \<Rightarrow> None
      | Some v \<Rightarrow> (case vals_of cs of None \<Rightarrow> None | Some vs \<Rightarrow> Some (v # vs)))"

text \<open>
  \<open>base64.RawURLEncoding.DecodeString\<close>: carriage returns and newlines are skipped, any other
  byte outside the alphabet and a lone final character are errors (\<open>None\<close>), and the unused
  low bits of the last character are not checked.
\<close>

definition b64_decode :: "string \<Rightarrow> string option" where
  "b64_decode s =
     (case vals_of (filter (\<lambda>c. c \<noteq> CHR 0x0A \<and> c \<noteq> CHR 0x0D) s) of
        None \<Rightarrow> None
      | Some vs \<Rightarrow>
          (case b64_decode_vals vs of
             None \<Rightarrow> None
           | Some bs \<Rightarrow> Some (map char_of bs)))"

lemma b64_val_char: "n < 64 \<Longrightarrow> b64_val (b64_char n) = Some n"
  by (auto simp: b64_val_def b64_char_def Let_def split: if_splits)

lemma b64_char_not_newline: "n < 64 \<Longrightarrow> b64_char n \<noteq> CHR 0x0A \<and> b64_char n \<noteq> CHR 0x0D"
  using b64_val_char [of n] by (auto simp: b64_val_def)

lemma vals_of_chars: "\<forall>v \<in> set vs. v < 64 \<Longrightarrow> vals_of (map b64_char vs) = Some vs"
  by (induction vs) (auto simp: b64_val_char)

lemma b64_encode_bytes_bound:
  "\<forall>b \<in> set bs. b < 256 \<Longrightarrow> \<forall>v \<in> set (b64_encode_bytes bs). v < 64"
  by (induction bs rule: b64_encode_bytes.induct) auto

lemma b64_group1: "x div 4 * 4 + (x mod 4 * 16 + y div 16) div 16 = x + y div (256::nat)"
  by (simp add: div_mult2_eq [symmetric])

lemma b64_group2:
  "y < 256 \<Longrightarrow>
   (x mod 4 * 16 + y div 16) mod 16 * 16 + (y mod 16 * 4 + z div 64) div 4 = y + z div (256::nat)"
proof -
  assume "y < 256"
  then have "y div 16 < 16" by simp
  then have "(x mod 4 * 16 + y div 16) mod 16 = y div 16" by simp
  moreover have "(y mod 16 * 4 + z div 64) div 4 = y mod 16 + z div 256"
    by (simp add: div_mult2_eq [symmetric])
  ultimately show ?thesis by simp
qed

lemma b64_group3: "z < 256 \<Longrightarrow> (y mod 16 * 4 + z div 64) mod 4 * 64 + z mod 64 = (z::nat)"
proof -
  assume "z < 256"
  then have "z div 64 < 4" by simp
  then have "(y mod 16 * 4 + z div 64) mod 4 = z div 64" by simp
  then show ?thesis by simp
qed

lemma b64_decode_encode_bytes:
  "\<forall>b \<in> set bs. b < 256 \<Longrightarrow> b64_decode_vals (b64_encode_bytes bs) = Some bs"
proof (induction bs rule: b64_encode_bytes.induct)
  case (3 x y)
  then show ?case using b64_group1 [of x y] b64_group2 [of y x 0] by simp
next
  case (4 x y z r)
  then show ?case
    using b64_group1 [of x y] b64_group2 [of y x z] b64_group3 [of z y] by simp
qed auto

lemma filter_b64_chars:
  "\<forall>v \<in> set vs. v < 64 \<Longrightarrow>
   filter (\<lambda>c. c \<noteq> CHR 0x0A \<and> c \<noteq> CHR 0x0D) (map b64_char vs) = map b64_char vs"
  by (induction vs) (auto simp: b64_char_not_newline)

text \<open>Decoding undoes encoding, for every byte string.\<close>

lemma b64_decode_encode: "b64_decode (b64_encode s) = Some s"
proof -
  let ?bs = "map of_char s :: nat list"
  have bytes: "\<forall>b \<in> set ?bs. b < 256" by auto
  then have vals: "\<forall>v \<in> set (b64_encode_bytes ?bs). v < 64"
    by (rule b64_encode_bytes_bound)
  have "map char_of ?bs = s" by (induction s) auto
  then show ?thesis
    using vals bytes
    by (simp add: b64_decode_def b64_encode_def filter_b64_chars vals_of_chars
        b64_decode_encode_bytes)
qed

subsection \<open>net/url\<close>

definition hex_digit :: "nat \<Rightarrow> char" where
  "hex_digit n = (if n < 10 then char_of (48 + n) else char_of (55 + n))"

definition url_unreserved :: "char \<Rightarrow> bool" where
  "url_unreserved c \<longleftrightarrow>
     (let n = (of_char c :: nat)
      in (65 \<le> n \<and> n \<le> 90) \<or> (97 \<le> n \<and> n \<le> 122) \<or> (48 \<le> n \<and> n \<le> 57) \<or>
         c = CHR ''-'' \<or> c = CHR ''_'' \<or> c = CHR ''.'' \<or> c = CHR ''~'')"

text \<open>\<open>url.QueryEscape\<close>.\<close>

fun query_escape :: "string \<Rightarrow> string" where
  "query_escape [] = []"
| "query_escape (c # cs) =
     (if url_unreserved c then [c]
      else if c = CHR '' '' then [CHR ''+'']
      else [CHR ''%'', hex_digit (of_char c div 16), hex_digit (of_char c mod 16)])
     @ query_escape cs"

text \<open>
  \<open>url.Values\<close>: the program only stores values with \<open>Set\<close>, so every key has one value. The
  association list stands for the Go map; \<open>Encode\<close> writes the keys in sorted order.
\<close>

type_synonym url_values = "(string \<times> string) list"

definition values_set :: "string \<Rightarrow> string \<Rightarrow> url_values \<Rightarrow> url_values" where
  "values_set k v vs = (k, v) # filter (\<lambda>e. fst e \<noteq> k) vs"

definition values_encode :: "url_values \<Rightarrow> string" where
  "values_encode vs =
     join_with ''&'' (map (\<lambda>(k, v). query_escape k @ ''='' @ query_escape v) (sort_key fst vs))"

lemma values_set_distinct: "distinct (map fst vs) \<Longrightarrow> distinct (map fst (values_set k v vs))"
  by (auto simp: values_set_def distinct_map inj_on_def)

lemma map_of_filter_other: "x \<noteq> k \<Longrightarrow> map_of (filter (\<lambda>e. fst e \<noteq> k) vs) x = map_of vs x"
  by (induction vs) auto

lemma map_of_values_set [simp]: "map_of (values_set k v vs) = (map_of vs)(k \<mapsto> v)"
  by (rule ext) (auto simp: values_set_def map_of_filter_other)

subsection \<open>Quoting and padding\<close>

text \<open>
  \<open>strconv.Quote\<close>, the verb \<open>%q\<close>, on ASCII text. A byte of a multi-byte code point is kept
  as it is, which is what Go does for the printable ones.
\<close>

definition hex_digit_lower :: "nat \<Rightarrow> char" where
  "hex_digit_lower n = (if n < 10 then char_of (48 + n) else char_of (87 + n))"

definition quote_char :: "char \<Rightarrow> string" where
  "quote_char c =
     (let n = (of_char c :: nat)
      in if c = CHR 0x22 then [CHR 0x5C, CHR 0x22]
         else if c = CHR 0x5C then [CHR 0x5C, CHR 0x5C]
         else if n = 7 then [CHR 0x5C, CHR ''a'']
         else if n = 8 then [CHR 0x5C, CHR ''b'']
         else if n = 12 then [CHR 0x5C, CHR ''f'']
         else if n = 10 then [CHR 0x5C, CHR ''n'']
         else if n = 13 then [CHR 0x5C, CHR ''r'']
         else if n = 9 then [CHR 0x5C, CHR ''t'']
         else if n = 11 then [CHR 0x5C, CHR ''v'']
         else if n < 32 \<or> n = 127
           then [CHR 0x5C, CHR ''x'', hex_digit_lower (n div 16), hex_digit_lower (n mod 16)]
         else [c])"

definition quote :: "string \<Rightarrow> string" where
  "quote s = [CHR 0x22] @ concat (map quote_char s) @ [CHR 0x22]"

text \<open>Zero-padded decimal, as \<open>time.Format\<close> writes years, months and days.\<close>

definition pad :: "nat \<Rightarrow> int \<Rightarrow> string" where
  "pad w i = (let d = itoa i in replicate (w - length d) (CHR ''0'') @ d)"

end
