(* ===== verification/Json.thy ===== *)
theory Json
  imports GoLib
begin

text \<open>
  The part of \<open>encoding/json\<close> that the program uses: values, the compact text that
  \<open>json.Marshal\<close> writes, the parser behind \<open>json.Unmarshal\<close> and \<open>json.Decoder\<close>, and the
  rules by which a value is decoded into Go structs (case-insensitive field names, \<open>null\<close>,
  pointers, repeated keys). The text of a float64 is a parameter (\<open>float_fmt\<close>): the shortest
  decimal that \<open>strconv\<close> prints is not modelled.
\<close>

subsection \<open>Values\<close>

text \<open>
  \<open>JInt\<close> and \<open>JNum\<close> are numbers the program encodes. The parser yields \<open>JLit\<close>: the literal as it
  stands in the text, with its value as a float64 if it has one, since Go converts a literal only
  when it knows the type of its destination. An object keeps its members in order, repeated keys
  included.
\<close>

datatype json =
    JNull
  | JBool bool
  | JInt int
  | JNum float64
  | JLit string "float64 option"
  | JStr string
  | JArr "json list"
  | JObj "(string \<times> json) list"

record float_fmt =
  ff_print :: "float64 \<Rightarrow> string"
  ff_parse :: "string \<Rightarrow> float64 option"

text \<open>NaN and the infinities have all exponent bits set; \<open>json.Marshal\<close> refuses them.\<close>

definition float_finite :: "float64 \<Rightarrow> bool" where
  "float_finite f \<longleftrightarrow> take_bit 11 (drop_bit 52 f) \<noteq> 2047"

fun json_finite :: "json \<Rightarrow> bool" where
  "json_finite (JNum f) = float_finite f"
| "json_finite (JArr vs) = list_all json_finite vs"
| "json_finite (JObj ms) = list_all (\<lambda>m. json_finite (snd m)) ms"
| "json_finite j = True"

subsection \<open>UTF-8\<close>

definition is_cont :: "char \<Rightarrow> bool" where
  "is_cont c \<longleftrightarrow> 128 \<le> (of_char c :: nat) \<and> (of_char c :: nat) \<le> 191"

definition in_range :: "nat \<Rightarrow> nat \<Rightarrow> char \<Rightarrow> bool" where
  "in_range lo hi c \<longleftrightarrow> lo \<le> (of_char c :: nat) \<and> (of_char c :: nat) \<le> hi"

text \<open>The length of the valid UTF-8 encoding a string starts with; 0 when there is none.\<close>

fun utf8_len :: "string \<Rightarrow> nat" where
  "utf8_len [] = 0"
| "utf8_len (a # r) =
     (if in_range 0 127 a then 1
      else if in_range 0xC2 0xDF a then
        (case r of b # _ \<Rightarrow> if is_cont b then 2 else 0 | [] \<Rightarrow> 0)
      else if in_range 0xE0 0xEF a then
        (case r of
           b # c # _ \<Rightarrow>
             if is_cont b \<and> is_cont c \<and> (a = CHR 0xE0 \<longrightarrow> in_range 0xA0 0xBF b) \<and>
                (a = CHR 0xED \<longrightarrow> in_range 0x80 0x9F b) then 3 else 0
         | _ \<Rightarrow> 0)
      else if in_range 0xF0 0xF4 a then
        (case r of
           b # c # d # _ \<Rightarrow>
             if is_cont b \<and> is_cont c \<and> is_cont d \<and> (a = CHR 0xF0 \<longrightarrow> in_range 0x90 0xBF b) \<and>
                (a = CHR 0xF4 \<longrightarrow> in_range 0x80 0x8F b) then 4 else 0
         | _ \<Rightarrow> 0)
      else 0)"

text \<open>The encoding of one code point.\<close>

definition utf8_encode :: "nat \<Rightarrow> string" where
  "utf8_encode n =
     (if n < 0x80 then [char_of n]
      else if n < 0x800 then [char_of (0xC0 + n div 64), char_of (0x80 + n mod 64)]
      else if n < 0x10000 then
        [char_of (0xE0 + n div 4096), char_of (0x80 + n div 64 mod 64), char_of (0x80 + n mod 64)]
      else
        [char_of (0xF0 + n div 262144), char_of (0x80 + n div 4096 mod 64),
         char_of (0x80 + n div 64 mod 64), char_of (0x80 + n mod 64)])"

subsection \<open>Printing\<close>

abbreviation backslash :: char where "backslash \<equiv> CHR 0x5C"
abbreviation dquote :: char where "dquote \<equiv> CHR 0x22"

definition u_escape :: "nat \<Rightarrow> string" where
  "u_escape n =
     [backslash, CHR ''u'', hex_digit_lower (n div 4096), hex_digit_lower (n div 256 mod 16),
      hex_digit_lower (n div 16 mod 16), hex_digit_lower (n mod 16)]"

definition escape_ascii :: "char \<Rightarrow> string" where
  "escape_ascii c =
     (let n = (of_char c :: nat)
      in if c = dquote \<or> c = backslash then [backslash, c]
         else if n = 8 then [backslash, CHR ''b'']
         else if n = 12 then [backslash, CHR ''f'']
         else if n = 10 then [backslash, CHR ''n'']
         else if n = 13 then [backslash, CHR ''r'']
         else if n = 9 then [backslash, CHR ''t'']
         else if n < 32 \<or> c = CHR ''<'' \<or> c = CHR ''>'' \<or> c = CHR ''&'' then u_escape n
         else [c])"

text \<open>
  The body of a string literal. The first counter copies the remaining bytes of a multi-byte
  code point, the second one drops those of an escaped code point. A byte that starts no valid
  code point becomes the escape of U+FFFD, and U+2028 and U+2029 are escaped.
\<close>

primrec escape_bytes :: "string \<Rightarrow> nat \<Rightarrow> nat \<Rightarrow> string" where
  "escape_bytes [] copy skip = []"
| "escape_bytes (c # cs) copy skip =
     (if 0 < skip then escape_bytes cs copy (skip - 1)
      else if 0 < copy then c # escape_bytes cs (copy - 1) 0
      else
        (let l = utf8_len (c # cs)
         in if l = 0 then u_escape 0xFFFD @ escape_bytes cs 0 0
            else if l = 1 then escape_ascii c @ escape_bytes cs 0 0
            else if take 3 (c # cs) = [CHR 0xE2, CHR 0x80, CHR 0xA8]
              then u_escape 0x2028 @ escape_bytes cs 0 2
            else if take 3 (c # cs) = [CHR 0xE2, CHR 0x80, CHR 0xA9]
              then u_escape 0x2029 @ escape_bytes cs 0 2
            else c # escape_bytes cs (l - 1) 0))"

definition print_str :: "string \<Rightarrow> string" where
  "print_str s = [dquote] @ escape_bytes s 0 0 @ [dquote]"

fun print_json :: "float_fmt \<Rightarrow> json \<Rightarrow> string" where
  "print_json F JNull = ''null''"
| "print_json F (JBool b) = (if b then ''true'' else ''false'')"
| "print_json F (JInt i) = itoa i"
| "print_json F (JNum f) = ff_print F f"
| "print_json F (JLit l f) = l"
| "print_json F (JStr s) = print_str s"
| "print_json F (JArr vs) = ''['' @ join_with '','' (map (print_json F) vs) @ '']''"
| "print_json F (JObj ms) =
     ''{'' @ join_with '','' (map (\<lambda>m. print_str (fst m) @ '':'' @ print_json F (snd m)) ms) @ ''}''"

text \<open>\<open>json.Marshal\<close>: \<open>None\<close> is its error for a value that is not finite.\<close>

definition json_marshal :: "float_fmt \<Rightarrow> json \<Rightarrow> string option" where
  "json_marshal F j = (if json_finite j then Some (print_json F j) else None)"

subsection \<open>Parsing\<close>

definition is_ws :: "char \<Rightarrow> bool" where
  "is_ws c \<longleftrightarrow> c = CHR '' '' \<or> c = CHR 0x09 \<or> c = CHR 0x0A \<or> c = CHR 0x0D"

definition skip_ws :: "string \<Rightarrow> string" where
  "skip_ws s = dropWhile is_ws s"

definition hex_val :: "char \<Rightarrow> nat option" where
  "hex_val c =
     (let n = (of_char c :: nat)
      in if 48 \<le> n \<and> n \<le> 57 then Some (n - 48)
         else if 97 \<le> n \<and> n \<le> 102 then Some (n - 87)
         else if 65 \<le> n \<and> n \<le> 70 then Some (n - 55)
         else None)"

definition hex4 :: "string \<Rightarrow> (nat \<times> string) option" where
  "hex4 s =
     (case s of
        a # b # c # d # r \<Rightarrow>
          (case (hex_val a, hex_val b, hex_val c, hex_val d) of
             (Some x, Some y, Some z, Some w) \<Rightarrow> Some (((x * 16 + y) * 16 + z) * 16 + w, r)
           | _ \<Rightarrow> None)
      | _ \<Rightarrow> None)"

definition simple_escape :: "char \<Rightarrow> char option" where
  "simple_escape c =
     (if c = dquote \<or> c = backslash \<or> c = CHR ''/'' then Some c
      else if c = CHR ''b'' then Some (CHR 0x08)
      else if c = CHR ''f'' then Some (CHR 0x0C)
      else if c = CHR ''n'' then Some (CHR 0x0A)
      else if c = CHR ''r'' then Some (CHR 0x0D)
      else if c = CHR ''t'' then Some (CHR 0x09)
      else None)"

text \<open>
  The code point of a \<open>\u\<close> escape, whose four digits were read: a surrogate pair is joined,
  a lone surrogate becomes U+FFFD.
\<close>

definition u_rune :: "nat \<Rightarrow> string \<Rightarrow> nat \<times> string" where
  "u_rune n r =
     (if 0xD800 \<le> n \<and> n < 0xDC00 then
        (case r of
           a # b # r2 \<Rightarrow>
             if a = backslash \<and> b = CHR ''u'' then
               (case hex4 r2 of
                  Some (m, r3) \<Rightarrow>
                    if 0xDC00 \<le> m \<and> m < 0xE000
                    then (0x10000 + (n - 0xD800) * 1024 + (m - 0xDC00), r3)
                    else (0xFFFD, r)
                | None \<Rightarrow> (0xFFFD, r))
             else (0xFFFD, r)
         | _ \<Rightarrow> (0xFFFD, r))
      else if 0xDC00 \<le> n \<and> n < 0xE000 then (0xFFFD, r)
      else (n, r))"

text \<open>
  A string literal after its opening quote. The fuel bounds the number of characters read; the
  length of the input is enough.
\<close>

fun parse_str :: "nat \<Rightarrow> string \<Rightarrow> (string \<times> string) option" where
  "parse_str 0 s = None"
| "parse_str (Suc n) [] = None"
| "parse_str (Suc n) (c # cs) =
     (if c = dquote then Some ([], cs)
      else if c = backslash then
        (case cs of
           [] \<Rightarrow> None
         | e # r \<Rightarrow>
             if e = CHR ''u'' then
               (case hex4 r of
                  None \<Rightarrow> None
                | Some (h, r2) \<Rightarrow>
                    let (k, r3) = u_rune h r2
                    in map_option (\<lambda>(t, q). (utf8_encode k @ t, q)) (parse_str n r3))
             else
               (case simple_escape e of
                  None \<Rightarrow> None
                | Some x \<Rightarrow> map_option (\<lambda>(t, q). (x # t, q)) (parse_str n r)))
      else if (of_char c :: nat) < 32 then None
      else
        (let l = utf8_len (c # cs)
         in if l = 0 then map_option (\<lambda>(t, q). (utf8_encode 0xFFFD @ t, q)) (parse_str n cs)
            else map_option (\<lambda>(t, q). (take l (c # cs) @ t, q)) (parse_str n (drop l (c # cs)))))"

text \<open>A number literal: its longest prefix in JSON's grammar, and the rest.\<close>

definition take_digits :: "string \<Rightarrow> string \<times> string" where
  "take_digits s = (takeWhile is_digit s, dropWhile is_digit s)"

definition int_part :: "string \<Rightarrow> (string \<times> string) option" where
  "int_part s =
     (case s of
        c # r \<Rightarrow>
          if c = CHR ''0'' then Some ([c], r)
          else if is_digit c then Some (take_digits s)
          else None
      | [] \<Rightarrow> None)"

definition frac_part :: "string \<Rightarrow> (string \<times> string) option" where
  "frac_part s =
     (case s of
        c # r \<Rightarrow>
          if c = CHR ''.'' then
            (let (d, q) = take_digits r in if d = [] then None else Some (c # d, q))
          else Some ([], s)
      | [] \<Rightarrow> Some ([], []))"

definition exp_part :: "string \<Rightarrow> (string \<times> string) option" where
  "exp_part s =
     (case s of
        c # r \<Rightarrow>
          if c = CHR ''e'' \<or> c = CHR ''E'' then
            (let (sg, r2) =
               (case r of
                  x # xs \<Rightarrow> if x = CHR ''+'' \<or> x = CHR ''-'' then ([x], xs) else ([], r)
                | [] \<Rightarrow> ([], []));
               (d, q) = take_digits r2
             in if d = [] then None else Some (c # sg @ d, q))
          else Some ([], s)
      | [] \<Rightarrow> Some ([], []))"

definition num_literal :: "string \<Rightarrow> (string \<times> string) option" where
  "num_literal s =
     (let (sg, r) = (case s of
          c # cs \<Rightarrow> if c = CHR ''-'' then ([c], cs) else ([], s)
        | [] \<Rightarrow> ([], []))
      in case int_part r of
           None \<Rightarrow> None
         | Some (i, r1) \<Rightarrow>
             (case frac_part r1 of
                None \<Rightarrow> None
              | Some (f, r2) \<Rightarrow>
                  (case exp_part r2 of
                     None \<Rightarrow> None
                   | Some (e, r3) \<Rightarrow> Some (sg @ i @ f @ e, r3))))"

definition parse_num :: "float_fmt \<Rightarrow> string \<Rightarrow> (json \<times> string) option" where
  "parse_num F s = map_option (\<lambda>(l, r). (JLit l (ff_parse F l), r)) (num_literal s)"

definition parse_lit :: "string \<Rightarrow> json \<Rightarrow> string \<Rightarrow> (json \<times> string) option" where
  "parse_lit w j s = (if has_prefix s w then Some (j, drop (length w) s) else None)"

text \<open>
  Values, and the elements and members after an opening bracket. Every call spends fuel; a
  value of \<open>n\<close> bytes needs at most \<open>2 * n + 2\<close> units.
\<close>

fun parse_val :: "float_fmt \<Rightarrow> nat \<Rightarrow> string \<Rightarrow> (json \<times> string) option"
  and parse_elems :: "float_fmt \<Rightarrow> nat \<Rightarrow> string \<Rightarrow> (json list \<times> string) option"
  and parse_members :: "float_fmt \<Rightarrow> nat \<Rightarrow> string \<Rightarrow> ((string \<times> json) list \<times> string) option"
where
  "parse_val F 0 s = None"
| "parse_val F (Suc n) s =
     (case skip_ws s of
        [] \<Rightarrow> None
      | c # r \<Rightarrow>
          if c = CHR ''{'' then
            (case skip_ws r of
               d # q \<Rightarrow>
                 if d = CHR ''}'' then Some (JObj [], q)
                 else map_option (\<lambda>(ms, t). (JObj ms, t)) (parse_members F n r)
             | [] \<Rightarrow> None)
          else if c = CHR ''['' then
            (case skip_ws r of
               d # q \<Rightarrow>
                 if d = CHR '']'' then Some (JArr [], q)
                 else map_option (\<lambda>(vs, t). (JArr vs, t)) (parse_elems F n r)
             | [] \<Rightarrow> None)
          else if c = dquote then map_option (\<lambda>(t, q). (JStr t, q)) (parse_str (length r) r)
          else if c = CHR ''t'' then parse_lit ''true'' (JBool True) (c # r)
          else if c = CHR ''f'' then parse_lit ''false'' (JBool False) (c # r)
          else if c = CHR ''n'' then parse_lit ''null'' JNull (c # r)
          else parse_num F (c # r))"
| "parse_elems F 0 s = None"
| "parse_elems F (Suc n) s =
     (case parse_val F n s of
        None \<Rightarrow> None
      | Some (v, r) \<Rightarrow>
          (case skip_ws r of
             c # q \<Rightarrow>
               if c = CHR '']'' then Some ([v], q)
               else if c = CHR '','' then
                 map_option (\<lambda>(vs, t). (v # vs, t)) (parse_elems F n q)
               else None
           | [] \<Rightarrow> None))"
| "parse_members F 0 s = None"
| "parse_members F (Suc n) s =
     (case skip_ws s of
        c # r \<Rightarrow>
          if c \<noteq> dquote then None
          else
            (case parse_str (length r) r of
               None \<Rightarrow> None
             | Some (k, r1) \<Rightarrow>
                 (case skip_ws r1 of
                    d # r2 \<Rightarrow>
                      if d \<noteq> CHR '':'' then None
                      else
                        (case parse_val F n r2 of
                           None \<Rightarrow> None
                         | Some (v, r3) \<Rightarrow>
                             (case skip_ws r3 of
                                e # q \<Rightarrow>
                                  if e = CHR ''}'' then Some ([(k, v)], q)
                                  else if e = CHR '','' then
                                    map_option (\<lambda>(ms, t). ((k, v) # ms, t)) (parse_members F n q)
                                  else None
                              | [] \<Rightarrow> None))
                  | [] \<Rightarrow> None))
      | [] \<Rightarrow> None)"

text \<open>\<open>json.Decoder.Decode\<close> reads the first value of a stream and leaves the rest.\<close>

definition json_decode :: "float_fmt \<Rightarrow> string \<Rightarrow> json option" where
  "json_decode F s = map_option fst (parse_val F (2 * length s + 2) s)"

text \<open>\<open>json.Unmarshal\<close> wants exactly one value, with white space around it.\<close>

definition json_unmarshal :: "float_fmt \<Rightarrow> string \<Rightarrow> json option" where
  "json_unmarshal F s =
     (case parse_val F (2 * length s + 2) s of
        None \<Rightarrow> None
      | Some (j, r) \<Rightarrow> if skip_ws r = [] then Some j else None)"

subsection \<open>Decoding into Go values\<close>

text \<open>
  A decoder takes a JSON value and the variable's current value, and returns the new value or
  \<open>None\<close> for a type error. \<open>null\<close> leaves a variable that is not a pointer, a map or a slice
  unchanged.
\<close>

type_synonym 'a decoder = "json \<Rightarrow> 'a \<Rightarrow> 'a option"

definition dec_string :: "string decoder" where
  "dec_string j cur = (case j of JNull \<Rightarrow> Some cur | JStr s \<Rightarrow> Some s | _ \<Rightarrow> None)"

definition dec_bool :: "bool decoder" where
  "dec_bool j cur = (case j of JNull \<Rightarrow> Some cur | JBool b \<Rightarrow> Some b | _ \<Rightarrow> None)"

definition dec_float :: "float64 decoder" where
  "dec_float j cur =
     (case j of JNull \<Rightarrow> Some cur | JNum f \<Rightarrow> Some f | JLit l f \<Rightarrow> f | _ \<Rightarrow> None)"

text \<open>
  An integer with bounds, within those of int64: a literal with a fraction or an exponent is an
  error, whatever its value.
\<close>

definition dec_int :: "int \<Rightarrow> int \<Rightarrow> int decoder" where
  "dec_int lo hi j cur =
     (let bounded = (\<lambda>i. if lo \<le> i \<and> i \<le> hi then Some i else None)
      in case j of
           JNull \<Rightarrow> Some cur
         | JInt i \<Rightarrow> bounded i
         | JLit l f \<Rightarrow> (case atoi l of None \<Rightarrow> None | Some i \<Rightarrow> bounded i)
         | _ \<Rightarrow> None)"

text \<open>
  Any value, as decoded into an \<open>interface{}\<close>: numbers become float64, and one that is out of
  range is an error.
\<close>

fun dec_any :: "json \<Rightarrow> json option" where
  "dec_any (JLit l f) = map_option JNum f"
| "dec_any (JArr vs) = map_option JArr (those (map dec_any vs))"
| "dec_any (JObj ms) =
     map_option JObj (those (map (\<lambda>m. map_option (Pair (fst m)) (dec_any (snd m))) ms))"
| "dec_any j = Some j"

definition dec_ptr :: "'a \<Rightarrow> 'a decoder \<Rightarrow> 'a option decoder" where
  "dec_ptr zero d j cur =
     (case j of
        JNull \<Rightarrow> Some None
      | _ \<Rightarrow> map_option Some (d j (case cur of None \<Rightarrow> zero | Some v \<Rightarrow> v)))"

fun dec_list :: "'a \<Rightarrow> 'a decoder \<Rightarrow> json list \<Rightarrow> 'a list option" where
  "dec_list zero d [] = Some []"
| "dec_list zero d (j # js) =
     (case d j zero of
        None \<Rightarrow> None
      | Some v \<Rightarrow> map_option (\<lambda>vs. v # vs) (dec_list zero d js))"

text \<open>Names of struct fields match without regard to case (Unicode simple folding).\<close>

definition lower :: "char \<Rightarrow> char" where
  "lower c = (if in_range 65 90 c then char_of ((of_char c :: nat) + 32) else c)"

primrec fold_bytes :: "string \<Rightarrow> nat \<Rightarrow> string" where
  "fold_bytes [] skip = []"
| "fold_bytes (c # cs) skip =
     (if 0 < skip then fold_bytes cs (skip - 1)
      else if c = CHR 0xC5 \<and> take 1 cs = [CHR 0xBF] then CHR ''s'' # fold_bytes cs 1
      else if c = CHR 0xE2 \<and> take 2 cs = [CHR 0x84, CHR 0xAA] then CHR ''k'' # fold_bytes cs 2
      else lower c # fold_bytes cs 0)"

definition fold_name :: "string \<Rightarrow> string" where
  "fold_name s = fold_bytes s 0"

text \<open>One field: every member with its name is decoded in turn, the first one into \<open>cur\<close>.\<close>

fun dec_field :: "string \<Rightarrow> 'a decoder \<Rightarrow> (string \<times> json) list \<Rightarrow> 'a \<Rightarrow> 'a option" where
  "dec_field k d [] cur = Some cur"
| "dec_field k d (m # ms) cur =
     (if fold_name (fst m) = fold_name k
      then (case d (snd m) cur of None \<Rightarrow> None | Some v \<Rightarrow> dec_field k d ms v)
      else dec_field k d ms cur)"

subsection \<open>Encoding Go values\<close>

text \<open>A struct field with a pointer and \<open>omitempty\<close> is left out when the pointer is nil.\<close>

definition enc_opt :: "string \<Rightarrow> ('a \<Rightarrow> json) \<Rightarrow> 'a option \<Rightarrow> (string \<times> json) list" where
  "enc_opt k e v = (case v of None \<Rightarrow> [] | Some x \<Rightarrow> [(k, e x)])"

end
