(* ===== verification/ApiTypes.thy ===== *)
theory ApiTypes
  imports Json
begin

text \<open>
  The types of \<open>api/v1alpha1/types.gen.go\<close> (and their copies in \<open>internal/api/server\<close>): the
  enumerations with their \<open>Valid\<close> methods, the structs, and how \<open>encoding/json\<close> writes and
  reads them according to the struct tags. Go's enumerations are open strings, so a field
  holds a string and \<open>Valid\<close> is a predicate on it.
\<close>

subsection \<open>Enumerations\<close>

definition CostInstanceStatus_Valid :: "string \<Rightarrow> bool" where
  "CostInstanceStatus_Valid e \<longleftrightarrow>
     e \<in> set [''DELETED'', ''DELETING'', ''ERROR'', ''PROVISIONING'', ''READY'']"

definition CostModelSpecDistribution_Valid :: "string \<Rightarrow> bool" where
  "CostModelSpecDistribution_Valid e \<longleftrightarrow> e \<in> set [''cpu'', ''memory'']"

definition CostSpecServiceType_Valid :: "string \<Rightarrow> bool" where
  "CostSpecServiceType_Valid e \<longleftrightarrow> e \<in> set [''cost'']"

text \<open>\<open>ErrorType\<close>: the program only uses its constants.\<close>

datatype error_type =
    ALREADYEXISTS
  | BADGATEWAY
  | INTERNAL
  | INVALIDARGUMENT
  | NOTFOUND
  | PERMISSIONDENIED
  | UNAUTHENTICATED
  | UNAVAILABLE
  | UNPROCESSABLEENTITY

fun error_type_string :: "error_type \<Rightarrow> string" where
  "error_type_string ALREADYEXISTS = ''ALREADY_EXISTS''"
| "error_type_string BADGATEWAY = ''BAD_GATEWAY''"
| "error_type_string INTERNAL = ''INTERNAL''"
| "error_type_string INVALIDARGUMENT = ''INVALID_ARGUMENT''"
| "error_type_string NOTFOUND = ''NOT_FOUND''"
| "error_type_string PERMISSIONDENIED = ''PERMISSION_DENIED''"
| "error_type_string UNAUTHENTICATED = ''UNAUTHENTICATED''"
| "error_type_string UNAVAILABLE = ''UNAVAILABLE''"
| "error_type_string UNPROCESSABLEENTITY = ''UNPROCESSABLE_ENTITY''"

definition ErrorType_Valid :: "string \<Rightarrow> bool" where
  "ErrorType_Valid e \<longleftrightarrow>
     e \<in> set [''ALREADY_EXISTS'', ''BAD_GATEWAY'', ''INTERNAL'', ''INVALID_ARGUMENT'',
       ''NOT_FOUND'', ''PERMISSION_DENIED'', ''UNAUTHENTICATED'', ''UNAVAILABLE'',
       ''UNPROCESSABLE_ENTITY'']"

definition MarkupUnit_Valid :: "string \<Rightarrow> bool" where
  "MarkupUnit_Valid e \<longleftrightarrow> e \<in> set [''percent'']"

definition RateCostType_Valid :: "string \<Rightarrow> bool" where
  "RateCostType_Valid e \<longleftrightarrow> e \<in> set [''Infrastructure'', ''Supplementary'']"

definition RateMetric_Valid :: "string \<Rightarrow> bool" where
  "RateMetric_Valid e \<longleftrightarrow>
     e \<in> set [''cluster_cost_per_month'', ''cpu_core_request_per_hour'',
       ''cpu_core_usage_per_hour'', ''memory_gb_request_per_hour'',
       ''memory_gb_usage_per_hour'', ''node_cost_per_month'', ''pvc_cost_per_month'',
       ''storage_gb_request_per_month'', ''storage_gb_usage_per_month'']"

definition GetUsageParamsMetric_Valid :: "string \<Rightarrow> bool" where
  "GetUsageParamsMetric_Valid e \<longleftrightarrow> e \<in> set [''compute'', ''memory'', ''storage'']"

subsection \<open>Structs\<close>

text \<open>A \<open>map[string]string\<close> is the list of its entries in the key order \<open>json.Marshal\<close> uses.\<close>

record cost_metadata =
  Labels :: "(string \<times> string) list option"
  metadata_Name :: string

record api_rate =
  rate_CostType :: "string option"
  rate_Metric :: string
  rate_Value :: float64

record api_markup =
  markup_Unit :: string
  markup_Value :: float64

record cost_model_spec =
  Distribution :: "string option"
  Markup :: "api_markup option"
  Rates :: "api_rate list option"

record cost_target =
  ResourceId :: string
  ResourceType :: "string option"

record cost_spec =
  CostModel :: "cost_model_spec option"
  Currency :: "string option"
  Metadata :: cost_metadata
  ServiceType :: string
  Target :: cost_target

record api_cost_instance =
  ci_ClusterId :: "string option"
  ci_CreateTime :: "time option"
  ci_Id :: "string option"
  ci_Path :: "string option"
  ci_Spec :: cost_spec
  ci_Status :: "string option"
  ci_StatusMessage :: "string option"
  ci_UpdateTime :: "time option"

record cost_instance_list =
  cl_Instances :: "api_cost_instance list option"
  cl_NextPageToken :: "string option"

record api_error =
  err_Detail :: "string option"
  err_Instance :: "string option"
  err_Status :: "int option"
  err_Title :: string
  err_Type :: error_type

record api_health =
  hl_Path :: "string option"
  hl_Status :: "string option"
  hl_Type :: "string option"
  hl_Uptime :: "int option"
  hl_Version :: "string option"

text \<open>\<open>openapi_types.Date\<close>, and its text \<open>2006-01-02\<close>.\<close>

record api_date =
  date_year :: int
  date_month :: int
  date_day :: int

definition format_date :: "api_date \<Rightarrow> string" where
  "format_date d =
     pad 4 (date_year d) @ ''-'' @ pad 2 (date_month d) @ ''-'' @ pad 2 (date_day d)"

record list_params =
  PageToken :: "string option"
  MaxPageSize :: "int option"

record report_params =
  StartDate :: "api_date option"
  EndDate :: "api_date option"

definition zero_metadata :: cost_metadata where
  "zero_metadata = \<lparr>Labels = None, metadata_Name = []\<rparr>"

definition zero_rate :: api_rate where
  "zero_rate = \<lparr>rate_CostType = None, rate_Metric = [], rate_Value = 0\<rparr>"

definition zero_markup :: api_markup where
  "zero_markup = \<lparr>markup_Unit = [], markup_Value = 0\<rparr>"

definition zero_cost_model :: cost_model_spec where
  "zero_cost_model = \<lparr>Distribution = None, Markup = None, Rates = None\<rparr>"

definition zero_target :: cost_target where
  "zero_target = \<lparr>ResourceId = [], ResourceType = None\<rparr>"

definition zero_spec :: cost_spec where
  "zero_spec = \<lparr>CostModel = None, Currency = None, Metadata = zero_metadata,
     ServiceType = [], Target = zero_target\<rparr>"

subsection \<open>Encoding a spec\<close>

definition enc_labels :: "(string \<times> string) list \<Rightarrow> json" where
  "enc_labels ls = JObj (map (\<lambda>(k, v). (k, JStr v)) ls)"

definition enc_metadata :: "cost_metadata \<Rightarrow> json" where
  "enc_metadata m = JObj (enc_opt ''labels'' enc_labels (Labels m) @ [(''name'', JStr (metadata_Name m))])"

definition enc_rate :: "api_rate \<Rightarrow> json" where
  "enc_rate r = JObj (enc_opt ''cost_type'' JStr (rate_CostType r) @
     [(''metric'', JStr (rate_Metric r)), (''value'', JNum (rate_Value r))])"

definition enc_markup :: "api_markup \<Rightarrow> json" where
  "enc_markup m = JObj [(''unit'', JStr (markup_Unit m)), (''value'', JNum (markup_Value m))]"

definition enc_cost_model :: "cost_model_spec \<Rightarrow> json" where
  "enc_cost_model m = JObj (enc_opt ''distribution'' JStr (Distribution m) @
     enc_opt ''markup'' enc_markup (Markup m) @
     enc_opt ''rates'' (\<lambda>rs. JArr (map enc_rate rs)) (Rates m))"

definition enc_target :: "cost_target \<Rightarrow> json" where
  "enc_target t = JObj ([(''resource_id'', JStr (ResourceId t))] @
     enc_opt ''resource_type'' JStr (ResourceType t))"

definition enc_spec :: "cost_spec \<Rightarrow> json" where
  "enc_spec s = JObj (enc_opt ''cost_model'' enc_cost_model (CostModel s) @
     enc_opt ''currency'' JStr (Currency s) @
     [(''metadata'', enc_metadata (Metadata s)), (''service_type'', JStr (ServiceType s)),
      (''target'', enc_target (Target s))])"

subsection \<open>Decoding a spec\<close>

text \<open>A decoder for a struct: \<open>null\<close> keeps it, an object updates its fields, the rest is an error.\<close>

definition dec_struct :: "((string \<times> json) list \<Rightarrow> 'a \<Rightarrow> 'a option) \<Rightarrow> 'a decoder" where
  "dec_struct f j cur = (case j of JNull \<Rightarrow> Some cur | JObj ms \<Rightarrow> f ms cur | _ \<Rightarrow> None)"

text \<open>Inserting into the sorted list of a map's entries replaces the entry of the same key.\<close>

fun entry_insert :: "string \<Rightarrow> string \<Rightarrow> (string \<times> string) list \<Rightarrow> (string \<times> string) list" where
  "entry_insert k v [] = [(k, v)]"
| "entry_insert k v (e # es) =
     (if k < fst e then (k, v) # e # es
      else if k = fst e then (k, v) # es
      else e # entry_insert k v es)"

fun dec_entries :: "(string \<times> json) list \<Rightarrow> (string \<times> string) list \<Rightarrow> (string \<times> string) list option" where
  "dec_entries [] cur = Some cur"
| "dec_entries (m # ms) cur =
     (case dec_string (snd m) [] of
        None \<Rightarrow> None
      | Some v \<Rightarrow> dec_entries ms (entry_insert (fst m) v cur))"

definition dec_labels :: "(string \<times> string) list decoder" where
  "dec_labels j cur = (case j of JObj ms \<Rightarrow> dec_entries ms cur | _ \<Rightarrow> None)"

definition dec_metadata :: "cost_metadata decoder" where
  "dec_metadata = dec_struct (\<lambda>ms m.
     case dec_field ''labels'' (dec_ptr [] dec_labels) ms (Labels m) of None \<Rightarrow> None | Some l \<Rightarrow>
     (case dec_field ''name'' dec_string ms (metadata_Name m) of None \<Rightarrow> None | Some n \<Rightarrow>
      Some \<lparr>Labels = l, metadata_Name = n\<rparr>))"

definition dec_rate :: "api_rate decoder" where
  "dec_rate = dec_struct (\<lambda>ms r.
     case dec_field ''cost_type'' (dec_ptr [] dec_string) ms (rate_CostType r) of None \<Rightarrow> None | Some c \<Rightarrow>
     (case dec_field ''metric'' dec_string ms (rate_Metric r) of None \<Rightarrow> None | Some m \<Rightarrow>
     (case dec_field ''value'' dec_float ms (rate_Value r) of None \<Rightarrow> None | Some v \<Rightarrow>
      Some \<lparr>rate_CostType = c, rate_Metric = m, rate_Value = v\<rparr>)))"

definition dec_markup :: "api_markup decoder" where
  "dec_markup = dec_struct (\<lambda>ms m.
     case dec_field ''unit'' dec_string ms (markup_Unit m) of None \<Rightarrow> None | Some u \<Rightarrow>
     (case dec_field ''value'' dec_float ms (markup_Value m) of None \<Rightarrow> None | Some v \<Rightarrow>
      Some \<lparr>markup_Unit = u, markup_Value = v\<rparr>))"

definition dec_rates :: "api_rate list decoder" where
  "dec_rates j cur = (case j of JArr js \<Rightarrow> dec_list zero_rate dec_rate js | _ \<Rightarrow> None)"

definition dec_cost_model :: "cost_model_spec decoder" where
  "dec_cost_model = dec_struct (\<lambda>ms m.
     case dec_field ''distribution'' (dec_ptr [] dec_string) ms (Distribution m) of None \<Rightarrow> None | Some d \<Rightarrow>
     (case dec_field ''markup'' (dec_ptr zero_markup dec_markup) ms (Markup m) of None \<Rightarrow> None | Some k \<Rightarrow>
     (case dec_field ''rates'' (dec_ptr [] dec_rates) ms (Rates m) of None \<Rightarrow> None | Some r \<Rightarrow>
      Some \<lparr>Distribution = d, Markup = k, Rates = r\<rparr>)))"

definition dec_target :: "cost_target decoder" where
  "dec_target = dec_struct (\<lambda>ms t.
     case dec_field ''resource_id'' dec_string ms (ResourceId t) of None \<Rightarrow> None | Some i \<Rightarrow>
     (case dec_field ''resource_type'' (dec_ptr [] dec_string) ms (ResourceType t) of None \<Rightarrow> None | Some y \<Rightarrow>
      Some \<lparr>ResourceId = i, ResourceType = y\<rparr>))"

definition dec_spec :: "cost_spec decoder" where
  "dec_spec = dec_struct (\<lambda>ms s.
     case dec_field ''cost_model'' (dec_ptr zero_cost_model dec_cost_model) ms (CostModel s) of None \<Rightarrow> None | Some m \<Rightarrow>
     (case dec_field ''currency'' (dec_ptr [] dec_string) ms (Currency s) of None \<Rightarrow> None | Some c \<Rightarrow>
     (case dec_field ''metadata'' dec_metadata ms (Metadata s) of None \<Rightarrow> None | Some md \<Rightarrow>
     (case dec_field ''service_type'' dec_string ms (ServiceType s) of None \<Rightarrow> None | Some st \<Rightarrow>
     (case dec_field ''target'' dec_target ms (Target s) of None \<Rightarrow> None | Some t \<Rightarrow>
      Some \<lparr>CostModel = m, Currency = c, Metadata = md, ServiceType = st, Target = t\<rparr>)))))"

subsection \<open>Decoding undoes encoding\<close>

text \<open>A map's entries are listed in strictly ascending key order.\<close>

definition spec_wf :: "cost_spec \<Rightarrow> bool" where
  "spec_wf s \<longleftrightarrow> (case Labels (Metadata s) of None \<Rightarrow> True | Some ls \<Rightarrow> sorted_wrt (<) (map fst ls))"

lemma fold_names [simp]:
  "fold_name ''labels'' = ''labels''" "fold_name ''name'' = ''name''"
  "fold_name ''cost_type'' = ''cost_type''" "fold_name ''metric'' = ''metric''"
  "fold_name ''value'' = ''value''" "fold_name ''unit'' = ''unit''"
  "fold_name ''distribution'' = ''distribution''" "fold_name ''markup'' = ''markup''"
  "fold_name ''rates'' = ''rates''" "fold_name ''resource_id'' = ''resource_id''"
  "fold_name ''resource_type'' = ''resource_type''" "fold_name ''cost_model'' = ''cost_model''"
  "fold_name ''currency'' = ''currency''" "fold_name ''metadata'' = ''metadata''"
  "fold_name ''service_type'' = ''service_type''" "fold_name ''target'' = ''target''"
  by code_simp+

lemma dec_field_append:
  "dec_field k d (xs @ ys) cur =
     (case dec_field k d xs cur of None \<Rightarrow> None | Some v \<Rightarrow> dec_field k d ys v)"
  by (induction xs arbitrary: cur) (auto split: option.splits)

lemma dec_field_enc_opt_other [simp]:
  "fold_name k' \<noteq> fold_name k \<Longrightarrow> dec_field k d (enc_opt k' e v) cur = Some cur"
  by (cases v) (simp_all add: enc_opt_def)

lemma dec_ptr_not_null [simp]:
  "j \<noteq> JNull \<Longrightarrow> dec_ptr z d j None = map_option Some (d j z)"
  by (cases j) (simp_all add: dec_ptr_def)

lemma dec_field_enc_opt [simp]:
  assumes "\<And>x. v = Some x \<Longrightarrow> e x \<noteq> JNull \<and> d (e x) z = Some x"
  shows "dec_field k (dec_ptr z d) (enc_opt k e v) None = Some v"
  using assms by (cases v) (auto simp: enc_opt_def)

lemma dec_string_enc [simp]: "dec_string (JStr s) cur = Some s"
  by (simp add: dec_string_def)

lemma dec_float_enc [simp]: "dec_float (JNum f) cur = Some f"
  by (simp add: dec_float_def)

lemma entry_insert_last:
  "\<forall>e \<in> set es. fst e < k \<Longrightarrow> entry_insert k v es = es @ [(k, v)]"
  by (induction es) (auto dest: order_less_not_sym)

lemma dec_entries_enc:
  assumes "sorted_wrt (<) (map fst (cur @ ls))"
  shows "dec_entries (map (\<lambda>(k, v). (k, JStr v)) ls) cur = Some (cur @ ls)"
  using assms
proof (induction ls arbitrary: cur)
  case Nil
  then show ?case by simp
next
  case (Cons l ls)
  have "\<forall>e \<in> set cur. fst e < fst l"
    using Cons.prems by (auto simp: sorted_wrt_append)
  moreover have "dec_entries (map (\<lambda>(k, v). (k, JStr v)) ls) (cur @ [l]) = Some ((cur @ [l]) @ ls)"
    using Cons.prems by (intro Cons.IH) simp
  ultimately show ?case
    by (cases l) (simp add: entry_insert_last)
qed

lemma dec_metadata_enc:
  assumes "case Labels m of None \<Rightarrow> True | Some ls \<Rightarrow> sorted_wrt (<) (map fst ls)"
  shows "dec_metadata (enc_metadata m) zero_metadata = Some m"
proof -
  have "dec_labels (enc_labels ls) [] = Some ls" if "Labels m = Some ls" for ls
    using assms that dec_entries_enc [of "[]" ls] by (simp add: dec_labels_def enc_labels_def)
  then show ?thesis
    by (simp add: dec_metadata_def enc_metadata_def dec_struct_def dec_field_append
        zero_metadata_def enc_labels_def)
qed

lemma dec_rate_enc [simp]: "dec_rate (enc_rate r) zero_rate = Some r"
  by (simp add: dec_rate_def enc_rate_def dec_struct_def dec_field_append zero_rate_def)

lemma dec_markup_enc [simp]: "dec_markup (enc_markup m) zero_markup = Some m"
  by (simp add: dec_markup_def enc_markup_def dec_struct_def zero_markup_def)

lemma dec_rates_enc [simp]: "dec_rates (JArr (map enc_rate rs)) cur = Some rs"
proof -
  have "dec_list zero_rate dec_rate (map enc_rate rs) = Some rs"
    by (induction rs) simp_all
  then show ?thesis by (simp add: dec_rates_def)
qed

lemma enc_not_null [simp]:
  "enc_markup m \<noteq> JNull" "enc_cost_model c \<noteq> JNull" "enc_labels l \<noteq> JNull"
  by (simp_all add: enc_markup_def enc_cost_model_def enc_labels_def)

lemma dec_cost_model_enc [simp]: "dec_cost_model (enc_cost_model m) zero_cost_model = Some m"
  by (simp add: dec_cost_model_def enc_cost_model_def dec_struct_def dec_field_append
      zero_cost_model_def)

lemma dec_target_enc [simp]: "dec_target (enc_target t) zero_target = Some t"
  by (simp add: dec_target_def enc_target_def dec_struct_def zero_target_def)

text \<open>
  Decoding the JSON value that a cost spec is encoded as gives the spec back: the struct tags of
  the generated types lose no field, whatever optional parts are present.
\<close>

lemma dec_spec_enc:
  assumes "spec_wf s"
  shows "dec_spec (enc_spec s) zero_spec = Some s"
  using assms dec_metadata_enc [of "Metadata s"]
  by (simp add: spec_wf_def dec_spec_def enc_spec_def dec_struct_def dec_field_append zero_spec_def)

lemma dec_spec_enc_witness:
  "dec_spec (enc_spec (zero_spec\<lparr>Currency := Some ''EUR'',
       Metadata := \<lparr>Labels = Some [(''env'', ''prod''), (''team'', ''a'')], metadata_Name = ''n''\<rparr>\<rparr>))
     zero_spec =
   Some (zero_spec\<lparr>Currency := Some ''EUR'',
       Metadata := \<lparr>Labels = Some [(''env'', ''prod''), (''team'', ''a'')], metadata_Name = ''n''\<rparr>\<rparr>)"
proof -
  have "spec_wf (zero_spec\<lparr>Currency := Some ''EUR'',
      Metadata := \<lparr>Labels = Some [(''env'', ''prod''), (''team'', ''a'')], metadata_Name = ''n''\<rparr>\<rparr>)"
    by code_simp
  then show ?thesis by (rule dec_spec_enc)
qed

end
