(* ===== verification/World.thy ===== *)
theory World
  imports ApiTypes
begin

text \<open>
  The state the program runs in, and the code outside the repository that it calls.

  \<^item> \<open>world\<close>: the database handle's state and the rest of the outside world (both of a type
    that stays abstract), the process's own mutable state (Prometheus metrics and the health
    checker's cache), and two logs of what left the process: the HTTP requests sent to Koku and
    the status events handed to NATS. The logs are not data of the program; they record its
    effects, so that a property can speak about them.
  \<^item> \<open>env\<close>: the operations of the outside world other than the database: clock, UUIDs, HTTP,
    contexts, timers, NATS. They are parameters: nothing is assumed of their results.
  \<^item> The rows of the store (\<open>internal/store/models.go\<close>).
\<close>

subsection \<open>Rows of the store\<close>

record cost_instance =
  ID :: string
  TargetResourceID :: string
  ClusterID :: string
  KokuSourceUUID :: string
  KokuCostModelUUID :: string
  Status :: string
  StatusMessage :: string
  Name :: string
  SpecJSON :: string
  CreatedAt :: time
  UpdatedAt :: time

text \<open>Equality of all columns but the two time stamps, which GORM maintains by itself.\<close>

definition same_data :: "cost_instance \<Rightarrow> cost_instance \<Rightarrow> bool" where
  "same_data a b \<longleftrightarrow> a\<lparr>CreatedAt := 0, UpdatedAt := 0\<rparr> = b\<lparr>CreatedAt := 0, UpdatedAt := 0\<rparr>"

lemma same_data_fields:
  assumes "same_data a b"
  shows "ID a = ID b" "TargetResourceID a = TargetResourceID b" "ClusterID a = ClusterID b"
    "KokuSourceUUID a = KokuSourceUUID b" "KokuCostModelUUID a = KokuCostModelUUID b"
    "Status a = Status b" "StatusMessage a = StatusMessage b" "Name a = Name b"
    "SpecJSON a = SpecJSON b"
  using assms unfolding same_data_def by (cases a; cases b; simp)+

lemma same_dataI:
  assumes "ID a = ID b" "TargetResourceID a = TargetResourceID b" "ClusterID a = ClusterID b"
    "KokuSourceUUID a = KokuSourceUUID b" "KokuCostModelUUID a = KokuCostModelUUID b"
    "Status a = Status b" "StatusMessage a = StatusMessage b" "Name a = Name b"
    "SpecJSON a = SpecJSON b"
  shows "same_data a b"
  using assms unfolding same_data_def by (cases a; cases b; simp)

lemma same_data_refl [simp]: "same_data a a"
  by (simp add: same_data_def)

subsection \<open>HTTP, contexts and events\<close>

record http_request =
  rq_method :: string
  rq_url :: string
  rq_headers :: "(string \<times> string) list"
  rq_body :: "string option"

text \<open>A response body is the bytes that arrive and, possibly, the error that ends them.\<close>

record http_response =
  rs_status :: int
  rs_body :: string
  rs_body_err :: "string option"

text \<open>A context is the caller's, or one derived from it with a timeout.\<close>

datatype ctx = Ctx nat | WithTimeout ctx duration

record status_payload =
  sp_ID :: string
  sp_Status :: string
  sp_Message :: string
  sp_Timestamp :: time

record cloud_event =
  ce_SpecVersion :: string
  ce_ID :: string
  ce_Source :: string
  ce_Type :: string
  ce_Time :: string
  ce_Subject :: string
  ce_DataContentType :: string
  ce_Data :: status_payload

subsection \<open>The outside world\<close>

text \<open>
  Operations that can fail return \<open>Inl\<close> the text of the error. \<open>env_new_request_err\<close> is the
  error, if any, with which \<open>http.NewRequestWithContext\<close> refuses a method and a URL.
  \<open>env_json_err\<close> and \<open>env_marshal_err\<close> are the texts of the errors that \<open>encoding/json\<close>
  reports for an input it cannot decode (with the error that ended reading it, if any) and for a
  value it cannot encode.
\<close>

record 'x env =
  env_now :: "'x \<Rightarrow> time \<times> 'x"
  env_uuid :: "'x \<Rightarrow> string \<times> 'x"
  env_http :: "ctx \<Rightarrow> http_request \<Rightarrow> 'x \<Rightarrow> (string + http_response) \<times> 'x"
  env_new_request_err :: "string \<Rightarrow> string \<Rightarrow> string option"
  env_ctx_err :: "ctx \<Rightarrow> 'x \<Rightarrow> bool"
  env_sleep :: "ctx \<Rightarrow> duration \<Rightarrow> 'x \<Rightarrow> 'x"
  env_nats :: "string \<Rightarrow> string \<Rightarrow> 'x \<Rightarrow> string option \<times> 'x"
  env_nats_close :: "'x \<Rightarrow> 'x"
  env_float :: float_fmt
  env_json_err :: "string \<Rightarrow> string option \<Rightarrow> string"
  env_marshal_err :: "json \<Rightarrow> string"

subsection \<open>The state\<close>

record ('d, 'x) world =
  db :: 'd
  ext :: 'x
  outgoing :: "http_request list"
  published :: "cloud_event list"
  HTTPRequestsTotal :: "string \<times> string \<times> string \<Rightarrow> nat"
  RequestDuration :: "string \<times> string \<Rightarrow> duration list"
  InstancesManaged :: int
  KokuRequestsTotal :: "string \<times> string \<Rightarrow> nat"
  NATSEventsPublished :: nat
  cachedAt :: time
  cachedKokuOK :: bool

text \<open>Lifting an operation on the outside world to the whole state.\<close>

definition on_ext :: "('x \<Rightarrow> 'a \<times> 'x) \<Rightarrow> ('d, 'x) world \<Rightarrow> 'a \<times> ('d, 'x) world" where
  "on_ext f w = (let (a, x) = f (ext w) in (a, w\<lparr>ext := x\<rparr>))"

definition on_db :: "('d \<Rightarrow> 'a \<times> 'd) \<Rightarrow> ('d, 'x) world \<Rightarrow> 'a \<times> ('d, 'x) world" where
  "on_db f w = (let (a, d) = f (db w) in (a, w\<lparr>db := d\<rparr>))"

lemma on_ext_db [frame, simp]: "db (snd (on_ext f w)) = db w"
  by (simp add: on_ext_def split: prod.splits)

lemma on_ext_other [frame, simp]:
  "outgoing (snd (on_ext f w)) = outgoing w" "published (snd (on_ext f w)) = published w"
  "InstancesManaged (snd (on_ext f w)) = InstancesManaged w"
  by (simp_all add: on_ext_def split: prod.splits)

lemma on_db_other [frame, simp]:
  "ext (snd (on_db f w)) = ext w" "outgoing (snd (on_db f w)) = outgoing w"
  "published (snd (on_db f w)) = published w"
  "InstancesManaged (snd (on_db f w)) = InstancesManaged w"
  by (simp_all add: on_db_def split: prod.splits)

text \<open>The counters of \<open>internal/metrics\<close>.\<close>

definition count_koku_request :: "string \<Rightarrow> string \<Rightarrow> ('d, 'x) world \<Rightarrow> ('d, 'x) world" where
  "count_koku_request oper result w =
     w\<lparr>KokuRequestsTotal :=
         (KokuRequestsTotal w)((oper, result) := Suc (KokuRequestsTotal w (oper, result)))\<rparr>"

definition count_event :: "('d, 'x) world \<Rightarrow> ('d, 'x) world" where
  "count_event w = w\<lparr>NATSEventsPublished := Suc (NATSEventsPublished w)\<rparr>"

definition add_managed :: "int \<Rightarrow> ('d, 'x) world \<Rightarrow> ('d, 'x) world" where
  "add_managed n w = w\<lparr>InstancesManaged := InstancesManaged w + n\<rparr>"

lemma count_koku_request_frame [frame, simp]:
  "db (count_koku_request p q w) = db w" "ext (count_koku_request p q w) = ext w"
  "outgoing (count_koku_request p q w) = outgoing w"
  "published (count_koku_request p q w) = published w"
  "InstancesManaged (count_koku_request p q w) = InstancesManaged w"
  by (simp_all add: count_koku_request_def)

lemma count_event_frame [frame, simp]:
  "db (count_event w) = db w" "outgoing (count_event w) = outgoing w"
  "published (count_event w) = published w" "InstancesManaged (count_event w) = InstancesManaged w"
  by (simp_all add: count_event_def)

lemma add_managed_frame [frame, simp]:
  "db (add_managed n w) = db w" "outgoing (add_managed n w) = outgoing w"
  "published (add_managed n w) = published w"
  "InstancesManaged (add_managed n w) = InstancesManaged w + n"
  by (simp_all add: add_managed_def)

end
