(* ===== verification/Http.thy ===== *)
theory Http
  imports World
begin

text \<open>
  HTTP handlers of the server side. A handler reads a request and the state, and produces the
  calls it makes on its \<open>http.ResponseWriter\<close>, in order, with the new state; it may also
  panic. A middleware sees the calls of the handler it wraps, exactly as the Go wrappers
  (\<open>responseWriter\<close>, \<open>metricsWriter\<close>) intercept them.
\<close>

text \<open>
  \<open>ir_body\<close> is \<open>None\<close> for a nil body, else the bytes that can be read and the error, if any,
  that ends reading.
\<close>

record in_request =
  ir_method :: string
  ir_path :: string
  ir_query :: "(string \<times> string) list"
  ir_body :: "(string \<times> string option) option"
  ir_ctx :: ctx

datatype write_call =
    SetHeader string string
  | WriteHeader int
  | WriteBody string
  | Flush

text \<open>\<open>http.ErrAbortHandler\<close> is the panic value net/http treats as a silent abort.\<close>

datatype panic = ErrAbortHandler | OtherPanic string

record handler_result =
  hr_calls :: "write_call list"
  hr_panic :: "panic option"

type_synonym ('d, 'x) http_handler =
  "in_request \<Rightarrow> ('d, 'x) world \<Rightarrow> handler_result \<times> ('d, 'x) world"

definition returned :: "write_call list \<Rightarrow> handler_result" where
  "returned cs = \<lparr>hr_calls = cs, hr_panic = None\<rparr>"

fun header_codes :: "write_call list \<Rightarrow> int list" where
  "header_codes [] = []"
| "header_codes (WriteHeader c # cs) = c # header_codes cs"
| "header_codes (_ # cs) = header_codes cs"

text \<open>The field \<open>statusCode\<close> of a wrapper: 200 until \<open>WriteHeader\<close> is called, then its last code.\<close>

definition wrapper_status :: "write_call list \<Rightarrow> int" where
  "wrapper_status cs = (let codes = header_codes cs in if codes = [] then 200 else last codes)"

text \<open>
  What the client sees: the first \<open>WriteHeader\<close> counts, and writing a body first sends 200.
\<close>

fun wire_status :: "write_call list \<Rightarrow> int option" where
  "wire_status [] = None"
| "wire_status (SetHeader _ _ # cs) = wire_status cs"
| "wire_status (WriteHeader c # cs) = Some c"
| "wire_status (WriteBody _ # cs) = Some 200"
| "wire_status (Flush # cs) = Some 200"

lemma header_codes_append [simp]: "header_codes (xs @ ys) = header_codes xs @ header_codes ys"
  by (induction xs rule: header_codes.induct) auto

lemma wire_status_append:
  "wire_status (xs @ ys) = (case wire_status xs of None \<Rightarrow> wire_status ys | Some c \<Rightarrow> Some c)"
  by (induction xs rule: wire_status.induct) auto

lemma returned_simps [simp]: "hr_calls (returned cs) = cs" "hr_panic (returned cs) = None"
  by (simp_all add: returned_def)

end
