(* ===== verification/Metrics.thy ===== *)
theory Metrics
  imports Http
begin

text \<open>
  \<open>internal/metrics/metrics.go\<close>: the label values under which requests are counted, and the
  HTTP middleware. \<open>NormalizePath\<close> and \<open>NormalizeKokuOp\<close> exist to keep the number of label
  values bounded; the lemmas say for which paths they do.
\<close>

subsection \<open>NormalizePath\<close>

definition staticSegments :: "string list" where
  "staticSegments = [''health'', ''metrics'', ''instances'', ''usage'', ''cost-report'',
     ''forecast'', ''api'', ''v1alpha1'']"

definition isStaticSegment :: "string \<Rightarrow> bool" where
  "isStaticSegment s \<longleftrightarrow> s \<in> set staticSegments"

definition normalize_part :: "string \<Rightarrow> string" where
  "normalize_part part =
     (if part = [] then part else if isStaticSegment part then part else ''{id}'')"

definition NormalizePath :: "string \<Rightarrow> string" where
  "NormalizePath path =
     (let path = trim_right (CHR ''/'') path;
          parts = map normalize_part (split_on (CHR ''/'') path);
          normalized = join_with ''/'' parts
      in if normalized = [] then ''/'' else normalized)"

subsection \<open>NormalizeKokuOp\<close>

definition looksLikeID :: "string \<Rightarrow> bool" where
  "looksLikeID s \<longleftrightarrow> 8 \<le> length s \<and> 3 \<le> length (filter (\<lambda>c. c = CHR ''-'') s)"

definition significant_part :: "string \<Rightarrow> bool" where
  "significant_part p \<longleftrightarrow>
     \<not> (p = [] \<or> p = ''api'' \<or> p = ''cost-management'' \<or> p = ''v1'' \<or> p = ''openshift'') \<and>
     \<not> looksLikeID p"

definition NormalizeKokuOp :: "string \<Rightarrow> string \<Rightarrow> string" where
  "NormalizeKokuOp meth path =
     (let path = trim_right (CHR ''/'') path;
          significant = filter significant_part (split_on (CHR ''/'') path)
      in if significant = [] then meth @ '' /unknown''
         else meth @ '' '' @ join_with ''/'' significant)"

subsection \<open>Middleware\<close>

text \<open>
  The middleware runs the next handler and then counts the request under method, normalized
  path and code, and observes its latency under method and path. When the next handler panics
  the two statements after it are not reached.
\<close>

definition count_http_request ::
  "string \<Rightarrow> string \<Rightarrow> int \<Rightarrow> duration \<Rightarrow> ('d, 'x) world \<Rightarrow> ('d, 'x) world" where
  "count_http_request meth route code took w =
     w\<lparr>HTTPRequestsTotal :=
         (HTTPRequestsTotal w)((meth, route, itoa code) :=
            Suc (HTTPRequestsTotal w (meth, route, itoa code))),
       RequestDuration :=
         (RequestDuration w)((meth, route) := RequestDuration w (meth, route) @ [took])\<rparr>"

definition Middleware :: "'x env \<Rightarrow> ('d, 'x) http_handler \<Rightarrow> ('d, 'x) http_handler" where
  "Middleware E next r w =
     (let (start, w1) = on_ext (env_now E) w;
          (out, w2) = next r w1
      in case hr_panic out of
           Some p \<Rightarrow> (out, w2)
         | None \<Rightarrow>
             (let (end_t, w3) = on_ext (env_now E) w2
              in (out, count_http_request (ir_method r) (NormalizePath (ir_path r))
                         (wrapper_status (hr_calls out)) (sat64 (end_t - start)) w3)))"

subsection \<open>Properties\<close>

lemma trim_right_no_trailing:
  "trim_right c s = [] \<or> last (trim_right c s) \<noteq> c"
proof (cases "dropWhile (\<lambda>x. x = c) (rev s)")
  case Nil
  then show ?thesis by (simp add: trim_right_def)
next
  case (Cons x xs)
  then have "x \<noteq> c"
    using hd_dropWhile [of "\<lambda>x. x = c" "rev s"] by simp
  with Cons show ?thesis by (simp add: trim_right_def)
qed

lemma trim_right_id: "s \<noteq> [] \<Longrightarrow> last s \<noteq> c \<Longrightarrow> trim_right c s = s"
  by (cases s rule: rev_cases) (simp_all add: trim_right_def)

lemma trim_right_set: "set (trim_right c s) \<subseteq> set s"
  by (auto simp: trim_right_def dest: set_dropWhileD)

lemma static_no_slash: "isStaticSegment s \<Longrightarrow> CHR ''/'' \<notin> set s"
  by (auto simp: isStaticSegment_def staticSegments_def)

lemma normalize_part_no_slash: "CHR ''/'' \<notin> set p \<Longrightarrow> CHR ''/'' \<notin> set (normalize_part p)"
  by (auto simp: normalize_part_def)

lemma normalize_part_cases: "normalize_part p \<in> insert [] (insert ''{id}'' (set staticSegments))"
  by (auto simp: normalize_part_def isStaticSegment_def)

lemma normalized_parts:
  "split_on (CHR ''/'') (join_with ''/'' (map normalize_part (split_on (CHR ''/'') p))) =
   map normalize_part (split_on (CHR ''/'') p)"
  by (rule split_join) (auto dest!: split_on_no_sep simp: normalize_part_no_slash)

lemma join_with_snoc:
  "join_with sep (ps @ [p]) = (if ps = [] then p else join_with sep ps @ sep @ p)"
proof (induction ps)
  case (Cons q qs)
  then show ?case by (cases qs) auto
qed simp

lemma last_part:
  assumes "s \<noteq> []" and "last s \<noteq> c"
  shows "last (split_on c s) \<noteq> []"
proof
  assume empty: "last (split_on c s) = []"
  define ps where "ps = butlast (split_on c s)"
  have "split_on c s = ps @ [[]]"
    using append_butlast_last_id [of "split_on c s"] empty by (simp add: ps_def)
  then have "s = join_with [c] (ps @ [[]])" by (metis join_split)
  then show False using assms by (auto simp: join_with_snoc split: if_splits)
qed

lemma normalize_part_idem [simp]: "normalize_part (normalize_part p) = normalize_part p"
proof -
  have "\<not> isStaticSegment ''{id}''" by (simp add: isStaticSegment_def staticSegments_def)
  then show ?thesis by (simp add: normalize_part_def)
qed

lemma normalize_part_end: "p \<noteq> [] \<Longrightarrow> normalize_part p \<noteq> [] \<and> CHR ''/'' \<notin> set (normalize_part p) \<or> CHR ''/'' \<in> set p"
  using normalize_part_no_slash [of p] by (auto simp: normalize_part_def)

text \<open>The joined parts end without a slash, unless there is nothing to join.\<close>

lemma normalized_no_trailing:
  assumes "s \<noteq> []" and "last s \<noteq> CHR ''/''"
  shows "join_with ''/'' (map normalize_part (split_on (CHR ''/'') s)) \<noteq> [] \<and>
    last (join_with ''/'' (map normalize_part (split_on (CHR ''/'') s))) \<noteq> CHR ''/''"
proof -
  define ps where "ps = butlast (split_on (CHR ''/'') s)"
  define p where "p = last (split_on (CHR ''/'') s)"
  have split: "split_on (CHR ''/'') s = ps @ [p]" by (simp add: ps_def p_def)
  have "p \<noteq> []" using last_part [OF assms] by (simp add: p_def)
  moreover have "CHR ''/'' \<notin> set p"
    using split_on_no_sep [of p "CHR ''/''" s] by (simp add: split)
  ultimately have np: "normalize_part p \<noteq> []" "CHR ''/'' \<notin> set (normalize_part p)"
    using normalize_part_end [of p] by auto
  then have "last (normalize_part p) \<noteq> CHR ''/''" by (metis last_in_set)
  then show ?thesis using np by (simp add: split join_with_snoc)
qed

lemma NormalizePath_cases:
  obtains "NormalizePath p = ''/''"
  | s where "s \<noteq> []" "last s \<noteq> CHR ''/''"
    "NormalizePath p = join_with ''/'' (map normalize_part (split_on (CHR ''/'') s))"
proof (cases "trim_right (CHR ''/'') p = []")
  case True
  then have "NormalizePath p = ''/''"
    by (simp add: NormalizePath_def Let_def normalize_part_def)
  then show ?thesis by (rule that(1))
next
  case False
  then have last: "last (trim_right (CHR ''/'') p) \<noteq> CHR ''/''"
    using trim_right_no_trailing by blast
  show ?thesis
    using that(2) [OF False last] normalized_no_trailing [OF False last]
    by (simp add: NormalizePath_def Let_def)
qed

end
