(* ===== verification/KokuClient.thy ===== *)
theory KokuClient
  imports Metrics
begin

text \<open>
  \<open>internal/koku\<close>: the payloads of the Koku REST API (\<open>types.go\<close>) and its client
  (\<open>client.go\<close>): one request, the retry loop with exponential backoff, and the seven
  operations. The client works on the whole state: it logs each request it sends in
  \<open>outgoing\<close> and counts it in \<open>KokuRequestsTotal\<close>.
\<close>

subsection \<open>Payloads\<close>

record koku_rate =
  kr_Metric :: string
  kr_CostType :: string
  kr_TieredRates :: "(float64 \<times> string) list"

record koku_markup =
  km_Value :: float64
  km_Unit :: string

record source_response =
  src_UUID :: string
  src_Name :: string
  src_SourceType :: string
  src_Paused :: bool

record cost_model_response =
  cm_UUID :: string
  cm_Name :: string

text \<open>\<open>map[string]any\<close>; \<open>None\<close> is the nil map.\<close>

type_synonym json_map = "(string \<times> json) list option"

definition source_request :: "string \<Rightarrow> string \<Rightarrow> json" where
  "source_request clusterID name =
     JObj [(''name'', JStr name), (''source_type'', JStr ''OCP''),
       (''authentication'', JObj [(''credentials'', JObj [(''cluster_id'', JStr clusterID)])]),
       (''billing_source'', JObj [(''bucket'', JStr [])])]"

definition enc_koku_rate :: "koku_rate \<Rightarrow> json" where
  "enc_koku_rate r =
     JObj [(''metric'', JObj [(''name'', JStr (kr_Metric r))]),
       (''cost_type'', JStr (kr_CostType r)),
       (''tiered_rates'', JArr (map (\<lambda>(v, u). JObj [(''value'', JNum v), (''unit'', JStr u)])
          (kr_TieredRates r)))]"

definition enc_koku_markup :: "koku_markup \<Rightarrow> json" where
  "enc_koku_markup m = JObj [(''value'', JNum (km_Value m)), (''unit'', JStr (km_Unit m))]"

definition cost_model_request ::
  "string \<Rightarrow> string \<Rightarrow> koku_rate list \<Rightarrow> koku_markup option \<Rightarrow> string \<Rightarrow> json" where
  "cost_model_request name sourceUUID rates markup distribution =
     JObj ([(''name'', JStr name), (''description'', JStr ''DCM-managed cost model''),
       (''source_type'', JStr ''OCP''), (''source_uuids'', JArr [JStr sourceUUID]),
       (''rates'', JArr (map enc_koku_rate rates))] @
       enc_opt ''markup'' enc_koku_markup markup @
       (if distribution = [] then [] else [(''distribution'', JStr distribution)]))"

definition dec_source_response :: "source_response decoder" where
  "dec_source_response = dec_struct (\<lambda>ms s.
     case dec_field ''uuid'' dec_string ms (src_UUID s) of None \<Rightarrow> None | Some u \<Rightarrow>
     (case dec_field ''name'' dec_string ms (src_Name s) of None \<Rightarrow> None | Some n \<Rightarrow>
     (case dec_field ''source_type'' dec_string ms (src_SourceType s) of None \<Rightarrow> None | Some t \<Rightarrow>
     (case dec_field ''paused'' dec_bool ms (src_Paused s) of None \<Rightarrow> None | Some p \<Rightarrow>
      Some \<lparr>src_UUID = u, src_Name = n, src_SourceType = t, src_Paused = p\<rparr>))))"

definition dec_cost_model_response :: "cost_model_response decoder" where
  "dec_cost_model_response = dec_struct (\<lambda>ms s.
     case dec_field ''uuid'' dec_string ms (cm_UUID s) of None \<Rightarrow> None | Some u \<Rightarrow>
     (case dec_field ''name'' dec_string ms (cm_Name s) of None \<Rightarrow> None | Some n \<Rightarrow>
      Some \<lparr>cm_UUID = u, cm_Name = n\<rparr>))"

text \<open>Decoding into a \<open>map[string]any\<close>: a later member replaces an earlier one of its key.\<close>

fun map_entries :: "(string \<times> json) list \<Rightarrow> (string \<times> json) list \<Rightarrow> (string \<times> json) list" where
  "map_entries acc [] = acc"
| "map_entries acc (m # ms) = map_entries (filter (\<lambda>e. fst e \<noteq> fst m) acc @ [m]) ms"

definition dec_json_map :: "json_map decoder" where
  "dec_json_map j cur =
     (case j of
        JNull \<Rightarrow> Some None
      | JObj ms \<Rightarrow>
          (case dec_any (JObj ms) of
             Some (JObj vs) \<Rightarrow> Some (Some (map_entries (case cur of None \<Rightarrow> [] | Some e \<Rightarrow> e) vs))
           | _ \<Rightarrow> None)
      | _ \<Rightarrow> None)"

subsection \<open>Errors\<close>

datatype koku_error =
    MarshalError string
  | RequestError string
  | TransportError string
  | ServerError int
  | AttemptsFailed "koku_error option"
  | StatusError string int string
  | DecodingError string
  | ReadError string
  | ErrResponseTooLarge

definition maxResponseBytes :: nat where "maxResponseBytes = 10 * 1024 * 1024"
definition maxRetries :: nat where "maxRetries = 3"
definition initialBackoff :: duration where "initialBackoff = second"

fun koku_error_text :: "koku_error \<Rightarrow> string" where
  "koku_error_text (MarshalError e) = ''marshaling request body: '' @ e"
| "koku_error_text (RequestError e) = ''creating request: '' @ e"
| "koku_error_text (TransportError e) = e"
| "koku_error_text (ServerError c) = ''server error: status '' @ itoa c"
| "koku_error_text (AttemptsFailed e) =
     ''all '' @ itoa (int maxRetries) @ '' attempts failed: '' @
     (case e of None \<Rightarrow> ''%!w(<nil>)'' | Some x \<Rightarrow> koku_error_text x)"
| "koku_error_text (StatusError oper c body) =
     oper @ '' failed: status '' @ itoa c @ '': '' @ body"
| "koku_error_text (DecodingError e) = ''decoding response: '' @ e"
| "koku_error_text (ReadError e) = e"
| "koku_error_text ErrResponseTooLarge =
     ''response body exceeded '' @ itoa (int maxResponseBytes) @ '' bytes limit''"

subsection \<open>One request\<close>

record koku_conf =
  kc_baseURL :: string
  kc_identity :: string

definition NewClient :: "string \<Rightarrow> string \<Rightarrow> koku_conf" where
  "NewClient baseURL identity = \<lparr>kc_baseURL = baseURL, kc_identity = identity\<rparr>"

definition koku_request :: "koku_conf \<Rightarrow> string \<Rightarrow> string \<Rightarrow> string option \<Rightarrow> http_request" where
  "koku_request C meth path body =
     \<lparr>rq_method = meth, rq_url = kc_baseURL C @ path,
      rq_headers = [(''Content-Type'', ''application/json''), (''x-rh-identity'', kc_identity C)],
      rq_body = body\<rparr>"

definition result_label :: "int \<Rightarrow> string" where
  "result_label c =
     (if c \<ge> 500 then ''server_error'' else if c \<ge> 400 then ''client_error'' else ''success'')"

definition marshal_body :: "'x env \<Rightarrow> json option \<Rightarrow> koku_error + string option" where
  "marshal_body E body =
     (case body of
        None \<Rightarrow> Inr None
      | Some j \<Rightarrow>
          (case json_marshal (env_float E) j of
             None \<Rightarrow> Inl (MarshalError (env_marshal_err E j))
           | Some s \<Rightarrow> Inr (Some s)))"

text \<open>\<open>Client.do\<close>.\<close>

definition koku_do ::
  "'x env \<Rightarrow> koku_conf \<Rightarrow> ctx \<Rightarrow> string \<Rightarrow> string \<Rightarrow> json option \<Rightarrow> ('d, 'x) world \<Rightarrow>
   (koku_error + http_response) \<times> ('d, 'x) world" where
  "koku_do E C ctx meth path body w =
     (case marshal_body E body of
        Inl e \<Rightarrow> (Inl e, w)
      | Inr data \<Rightarrow>
          (let req = koku_request C meth path data in
           case env_new_request_err E meth (rq_url req) of
             Some e \<Rightarrow> (Inl (RequestError e), w)
           | None \<Rightarrow>
               (let (res, w1) = on_ext (env_http E ctx req) (w\<lparr>outgoing := outgoing w @ [req]\<rparr>);
                    oper = NormalizeKokuOp meth path
                in case res of
                     Inl e \<Rightarrow> (Inl (TransportError e), count_koku_request oper ''error'' w1)
                   | Inr resp \<Rightarrow>
                       (Inr resp, count_koku_request oper (result_label (rs_status resp)) w1))))"

subsection \<open>Retries\<close>

text \<open>\<open>Client.backoff\<close>: the sleep after an attempt, which a cancelled context cuts short.\<close>

definition backoff_duration :: "nat \<Rightarrow> duration" where
  "backoff_duration attempt = initialBackoff * 2 ^ attempt"

definition koku_backoff :: "'x env \<Rightarrow> ctx \<Rightarrow> nat \<Rightarrow> ('d, 'x) world \<Rightarrow> ('d, 'x) world" where
  "koku_backoff E ctx attempt w = w\<lparr>ext := env_sleep E ctx (backoff_duration attempt) (ext w)\<rparr>"

text \<open>
  The loop of \<open>doWithRetry\<close>, with the number of attempts left and the last error.
\<close>

fun retry_loop ::
  "'x env \<Rightarrow> koku_conf \<Rightarrow> ctx \<Rightarrow> string \<Rightarrow> string \<Rightarrow> json option \<Rightarrow> nat \<Rightarrow> koku_error option \<Rightarrow>
   ('d, 'x) world \<Rightarrow> (koku_error + http_response) \<times> ('d, 'x) world" where
  "retry_loop E C ctx meth path body 0 lastErr w = (Inl (AttemptsFailed lastErr), w)"
| "retry_loop E C ctx meth path body (Suc n) lastErr w =
     (let attempt = maxRetries - Suc n;
          (res, w1) = koku_do E C ctx meth path body w
      in case res of
           Inl e \<Rightarrow>
             if env_ctx_err E ctx (ext w1) then (Inl e, w1)
             else retry_loop E C ctx meth path body n (Some e) (koku_backoff E ctx attempt w1)
         | Inr resp \<Rightarrow>
             if rs_status resp \<ge> 500
             then retry_loop E C ctx meth path body n (Some (ServerError (rs_status resp)))
                    (koku_backoff E ctx attempt w1)
             else (Inr resp, w1))"

definition doWithRetry ::
  "'x env \<Rightarrow> koku_conf \<Rightarrow> ctx \<Rightarrow> string \<Rightarrow> string \<Rightarrow> json option \<Rightarrow> ('d, 'x) world \<Rightarrow>
   (koku_error + http_response) \<times> ('d, 'x) world" where
  "doWithRetry E C ctx meth path body w =
     retry_loop E C ctx meth path body maxRetries None w"

subsection \<open>Reading responses\<close>

text \<open>\<open>io.ReadAll\<close> over a reader limited to \<open>n\<close> bytes.\<close>

definition read_all :: "nat \<Rightarrow> http_response \<Rightarrow> string + string" where
  "read_all n resp =
     (if n \<le> length (rs_body resp) then Inr (take n (rs_body resp))
      else (case rs_body_err resp of Some e \<Rightarrow> Inl e | None \<Rightarrow> Inr (rs_body resp)))"

definition readLimited :: "http_response \<Rightarrow> koku_error + string" where
  "readLimited resp =
     (case read_all (maxResponseBytes + 1) resp of
        Inl e \<Rightarrow> Inl (ReadError e)
      | Inr data \<Rightarrow>
          if length data > maxResponseBytes then Inl ErrResponseTooLarge else Inr data)"

definition decodeJSON :: "'x env \<Rightarrow> 'a decoder \<Rightarrow> 'a \<Rightarrow> http_response \<Rightarrow> koku_error + 'a" where
  "decodeJSON E d zero resp =
     (let r = take maxResponseBytes (rs_body resp);
          err = DecodingError (env_json_err E r (rs_body_err resp))
      in case json_decode (env_float E) r of
           None \<Rightarrow> Inl err
         | Some j \<Rightarrow> (case d j zero of None \<Rightarrow> Inl err | Some v \<Rightarrow> Inr v))"

text \<open>The same, for evaluation: the limit is compared as an integer.\<close>

lemma readLimited_code [code]:
  "readLimited resp =
     (if 10485761 \<le> int (length (rs_body resp)) then Inl ErrResponseTooLarge
      else (case rs_body_err resp of Some e \<Rightarrow> Inl (ReadError e) | None \<Rightarrow> Inr (rs_body resp)))"
  by (auto simp: readLimited_def read_all_def maxResponseBytes_def split: option.splits)

lemma decodeJSON_code [code]:
  "decodeJSON E d zero resp =
     (let r = take_upto (rs_body resp) 10485760;
          err = DecodingError (env_json_err E r (rs_body_err resp))
      in case json_decode (env_float E) r of
           None \<Rightarrow> Inl err
         | Some j \<Rightarrow> (case d j zero of None \<Rightarrow> Inl err | Some v \<Rightarrow> Inr v))"
  unfolding decodeJSON_def maxResponseBytes_def by (simp add: take_nat_upto [symmetric])

definition truncate_bytes :: "string \<Rightarrow> string" where
  "truncate_bytes b = (if length b > 200 then take 200 b else b)"

definition status_error :: "string \<Rightarrow> http_response \<Rightarrow> koku_error" where
  "status_error oper resp =
     StatusError oper (rs_status resp) (truncate_bytes (take 512 (rs_body resp)))"

subsection \<open>The operations\<close>

definition CreateSource ::
  "'x env \<Rightarrow> koku_conf \<Rightarrow> ctx \<Rightarrow> string \<Rightarrow> string \<Rightarrow> ('d, 'x) world \<Rightarrow>
   (koku_error + source_response) \<times> ('d, 'x) world" where
  "CreateSource E C ctx clusterID name w =
     (let (res, w1) = doWithRetry E C ctx ''POST'' ''/api/cost-management/v1/sources/''
                        (Some (source_request clusterID name)) w
      in case res of
           Inl e \<Rightarrow> (Inl e, w1)
         | Inr resp \<Rightarrow>
             if rs_status resp \<noteq> 201 then (Inl (status_error ''create source'' resp), w1)
             else (decodeJSON E dec_source_response
                     \<lparr>src_UUID = [], src_Name = [], src_SourceType = [], src_Paused = False\<rparr> resp,
                   w1))"

definition PauseSource ::
  "'x env \<Rightarrow> koku_conf \<Rightarrow> ctx \<Rightarrow> string \<Rightarrow> ('d, 'x) world \<Rightarrow>
   koku_error option \<times> ('d, 'x) world" where
  "PauseSource E C ctx uuid w =
     (let (res, w1) = doWithRetry E C ctx ''PATCH''
                        (''/api/cost-management/v1/sources/'' @ uuid @ ''/'')
                        (Some (JObj [(''paused'', JBool True)])) w
      in case res of
           Inl e \<Rightarrow> (Some e, w1)
         | Inr resp \<Rightarrow>
             if rs_status resp \<ge> 300 then (Some (status_error ''pause source'' resp), w1)
             else (None, w1))"

definition CreateCostModel ::
  "'x env \<Rightarrow> koku_conf \<Rightarrow> ctx \<Rightarrow> string \<Rightarrow> string \<Rightarrow> koku_rate list \<Rightarrow> koku_markup option \<Rightarrow>
   string \<Rightarrow> ('d, 'x) world \<Rightarrow> (koku_error + cost_model_response) \<times> ('d, 'x) world" where
  "CreateCostModel E C ctx name sourceUUID rates markup distribution w =
     (let (res, w1) = doWithRetry E C ctx ''POST'' ''/api/cost-management/v1/cost-models/''
                        (Some (cost_model_request name sourceUUID rates markup distribution)) w
      in case res of
           Inl e \<Rightarrow> (Inl e, w1)
         | Inr resp \<Rightarrow>
             if rs_status resp \<noteq> 201 then (Inl (status_error ''create cost model'' resp), w1)
             else (decodeJSON E dec_cost_model_response \<lparr>cm_UUID = [], cm_Name = []\<rparr> resp, w1))"

definition DeleteCostModel ::
  "'x env \<Rightarrow> koku_conf \<Rightarrow> ctx \<Rightarrow> string \<Rightarrow> ('d, 'x) world \<Rightarrow>
   koku_error option \<times> ('d, 'x) world" where
  "DeleteCostModel E C ctx uuid w =
     (let (res, w1) = doWithRetry E C ctx ''DELETE''
                        (''/api/cost-management/v1/cost-models/'' @ uuid @ ''/'') None w
      in case res of
           Inl e \<Rightarrow> (Some e, w1)
         | Inr resp \<Rightarrow>
             if rs_status resp \<noteq> 204 \<and> rs_status resp \<noteq> 200
             then (Some (status_error ''delete cost model'' resp), w1)
             else (None, w1))"

definition GetSourceStats ::
  "'x env \<Rightarrow> koku_conf \<Rightarrow> ctx \<Rightarrow> string \<Rightarrow> ('d, 'x) world \<Rightarrow>
   (koku_error + json_map) \<times> ('d, 'x) world" where
  "GetSourceStats E C ctx uuid w =
     (let (res, w1) = doWithRetry E C ctx ''GET''
                        (''/api/cost-management/v1/sources/'' @ uuid @ ''/stats/'') None w
      in case res of
           Inl e \<Rightarrow> (Inl e, w1)
         | Inr resp \<Rightarrow>
             if rs_status resp \<noteq> 200 then (Inl (status_error ''get source stats'' resp), w1)
             else (decodeJSON E dec_json_map None resp, w1))"

definition reportTypeToPath :: "string \<Rightarrow> string" where
  "reportTypeToPath metric =
     (if metric = ''compute'' then ''compute''
      else if metric = ''memory'' then ''memory''
      else if metric = ''storage'' then ''volumes''
      else ''costs'')"

definition cluster_params :: "string \<Rightarrow> url_values option \<Rightarrow> url_values" where
  "cluster_params clusterID params =
     values_set ''filter[cluster]'' clusterID (case params of None \<Rightarrow> [] | Some vs \<Rightarrow> vs)"

definition report_path :: "string \<Rightarrow> string \<Rightarrow> url_values option \<Rightarrow> string" where
  "report_path clusterID reportType params =
     ''/api/cost-management/v1/reports/openshift/'' @ reportTypeToPath reportType @ ''/?'' @
     values_encode (cluster_params clusterID params)"

definition forecast_path :: "string \<Rightarrow> url_values option \<Rightarrow> string" where
  "forecast_path clusterID params =
     ''/api/cost-management/v1/forecasts/openshift/costs/?'' @
     values_encode (cluster_params clusterID params)"

definition GetReports ::
  "'x env \<Rightarrow> koku_conf \<Rightarrow> ctx \<Rightarrow> string \<Rightarrow> string \<Rightarrow> url_values option \<Rightarrow> ('d, 'x) world \<Rightarrow>
   (koku_error + string) \<times> ('d, 'x) world" where
  "GetReports E C ctx clusterID reportType params w =
     (let (res, w1) = doWithRetry E C ctx ''GET'' (report_path clusterID reportType params) None w
      in case res of
           Inl e \<Rightarrow> (Inl e, w1)
         | Inr resp \<Rightarrow>
             if rs_status resp \<noteq> 200 then (Inl (status_error ''get reports'' resp), w1)
             else (readLimited resp, w1))"

definition GetForecasts ::
  "'x env \<Rightarrow> koku_conf \<Rightarrow> ctx \<Rightarrow> string \<Rightarrow> url_values option \<Rightarrow> ('d, 'x) world \<Rightarrow>
   (koku_error + string) \<times> ('d, 'x) world" where
  "GetForecasts E C ctx clusterID params w =
     (let (res, w1) = doWithRetry E C ctx ''GET'' (forecast_path clusterID params) None w
      in case res of
           Inl e \<Rightarrow> (Inl e, w1)
         | Inr resp \<Rightarrow>
             if rs_status resp \<noteq> 200 then (Inl (status_error ''get forecasts'' resp), w1)
             else (readLimited resp, w1))"

end
