(* ===== verification/KokuProps.thy ===== *)
theory KokuProps
  imports KokuClient
begin

text \<open>
  What the Koku client does to the state and to the network. \<open>koku_effect\<close> is the frame of
  every client operation: it touches the outside world, the log of requests and the request
  counters, and nothing else; the library's lemmas compose it along the code's control flow.
\<close>

subsection \<open>The frame of the client\<close>

definition koku_effect :: "http_request list \<Rightarrow> ('d, 'x) world \<Rightarrow> ('d, 'x) world \<Rightarrow> bool" where
  "koku_effect reqs w w' \<longleftrightarrow>
     w' = w\<lparr>ext := ext w', outgoing := outgoing w @ reqs, KokuRequestsTotal := KokuRequestsTotal w'\<rparr>"

lemma koku_effect_refl [simp, intro]: "koku_effect [] w w"
  by (simp add: koku_effect_def)

lemma koku_effect_trans:
  "koku_effect r1 w w1 \<Longrightarrow> koku_effect r2 w1 w2 \<Longrightarrow> koku_effect (r1 @ r2) w w2"
  by (cases w; cases w1; cases w2) (simp add: koku_effect_def)

lemma koku_effect_frame [frame]:
  assumes "koku_effect reqs w w'"
  shows "db w' = db w" "outgoing w' = outgoing w @ reqs" "published w' = published w"
    "InstancesManaged w' = InstancesManaged w" "NATSEventsPublished w' = NATSEventsPublished w"
    "HTTPRequestsTotal w' = HTTPRequestsTotal w" "cachedAt w' = cachedAt w"
    "cachedKokuOK w' = cachedKokuOK w"
  using assms unfolding koku_effect_def by (cases w; cases w'; simp)+

text \<open>The request one attempt sends, when its body can be encoded and its URL is accepted.\<close>

definition sendable ::
  "'x env \<Rightarrow> koku_conf \<Rightarrow> string \<Rightarrow> string \<Rightarrow> json option \<Rightarrow> http_request option" where
  "sendable E C meth path body =
     (case marshal_body E body of
        Inl e \<Rightarrow> None
      | Inr data \<Rightarrow>
          (let req = koku_request C meth path data
           in if env_new_request_err E meth (rq_url req) = None then Some req else None))"

lemma koku_do_sent:
  assumes "sendable E C meth path body = Some req"
  shows "koku_effect [req] w (snd (koku_do E C ctx meth path body w))"
  using assms
  by (auto simp: sendable_def koku_do_def koku_effect_def on_ext_def count_koku_request_def Let_def
      split: sum.splits option.splits prod.splits if_splits)

lemma koku_do_unsent:
  assumes "sendable E C meth path body = None"
  shows "\<exists>e. koku_do E C ctx meth path body w = (Inl e, w)"
  using assms
  by (auto simp: sendable_def koku_do_def Let_def split: sum.splits option.splits if_splits)

lemma koku_backoff_effect: "koku_effect [] w (koku_backoff E ctx k w)"
  by (simp add: koku_effect_def koku_backoff_def)

lemma koku_do_then_backoff:
  assumes "sendable E C meth path body = Some req"
  shows "koku_effect [req] w (koku_backoff E ctx k (snd (koku_do E C ctx meth path body w)))"
  using koku_effect_trans [OF koku_do_sent [OF assms] koku_backoff_effect] by simp

subsection \<open>The retry loop\<close>

lemma retry_loop_sent:
  assumes "sendable E C meth path body = Some req"
    and "retry_loop E C ctx meth path body n le w = (res, w')"
  shows "\<exists>k \<le> n. koku_effect (replicate k req) w w' \<and> (0 < n \<longrightarrow> 0 < k)"
  using assms(2)
proof (induction n arbitrary: le w)
  case 0
  then show ?case by auto
next
  case (Suc n)
  obtain r w1 where d: "koku_do E C ctx meth path body w = (r, w1)"
    by (cases "koku_do E C ctx meth path body w")
  have one: "koku_effect [req] w w1"
    using koku_do_sent [OF assms(1), of w ctx] d by simp
  have next_try: "\<exists>k \<le> Suc n. koku_effect (replicate k req) w w' \<and> 0 < k"
    if "retry_loop E C ctx meth path body n le' (koku_backoff E ctx a w1) = (res, w')" for le' a
  proof -
    note again = Suc.IH [OF that]
    obtain k where "k \<le> n" and k: "koku_effect (replicate k req) (koku_backoff E ctx a w1) w'"
      using again by blast
    have "koku_effect [req] w (koku_backoff E ctx a w1)"
      using koku_effect_trans [OF one koku_backoff_effect] by simp
    from koku_effect_trans [OF this k] have "koku_effect (replicate (Suc k) req) w w'" by simp
    with \<open>k \<le> n\<close> show ?thesis by (intro exI [of _ "Suc k"]) simp
  qed
  have stop: "\<exists>k \<le> Suc n. koku_effect (replicate k req) w w' \<and> 0 < k" if "w' = w1"
    using one that by (intro exI [of _ 1]) simp
  show ?case
    using Suc.prems d next_try stop
    by (auto simp: Let_def split: sum.splits if_splits)
qed

text \<open>A request that cannot be built is never sent, whatever the number of attempts.\<close>

lemma retry_loop_unsent:
  assumes "sendable E C meth path body = None"
    and "retry_loop E C ctx meth path body n le w = (res, w')"
  shows "koku_effect [] w w' \<and> (\<exists>e. res = Inl e)"
  using assms(2)
proof (induction n arbitrary: le w)
  case 0
  then show ?case by auto
next
  case (Suc n)
  obtain e where d: "koku_do E C ctx meth path body w = (Inl e, w)"
    using koku_do_unsent [OF assms(1)] by blast
  show ?case
  proof (cases "env_ctx_err E ctx (ext w)")
    case True
    with Suc.prems d show ?thesis by auto
  next
    case False
    with Suc.prems d
    have "retry_loop E C ctx meth path body n (Some e)
        (koku_backoff E ctx (maxRetries - Suc n) w) = (res, w')"
      by simp
    from Suc.IH [OF this] show ?thesis
      using koku_effect_trans [OF koku_backoff_effect, of "[]" E ctx "maxRetries - Suc n" w w']
      by simp
  qed
qed

text \<open>A response that the loop returns is never a server error.\<close>

lemma retry_loop_status:
  "retry_loop E C ctx meth path body n le w = (Inr resp, w') \<Longrightarrow> rs_status resp < 500"
  by (induction n arbitrary: le w)
     (auto simp: Let_def split: prod.splits sum.splits if_splits)

lemma doWithRetry_effect:
  "\<exists>reqs. koku_effect reqs w (snd (doWithRetry E C ctx meth path body w)) \<and> length reqs \<le> maxRetries \<and>
     (\<forall>r \<in> set reqs. sendable E C meth path body = Some r)"
proof (cases "sendable E C meth path body")
  case None
  then show ?thesis
    using retry_loop_unsent [OF None, of ctx maxRetries None w]
    by (intro exI [of _ "[]"])
       (auto simp: doWithRetry_def split: prod.splits intro: prod.collapse [symmetric])
next
  case (Some req)
  then obtain k where "k \<le> maxRetries"
    "koku_effect (replicate k req) w (snd (doWithRetry E C ctx meth path body w))"
    using retry_loop_sent [OF Some, of ctx maxRetries None w]
    by (metis doWithRetry_def prod.collapse)
  then show ?thesis using Some by (intro exI [of _ "replicate k req"]) simp
qed

text \<open>A response comes only after at least one sending of the request.\<close>

lemma doWithRetry_answered:
  assumes "doWithRetry E C ctx meth path body w = (Inr resp, w')"
  shows "\<exists>req k. sendable E C meth path body = Some req \<and> 0 < k \<and> k \<le> maxRetries \<and>
    koku_effect (replicate k req) w w' \<and> rs_status resp < 500"
proof -
  have loop: "retry_loop E C ctx meth path body maxRetries None w = (Inr resp, w')"
    using assms by (simp add: doWithRetry_def)
  have "\<exists>req. sendable E C meth path body = Some req"
    using retry_loop_unsent [OF _ loop] by (cases "sendable E C meth path body") auto
  then obtain req where req: "sendable E C meth path body = Some req" ..
  obtain k where "k \<le> maxRetries" "koku_effect (replicate k req) w w'" "0 < maxRetries \<longrightarrow> 0 < k"
    using retry_loop_sent [OF req loop] by auto
  moreover have "0 < maxRetries" by (simp add: maxRetries_def)
  ultimately show ?thesis using req retry_loop_status [OF loop] by auto
qed

lemma CreateSource_answered:
  assumes "CreateSource E C ctx target name w = (Inr src, w')"
  shows "\<exists>req k. sendable E C ''POST'' ''/api/cost-management/v1/sources/''
      (Some (source_request target name)) = Some req \<and> 0 < k \<and> k \<le> maxRetries \<and>
    outgoing w' = outgoing w @ replicate k req"
proof -
  obtain res w1 where d: "doWithRetry E C ctx ''POST'' ''/api/cost-management/v1/sources/''
      (Some (source_request target name)) w = (res, w1)" by fastforce
  then have "w1 = w'" and "\<exists>resp. res = Inr resp"
    using assms by (auto simp: CreateSource_def split: sum.splits if_splits)
  then obtain resp where "res = Inr resp" by blast
  from doWithRetry_answered [OF d [unfolded this]] show ?thesis
    using \<open>w1 = w'\<close> koku_effect_frame(2) by blast
qed

end
