(* ===== verification/KokuInterface.thy ===== *)
theory KokuInterface
  imports KokuProps
begin

text \<open>
  The Go interface \<open>KokuClient\<close> of \<open>internal/handler/interfaces.go\<close>: a record of the seven
  operations, the client of \<open>internal/koku\<close> as a value of it, and the contract the handlers
  and the reconciler rely on: an operation only touches the outside world and the request
  counters, and sends a bounded number of requests.
\<close>

record 's koku_client =
  kk_CreateSource :: "ctx \<Rightarrow> string \<Rightarrow> string \<Rightarrow> 's \<Rightarrow> (koku_error + source_response) \<times> 's"
  kk_PauseSource :: "ctx \<Rightarrow> string \<Rightarrow> 's \<Rightarrow> koku_error option \<times> 's"
  kk_CreateCostModel :: "ctx \<Rightarrow> string \<Rightarrow> string \<Rightarrow> koku_rate list \<Rightarrow> koku_markup option \<Rightarrow>
    string \<Rightarrow> 's \<Rightarrow> (koku_error + cost_model_response) \<times> 's"
  kk_DeleteCostModel :: "ctx \<Rightarrow> string \<Rightarrow> 's \<Rightarrow> koku_error option \<times> 's"
  kk_GetSourceStats :: "ctx \<Rightarrow> string \<Rightarrow> 's \<Rightarrow> (koku_error + json_map) \<times> 's"
  kk_GetReports :: "ctx \<Rightarrow> string \<Rightarrow> string \<Rightarrow> url_values option \<Rightarrow> 's \<Rightarrow>
    (koku_error + string) \<times> 's"
  kk_GetForecasts :: "ctx \<Rightarrow> string \<Rightarrow> url_values option \<Rightarrow> 's \<Rightarrow> (koku_error + string) \<times> 's"

definition koku_of :: "'x env \<Rightarrow> koku_conf \<Rightarrow> ('d, 'x) world koku_client" where
  "koku_of E C =
     \<lparr>kk_CreateSource = CreateSource E C, kk_PauseSource = PauseSource E C,
      kk_CreateCostModel = CreateCostModel E C, kk_DeleteCostModel = DeleteCostModel E C,
      kk_GetSourceStats = GetSourceStats E C, kk_GetReports = GetReports E C,
      kk_GetForecasts = GetForecasts E C\<rparr>"

text \<open>An operation that leaves all but the client's part of the state alone.\<close>

definition koku_bounded :: "('d, 'x) world \<Rightarrow> ('d, 'x) world \<Rightarrow> bool" where
  "koku_bounded w w' \<longleftrightarrow> (\<exists>reqs. koku_effect reqs w w' \<and> length reqs \<le> maxRetries)"

locale koku_api =
  fixes K :: "('d, 'x) world koku_client"
  assumes CreateSource_frame: "koku_bounded w (snd (kk_CreateSource K c cl n w))"
    and PauseSource_frame: "koku_bounded w (snd (kk_PauseSource K c u w))"
    and CreateCostModel_frame: "koku_bounded w (snd (kk_CreateCostModel K c n u rs mk ds w))"
    and DeleteCostModel_frame: "koku_bounded w (snd (kk_DeleteCostModel K c u w))"
    and GetSourceStats_frame: "koku_bounded w (snd (kk_GetSourceStats K c u w))"
    and GetReports_frame: "koku_bounded w (snd (kk_GetReports K c cl ty ps w))"
    and GetForecasts_frame: "koku_bounded w (snd (kk_GetForecasts K c cl ps w))"

lemma koku_bounded_frame [frame]:
  assumes "koku_bounded w w'"
  shows "db w' = db w" "published w' = published w" "InstancesManaged w' = InstancesManaged w"
  using assms koku_effect_frame unfolding koku_bounded_def by blast+

lemma doWithRetry_bounded: "koku_bounded w (snd (doWithRetry E C ctx meth path body w))"
  using doWithRetry_effect [of w E C ctx meth path body] by (auto simp: koku_bounded_def)

lemma snd_let_pair [simp]: "snd (let (r, w1) = p in f r w1) = (let (r, w1) = p in snd (f r w1))"
  by (simp split: prod.splits)

lemmas koku_op_defs =
  CreateSource_def PauseSource_def CreateCostModel_def DeleteCostModel_def GetSourceStats_def
  GetReports_def GetForecasts_def

text \<open>After the retry loop, the operations only look at the response.\<close>

lemma koku_op_world:
  "snd (CreateSource E C c cl n w) =
     snd (doWithRetry E C c ''POST'' ''/api/cost-management/v1/sources/''
       (Some (source_request cl n)) w)"
  "snd (PauseSource E C c u w) =
     snd (doWithRetry E C c ''PATCH'' (''/api/cost-management/v1/sources/'' @ u @ ''/'')
       (Some (JObj [(''paused'', JBool True)])) w)"
  "snd (CreateCostModel E C c n u rs mk ds w) =
     snd (doWithRetry E C c ''POST'' ''/api/cost-management/v1/cost-models/''
       (Some (cost_model_request n u rs mk ds)) w)"
  "snd (DeleteCostModel E C c u w) =
     snd (doWithRetry E C c ''DELETE'' (''/api/cost-management/v1/cost-models/'' @ u @ ''/'') None w)"
  "snd (GetSourceStats E C c u w) =
     snd (doWithRetry E C c ''GET''
       (''/api/cost-management/v1/sources/'' @ u @ ''/stats/'') None w)"
  "snd (GetReports E C c cl ty ps w) =
     snd (doWithRetry E C c ''GET'' (report_path cl ty ps) None w)"
  "snd (GetForecasts E C c cl ps w) =
     snd (doWithRetry E C c ''GET'' (forecast_path cl ps) None w)"
  unfolding koku_op_defs by (auto split: prod.splits sum.splits)

interpretation client: koku_api "koku_of E C" for E C
  by unfold_locales
     (simp_all add: koku_of_def koku_op_world doWithRetry_bounded del: snd_let_pair)

end
