(* ===== verification/Store.thy ===== *)
theory Store
  imports World
begin

text \<open>
  \<open>internal/store/store.go\<close>: persistence of cost instances. The database (GORM over SQLite) is
  not under verification: it is the record \<open>gorm\<close> of the statements the store runs, and the
  locale \<open>gorm_db\<close> states what their documentation promises (primary key, unique index on
  \<open>target_resource_id\<close>, a failed statement changes nothing). The store's operations are
  defined over any such record. \<open>instance_store\<close> is the Go interface \<open>InstanceStore\<close>, its
  locale the contract the handlers and the reconciler rely on, and a sublocale proves that the
  store fulfils it on every database that fulfils \<open>gorm_db\<close>.
\<close>

subsection \<open>The database\<close>

datatype gorm_error = GormRecordNotFound | GormError string

fun gorm_error_text :: "gorm_error \<Rightarrow> string" where
  "gorm_error_text GormRecordNotFound = ''record not found''"
| "gorm_error_text (GormError m) = m"

text \<open>
  Each field is one statement of the store: \<open>db.Create(inst)\<close> and \<open>db.Save(inst)\<close> (which also
  fill in the instance's time stamps), \<open>db.First\<close> with its two conditions, \<open>Count\<close>, the ordered
  page, \<open>Updates\<close> on one id (returning \<open>RowsAffected\<close> and \<open>Error\<close>), and \<open>Find\<close> by status.
\<close>

record 'd gorm =
  gm_create :: "cost_instance \<Rightarrow> 'd \<Rightarrow> (gorm_error option \<times> cost_instance) \<times> 'd"
  gm_save :: "cost_instance \<Rightarrow> 'd \<Rightarrow> (gorm_error option \<times> cost_instance) \<times> 'd"
  gm_first_id :: "string \<Rightarrow> 'd \<Rightarrow> (gorm_error + cost_instance) \<times> 'd"
  gm_first_target :: "string \<Rightarrow> 'd \<Rightarrow> (gorm_error + cost_instance) \<times> 'd"
  gm_count :: "'d \<Rightarrow> (gorm_error + int) \<times> 'd"
  gm_page :: "int \<Rightarrow> int \<Rightarrow> 'd \<Rightarrow> (gorm_error + cost_instance list) \<times> 'd"
  gm_update_status :: "string \<Rightarrow> string \<Rightarrow> string \<Rightarrow> 'd \<Rightarrow> (int \<times> gorm_error option) \<times> 'd"
  gm_find_status :: "string \<Rightarrow> 'd \<Rightarrow> (gorm_error + cost_instance list) \<times> 'd"

subsection \<open>Operations\<close>

datatype store_error = ErrNotFound | ErrAlreadyExists | StoreFailure gorm_error

definition isUniqueConstraintError :: "gorm_error \<Rightarrow> bool" where
  "isUniqueConstraintError err \<longleftrightarrow>
     (let msg = gorm_error_text err
      in contains msg ''UNIQUE constraint failed'' \<or> contains msg ''duplicate key'' \<or>
         contains msg ''unique_violation'')"

definition store_Create ::
  "'d gorm \<Rightarrow> cost_instance \<Rightarrow> 'd \<Rightarrow> (store_error option \<times> cost_instance) \<times> 'd" where
  "store_Create G inst d =
     (let ((err, inst'), d') = gm_create G inst d
      in ((case err of
             None \<Rightarrow> None
           | Some e \<Rightarrow> if isUniqueConstraintError e then Some ErrAlreadyExists
                       else Some (StoreFailure e), inst'), d'))"

definition store_Update ::
  "'d gorm \<Rightarrow> cost_instance \<Rightarrow> 'd \<Rightarrow> (store_error option \<times> cost_instance) \<times> 'd" where
  "store_Update G inst d =
     (let ((err, inst'), d') = gm_save G inst d in ((map_option StoreFailure err, inst'), d'))"

definition not_found_or :: "gorm_error \<Rightarrow> store_error" where
  "not_found_or e = (case e of GormRecordNotFound \<Rightarrow> ErrNotFound | _ \<Rightarrow> StoreFailure e)"

definition store_Get :: "'d gorm \<Rightarrow> string \<Rightarrow> 'd \<Rightarrow> (store_error + cost_instance) \<times> 'd" where
  "store_Get G iid d =
     (let (res, d') = gm_first_id G iid d
      in (case res of Inl e \<Rightarrow> Inl (not_found_or e) | Inr inst \<Rightarrow> Inr inst, d'))"

definition store_GetByTarget :: "'d gorm \<Rightarrow> string \<Rightarrow> 'd \<Rightarrow> (store_error + cost_instance) \<times> 'd" where
  "store_GetByTarget G target d =
     (let (res, d') = gm_first_target G target d
      in (case res of Inl e \<Rightarrow> Inl (not_found_or e) | Inr inst \<Rightarrow> Inr inst, d'))"

text \<open>The error of \<open>Count\<close> is not looked at: \<open>total\<close> then keeps its zero value.\<close>

definition store_List ::
  "'d gorm \<Rightarrow> int \<Rightarrow> int \<Rightarrow> 'd \<Rightarrow> (store_error + cost_instance list \<times> int) \<times> 'd" where
  "store_List G limit offset d =
     (let (c, d1) = gm_count G d;
          total = (case c of Inl _ \<Rightarrow> 0 | Inr n \<Rightarrow> n);
          (res, d2) = gm_page G limit offset d1
      in (case res of Inl e \<Rightarrow> Inl (StoreFailure e) | Inr rows \<Rightarrow> Inr (rows, total), d2))"

text \<open>\<open>RowsAffected\<close> is tested before the error.\<close>

definition store_UpdateStatus ::
  "'d gorm \<Rightarrow> string \<Rightarrow> string \<Rightarrow> string \<Rightarrow> 'd \<Rightarrow> store_error option \<times> 'd" where
  "store_UpdateStatus G iid status message d =
     (let ((affected, err), d') = gm_update_status G iid status message d
      in (if affected = 0 then Some ErrNotFound else map_option StoreFailure err, d'))"

definition store_ListByStatus ::
  "'d gorm \<Rightarrow> string \<Rightarrow> 'd \<Rightarrow> (store_error + cost_instance list) \<times> 'd" where
  "store_ListByStatus G status d =
     (let (res, d') = gm_find_status G status d
      in (case res of Inl e \<Rightarrow> Inl (StoreFailure e) | Inr rows \<Rightarrow> Inr rows, d'))"

subsection \<open>The interface\<close>

record 's instance_store =
  st_Create :: "cost_instance \<Rightarrow> 's \<Rightarrow> (store_error option \<times> cost_instance) \<times> 's"
  st_Update :: "cost_instance \<Rightarrow> 's \<Rightarrow> (store_error option \<times> cost_instance) \<times> 's"
  st_Get :: "string \<Rightarrow> 's \<Rightarrow> (store_error + cost_instance) \<times> 's"
  st_GetByTarget :: "string \<Rightarrow> 's \<Rightarrow> (store_error + cost_instance) \<times> 's"
  st_List :: "int \<Rightarrow> int \<Rightarrow> 's \<Rightarrow> (store_error + cost_instance list \<times> int) \<times> 's"
  st_UpdateStatus :: "string \<Rightarrow> string \<Rightarrow> string \<Rightarrow> 's \<Rightarrow> store_error option \<times> 's"
  st_ListByStatus :: "string \<Rightarrow> 's \<Rightarrow> (store_error + cost_instance list) \<times> 's"

text \<open>
  \<open>New\<close>: opening the SQLite file named by the DSN and migrating its table are GORM's; their
  errors are arguments.
\<close>

definition store_New ::
  "(string \<Rightarrow> string + 'd gorm) \<Rightarrow> ('d gorm \<Rightarrow> string option) \<Rightarrow> string \<Rightarrow> string + 'd gorm" where
  "store_New gorm_open auto_migrate dbPath =
     (let dsn = dbPath @ ''?_journal_mode=WAL&_busy_timeout=5000''
      in case gorm_open dsn of
           Inl e \<Rightarrow> Inl (''opening database at '' @ dbPath @ '': '' @ e)
         | Inr G \<Rightarrow>
             (case auto_migrate G of
                Some e \<Rightarrow> Inl (''running migrations: '' @ e)
              | None \<Rightarrow> Inr G))"

text \<open>The store as a value of the interface, over the whole state.\<close>

definition store_of :: "'d gorm \<Rightarrow> ('d, 'x) world instance_store" where
  "store_of G =
     \<lparr>st_Create = \<lambda>inst. on_db (store_Create G inst),
      st_Update = \<lambda>inst. on_db (store_Update G inst),
      st_Get = \<lambda>iid. on_db (store_Get G iid),
      st_GetByTarget = \<lambda>target. on_db (store_GetByTarget G target),
      st_List = \<lambda>limit offset. on_db (store_List G limit offset),
      st_UpdateStatus = \<lambda>iid status message. on_db (store_UpdateStatus G iid status message),
      st_ListByStatus = \<lambda>status. on_db (store_ListByStatus G status)\<rparr>"

subsection \<open>Contracts\<close>

text \<open>No row but the one with this id has this target.\<close>

definition target_free :: "(string \<rightharpoonup> cost_instance) \<Rightarrow> string \<Rightarrow> string \<Rightarrow> bool" where
  "target_free R iid target \<longleftrightarrow> (\<forall>r \<in> ran R. TargetResourceID r = target \<longrightarrow> ID r = iid)"

definition set_status :: "string \<Rightarrow> string \<Rightarrow> time \<Rightarrow> cost_instance \<Rightarrow> cost_instance" where
  "set_status status message t r =
     r\<lparr>Status := status, StatusMessage := message, UpdatedAt := t\<rparr>"

text \<open>A page of the rows, newest first; \<open>full\<close> is the order of the whole listing.\<close>

definition page_of :: "(string \<rightharpoonup> cost_instance) \<Rightarrow> int \<Rightarrow> int \<Rightarrow> cost_instance list \<Rightarrow> bool" where
  "page_of R limit offset rows \<longleftrightarrow>
     (\<exists>full. distinct full \<and> set full = ran R \<and>
        sorted_wrt (\<lambda>a b. CreatedAt b \<le> CreatedAt a) full \<and>
        rows = take (nat limit) (drop (nat offset) full))"

locale gorm_db =
  fixes G :: "'d gorm"
    and R :: "'d \<Rightarrow> string \<rightharpoonup> cost_instance"
  assumes rows_key: "R d k = Some r \<Longrightarrow> ID r = k"
    and rows_finite: "finite (dom (R d))"
    and create_ok: "gm_create G i d = ((None, i'), d') \<Longrightarrow>
      same_data i i' \<and> R d (ID i) = None \<and> target_free (R d) (ID i) (TargetResourceID i) \<and>
      R d' = (R d)(ID i \<mapsto> i')"
    and create_failed: "gm_create G i d = ((Some e, i'), d') \<Longrightarrow> same_data i i' \<and> R d' = R d"
    and create_unique: "gm_create G i d = ((Some e, i'), d') \<Longrightarrow> isUniqueConstraintError e \<Longrightarrow>
      R d (ID i) \<noteq> None \<or> \<not> target_free (R d) (ID i) (TargetResourceID i)"
    and save_ok: "gm_save G i d = ((None, i'), d') \<Longrightarrow>
      same_data i i' \<and> target_free (R d) (ID i) (TargetResourceID i) \<and> R d' = (R d)(ID i \<mapsto> i')"
    and save_failed: "gm_save G i d = ((Some e, i'), d') \<Longrightarrow> same_data i i' \<and> R d' = R d"
    and first_id_same: "gm_first_id G k d = (res, d') \<Longrightarrow> R d' = R d"
    and first_id_hit: "gm_first_id G k d = (Inr r, d') \<Longrightarrow> R d k = Some r"
    and first_id_miss: "gm_first_id G k d = (Inl GormRecordNotFound, d') \<Longrightarrow> R d k = None"
    and first_target_same: "gm_first_target G k d = (res, d') \<Longrightarrow> R d' = R d"
    and first_target_hit: "gm_first_target G k d = (Inr r, d') \<Longrightarrow>
      r \<in> ran (R d) \<and> TargetResourceID r = k"
    and first_target_miss: "gm_first_target G k d = (Inl GormRecordNotFound, d') \<Longrightarrow>
      \<forall>r \<in> ran (R d). TargetResourceID r \<noteq> k"
    and count_same: "gm_count G d = (c, d') \<Longrightarrow> R d' = R d"
    and count_ok: "gm_count G d = (Inr n, d') \<Longrightarrow> n = int (card (dom (R d)))"
    and page_same: "gm_page G l off d = (p, d') \<Longrightarrow> R d' = R d"
    and page_ok: "gm_page G l off d = (Inr rows, d') \<Longrightarrow> 0 < l \<Longrightarrow> 0 \<le> off \<Longrightarrow> page_of (R d) l off rows"
    and update_hit: "gm_update_status G k s m d = ((n, eo), d') \<Longrightarrow> n \<noteq> 0 \<Longrightarrow>
      eo = None \<and> (\<exists>r t. R d k = Some r \<and> R d' = (R d)(k \<mapsto> set_status s m t r))"
    and update_miss: "gm_update_status G k s m d = ((0, eo), d') \<Longrightarrow> R d' = R d"
    and update_none: "gm_update_status G k s m d = ((0, None), d') \<Longrightarrow> R d k = None"
    and find_status_same: "gm_find_status G s d = (found, d') \<Longrightarrow> R d' = R d"
    and find_status_ok: "gm_find_status G s d = (Inr rows, d') \<Longrightarrow>
      distinct (map ID rows) \<and> set rows = {r \<in> ran (R d). Status r = s}"

text \<open>
  The contract of the Go interface \<open>InstanceStore\<close>. \<open>others\<close> is the part of the state an
  operation of the store must leave alone: the requests sent, the events published, the gauge.
\<close>

definition same_effects :: "('d, 'x) world \<Rightarrow> ('d, 'x) world \<Rightarrow> bool" where
  "same_effects w w' \<longleftrightarrow>
     outgoing w' = outgoing w \<and> published w' = published w \<and>
     InstancesManaged w' = InstancesManaged w"

lemma same_effects_refl [simp]: "same_effects w w"
  by (simp add: same_effects_def)

lemma same_effects_on_db [frame]: "same_effects w (snd (on_db f w))"
  by (simp add: same_effects_def)

locale instance_store_laws =
  fixes S :: "('d, 'x) world instance_store"
    and T :: "('d, 'x) world \<Rightarrow> string \<rightharpoonup> cost_instance"
  assumes table_key: "T w k = Some r \<Longrightarrow> ID r = k"
    and table_frame: "db w' = db w \<Longrightarrow> T w' = T w"
    and Create_effects: "same_effects w (snd (st_Create S i w))"
    and Update_effects: "same_effects w (snd (st_Update S i w))"
    and Get_effects: "same_effects w (snd (st_Get S k w))"
    and GetByTarget_effects: "same_effects w (snd (st_GetByTarget S k w))"
    and List_effects: "same_effects w (snd (st_List S l off w))"
    and UpdateStatus_effects: "same_effects w (snd (st_UpdateStatus S k s m w))"
    and ListByStatus_effects: "same_effects w (snd (st_ListByStatus S s w))"
    and Create_ok: "st_Create S i w = ((None, i'), w') \<Longrightarrow>
      same_data i i' \<and> T w (ID i) = None \<and> target_free (T w) (ID i) (TargetResourceID i) \<and>
      T w' = (T w)(ID i \<mapsto> i')"
    and Create_failed: "st_Create S i w = ((Some e, i'), w') \<Longrightarrow> same_data i i' \<and> T w' = T w"
    and Create_exists: "st_Create S i w = ((Some ErrAlreadyExists, i'), w') \<Longrightarrow>
      T w (ID i) \<noteq> None \<or> \<not> target_free (T w) (ID i) (TargetResourceID i)"
    and Update_ok: "st_Update S i w = ((None, i'), w') \<Longrightarrow>
      same_data i i' \<and> target_free (T w) (ID i) (TargetResourceID i) \<and> T w' = (T w)(ID i \<mapsto> i')"
    and Update_failed: "st_Update S i w = ((Some e, i'), w') \<Longrightarrow> same_data i i' \<and> T w' = T w"
    and Get_same: "st_Get S k w = (res, w') \<Longrightarrow> T w' = T w"
    and Get_hit: "st_Get S k w = (Inr r, w') \<Longrightarrow> T w k = Some r"
    and Get_miss: "st_Get S k w = (Inl ErrNotFound, w') \<Longrightarrow> T w k = None"
    and GetByTarget_same: "st_GetByTarget S k w = (res, w') \<Longrightarrow> T w' = T w"
    and GetByTarget_hit: "st_GetByTarget S k w = (Inr r, w') \<Longrightarrow>
      r \<in> ran (T w) \<and> TargetResourceID r = k"
    and GetByTarget_miss: "st_GetByTarget S k w = (Inl ErrNotFound, w') \<Longrightarrow>
      \<forall>r \<in> ran (T w). TargetResourceID r \<noteq> k"
    and List_same: "st_List S l off w = (listed, w') \<Longrightarrow> T w' = T w"
    and List_page: "st_List S l off w = (Inr (rows, tot), w') \<Longrightarrow> 0 < l \<Longrightarrow> 0 \<le> off \<Longrightarrow>
      page_of (T w) l off rows"
    and List_total: "st_List S l off w = (Inr (rows, tot), w') \<Longrightarrow>
      tot = 0 \<or> tot = int (card (dom (T w)))"
    and UpdateStatus_ok: "st_UpdateStatus S k s m w = (None, w') \<Longrightarrow>
      \<exists>r. T w k = Some r \<and> (\<exists>t. T w' = (T w)(k \<mapsto> set_status s m t r))"
    and UpdateStatus_failed: "st_UpdateStatus S k s m w = (Some e, w') \<Longrightarrow> T w' = T w"
    and ListByStatus_same: "st_ListByStatus S s w = (found, w') \<Longrightarrow> T w' = T w"
    and ListByStatus_ok: "st_ListByStatus S s w = (Inr rows, w') \<Longrightarrow>
      distinct (map ID rows) \<and> set rows = {r \<in> ran (T w). Status r = s}"

text \<open>The store fulfils the contract of the interface, whatever the database beneath it.\<close>

lemmas store_defs [step_defs] =
  store_Create_def store_Update_def store_Get_def store_GetByTarget_def store_List_def
  store_UpdateStatus_def store_ListByStatus_def

context gorm_db
begin

lemma store_List_same: "store_List G l off d = (res, d') \<Longrightarrow> R d' = R d"
  by (auto simp: store_List_def dest!: count_same page_same split: prod.splits)

lemma store_List_page:
  assumes "store_List G l off d = (Inr (rows, tot), d')" and "0 < l" and "0 \<le> off"
  shows "page_of (R d) l off rows"
proof -
  obtain c d1 where c: "gm_count G d = (c, d1)" by fastforce
  then have p: "gm_page G l off d1 = (Inr rows, d')"
    using assms(1) by (auto simp: store_List_def split: prod.splits sum.splits)
  show ?thesis using page_ok [OF p assms(2,3)] count_same [OF c] by simp
qed

lemma store_List_total:
  "store_List G l off d = (Inr (rows, tot), d') \<Longrightarrow> tot = 0 \<or> tot = int (card (dom (R d)))"
  by (auto simp: store_List_def dest: count_ok split: prod.splits sum.splits)

lemma store_UpdateStatus_ok:
  assumes "store_UpdateStatus G k s m d = (None, d')"
  shows "\<exists>r. R d k = Some r \<and> (\<exists>t. R d' = (R d)(k \<mapsto> set_status s m t r))"
proof -
  obtain n where "gm_update_status G k s m d = ((n, None), d')" and "n \<noteq> 0"
    using assms by (auto simp: store_UpdateStatus_def split: prod.splits if_splits)
  then show ?thesis using update_hit by blast
qed

lemma store_UpdateStatus_failed:
  "store_UpdateStatus G k s m d = (Some e, d') \<Longrightarrow> R d' = R d"
  by (auto simp: store_UpdateStatus_def dest: update_miss update_hit split: prod.splits if_splits)

end

sublocale gorm_db \<subseteq> store: instance_store_laws "store_of G" "\<lambda>w. R (db w)"
proof unfold_locales
  show "R (db w) k = Some r \<Longrightarrow> ID r = k" for w k r
    by (rule rows_key)
next
  show "db w' = db w \<Longrightarrow> R (db w') = R (db w)" for w w'
    by simp
qed (auto simp: store_of_def on_db_def store_Create_def store_Update_def store_Get_def
      store_GetByTarget_def store_ListByStatus_def not_found_or_def same_effects_def
      dest: create_ok create_failed create_unique save_ok save_failed first_id_same first_id_hit
        first_id_miss first_target_same first_target_hit first_target_miss find_status_same
        find_status_ok store_List_same store_List_page store_List_total store_UpdateStatus_ok
        store_UpdateStatus_failed
      split: prod.splits sum.splits option.splits if_splits gorm_error.splits)

end
