(* ===== verification/Monitoring.thy ===== *)
theory Monitoring
  imports World
begin

text \<open>
  \<open>internal/monitoring\<close>: the CloudEvent of a status change, the Go interface
  \<open>StatusPublisher\<close>, and its two implementations. The interface is a record of functions; the
  locale \<open>status_publisher\<close> is what every implementation leaves alone, and
  \<open>recording_publisher\<close> extends it with what a publisher that reports success has done.
\<close>

subsection \<open>Formatting time\<close>

text \<open>Days since January 1, year 1, as year, month and day of the Gregorian calendar.\<close>

definition civil_date :: "int \<Rightarrow> api_date" where
  "civil_date days =
     (let z = days + 306;
          era = z div 146097;
          doe = z mod 146097;
          yoe = (doe - doe div 1460 + doe div 36524 - doe div 146096) div 365;
          doy = doe - (365 * yoe + yoe div 4 - yoe div 100);
          mp = (5 * doy + 2) div 153;
          m = (if mp < 10 then mp + 3 else mp - 9)
      in \<lparr>date_year = yoe + era * 400 + (if m \<le> 2 then 1 else 0), date_month = m,
          date_day = doy - (153 * mp + 2) div 5 + 1\<rparr>)"

definition clock_text :: "time \<Rightarrow> string" where
  "clock_text t =
     (let s = t div second mod 86400
      in pad 2 (s div 3600) @ '':'' @ pad 2 (s div 60 mod 60) @ '':'' @ pad 2 (s mod 60))"

definition date_text :: "time \<Rightarrow> string" where
  "date_text t = format_date (civil_date (t div second div 86400)) @ ''T'' @ clock_text t"

text \<open>\<open>Format(time.RFC3339)\<close> of a UTC time, and the form with nanoseconds that JSON uses.\<close>

definition format_rfc3339 :: "time \<Rightarrow> string" where
  "format_rfc3339 t = date_text t @ ''Z''"

definition nano_text :: "time \<Rightarrow> string" where
  "nano_text t =
     (let n = t mod second
      in if n = 0 then [] else ''.'' @ trim_right (CHR ''0'') (pad 9 n))"

definition format_rfc3339nano :: "time \<Rightarrow> string" where
  "format_rfc3339nano t = date_text t @ nano_text t @ ''Z''"

subsection \<open>Events\<close>

definition NewStatusCloudEvent ::
  "'x env \<Rightarrow> string \<Rightarrow> string \<Rightarrow> string \<Rightarrow> string \<Rightarrow> ('d, 'x) world \<Rightarrow>
   cloud_event \<times> ('d, 'x) world" where
  "NewStatusCloudEvent E providerName instanceID status message w =
     (let (now, w1) = on_ext (env_now E) w;
          (uuid, w2) = on_ext (env_uuid E) w1
      in (\<lparr>ce_SpecVersion = ''1.0'', ce_ID = uuid,
           ce_Source = ''dcm/providers/'' @ providerName, ce_Type = ''dcm.status.cost'',
           ce_Time = format_rfc3339 now, ce_Subject = ''dcm.cost'',
           ce_DataContentType = ''application/json'',
           ce_Data = \<lparr>sp_ID = instanceID, sp_Status = status, sp_Message = message,
             sp_Timestamp = now\<rparr>\<rparr>, w2))"

definition enc_payload :: "status_payload \<Rightarrow> json" where
  "enc_payload p =
     JObj [(''id'', JStr (sp_ID p)), (''status'', JStr (sp_Status p)),
       (''message'', JStr (sp_Message p)),
       (''timestamp'', JStr (format_rfc3339nano (sp_Timestamp p)))]"

definition enc_event :: "cloud_event \<Rightarrow> json" where
  "enc_event ce =
     JObj [(''specversion'', JStr (ce_SpecVersion ce)), (''id'', JStr (ce_ID ce)),
       (''source'', JStr (ce_Source ce)), (''type'', JStr (ce_Type ce)),
       (''time'', JStr (ce_Time ce)), (''subject'', JStr (ce_Subject ce)),
       (''datacontenttype'', JStr (ce_DataContentType ce)),
       (''data'', enc_payload (ce_Data ce))]"

text \<open>\<open>time.Time\<close> refuses to be encoded outside the years 0 to 9999.\<close>

definition marshal_event :: "'x env \<Rightarrow> cloud_event \<Rightarrow> string + string" where
  "marshal_event E ce =
     (let y = date_year (civil_date (sp_Timestamp (ce_Data ce) div second div 86400))
      in if 0 \<le> y \<and> y \<le> 9999 then Inr (print_json (env_float E) (enc_event ce))
         else Inl (''marshaling cloud event: '' @ env_marshal_err E (enc_event ce)))"

subsection \<open>Publishers\<close>

record 's status_publisher =
  pub_Publish :: "ctx \<Rightarrow> string \<Rightarrow> string \<Rightarrow> string \<Rightarrow> 's \<Rightarrow> string option \<times> 's"
  pub_Close :: "'s \<Rightarrow> string option \<times> 's"

definition nats_Publish ::
  "'x env \<Rightarrow> string \<Rightarrow> string \<Rightarrow> ctx \<Rightarrow> string \<Rightarrow> string \<Rightarrow> string \<Rightarrow> ('d, 'x) world \<Rightarrow>
   string option \<times> ('d, 'x) world" where
  "nats_Publish E providerName subject ctx instanceID status message w =
     (let (ce, w1) = NewStatusCloudEvent E providerName instanceID status message w
      in case marshal_event E ce of
           Inl e \<Rightarrow> (Some e, w1)
         | Inr data \<Rightarrow>
             (let (err, w2) = on_ext (env_nats E subject data) w1
              in case err of
                   Some e \<Rightarrow> (Some e, w2)
                 | None \<Rightarrow> (None, count_event (w2\<lparr>published := published w2 @ [ce]\<rparr>))))"

definition NATSPublisher :: "'x env \<Rightarrow> string \<Rightarrow> ('d, 'x) world status_publisher" where
  "NATSPublisher E providerName =
     \<lparr>pub_Publish = nats_Publish E providerName ''dcm.cost'',
      pub_Close = \<lambda>w. (None, w\<lparr>ext := env_nats_close E (ext w)\<rparr>)\<rparr>"

text \<open>\<open>NewNATSPublisher\<close>; the connection is made outside, and \<open>connect_err\<close> is its error.\<close>

definition NewNATSPublisher ::
  "'x env \<Rightarrow> (string \<Rightarrow> string option) \<Rightarrow> string \<Rightarrow> string \<Rightarrow>
   string + ('d, 'x) world status_publisher" where
  "NewNATSPublisher E connect_err natsURL providerName =
     (case connect_err natsURL of
        Some e \<Rightarrow> Inl (''connecting to NATS at '' @ natsURL @ '': '' @ e)
      | None \<Rightarrow> Inr (NATSPublisher E providerName))"

definition NoopPublisher :: "('d, 'x) world status_publisher" where
  "NoopPublisher =
     \<lparr>pub_Publish = \<lambda>ctx instanceID status message w. (None, w), pub_Close = \<lambda>w. (None, w)\<rparr>"

subsection \<open>Contracts\<close>

text \<open>An event that announces this status of this instance.\<close>

definition announces :: "cloud_event \<Rightarrow> string \<Rightarrow> string \<Rightarrow> string \<Rightarrow> bool" where
  "announces ce instanceID status message \<longleftrightarrow>
     sp_ID (ce_Data ce) = instanceID \<and> sp_Status (ce_Data ce) = status \<and>
     sp_Message (ce_Data ce) = message \<and> ce_Type ce = ''dcm.status.cost'' \<and>
     ce_Subject ce = ''dcm.cost''"

locale status_publisher =
  fixes P :: "('d, 'x) world status_publisher"
  assumes Publish_db: "db (snd (pub_Publish P c i s m w)) = db w"
    and Publish_outgoing: "outgoing (snd (pub_Publish P c i s m w)) = outgoing w"
    and Publish_gauge: "InstancesManaged (snd (pub_Publish P c i s m w)) = InstancesManaged w"
    and Publish_events: "published (snd (pub_Publish P c i s m w)) = published w \<or>
      (\<exists>ce. announces ce i s m \<and>
         published (snd (pub_Publish P c i s m w)) = published w @ [ce])"

locale recording_publisher = status_publisher P
  for P :: "('d, 'x) world status_publisher" +
  assumes Publish_ok: "pub_Publish P c i s m w = (None, w') \<Longrightarrow>
      \<exists>ce. announces ce i s m \<and> published w' = published w @ [ce]"
    and Publish_failed: "pub_Publish P c i s m w = (Some e, w') \<Longrightarrow> published w' = published w"

lemma NewStatusCloudEvent_frame:
  assumes "NewStatusCloudEvent E p i s m w = (ce, w')"
  shows "announces ce i s m" "db w' = db w" "outgoing w' = outgoing w"
    "published w' = published w" "InstancesManaged w' = InstancesManaged w"
  using assms
  by (auto simp: NewStatusCloudEvent_def announces_def on_ext_def split: prod.splits)

lemma nats_Publish_cases:
  assumes "nats_Publish E p subj c i s m w = (res, w')"
  shows "db w' = db w \<and> outgoing w' = outgoing w \<and> InstancesManaged w' = InstancesManaged w \<and>
    (case res of
       None \<Rightarrow> \<exists>ce. announces ce i s m \<and> published w' = published w @ [ce]
     | Some _ \<Rightarrow> published w' = published w)"
proof -
  obtain ce w1 where n: "NewStatusCloudEvent E p i s m w = (ce, w1)"
    by (cases "NewStatusCloudEvent E p i s m w")
  show ?thesis
    using assms NewStatusCloudEvent_frame [OF n]
    by (auto simp: nats_Publish_def n on_ext_def split: sum.splits prod.splits option.splits)
qed

interpretation nats: recording_publisher "NATSPublisher E providerName" for E providerName
proof
  fix c i s m w
  obtain res w' where p: "pub_Publish (NATSPublisher E providerName) c i s m w = (res, w')"
    by (cases "pub_Publish (NATSPublisher E providerName) c i s m w")
  note e = nats_Publish_cases [OF p [unfolded NATSPublisher_def status_publisher.simps]]
  show "db (snd (pub_Publish (NATSPublisher E providerName) c i s m w)) = db w"
    and "outgoing (snd (pub_Publish (NATSPublisher E providerName) c i s m w)) = outgoing w"
    and "InstancesManaged (snd (pub_Publish (NATSPublisher E providerName) c i s m w)) =
      InstancesManaged w"
    and "published (snd (pub_Publish (NATSPublisher E providerName) c i s m w)) = published w \<or>
      (\<exists>ce. announces ce i s m \<and>
         published (snd (pub_Publish (NATSPublisher E providerName) c i s m w)) = published w @ [ce])"
    using e p by (auto split: option.splits)
qed (auto simp: NATSPublisher_def dest: nats_Publish_cases)

interpretation noop: status_publisher NoopPublisher
  by unfold_locales (simp_all add: NoopPublisher_def)

end
