(* ===== verification/Health.thy ===== *)
theory Health
  imports Http
begin

text \<open>
  \<open>internal/health/health.go\<close>: the health checker, which probes Koku's status endpoint and
  caches the answer for \<open>cacheTTL\<close>. The cache is part of the process's state (\<open>cachedAt\<close>,
  \<open>cachedKokuOK\<close>). A call of \<open>Check\<close> is modelled as running alone; the locks make each
  reading and each writing of the two fields atomic.
\<close>

record checker =
  hc_version :: string
  hc_startTime :: time
  hc_kokuURL :: string
  hc_cacheTTL :: duration

definition NewChecker :: "string \<Rightarrow> time \<Rightarrow> string \<Rightarrow> checker" where
  "NewChecker version startTime kokuURL =
     \<lparr>hc_version = version, hc_startTime = startTime, hc_kokuURL = kokuURL,
      hc_cacheTTL = 10 * second\<rparr>"

definition probe_request :: "checker \<Rightarrow> http_request" where
  "probe_request c =
     \<lparr>rq_method = ''GET'', rq_url = hc_kokuURL c @ ''/api/cost-management/v1/status/'',
      rq_headers = [], rq_body = None\<rparr>"

definition probeKoku :: "'x env \<Rightarrow> checker \<Rightarrow> ('d, 'x) world \<Rightarrow> bool \<times> ('d, 'x) world" where
  "probeKoku E c w =
     (case env_new_request_err E ''GET'' (rq_url (probe_request c)) of
        Some _ \<Rightarrow> (False, w)
      | None \<Rightarrow>
          (let (res, w1) = on_ext (env_http E (Ctx 0) (probe_request c))
                             (w\<lparr>outgoing := outgoing w @ [probe_request c]\<rparr>)
           in (case res of Inl _ \<Rightarrow> False | Inr resp \<Rightarrow> rs_status resp < 500, w1)))"

definition kokuHealthy :: "'x env \<Rightarrow> checker \<Rightarrow> ('d, 'x) world \<Rightarrow> bool \<times> ('d, 'x) world" where
  "kokuHealthy E c w =
     (let (now, w1) = on_ext (env_now E) w
      in if sat64 (now - cachedAt w1) < hc_cacheTTL c then (cachedKokuOK w1, w1)
         else
           (let (ok, w2) = probeKoku E c w1;
                (now2, w3) = on_ext (env_now E) w2
            in (ok, w3\<lparr>cachedAt := now2, cachedKokuOK := ok\<rparr>)))"

text \<open>
  \<open>Check\<close>. The uptime is whole seconds; the rounding of \<open>Duration.Seconds\<close> to a float64 is
  not modelled.
\<close>

definition Check :: "'x env \<Rightarrow> checker \<Rightarrow> ('d, 'x) world \<Rightarrow> api_health \<times> ('d, 'x) world" where
  "Check E c w =
     (let (now, w1) = on_ext (env_now E) w;
          uptime = max 0 (sat64 (now - hc_startTime c) div second);
          (ok, w2) = kokuHealthy E c w1
      in (\<lparr>hl_Path = Some ''health'', hl_Status = Some (if ok then ''healthy'' else ''unhealthy''),
           hl_Type = Some ''koku-cost-provider.dcm.io/health'', hl_Uptime = Some uptime,
           hl_Version = Some (hc_version c)\<rparr>, w2))"

subsection \<open>Properties\<close>

text \<open>Within the time to live, the cached answer is returned and nothing is sent.\<close>

lemma kokuHealthy_cached:
  assumes "on_ext (env_now E) w = (now, w1)"
    and "min_int64 < hc_cacheTTL c" and "hc_cacheTTL c \<le> max_int64"
    and "now - cachedAt w < hc_cacheTTL c"
  shows "kokuHealthy E c w = (cachedKokuOK w, w1)"
proof -
  have "cachedAt w1 = cachedAt w" "cachedKokuOK w1 = cachedKokuOK w"
    using assms(1) by (auto simp: on_ext_def split: prod.splits)
  then show ?thesis
    using assms by (simp add: kokuHealthy_def sat64_less_iff)
qed

end
