(* ===== verification/Handler.thy ===== *)
theory Handler
  imports KokuInterface Store Monitoring Health
begin

text \<open>
  \<open>internal/handler/handler.go\<close>: the service provider contract. A handler is a value of type
  \<open>handler\<close>, holding the three interfaces it calls and the health checker; every operation
  takes the whole state and returns its response with the new state. Logging is left out: it
  has no effect on the state or on a response.
\<close>

record ('d, 'x) handler =
  hd_store :: "('d, 'x) world instance_store"
  hd_koku :: "('d, 'x) world koku_client"
  hd_publisher :: "('d, 'x) world status_publisher"
  hd_checker :: checker

text \<open>
  A response: the status code of the Go response type and the body. \<open>Problem\<close> stands for the
  types \<open>...ApplicationProblemPlusJSONResponse\<close>.
\<close>

datatype api_response =
    OkInstance int api_cost_instance
  | OkList cost_instance_list
  | OkReport json_map
  | OkHealth api_health
  | NoContent
  | Problem int api_error

subsection \<open>Helpers\<close>

definition safe_first :: "char \<Rightarrow> bool" where
  "safe_first c \<longleftrightarrow> in_range 48 57 c \<or> in_range 65 90 c \<or> in_range 97 122 c"

definition safe_rest :: "char \<Rightarrow> bool" where
  "safe_rest c \<longleftrightarrow> safe_first c \<or> c = CHR ''.'' \<or> c = CHR ''_'' \<or> c = CHR ''-''"

text \<open>\<open>safeIDPattern\<close>: \<open>^[a-zA-Z0-9][a-zA-Z0-9._-]*$\<close>.\<close>

definition safeIDPattern :: "string \<Rightarrow> bool" where
  "safeIDPattern s \<longleftrightarrow> (case s of [] \<Rightarrow> False | c # cs \<Rightarrow> safe_first c \<and> list_all safe_rest cs)"

definition validCurrencies :: "string list" where
  "validCurrencies =
     [''USD'', ''EUR'', ''GBP'', ''JPY'', ''CNY'', ''CAD'', ''AUD'', ''CHF'', ''INR'', ''BRL'',
      ''KRW'', ''SEK'', ''NOK'', ''DKK'', ''SGD'', ''HKD'', ''NZD'', ''MXN'', ''ZAR'', ''TRY'',
      ''PLN'', ''CZK'', ''HUF'', ''ILS'', ''THB'', ''IDR'', ''MYR'', ''PHP'', ''TWD'', ''ARS'',
      ''CLP'', ''COP'', ''PEN'', ''SAR'', ''AED'']"

definition errResp :: "error_type \<Rightarrow> int \<Rightarrow> string \<Rightarrow> string \<Rightarrow> api_error" where
  "errResp errType status title detail =
     \<lparr>err_Detail = Some detail, err_Instance = None, err_Status = Some status,
      err_Title = title, err_Type = errType\<rparr>"

definition bad_request :: "string \<Rightarrow> api_response" where
  "bad_request detail = Problem 400 (errResp INVALIDARGUMENT 400 ''Bad Request'' detail)"

definition internal_error :: "string \<Rightarrow> api_response" where
  "internal_error detail = Problem 500 (errResp INTERNAL 500 ''Internal Server Error'' detail)"

definition not_found :: api_response where
  "not_found = Problem 404 (errResp NOTFOUND 404 ''Not Found'' ''cost instance not found'')"

definition bad_gateway :: "string \<Rightarrow> api_response" where
  "bad_gateway detail = Problem 502 (errResp BADGATEWAY 502 ''Bad Gateway'' detail)"

definition conflict :: api_response where
  "conflict = Problem 409 (errResp ALREADYEXISTS 409 ''Conflict''
     ''a cost instance already exists for this target cluster'')"

definition convertRate :: "string \<Rightarrow> api_rate \<Rightarrow> koku_rate" where
  "convertRate currency r =
     \<lparr>kr_Metric = rate_Metric r,
      kr_CostType = (case rate_CostType r of None \<Rightarrow> ''Infrastructure'' | Some c \<Rightarrow> c),
      kr_TieredRates = [(rate_Value r, currency)]\<rparr>"

definition convertRates :: "api_rate list \<Rightarrow> string \<Rightarrow> koku_rate list" where
  "convertRates rates currency = map (convertRate currency) rates"

definition encodePageToken :: "int \<Rightarrow> string" where
  "encodePageToken offset = b64_encode (itoa offset)"

definition decodePageToken :: "string \<Rightarrow> int" where
  "decodePageToken token =
     (case b64_decode token of
        None \<Rightarrow> 0
      | Some data \<Rightarrow>
          (case atoi data of None \<Rightarrow> 0 | Some v \<Rightarrow> if v < 0 then 0 else v))"

definition marshal_spec :: "'x env \<Rightarrow> cost_spec \<Rightarrow> string option" where
  "marshal_spec E spec = json_marshal (env_float E) (enc_spec spec)"

definition unmarshal_spec :: "'x env \<Rightarrow> string \<Rightarrow> cost_spec option" where
  "unmarshal_spec E s =
     (case json_unmarshal (env_float E) s of None \<Rightarrow> None | Some j \<Rightarrow> dec_spec j zero_spec)"

definition toAPICostInstance :: "'x env \<Rightarrow> cost_instance \<Rightarrow> api_cost_instance" where
  "toAPICostInstance E inst =
     \<lparr>ci_ClusterId = Some (ClusterID inst), ci_CreateTime = Some (CreatedAt inst),
      ci_Id = Some (ID inst), ci_Path = Some (''instances/'' @ ID inst),
      ci_Spec =
        (if SpecJSON inst = [] then zero_spec
         else (case unmarshal_spec E (SpecJSON inst) of None \<Rightarrow> zero_spec | Some s \<Rightarrow> s)),
      ci_Status = Some (Status inst), ci_StatusMessage = Some (StatusMessage inst),
      ci_UpdateTime = Some (UpdatedAt inst)\<rparr>"

text \<open>\<open>_ = json.Unmarshal(data, &result)\<close> into a \<open>map[string]any\<close>: an error leaves it nil.\<close>

definition unmarshal_map :: "'x env \<Rightarrow> string \<Rightarrow> json_map" where
  "unmarshal_map E data =
     (case json_unmarshal (env_float E) data of
        None \<Rightarrow> None
      | Some j \<Rightarrow> (case dec_json_map j None of None \<Rightarrow> None | Some m \<Rightarrow> m))"

subsection \<open>Health\<close>

definition GetHealth ::
  "'x env \<Rightarrow> ('d, 'x) handler \<Rightarrow> ('d, 'x) world \<Rightarrow> api_response \<times> ('d, 'x) world" where
  "GetHealth E H w = (let (r, w1) = Check E (hd_checker H) w in (OkHealth r, w1))"

subsection \<open>Create\<close>

definition new_instance :: "string \<Rightarrow> cost_spec \<Rightarrow> string \<Rightarrow> cost_instance" where
  "new_instance iid spec specJSON =
     \<lparr>ID = iid, TargetResourceID = ResourceId (Target spec),
      ClusterID = ResourceId (Target spec), KokuSourceUUID = [], KokuCostModelUUID = [],
      Status = ''PROVISIONING'', StatusMessage = ''reserving target'',
      Name = metadata_Name (Metadata spec), SpecJSON = specJSON, CreatedAt = 0, UpdatedAt = 0\<rparr>"

text \<open>
  Reserving the target: insert the row, or take over the row of a failed or deleted instance
  of the same target. \<open>Inl\<close> is an early return.
\<close>

definition create_reserve ::
  "('d, 'x) handler \<Rightarrow> string \<Rightarrow> cost_instance \<Rightarrow> ('d, 'x) world \<Rightarrow>
   (api_response + cost_instance) \<times> ('d, 'x) world" where
  "create_reserve H target inst w =
     (let ((err, inst1), w1) = st_Create (hd_store H) inst w
      in case err of
           None \<Rightarrow> (Inr inst1, w1)
         | Some ErrAlreadyExists \<Rightarrow>
             (let (res, w2) = st_GetByTarget (hd_store H) target w1
              in case res of
                   Inl _ \<Rightarrow> (Inl (internal_error ''failed to look up existing instance''), w2)
                 | Inr existing \<Rightarrow>
                     if Status existing \<noteq> ''ERROR'' \<and> Status existing \<noteq> ''DELETED''
                     then (Inl conflict, w2)
                     else
                       (let inst2 = inst1\<lparr>ID := ID existing, KokuSourceUUID := [],
                              KokuCostModelUUID := []\<rparr>;
                            ((uerr, inst3), w3) = st_Update (hd_store H) inst2 w2
                        in case uerr of
                             Some _ \<Rightarrow>
                               (Inl (internal_error ''failed to reset instance for retry''), w3)
                           | None \<Rightarrow> (Inr inst3, w3)))
         | Some _ \<Rightarrow> (Inl (internal_error ''failed to persist instance''), w1))"

text \<open>The rates for which a cost model is created: present and not empty.\<close>

definition wanted_rates :: "cost_spec \<Rightarrow> (cost_model_spec \<times> api_rate list) option" where
  "wanted_rates spec =
     (case CostModel spec of
        None \<Rightarrow> None
      | Some cms \<Rightarrow>
          (case Rates cms of
             None \<Rightarrow> None
           | Some rs \<Rightarrow> if rs = [] then None else Some (cms, rs)))"

definition spec_currency :: "cost_spec \<Rightarrow> string" where
  "spec_currency spec =
     (case Currency spec of None \<Rightarrow> ''USD'' | Some c \<Rightarrow> if c = [] then ''USD'' else c)"

definition koku_markup_of :: "cost_model_spec \<Rightarrow> koku_markup option" where
  "koku_markup_of cms =
     map_option (\<lambda>m. \<lparr>km_Value = markup_Value m, km_Unit = markup_Unit m\<rparr>) (Markup cms)"

definition distribution_of :: "cost_model_spec \<Rightarrow> string" where
  "distribution_of cms = (case Distribution cms of None \<Rightarrow> ''cpu'' | Some d \<Rightarrow> d)"

definition msg_source_created :: string where
  "msg_source_created = ''Koku source created, waiting for metering data''"

definition msg_partial :: string where
  "msg_partial =
     ''Koku source created; cost model creation failed '' @ [CHR 0xE2, CHR 0x80, CHR 0x94] @
     '' metering available but cost rates not applied''"

text \<open>The cost model step. \<open>Inl\<close> is the early return for an unsupported currency.\<close>

definition create_cost_model ::
  "('d, 'x) handler \<Rightarrow> ctx \<Rightarrow> cost_spec \<Rightarrow> string \<Rightarrow> cost_instance \<Rightarrow> ('d, 'x) world \<Rightarrow>
   (api_response + cost_instance) \<times> ('d, 'x) world" where
  "create_cost_model H ctx spec sourceName inst w =
     (case wanted_rates spec of
        None \<Rightarrow> (Inr inst, w)
      | Some (cms, rs) \<Rightarrow>
          (let currency = spec_currency spec
           in if currency \<notin> set validCurrencies
              then (Inl (bad_request (''unsupported currency: '' @ currency @
                      ''; use ISO 4217 code (e.g. USD, EUR, GBP)'')), w)
              else
                (let (res, w1) =
                   kk_CreateCostModel (hd_koku H) ctx (sourceName @ ''-cost-model'')
                     (KokuSourceUUID inst) (convertRates rs currency) (koku_markup_of cms)
                     (distribution_of cms) w
                 in case res of
                      Inl _ \<Rightarrow> (Inr (inst\<lparr>StatusMessage := msg_partial\<rparr>), w1)
                    | Inr cm \<Rightarrow> (Inr (inst\<lparr>KokuCostModelUUID := cm_UUID cm\<rparr>), w1))))"

text \<open>Saving, announcing and answering. The errors of the store and the publisher are logged.\<close>

definition create_finish ::
  "'x env \<Rightarrow> ('d, 'x) handler \<Rightarrow> ctx \<Rightarrow> string \<Rightarrow> cost_instance \<Rightarrow> ('d, 'x) world \<Rightarrow>
   api_response \<times> ('d, 'x) world" where
  "create_finish E H ctx iid inst w =
     (let ((err, inst1), w1) = st_Update (hd_store H) inst w;
          (perr, w2) =
            pub_Publish (hd_publisher H) ctx iid ''PROVISIONING'' (StatusMessage inst1) w1
      in (OkInstance 201 (toAPICostInstance E inst1), add_managed 1 w2))"

definition create_provision ::
  "'x env \<Rightarrow> ('d, 'x) handler \<Rightarrow> ctx \<Rightarrow> cost_spec \<Rightarrow> string \<Rightarrow> cost_instance \<Rightarrow> ('d, 'x) world \<Rightarrow>
   api_response \<times> ('d, 'x) world" where
  "create_provision E H ctx spec sourceName inst w =
     (let (res, w1) = kk_CreateSource (hd_koku H) ctx (ResourceId (Target spec)) sourceName w
      in case res of
           Inl err \<Rightarrow>
             (let (derr, w2) = st_UpdateStatus (hd_store H) (ID inst) ''ERROR''
                    (''failed to create Koku source: '' @ koku_error_text err) w1
              in (internal_error ''failed to create Koku source'', w2))
         | Inr src \<Rightarrow>
             (let (step, w2) = create_cost_model H ctx spec sourceName
                    (inst\<lparr>KokuSourceUUID := src_UUID src, StatusMessage := msg_source_created\<rparr>) w1
              in case step of
                   Inl resp \<Rightarrow> (resp, w2)
                 | Inr inst2 \<Rightarrow> create_finish E H ctx (ID inst) inst2 w2))"

text \<open>The checks before anything is stored. \<open>Inl\<close> is an early return.\<close>

definition create_checks ::
  "'x env \<Rightarrow> api_cost_instance option \<Rightarrow> api_response + (cost_spec \<times> string)" where
  "create_checks E body =
     (case body of
        None \<Rightarrow> Inl (bad_request ''request body is required'')
      | Some b \<Rightarrow>
          (let spec = ci_Spec b
           in if ResourceId (Target spec) = [] then Inl (bad_request ''target.resource_id is required'')
              else if \<not> safeIDPattern (ResourceId (Target spec))
              then Inl (bad_request ''target.resource_id contains invalid characters'')
              else (case marshal_spec E spec of
                      None \<Rightarrow> Inl (internal_error ''failed to serialize spec'')
                    | Some js \<Rightarrow> Inr (spec, js))))"

definition CreateInstance ::
  "'x env \<Rightarrow> ('d, 'x) handler \<Rightarrow> ctx \<Rightarrow> string option \<Rightarrow> api_cost_instance option \<Rightarrow>
   ('d, 'x) world \<Rightarrow> api_response \<times> ('d, 'x) world" where
  "CreateInstance E H ctx param_id body w =
     (let (uuid, w0) = on_ext (env_uuid E) w;
          iid = (case param_id of None \<Rightarrow> uuid | Some p \<Rightarrow> if p = [] then uuid else p)
      in case create_checks E body of
           Inl resp \<Rightarrow> (resp, w0)
         | Inr (spec, specJSON) \<Rightarrow>
             (let name = metadata_Name (Metadata spec);
                  sourceName = (if name = [] then ''dcm-'' @ iid else name);
                  (res, w1) = create_reserve H (ResourceId (Target spec))
                                (new_instance iid spec specJSON) w0
              in case res of
                   Inl resp \<Rightarrow> (resp, w1)
                 | Inr inst \<Rightarrow> create_provision E H ctx spec sourceName inst w1))"

subsection \<open>Get\<close>

text \<open>The first lines of every operation on one instance.\<close>

definition lookup_error :: "store_error \<Rightarrow> api_response" where
  "lookup_error e =
     (case e of ErrNotFound \<Rightarrow> not_found | _ \<Rightarrow> internal_error ''failed to retrieve instance'')"

definition GetInstance ::
  "'x env \<Rightarrow> ('d, 'x) handler \<Rightarrow> string \<Rightarrow> ('d, 'x) world \<Rightarrow> api_response \<times> ('d, 'x) world" where
  "GetInstance E H iid w =
     (let (res, w1) = st_Get (hd_store H) iid w
      in case res of
           Inl e \<Rightarrow> (lookup_error e, w1)
         | Inr inst \<Rightarrow> (OkInstance 200 (toAPICostInstance E inst), w1))"

subsection \<open>List\<close>

definition ListInstances ::
  "'x env \<Rightarrow> ('d, 'x) handler \<Rightarrow> list_params \<Rightarrow> ('d, 'x) world \<Rightarrow>
   api_response \<times> ('d, 'x) world" where
  "ListInstances E H params w =
     (let pageSize = (case MaxPageSize params of None \<Rightarrow> 50 | Some n \<Rightarrow> n);
          offset = (case PageToken params of
              None \<Rightarrow> 0 | Some t \<Rightarrow> if t = [] then 0 else decodePageToken t);
          (res, w1) = st_List (hd_store H) pageSize offset w
      in case res of
           Inl _ \<Rightarrow> (internal_error ''failed to list instances'', w1)
         | Inr (instances, total_rows) \<Rightarrow>
             (OkList
                \<lparr>cl_Instances = Some (map (toAPICostInstance E) instances),
                 cl_NextPageToken =
                   (if wrap64 (offset + pageSize) < total_rows
                    then Some (encodePageToken (wrap64 (offset + pageSize))) else None)\<rparr>, w1))"

subsection \<open>Delete\<close>

definition delete_upstream ::
  "('d, 'x) handler \<Rightarrow> ctx \<Rightarrow> cost_instance \<Rightarrow> ('d, 'x) world \<Rightarrow> ('d, 'x) world" where
  "delete_upstream H ctx inst w =
     (let w1 = (if KokuCostModelUUID inst = [] then w
                else snd (kk_DeleteCostModel (hd_koku H) ctx (KokuCostModelUUID inst) w))
      in if KokuSourceUUID inst = [] then w1
         else snd (kk_PauseSource (hd_koku H) ctx (KokuSourceUUID inst) w1))"

definition DeleteInstance ::
  "'x env \<Rightarrow> ('d, 'x) handler \<Rightarrow> ctx \<Rightarrow> string \<Rightarrow> ('d, 'x) world \<Rightarrow>
   api_response \<times> ('d, 'x) world" where
  "DeleteInstance E H ctx iid w =
     (let (res, w1) = st_Get (hd_store H) iid w
      in case res of
           Inl e \<Rightarrow> (lookup_error e, w1)
         | Inr inst \<Rightarrow>
             if Status inst = ''DELETED'' then (NoContent, w1)
             else
               (let w2 = delete_upstream H ctx inst w1;
                    (serr, w3) = st_UpdateStatus (hd_store H) (ID inst) ''DELETED''
                                   ''instance deleted'' w2;
                    (perr, w4) = pub_Publish (hd_publisher H) ctx (ID inst) ''DELETED''
                                   ''instance deleted'' w3
                in (NoContent, add_managed (- 1) w4)))"

subsection \<open>Report proxies\<close>

definition date_params :: "report_params \<Rightarrow> url_values" where
  "date_params p =
     (let vs = (case StartDate p of
            None \<Rightarrow> [] | Some d \<Rightarrow> values_set ''start_date'' (format_date d) [])
      in case EndDate p of None \<Rightarrow> vs | Some d \<Rightarrow> values_set ''end_date'' (format_date d) vs)"

definition proxyReport ::
  "'x env \<Rightarrow> ('d, 'x) handler \<Rightarrow> ctx \<Rightarrow> string \<Rightarrow> string \<Rightarrow> url_values \<Rightarrow> ('d, 'x) world \<Rightarrow>
   (koku_error + json_map) \<times> ('d, 'x) world" where
  "proxyReport E H ctx clusterID reportType params w =
     (let (res, w1) = kk_GetReports (hd_koku H) ctx clusterID reportType (Some params) w
      in (case res of Inl e \<Rightarrow> Inl e | Inr data \<Rightarrow> Inr (unmarshal_map E data), w1))"

definition GetUsage ::
  "'x env \<Rightarrow> ('d, 'x) handler \<Rightarrow> ctx \<Rightarrow> string \<Rightarrow> string \<Rightarrow> report_params \<Rightarrow>
   ('d, 'x) world \<Rightarrow> api_response \<times> ('d, 'x) world" where
  "GetUsage E H ctx iid metric params w =
     (let (res, w1) = st_Get (hd_store H) iid w
      in case res of
           Inl e \<Rightarrow> (lookup_error e, w1)
         | Inr inst \<Rightarrow>
             (let (rep, w2) = proxyReport E H ctx (ClusterID inst) metric (date_params params) w1
              in case rep of
                   Inl _ \<Rightarrow> (bad_gateway ''failed to retrieve usage data from Koku'', w2)
                 | Inr m \<Rightarrow> (OkReport m, w2)))"

definition GetCostReport ::
  "'x env \<Rightarrow> ('d, 'x) handler \<Rightarrow> ctx \<Rightarrow> string \<Rightarrow> report_params \<Rightarrow>
   ('d, 'x) world \<Rightarrow> api_response \<times> ('d, 'x) world" where
  "GetCostReport E H ctx iid params w =
     (let (res, w1) = st_Get (hd_store H) iid w
      in case res of
           Inl e \<Rightarrow> (lookup_error e, w1)
         | Inr inst \<Rightarrow>
             (let (rep, w2) = proxyReport E H ctx (ClusterID inst) ''costs'' (date_params params) w1
              in case rep of
                   Inl _ \<Rightarrow> (bad_gateway ''failed to retrieve cost report from Koku'', w2)
                 | Inr m \<Rightarrow> (OkReport m, w2)))"

definition GetCostForecast ::
  "'x env \<Rightarrow> ('d, 'x) handler \<Rightarrow> ctx \<Rightarrow> string \<Rightarrow> ('d, 'x) world \<Rightarrow>
   api_response \<times> ('d, 'x) world" where
  "GetCostForecast E H ctx iid w =
     (let (res, w1) = st_Get (hd_store H) iid w
      in case res of
           Inl e \<Rightarrow> (lookup_error e, w1)
         | Inr inst \<Rightarrow>
             (let (rep, w2) = kk_GetForecasts (hd_koku H) ctx (ClusterID inst) None w1
              in case rep of
                   Inl _ \<Rightarrow> (bad_gateway ''failed to retrieve forecast from Koku'', w2)
                 | Inr data \<Rightarrow> (OkReport (unmarshal_map E data), w2)))"

end
