(* ===== verification/HandlerLaws.thy ===== *)
theory HandlerLaws
  imports Handler
begin

text \<open>
  What the handlers do, proved once for every store, Koku client and publisher that fulfil
  their contracts: the locale \<open>handlers\<close> joins the three contracts for the parts of one handler.
  Each operation gets one lemma that says what it does to the table of instances and to the
  outside world on every branch; the properties of the service are read off these lemmas.
\<close>

subsection \<open>Vocabulary\<close>

definition active :: "cost_instance \<Rightarrow> bool" where
  "active r \<longleftrightarrow> Status r \<noteq> ''ERROR'' \<and> Status r \<noteq> ''DELETED''"

text \<open>No two rows share a target.\<close>

definition unique_targets :: "(string \<rightharpoonup> cost_instance) \<Rightarrow> bool" where
  "unique_targets R \<longleftrightarrow>
     (\<forall>a \<in> ran R. \<forall>b \<in> ran R. TargetResourceID a = TargetResourceID b \<longrightarrow> a = b)"

text \<open>
  The key of the table that a create for this target may write: a new one, or that of a failed
  or deleted instance of the target.
\<close>

definition reservable :: "(string \<rightharpoonup> cost_instance) \<Rightarrow> string \<Rightarrow> string \<Rightarrow> bool" where
  "reservable R k target \<longleftrightarrow>
     (case R k of None \<Rightarrow> True | Some r \<Rightarrow> TargetResourceID r = target \<and> \<not> active r) \<and>
     target_free R k target"

text \<open>The row of a new instance as it is stored first.\<close>

definition reserved_row :: "cost_spec \<Rightarrow> string \<Rightarrow> cost_instance \<Rightarrow> bool" where
  "reserved_row spec js r \<longleftrightarrow> same_data (new_instance (ID r) spec js) r"

lemma reserved_row_fields:
  assumes "reserved_row spec js r"
  shows "TargetResourceID r = ResourceId (Target spec)" "ClusterID r = ResourceId (Target spec)"
    "KokuSourceUUID r = []" "KokuCostModelUUID r = []" "Status r = ''PROVISIONING''"
    "StatusMessage r = ''reserving target''" "SpecJSON r = js"
    "Name r = metadata_Name (Metadata spec)"
  using same_data_fields [OF assms [unfolded reserved_row_def]]
  by (simp_all add: new_instance_def)

lemma same_data_sym: "same_data a b \<Longrightarrow> same_data b a"
  by (simp add: same_data_def)

lemma same_data_trans: "same_data a b \<Longrightarrow> same_data b c \<Longrightarrow> same_data a c"
  by (simp add: same_data_def)

lemma new_instance_fields [simp]:
  "ID (new_instance k spec js) = k"
  "TargetResourceID (new_instance k spec js) = ResourceId (Target spec)"
  by (simp_all add: new_instance_def)

lemma same_effectsD:
  "same_effects w w' \<Longrightarrow> outgoing w' = outgoing w"
  "same_effects w w' \<Longrightarrow> published w' = published w"
  "same_effects w w' \<Longrightarrow> InstancesManaged w' = InstancesManaged w"
  by (simp_all add: same_effects_def)

lemma same_effects_trans: "same_effects a b \<Longrightarrow> same_effects b c \<Longrightarrow> same_effects a c"
  by (simp add: same_effects_def)

text \<open>Requests only: the database, the events and the gauge are left alone.\<close>

definition koku_only :: "nat \<Rightarrow> ('d, 'x) world \<Rightarrow> ('d, 'x) world \<Rightarrow> bool" where
  "koku_only n w w' \<longleftrightarrow> (\<exists>reqs. koku_effect reqs w w' \<and> length reqs \<le> n)"

lemma koku_only_refl [simp]: "koku_only n w w"
  unfolding koku_only_def by (rule exI [of _ "[]"]) simp

lemma koku_only_trans: "koku_only m a b \<Longrightarrow> koku_only n b c \<Longrightarrow> koku_only (m + n) a c"
  unfolding koku_only_def by (metis add_mono koku_effect_trans length_append)

lemma koku_only_mono: "koku_only m a b \<Longrightarrow> m \<le> n \<Longrightarrow> koku_only n a b"
  unfolding koku_only_def by force

lemma koku_bounded_only: "koku_bounded w w' \<Longrightarrow> koku_only maxRetries w w'"
  unfolding koku_bounded_def koku_only_def by blast

lemma koku_onlyD:
  assumes "koku_only n w w'"
  shows "db w' = db w" "published w' = published w" "InstancesManaged w' = InstancesManaged w"
    "\<exists>reqs. outgoing w' = outgoing w @ reqs \<and> length reqs \<le> n"
  using assms koku_effect_frame unfolding koku_only_def by blast+

text \<open>At most one event, and it announces the given status of the given instance.\<close>

definition one_event ::
  "string \<Rightarrow> string \<Rightarrow> string \<Rightarrow> ('d, 'x) world \<Rightarrow> ('d, 'x) world \<Rightarrow> bool" where
  "one_event iid status message w w' \<longleftrightarrow>
     published w' = published w \<or>
     (\<exists>ce. announces ce iid status message \<and> published w' = published w @ [ce])"

text \<open>Rates are wanted in a currency that is not supported.\<close>

definition unsupported_currency :: "cost_spec \<Rightarrow> bool" where
  "unsupported_currency spec \<longleftrightarrow>
     wanted_rates spec \<noteq> None \<and> spec_currency spec \<notin> set validCurrencies"

text \<open>A row completed with what Koku answered: the source, and the cost model or its failure.\<close>

definition provisioned :: "cost_instance \<Rightarrow> string \<Rightarrow> cost_instance \<Rightarrow> bool" where
  "provisioned inst u i \<longleftrightarrow>
     same_data (inst\<lparr>KokuSourceUUID := u, KokuCostModelUUID := KokuCostModelUUID i,
       StatusMessage := StatusMessage i\<rparr>) i \<and>
     (StatusMessage i = msg_source_created \<or>
      StatusMessage i = msg_partial \<and> KokuCostModelUUID i = KokuCostModelUUID inst)"

lemma provisioned_fields:
  assumes "provisioned inst u i"
  shows "ID i = ID inst" "TargetResourceID i = TargetResourceID inst"
    "KokuSourceUUID i = u" "Status i = Status inst" "Name i = Name inst" "SpecJSON i = SpecJSON inst"
    "ClusterID i = ClusterID inst"
  using same_data_fields [of "inst\<lparr>KokuSourceUUID := u, KokuCostModelUUID := KokuCostModelUUID i,
       StatusMessage := StatusMessage i\<rparr>" i] assms
  by (simp_all add: provisioned_def)

lemma provisioned_same_data: "provisioned inst u i \<Longrightarrow> same_data i i' \<Longrightarrow> provisioned inst u i'"
  using same_data_fields [of i i'] by (auto simp: provisioned_def intro: same_data_trans)

lemma provisioned_intros [intro]:
  "StatusMessage inst = msg_source_created \<Longrightarrow> provisioned inst (KokuSourceUUID inst) inst"
  "provisioned inst (KokuSourceUUID inst) (inst\<lparr>StatusMessage := msg_partial\<rparr>)"
  "StatusMessage inst = msg_source_created \<Longrightarrow>
   provisioned inst (KokuSourceUUID inst) (inst\<lparr>KokuCostModelUUID := m\<rparr>)"
  unfolding provisioned_def by (auto intro: same_dataI)

text \<open>The answers of a create that could not reserve its target.\<close>

definition reserve_refused :: "string \<Rightarrow> (string \<rightharpoonup> cost_instance) \<Rightarrow> api_response \<Rightarrow> bool" where
  "reserve_refused target R resp \<longleftrightarrow>
     (resp = conflict \<and> (\<exists>r \<in> ran R. TargetResourceID r = target \<and> active r)) \<or>
     (\<exists>d. resp = internal_error d)"

lemma reserve_refused_internal [simp]: "reserve_refused target R (internal_error d)"
  unfolding reserve_refused_def by blast

text \<open>What an operation that only reads leaves alone.\<close>

definition read_only ::
  "(('d, 'x) world \<Rightarrow> 'r) \<Rightarrow> nat \<Rightarrow> ('d, 'x) world \<Rightarrow> ('d, 'x) world \<Rightarrow> bool" where
  "read_only T n w w' \<longleftrightarrow> T w' = T w \<and> published w' = published w \<and>
     InstancesManaged w' = InstancesManaged w \<and>
     (\<exists>reqs. outgoing w' = outgoing w @ reqs \<and> length reqs \<le> n)"

subsection \<open>The contract of the handlers' parts\<close>

locale handlers =
  instance_store_laws "hd_store H" T + koku_api "hd_koku H" + status_publisher "hd_publisher H"
  for H :: "('d, 'x) handler" and T :: "('d, 'x) world \<Rightarrow> string \<rightharpoonup> cost_instance"
begin

lemma koku_table: "koku_only n w w' \<Longrightarrow> T w' = T w"
  by (rule table_frame) (rule koku_onlyD)

lemma Publish_spec:
  assumes "pub_Publish (hd_publisher H) c i s m w = (e, w')"
  shows "T w' = T w \<and> outgoing w' = outgoing w \<and> InstancesManaged w' = InstancesManaged w \<and>
    one_event i s m w w'"
  using Publish_db [of c i s m w] Publish_outgoing [of c i s m w] Publish_gauge [of c i s m w]
    Publish_events [of c i s m w] assms table_frame [of w' w]
  by (simp add: one_event_def)

lemma Update_spec:
  assumes "st_Update (hd_store H) i w = ((e, i'), w')"
  shows "same_data i i' \<and> same_effects w w' \<and>
    (case e of
       None \<Rightarrow> target_free (T w) (ID i) (TargetResourceID i) \<and> T w' = (T w)(ID i \<mapsto> i')
     | Some _ \<Rightarrow> T w' = T w)"
  using assms Update_effects [of w i] by (auto dest: Update_ok Update_failed split: option.splits)

lemma UpdateStatus_spec:
  assumes "st_UpdateStatus (hd_store H) k s m w = (e, w')"
  shows "same_effects w w' \<and>
    (case e of
       None \<Rightarrow> \<exists>r t. T w k = Some r \<and> T w' = (T w)(k \<mapsto> set_status s m t r)
     | Some _ \<Rightarrow> T w' = T w)"
proof (cases e)
  case None
  then show ?thesis
    using assms UpdateStatus_effects [of w k s m] UpdateStatus_ok [of k s m w w'] by auto
next
  case (Some x)
  then show ?thesis
    using assms UpdateStatus_effects [of w k s m] UpdateStatus_failed [of k s m w x w'] by simp
qed

lemma Get_spec:
  assumes "st_Get (hd_store H) k w = (res, w')"
  shows "same_effects w w' \<and> T w' = T w \<and>
    (case res of Inr r \<Rightarrow> T w k = Some r \<and> ID r = k | Inl e \<Rightarrow> e = ErrNotFound \<longrightarrow> T w k = None)"
proof (cases res)
  case (Inl e)
  then show ?thesis
    using assms Get_effects [of w k] Get_same [OF assms] Get_miss [of k w w'] by simp
next
  case (Inr r)
  then show ?thesis
    using assms Get_effects [of w k] Get_same [OF assms] Get_hit [of k w r w']
      table_key [of w k r]
    by simp
qed

subsection \<open>Create\<close>

lemma create_reserve_new:
  assumes "st_Create (hd_store H) (new_instance iid spec js) w = ((None, i), w1)"
  shows "same_effects w w1 \<and> reserved_row spec js i \<and> ID i = iid \<and> T w iid = None \<and>
    reservable (T w) iid (ResourceId (Target spec)) \<and> T w1 = (T w)(iid \<mapsto> i)"
proof -
  note ok = Create_ok [OF assms]
  have "ID i = iid" using ok same_data_fields(1) by fastforce
  then show ?thesis
    using ok Create_effects [of w "new_instance iid spec js"] assms
    by (simp add: reserved_row_def reservable_def)
qed

lemma Create_refused:
  assumes "st_Create (hd_store H) i w = ((Some e, i'), w1)"
  shows "same_effects w w1 \<and> same_data i i' \<and> T w1 = T w"
  using assms Create_failed [OF assms] Create_effects [of w i] by simp

lemma GetByTarget_spec:
  assumes "st_GetByTarget (hd_store H) k w = (res, w')"
  shows "same_effects w w' \<and> T w' = T w \<and>
    (case res of Inr r \<Rightarrow> T w (ID r) = Some r \<and> TargetResourceID r = k | Inl e \<Rightarrow> True)"
proof (cases res)
  case (Inr r)
  then obtain k' where "T w k' = Some r" and "TargetResourceID r = k"
    using GetByTarget_hit [of k w r w'] assms by (auto simp: ran_def)
  then show ?thesis
    using Inr assms GetByTarget_effects [of w k] GetByTarget_same [OF assms] table_key [of w k' r]
    by simp
qed (use assms GetByTarget_effects [of w k] GetByTarget_same [OF assms] in simp)

lemma takeover_row:
  assumes "same_data (new_instance iid spec js) i"
    and "st_Update (hd_store H) (i\<lparr>ID := k, KokuSourceUUID := [], KokuCostModelUUID := []\<rparr>) w =
      ((None, i'), w')"
    and "T w k = Some r" and "TargetResourceID r = ResourceId (Target spec)" and "\<not> active r"
  shows "same_effects w w' \<and> reserved_row spec js i' \<and> ID i' = k \<and>
    reservable (T w) k (ResourceId (Target spec)) \<and> T w' = (T w)(k \<mapsto> i')"
proof -
  note d = same_data_fields [OF assms(1)]
  note u = Update_spec [OF assms(2)]
  have "same_data (new_instance k spec js)
      (i\<lparr>ID := k, KokuSourceUUID := [], KokuCostModelUUID := []\<rparr>)"
    by (rule same_dataI) (use d in \<open>simp_all add: new_instance_def\<close>)
  then have row: "same_data (new_instance k spec js) i'" using same_data_trans u by blast
  then have "ID i' = k" using same_data_fields(1) by fastforce
  then show ?thesis
    using u row assms(3-) d(2) by (simp add: reserved_row_def reservable_def)
qed

lemma create_reserve_retry:
  assumes "st_Update (hd_store H) (i\<lparr>ID := ID old, KokuSourceUUID := [], KokuCostModelUUID := []\<rparr>) w =
      ((ue, i'), w')"
    and "same_data (new_instance iid spec js) i" and "T w (ID old) = Some old"
    and "TargetResourceID old = ResourceId (Target spec)" and "\<not> active old"
  shows "same_effects w w' \<and>
    (case ue of
       None \<Rightarrow> reserved_row spec js i' \<and> reservable (T w) (ID i') (ResourceId (Target spec)) \<and>
         T w' = (T w)(ID i' \<mapsto> i')
     | Some _ \<Rightarrow> T w' = T w)"
proof (cases ue)
  case None
  from takeover_row [OF assms(2) assms(1) [unfolded None] assms(3-5)] None show ?thesis by auto
next
  case (Some e)
  then show ?thesis using Update_spec [OF assms(1)] by simp
qed

lemma create_reserve_taken:
  assumes "st_Create (hd_store H) (new_instance iid spec js) w = ((Some ErrAlreadyExists, i), wa)"
    and "create_reserve H (ResourceId (Target spec)) (new_instance iid spec js) w = (res, w1)"
  shows "same_effects w w1 \<and>
    (case res of
       Inl resp \<Rightarrow> T w1 = T w \<and> reserve_refused (ResourceId (Target spec)) (T w) resp
     | Inr i \<Rightarrow> reserved_row spec js i \<and> reservable (T w) (ID i) (ResourceId (Target spec)) \<and>
         T w1 = (T w)(ID i \<mapsto> i))"
proof -
  note refused = Create_refused [OF assms(1)]
  obtain g wb where g: "st_GetByTarget (hd_store H) (ResourceId (Target spec)) wa = (g, wb)"
    by fastforce
  note gs = GetByTarget_spec [OF g]
  have eff: "same_effects w wb" "T wb = T w" using refused gs same_effects_trans by metis+
  show ?thesis
  proof (cases g)
    case (Inl x)
    then show ?thesis using assms g eff by (auto simp: create_reserve_def)
  next
    case (Inr old)
    then have old: "T w (ID old) = Some old" "TargetResourceID old = ResourceId (Target spec)"
      using gs refused by simp_all
    show ?thesis
    proof (cases "active old")
      case True
      then have "reserve_refused (ResourceId (Target spec)) (T w) conflict"
        using old unfolding reserve_refused_def by (blast intro: ranI)
      moreover have "(res, w1) = (Inl conflict, wb)"
        using assms g Inr True by (simp add: create_reserve_def active_def)
      ultimately show ?thesis using eff by simp
    next
      case False
      obtain ue i' wc where u: "st_Update (hd_store H)
          (i\<lparr>ID := ID old, KokuSourceUUID := [], KokuCostModelUUID := []\<rparr>) wb = ((ue, i'), wc)"
        by (metis prod.collapse)
      from create_reserve_retry [OF u _ _ old(2) False, of iid js] refused old eff assms g Inr False u
      show ?thesis
        by (auto simp: create_reserve_def active_def intro: same_effects_trans split: option.splits)
    qed
  qed
qed

lemma create_reserve_spec:
  assumes "create_reserve H (ResourceId (Target spec)) (new_instance iid spec js) w = (res, w1)"
  shows "same_effects w w1 \<and>
    (case res of
       Inl resp \<Rightarrow> T w1 = T w \<and> reserve_refused (ResourceId (Target spec)) (T w) resp
     | Inr i \<Rightarrow> reserved_row spec js i \<and> reservable (T w) (ID i) (ResourceId (Target spec)) \<and>
         T w1 = (T w)(ID i \<mapsto> i))"
proof -
  obtain err i1 wa where c: "st_Create (hd_store H) (new_instance iid spec js) w = ((err, i1), wa)"
    by (metis prod.collapse)
  consider "err = None" | "err = Some ErrAlreadyExists" | e where "err = Some e" "e \<noteq> ErrAlreadyExists"
    by (cases err) auto
  then show ?thesis
  proof cases
    case 1
    then show ?thesis using assms c create_reserve_new [of iid spec js w i1 wa]
      by (auto simp: create_reserve_def)
  next
    case 2
    then show ?thesis using create_reserve_taken [OF _ assms] c by simp
  next
    case (3 e)
    then show ?thesis using assms c Create_refused [OF c [unfolded 3(1)]]
      by (cases e) (auto simp: create_reserve_def)
  qed
qed

lemma create_cost_model_spec:
  assumes "create_cost_model H c spec name inst w = (step, w')" and "StatusMessage inst = msg_source_created"
  shows "koku_only maxRetries w w' \<and>
    (case step of
       Inl resp \<Rightarrow> (\<exists>d. resp = bad_request d) \<and> unsupported_currency spec
     | Inr i \<Rightarrow> provisioned inst (KokuSourceUUID inst) i \<and> \<not> unsupported_currency spec)"
proof -
  have eff: "koku_only maxRetries w (snd (kk_CreateCostModel (hd_koku H) c n u rs mk ds w))"
    for n u rs mk ds
    using CreateCostModel_frame by (rule koku_bounded_only)
  show ?thesis
  proof (cases "wanted_rates spec")
    case None
    then show ?thesis using assms
      by (auto simp: create_cost_model_def unsupported_currency_def)
  next
    case (Some p)
    obtain cms rs where p: "p = (cms, rs)" by fastforce
    obtain res w1 where k: "kk_CreateCostModel (hd_koku H) c (name @ ''-cost-model'')
        (KokuSourceUUID inst) (convertRates rs (spec_currency spec)) (koku_markup_of cms)
        (distribution_of cms) w = (res, w1)"
      by fastforce
    show ?thesis
      using assms Some p k eff [of "name @ ''-cost-model''" "KokuSourceUUID inst"
          "convertRates rs (spec_currency spec)" "koku_markup_of cms" "distribution_of cms"]
      by (auto simp: create_cost_model_def unsupported_currency_def Let_def
          split: if_splits sum.splits)
  qed
qed

lemma create_finish_spec:
  assumes "create_finish E H c k i w = (resp, w')" and "ID i = k"
  shows "\<exists>i'. same_data i i' \<and> resp = OkInstance 201 (toAPICostInstance E i') \<and>
    (T w' = (T w)(k \<mapsto> i') \<or> T w' = T w) \<and> outgoing w' = outgoing w \<and>
    one_event k ''PROVISIONING'' (StatusMessage i') w w' \<and>
    InstancesManaged w' = InstancesManaged w + 1"
proof -
  obtain err i' w1 where u: "st_Update (hd_store H) i w = ((err, i'), w1)" by (metis prod.collapse)
  obtain perr w2 where p: "pub_Publish (hd_publisher H) c k ''PROVISIONING'' (StatusMessage i') w1 =
      (perr, w2)" by fastforce
  have "resp = OkInstance 201 (toAPICostInstance E i')" and w': "w' = add_managed 1 w2"
    using assms(1) u p by (simp_all add: create_finish_def)
  moreover have "T w' = T w2" by (rule table_frame) (simp add: w')
  moreover have "same_data i i'" "same_effects w w1" "T w1 = (T w)(k \<mapsto> i') \<or> T w1 = T w"
    using Update_spec [OF u] assms(2) by (auto split: option.splits)
  ultimately show ?thesis
    using Publish_spec [OF p] w' by (intro exI [of _ i']) (simp add: same_effectsD one_event_def)
qed

lemma create_provision_no_source:
  assumes "create_provision E H c spec name inst w = (resp, w')"
    and "kk_CreateSource (hd_koku H) c (ResourceId (Target spec)) name w = (Inl e, w1)"
    and "T w (ID inst) = Some inst"
  shows "resp = internal_error ''failed to create Koku source'' \<and>
    (T w' = T w \<or>
     (\<exists>t. T w' = (T w)(ID inst \<mapsto>
        set_status ''ERROR'' (''failed to create Koku source: '' @ koku_error_text e) t inst))) \<and>
    published w' = published w \<and> InstancesManaged w' = InstancesManaged w \<and>
    (\<exists>reqs. outgoing w' = outgoing w @ reqs \<and> length reqs \<le> maxRetries)"
proof -
  have "koku_only maxRetries w w1"
    using koku_bounded_only [OF CreateSource_frame [of w c "ResourceId (Target spec)" name]] assms(2)
    by simp
  note k = koku_table [OF this] koku_onlyD [OF this]
  obtain derr w2 where u: "st_UpdateStatus (hd_store H) (ID inst) ''ERROR''
      (''failed to create Koku source: '' @ koku_error_text e) w1 = (derr, w2)" by fastforce
  have "resp = internal_error ''failed to create Koku source''" and "w' = w2"
    using assms(1,2) u by (simp_all add: create_provision_def)
  then show ?thesis
    using UpdateStatus_spec [OF u] k assms(3)
    by (auto simp: same_effectsD split: option.splits)
qed

lemma create_provision_source:
  assumes "create_provision E H c spec name inst w = (resp, w')"
    and "kk_CreateSource (hd_koku H) c (ResourceId (Target spec)) name w = (Inr src, w1)"
  shows "(\<exists>reqs. outgoing w' = outgoing w1 @ reqs \<and> length reqs \<le> maxRetries) \<and>
    (if unsupported_currency spec
     then (\<exists>d. resp = bad_request d) \<and> T w' = T w \<and> published w' = published w \<and>
       InstancesManaged w' = InstancesManaged w
     else \<exists>i. provisioned inst (src_UUID src) i \<and> resp = OkInstance 201 (toAPICostInstance E i) \<and>
       (T w' = (T w)(ID inst \<mapsto> i) \<or> T w' = T w) \<and>
       one_event (ID inst) ''PROVISIONING'' (StatusMessage i) w w' \<and>
       InstancesManaged w' = InstancesManaged w + 1)"
proof -
  let ?inst = "inst\<lparr>KokuSourceUUID := src_UUID src, StatusMessage := msg_source_created\<rparr>"
  have k1: "koku_only maxRetries w w1"
    using koku_bounded_only [OF CreateSource_frame [of w c "ResourceId (Target spec)" name]] assms(2)
    by simp
  obtain step w2 where m: "create_cost_model H c spec name ?inst w1 = (step, w2)" by fastforce
  note ms = create_cost_model_spec [OF m]
  have k2: "koku_only maxRetries w1 w2" using ms by simp
  note k = koku_table [OF k1] koku_onlyD [OF k1] koku_table [OF k2] koku_onlyD [OF k2]
  show ?thesis
  proof (cases step)
    case (Inl r)
    then show ?thesis using assms m ms k by (auto simp: create_provision_def)
  next
    case (Inr i)
    then have p: "provisioned ?inst (src_UUID src) i" and "\<not> unsupported_currency spec"
      using ms by simp_all
    moreover have "create_finish E H c (ID inst) i w2 = (resp, w')"
      using assms m Inr provisioned_fields(1) [OF p] by (simp add: create_provision_def)
    from create_finish_spec [OF this] provisioned_fields(1) [OF p] obtain i'
      where f: "same_data i i'" "resp = OkInstance 201 (toAPICostInstance E i')"
        "T w' = (T w2)(ID inst \<mapsto> i') \<or> T w' = T w2" "outgoing w' = outgoing w2"
        "one_event (ID inst) ''PROVISIONING'' (StatusMessage i') w2 w'"
        "InstancesManaged w' = InstancesManaged w2 + 1" by auto
    moreover have "provisioned inst (src_UUID src) i'"
      using provisioned_same_data [OF p f(1)] by (simp add: provisioned_def)
    ultimately show ?thesis using k by (auto simp: one_event_def)
  qed
qed

lemma uuid_drawn:
  assumes "on_ext f w = (a, w0)"
  shows "same_effects w w0 \<and> T w0 = T w"
proof
  show "same_effects w w0" using assms on_ext_other [of f w] by (simp add: same_effects_def)
  show "T w0 = T w" by (rule table_frame) (use assms on_ext_db [of f w] in simp)
qed

lemma CreateInstance_checked:
  assumes "CreateInstance E H c pid body w = (resp, w')" and "create_checks E body = Inl r"
  shows "resp = r \<and> same_effects w w' \<and> T w' = T w"
proof -
  obtain u w0 where u: "on_ext (env_uuid E) w = (u, w0)" by fastforce
  show ?thesis using assms u uuid_drawn [OF u] by (simp add: CreateInstance_def Let_def)
qed

text \<open>The two ways of a create that passes the checks: refused at the reservation, or reserved.\<close>

lemma CreateInstance_reserved:
  assumes "CreateInstance E H c pid body w = (resp, w')"
    and "create_checks E body = Inr (spec, js)"
  obtains (refused) "reserve_refused (ResourceId (Target spec)) (T w) resp" "same_effects w w'"
      "T w' = T w"
  | (reserved) i w1 name where "reserved_row spec js i"
      "reservable (T w) (ID i) (ResourceId (Target spec))" "same_effects w w1"
      "T w1 = (T w)(ID i \<mapsto> i)" "create_provision E H c spec name i w1 = (resp, w')"
proof -
  obtain u w0 where u: "on_ext (env_uuid E) w = (u, w0)" by fastforce
  note u0 = uuid_drawn [OF u]
  define iid where "iid = (case pid of None \<Rightarrow> u | Some p \<Rightarrow> if p = [] then u else p)"
  define name where "name = (if metadata_Name (Metadata spec) = [] then ''dcm-'' @ iid
    else metadata_Name (Metadata spec))"
  obtain res w1 where r: "create_reserve H (ResourceId (Target spec)) (new_instance iid spec js) w0 =
      (res, w1)" by fastforce
  note rs = create_reserve_spec [OF r]
  have eff: "same_effects w w1" using u0 rs same_effects_trans by blast
  show thesis
  proof (cases res)
    case (Inl e)
    then have "resp = e" "w' = w1"
      using assms u r by (simp_all add: CreateInstance_def Let_def iid_def)
    then show thesis using refused rs Inl eff u0 by (simp add: reserve_refused_def)
  next
    case (Inr i)
    then have "create_provision E H c spec name i w1 = (resp, w')"
      using assms u r by (auto simp: CreateInstance_def Let_def iid_def name_def split: if_splits)
    then show thesis using reserved [of i w1 name] rs Inr eff u0 by simp
  qed
qed

lemma CreateInstance_reserved_effects:
  assumes "CreateInstance E H c pid body w = (resp, w')"
  shows "\<exists>reqs. outgoing w' = outgoing w @ reqs \<and> length reqs \<le> 2 * maxRetries"
proof (cases "create_checks E body")
  case (Inl r)
  from CreateInstance_checked [OF assms this] show ?thesis
    by (intro exI [of _ "[]"]) (simp add: same_effectsD)
next
  case (Inr p)
  obtain spec js where "p = (spec, js)" by fastforce
  from assms Inr [unfolded this] show ?thesis
  proof (cases rule: CreateInstance_reserved)
    case refused
    then show ?thesis by (intro exI [of _ "[]"]) (simp add: same_effectsD)
  next
    case (reserved i w1 name)
    obtain s w2 where k: "kk_CreateSource (hd_koku H) c (ResourceId (Target spec)) name w1 = (s, w2)"
      by fastforce
    show ?thesis
    proof (cases s)
      case (Inl e)
      have "T w1 (ID i) = Some i" using reserved by simp
      from create_provision_no_source [OF reserved(5) k [unfolded Inl] this] show ?thesis
        using same_effectsD [OF reserved(3)] by fastforce
    next
      case (Inr src)
      have "koku_only maxRetries w1 w2"
        using koku_bounded_only [OF CreateSource_frame] k by (metis snd_conv)
      from koku_onlyD(4) [OF this] create_provision_source [OF reserved(5) k [unfolded Inr]]
      show ?thesis using same_effectsD [OF reserved(3)] by fastforce
    qed
  qed
qed

text \<open>A create writes at most one row: one it may write, for the requested target.\<close>

lemma CreateInstance_table:
  assumes "CreateInstance E H c pid body w = (resp, w')"
  shows "T w' = T w \<or>
    (\<exists>spec js r. create_checks E body = Inr (spec, js) \<and>
       reservable (T w) (ID r) (ResourceId (Target spec)) \<and> T w' = (T w)(ID r \<mapsto> r) \<and>
       TargetResourceID r = ResourceId (Target spec) \<and>
       (Status r = ''PROVISIONING'' \<or> Status r = ''ERROR''))"
proof (cases "create_checks E body")
  case (Inl r)
  from CreateInstance_checked [OF assms this] show ?thesis by simp
next
  case (Inr p)
  obtain spec js where p: "p = (spec, js)" by fastforce
  from assms Inr [unfolded this] show ?thesis
  proof (cases rule: CreateInstance_reserved)
    case (reserved i w1 name)
    note row = reserved_row_fields [OF reserved(1)]
    obtain s w2 where k: "kk_CreateSource (hd_koku H) c (ResourceId (Target spec)) name w1 = (s, w2)"
      by fastforce
    have key: "T w1 (ID i) = Some i" using reserved by simp
    have "\<exists>r. T w' = (T w)(ID i \<mapsto> r) \<and> ID r = ID i \<and> TargetResourceID r = TargetResourceID i \<and>
        (Status r = ''PROVISIONING'' \<or> Status r = ''ERROR'')"
    proof (cases s)
      case (Inl e)
      from create_provision_no_source [OF reserved(5) k [unfolded Inl] key] show ?thesis
        using reserved(4) row by (auto simp: set_status_def)
    next
      case (Inr src)
      from create_provision_source [OF reserved(5) k [unfolded Inr]] show ?thesis
        using reserved(4) row provisioned_fields [of i "src_UUID src"] by (auto split: if_splits)
    qed
    then show ?thesis using reserved(2) row(1) Inr p by metis
  qed simp
qed

lemma CreateInstance_created:
  assumes "CreateInstance E H c pid body w = (OkInstance code ci, w')"
  shows "code = 201 \<and>
    (\<exists>spec js name i src w1 w2 r. create_checks E body = Inr (spec, js) \<and>
       reserved_row spec js i \<and> reservable (T w) (ID i) (ResourceId (Target spec)) \<and>
       same_effects w w1 \<and>
       kk_CreateSource (hd_koku H) c (ResourceId (Target spec)) name w1 = (Inr src, w2) \<and>
       (\<exists>reqs. outgoing w' = outgoing w2 @ reqs \<and> length reqs \<le> maxRetries) \<and>
       provisioned i (src_UUID src) r \<and> ci = toAPICostInstance E r \<and>
       (T w' = (T w)(ID r \<mapsto> r) \<or> T w' = (T w)(ID r \<mapsto> i)) \<and>
       one_event (ID r) ''PROVISIONING'' (StatusMessage r) w w' \<and>
       InstancesManaged w' = InstancesManaged w + 1)"
proof (cases "create_checks E body")
  case (Inl r)
  from CreateInstance_checked [OF assms this] Inl show ?thesis
    by (auto simp: create_checks_def bad_request_def internal_error_def Let_def
        split: option.splits if_splits)
next
  case (Inr p)
  obtain spec js where p: "p = (spec, js)" by fastforce
  from assms Inr [unfolded this] show ?thesis
  proof (cases rule: CreateInstance_reserved)
    case refused
    then show ?thesis by (simp add: reserve_refused_def conflict_def internal_error_def)
  next
    case (reserved i w1 name)
    obtain s w2 where k: "kk_CreateSource (hd_koku H) c (ResourceId (Target spec)) name w1 = (s, w2)"
      by fastforce
    show ?thesis
    proof (cases s)
      case (Inl e)
      have "T w1 (ID i) = Some i" using reserved by simp
      from create_provision_no_source [OF reserved(5) k [unfolded Inl] this] show ?thesis
        by (simp add: internal_error_def)
    next
      case (Inr src)
      from create_provision_source [OF reserved(5) k [unfolded Inr]] obtain r
        where reqs: "\<exists>reqs. outgoing w' = outgoing w2 @ reqs \<and> length reqs \<le> maxRetries"
          and r: "provisioned i (src_UUID src) r" "code = 201" "ci = toAPICostInstance E r"
          "T w' = (T w1)(ID i \<mapsto> r) \<or> T w' = T w1"
          "one_event (ID i) ''PROVISIONING'' (StatusMessage r) w1 w'"
          "InstancesManaged w' = InstancesManaged w1 + 1"
        by (auto simp: bad_request_def split: if_splits)
      have "ID r = ID i" using provisioned_fields [OF r(1)] by simp
      moreover have "T w' = (T w)(ID r \<mapsto> r) \<or> T w' = (T w)(ID r \<mapsto> i)"
        using r(4) reserved(4) \<open>ID r = ID i\<close> by auto
      moreover have "InstancesManaged w' = InstancesManaged w + 1"
        and "one_event (ID r) ''PROVISIONING'' (StatusMessage r) w w'"
        using r(5,6) same_effectsD [OF reserved(3)] \<open>ID r = ID i\<close> by (simp_all add: one_event_def)
      moreover have "kk_CreateSource (hd_koku H) c (ResourceId (Target spec)) name w1 = (Inr src, w2)"
        using k Inr by simp
      moreover have "create_checks E body = Inr (spec, js)"
        using \<open>create_checks E body = Inr p\<close> p by simp
      ultimately show ?thesis using r(1-3) reserved(1-3) reqs by blast
    qed
  qed
qed

text \<open>
  A create that answers with a problem announces nothing. What it leaves in the table is either
  nothing, or the row it reserved: marked ERROR, or still as it was reserved.
\<close>

lemma CreateInstance_problem:
  assumes "CreateInstance E H c pid body w = (Problem code e, w')"
  shows "published w' = published w \<and> InstancesManaged w' = InstancesManaged w \<and>
    (T w' = T w \<or>
     (\<exists>spec js i. create_checks E body = Inr (spec, js) \<and> reserved_row spec js i \<and>
        reservable (T w) (ID i) (ResourceId (Target spec)) \<and>
        (code = 500 \<and> (\<exists>m t. T w' = (T w)(ID i \<mapsto> set_status ''ERROR'' m t i)) \<or>
         (code = 500 \<or> code = 400 \<and> unsupported_currency spec) \<and> T w' = (T w)(ID i \<mapsto> i))))"
proof (cases "create_checks E body")
  case (Inl r)
  from CreateInstance_checked [OF assms this] show ?thesis by (simp add: same_effectsD)
next
  case (Inr p)
  obtain spec js where p: "p = (spec, js)" by fastforce
  from assms Inr [unfolded this] show ?thesis
  proof (cases rule: CreateInstance_reserved)
    case (reserved i w1 name)
    obtain s w2 where k: "kk_CreateSource (hd_koku H) c (ResourceId (Target spec)) name w1 = (s, w2)"
      by fastforce
    have "published w' = published w1 \<and> InstancesManaged w' = InstancesManaged w1 \<and>
        (code = 500 \<and> (\<exists>m t. T w' = (T w)(ID i \<mapsto> set_status ''ERROR'' m t i)) \<or>
         (code = 500 \<or> code = 400 \<and> unsupported_currency spec) \<and> T w' = (T w)(ID i \<mapsto> i))"
    proof (cases s)
      case (Inl x)
      have "T w1 (ID i) = Some i" using reserved by simp
      from create_provision_no_source [OF reserved(5) k [unfolded Inl] this] show ?thesis
        using reserved(4) by (auto simp: internal_error_def)
    next
      case (Inr src)
      from create_provision_source [OF reserved(5) k [unfolded Inr]] show ?thesis
        using reserved(4) by (auto simp: bad_request_def split: if_splits)
    qed
    then show ?thesis using reserved(1-3) Inr p by (auto simp: same_effectsD)
  qed (simp add: same_effectsD)
qed

text \<open>409 is answered by the reservation only.\<close>

lemma CreateInstance_conflict:
  assumes "CreateInstance E H c pid body w = (Problem 409 e, w')"
  shows "T w' = T w \<and> outgoing w' = outgoing w \<and>
    (\<exists>spec js. create_checks E body = Inr (spec, js) \<and>
       (\<exists>r \<in> ran (T w). TargetResourceID r = ResourceId (Target spec) \<and> active r))"
proof (cases "create_checks E body")
  case (Inl r)
  from CreateInstance_checked [OF assms this] Inl show ?thesis
    by (auto simp: create_checks_def bad_request_def internal_error_def Let_def
        split: option.splits if_splits)
next
  case (Inr p)
  obtain spec js where p: "p = (spec, js)" by fastforce
  from assms Inr [unfolded this] show ?thesis
  proof (cases rule: CreateInstance_reserved)
    case refused
    then show ?thesis using Inr p
      by (auto simp: reserve_refused_def internal_error_def same_effectsD)
  next
    case (reserved i w1 name)
    obtain s w2 where k: "kk_CreateSource (hd_koku H) c (ResourceId (Target spec)) name w1 = (s, w2)"
      by fastforce
    have "T w1 (ID i) = Some i" using reserved by simp
    then have "Problem 409 e = internal_error ''failed to create Koku source'' \<or>
        (\<exists>d. Problem 409 e = bad_request d)"
      using create_provision_no_source [OF reserved(5)] create_provision_source [OF reserved(5)] k
      by (cases s) (auto split: if_splits)
    then show ?thesis by (simp add: bad_request_def internal_error_def)
  qed
qed

text \<open>An active instance of the requested target stops a create, whatever happens.\<close>

lemma CreateInstance_active:
  assumes "CreateInstance E H c pid body w = (resp, w')"
    and "create_checks E body = Inr (spec, js)"
    and "T w k = Some r" and "TargetResourceID r = ResourceId (Target spec)" and "active r"
  shows "(resp = conflict \<or> (\<exists>d. resp = internal_error d)) \<and> same_effects w w' \<and> T w' = T w"
  using assms(1,2)
proof (cases rule: CreateInstance_reserved)
  case refused
  then show ?thesis by (auto simp: reserve_refused_def)
next
  case (reserved i w1 name)
  have "ID r = ID i"
    using reserved(2) assms(3,4) by (auto simp: reservable_def target_free_def intro: ranI)
  then have "T w (ID i) = Some r" using table_key [OF assms(3)] assms(3) by simp
  with reserved(2) assms(5) show ?thesis by (simp add: reservable_def)
qed

subsection \<open>Delete\<close>

lemma delete_upstream_only: "koku_only (2 * maxRetries) w (delete_upstream H c inst w)"
proof -
  have d: "koku_only maxRetries w (snd (kk_DeleteCostModel (hd_koku H) c u w))" for u w
    by (rule koku_bounded_only) (rule DeleteCostModel_frame)
  have p: "koku_only maxRetries w (snd (kk_PauseSource (hd_koku H) c u w))" for u w
    by (rule koku_bounded_only) (rule PauseSource_frame)
  define w1 where "w1 = (if KokuCostModelUUID inst = [] then w
    else snd (kk_DeleteCostModel (hd_koku H) c (KokuCostModelUUID inst) w))"
  have w1: "koku_only maxRetries w w1" using d by (simp add: w1_def)
  have "delete_upstream H c inst w = (if KokuSourceUUID inst = [] then w1
    else snd (kk_PauseSource (hd_koku H) c (KokuSourceUUID inst) w1))"
    by (simp add: delete_upstream_def w1_def Let_def)
  then show ?thesis
    using koku_only_trans [OF w1 p] koku_only_mono [OF w1] by (simp add: mult_2)
qed

lemma DeleteInstance_cases:
  assumes "DeleteInstance E H c k w = (resp, w')"
  obtains (missing) e where "resp = lookup_error e" "e = ErrNotFound \<longrightarrow> T w k = None"
      "same_effects w w'" "T w' = T w"
  | (again) r where "T w k = Some r" "Status r = ''DELETED''" "resp = NoContent"
      "same_effects w w'" "T w' = T w"
  | (deleted) r where "T w k = Some r" "Status r \<noteq> ''DELETED''" "resp = NoContent"
      "T w' = T w \<or> (\<exists>t. T w' = (T w)(k \<mapsto> set_status ''DELETED'' ''instance deleted'' t r))"
      "\<exists>reqs. outgoing w' = outgoing w @ reqs \<and> length reqs \<le> 2 * maxRetries"
      "one_event k ''DELETED'' ''instance deleted'' w w'"
      "InstancesManaged w' = InstancesManaged w - 1"
proof -
  obtain res w1 where g: "st_Get (hd_store H) k w = (res, w1)" by fastforce
  note gs = Get_spec [OF g]
  show thesis
  proof (cases res)
    case (Inl e)
    then show thesis using missing [of e] assms g gs by (simp add: DeleteInstance_def)
  next
    case (Inr r)
    then have r: "T w k = Some r" "ID r = k" using gs by simp_all
    show thesis
    proof (cases "Status r = ''DELETED''")
      case True
      then show thesis using again assms g gs Inr r by (simp add: DeleteInstance_def)
    next
      case False
      define w2 where "w2 = delete_upstream H c r w1"
      obtain se w3 where u: "st_UpdateStatus (hd_store H) k ''DELETED'' ''instance deleted'' w2 =
          (se, w3)" by fastforce
      obtain pe w4 where p: "pub_Publish (hd_publisher H) c k ''DELETED'' ''instance deleted'' w3 =
          (pe, w4)" by fastforce
      have out: "resp = NoContent" "w' = add_managed (- 1) w4"
        using assms g Inr False r u p by (simp_all add: DeleteInstance_def Let_def w2_def)
      have k: "koku_only (2 * maxRetries) w1 w2" by (simp add: w2_def delete_upstream_only)
      have t: "T w2 = T w" using koku_table [OF k] gs by simp
      have "T w' = T w4" by (rule table_frame) (simp add: out)
      then have "T w' = T w \<or> (\<exists>t. T w' = (T w)(k \<mapsto> set_status ''DELETED'' ''instance deleted'' t r))"
        using UpdateStatus_spec [OF u] Publish_spec [OF p] t r by (auto split: option.splits)
      moreover have "same_effects w w1" "same_effects w2 w3"
        using gs UpdateStatus_spec [OF u] by simp_all
      ultimately show thesis
        using deleted [OF r(1) False] out koku_onlyD [OF k] Publish_spec [OF p]
        by (simp add: same_effectsD one_event_def)
    qed
  qed
qed

subsection \<open>Reads\<close>

lemma read_onlyI: "same_effects w w1 \<Longrightarrow> T w1 = T w \<Longrightarrow> koku_only n w1 w' \<Longrightarrow> read_only T n w w'"
  using koku_table [of n w1 w'] koku_onlyD [of n w1 w'] same_effectsD [of w w1]
  by (simp add: read_only_def)

lemma GetInstance_spec:
  assumes "GetInstance E H k w = (resp, w')"
  shows "same_effects w w' \<and> T w' = T w \<and>
    ((\<exists>r. T w k = Some r \<and> resp = OkInstance 200 (toAPICostInstance E r)) \<or>
     (\<exists>e. resp = lookup_error e \<and> (e = ErrNotFound \<longrightarrow> T w k = None)))"
proof -
  obtain res w1 where g: "st_Get (hd_store H) k w = (res, w1)" by fastforce
  show ?thesis using assms g Get_spec [OF g] by (auto simp: GetInstance_def split: sum.splits)
qed

lemma ListInstances_same:
  assumes "ListInstances E H ps w = (resp, w')"
  shows "same_effects w w' \<and> T w' = T w"
proof -
  define n where "n = (case MaxPageSize ps of None \<Rightarrow> 50 | Some n \<Rightarrow> n)"
  define off where "off = (case PageToken ps of
    None \<Rightarrow> 0 | Some t \<Rightarrow> if t = [] then 0 else decodePageToken t)"
  obtain res w1 where l: "st_List (hd_store H) n off w = (res, w1)" by fastforce
  have "w' = w1"
    using assms l unfolding ListInstances_def n_def [symmetric] off_def [symmetric] Let_def
    by (auto split: sum.splits)
  then show ?thesis using List_effects [of w n off] List_same [OF l] l by simp
qed

lemma GetUsage_read_only:
  assumes "GetUsage E H c k m ps w = (resp, w')"
  shows "read_only T maxRetries w w'"
proof -
  obtain res w1 where g: "st_Get (hd_store H) k w = (res, w1)" by fastforce
  note gs = Get_spec [OF g]
  have "koku_only maxRetries w1 w'"
  proof (cases res)
    case (Inr r)
    have "w' = snd (kk_GetReports (hd_koku H) c (ClusterID r) m (Some (date_params ps)) w1)"
      using assms g Inr
      by (auto simp: GetUsage_def proxyReport_def split: prod.splits sum.splits)
    then show ?thesis using koku_bounded_only [OF GetReports_frame] by simp
  qed (use assms g in \<open>simp add: GetUsage_def\<close>)
  then show ?thesis using read_onlyI gs by blast
qed

lemma GetCostReport_read_only:
  assumes "GetCostReport E H c k ps w = (resp, w')"
  shows "read_only T maxRetries w w'"
proof -
  obtain res w1 where g: "st_Get (hd_store H) k w = (res, w1)" by fastforce
  note gs = Get_spec [OF g]
  have "koku_only maxRetries w1 w'"
  proof (cases res)
    case (Inr r)
    have "w' = snd (kk_GetReports (hd_koku H) c (ClusterID r) ''costs'' (Some (date_params ps)) w1)"
      using assms g Inr
      by (auto simp: GetCostReport_def proxyReport_def split: prod.splits sum.splits)
    then show ?thesis using koku_bounded_only [OF GetReports_frame] by simp
  qed (use assms g in \<open>simp add: GetCostReport_def\<close>)
  then show ?thesis using read_onlyI gs by blast
qed

lemma GetCostForecast_read_only:
  assumes "GetCostForecast E H c k w = (resp, w')"
  shows "read_only T maxRetries w w'"
proof -
  obtain res w1 where g: "st_Get (hd_store H) k w = (res, w1)" by fastforce
  note gs = Get_spec [OF g]
  have "koku_only maxRetries w1 w'"
  proof (cases res)
    case (Inr r)
    have "w' = snd (kk_GetForecasts (hd_koku H) c (ClusterID r) None w1)"
      using assms g Inr by (auto simp: GetCostForecast_def split: prod.splits sum.splits)
    then show ?thesis using koku_bounded_only [OF GetForecasts_frame] by simp
  qed (use assms g in \<open>simp add: GetCostForecast_def\<close>)
  then show ?thesis using read_onlyI gs by blast
qed

end

end
