(* ===== verification/Reconciler.thy ===== *)
theory Reconciler
  imports HandlerLaws
begin

text \<open>
  \<open>internal/reconciler/reconciler.go\<close>: the loop that polls Koku for the instances in
  PROVISIONING and moves them to READY or ERROR. It works on the same interfaces as the
  handlers; the locale \<open>reconcilers\<close> joins their contracts for the parts of one reconciler.
\<close>

record ('d, 'x) reconciler =
  rc_store :: "('d, 'x) world instance_store"
  rc_koku :: "('d, 'x) world koku_client"
  rc_publisher :: "('d, 'x) world status_publisher"
  rc_interval :: duration
  rc_timeout :: duration

definition perInstanceTimeout :: duration where
  "perInstanceTimeout = 30 * second"

definition has_elements :: "json \<Rightarrow> bool" where
  "has_elements v \<longleftrightarrow> (case v of JArr vs \<Rightarrow> vs \<noteq> [] | JObj ms \<Rightarrow> ms \<noteq> [] | _ \<Rightarrow> False)"

definition hasData :: "json_map \<Rightarrow> bool" where
  "hasData stats \<longleftrightarrow>
     (case stats of None \<Rightarrow> False | Some ms \<Rightarrow> list_ex (\<lambda>m. has_elements (snd m)) ms)"

definition msg_timeout :: string where
  "msg_timeout = ''provision timeout: no metering data received''"

definition msg_ready :: string where
  "msg_ready = ''metering data received''"

text \<open>\<open>r.timeout > 0 && time.Since(inst.CreatedAt) > r.timeout\<close>.\<close>

definition timed_out ::
  "'x env \<Rightarrow> ('d, 'x) reconciler \<Rightarrow> cost_instance \<Rightarrow> ('d, 'x) world \<Rightarrow> bool \<times> ('d, 'x) world" where
  "timed_out E r inst w =
     (if rc_timeout r > 0
      then (let (now, w1) = on_ext (env_now E) w
            in (sat64 (now - CreatedAt inst) > rc_timeout r, w1))
      else (False, w))"

text \<open>Storing a new status and, when that succeeds, announcing it.\<close>

definition set_and_publish ::
  "('d, 'x) reconciler \<Rightarrow> ctx \<Rightarrow> string \<Rightarrow> string \<Rightarrow> string \<Rightarrow> ('d, 'x) world \<Rightarrow> ('d, 'x) world" where
  "set_and_publish r ctx iid status message w =
     (let (err, w1) = st_UpdateStatus (rc_store r) iid status message w
      in case err of
           Some _ \<Rightarrow> w1
         | None \<Rightarrow> snd (pub_Publish (rc_publisher r) ctx iid status message w1))"

definition reconcileOne ::
  "'x env \<Rightarrow> ('d, 'x) reconciler \<Rightarrow> ctx \<Rightarrow> cost_instance \<Rightarrow> ('d, 'x) world \<Rightarrow> ('d, 'x) world" where
  "reconcileOne E r ctx inst w =
     (if KokuSourceUUID inst = [] then w
      else
        (let (late, w1) = timed_out E r inst w
         in if late then set_and_publish r ctx (ID inst) ''ERROR'' msg_timeout w1
            else
              (let (res, w2) = kk_GetSourceStats (rc_koku r) (WithTimeout ctx perInstanceTimeout)
                                 (KokuSourceUUID inst) w1
               in case res of
                    Inl _ \<Rightarrow> w2
                  | Inr stats \<Rightarrow>
                      if hasData stats then set_and_publish r ctx (ID inst) ''READY'' msg_ready w2
                      else w2)))"

fun reconcile_each ::
  "'x env \<Rightarrow> ('d, 'x) reconciler \<Rightarrow> ctx \<Rightarrow> cost_instance list \<Rightarrow> ('d, 'x) world \<Rightarrow>
   ('d, 'x) world" where
  "reconcile_each E r ctx [] w = w"
| "reconcile_each E r ctx (inst # rest) w =
     (if env_ctx_err E ctx (ext w) then w
      else reconcile_each E r ctx rest (reconcileOne E r ctx inst w))"

definition reconcile ::
  "'x env \<Rightarrow> ('d, 'x) reconciler \<Rightarrow> ctx \<Rightarrow> ('d, 'x) world \<Rightarrow> ('d, 'x) world" where
  "reconcile E r ctx w =
     (let (res, w1) = st_ListByStatus (rc_store r) ''PROVISIONING'' w
      in case res of Inl _ \<Rightarrow> w1 | Inr instances \<Rightarrow> reconcile_each E r ctx instances w1)"

text \<open>
  \<open>Start\<close> waits for the ticker or the end of its context. What happens, in which order, is the
  list of wake-ups; \<open>time.NewTicker\<close> panics on an interval that is not positive, before
  \<open>defer ticker.Stop()\<close> but after \<open>defer close(r.done)\<close>.
\<close>

datatype wake_up = Tick | Cancelled

datatype loop_state = Running | Finished | Panicked

fun reconcile_loop ::
  "'x env \<Rightarrow> ('d, 'x) reconciler \<Rightarrow> ctx \<Rightarrow> wake_up list \<Rightarrow> ('d, 'x) world \<Rightarrow>
   loop_state \<times> ('d, 'x) world" where
  "reconcile_loop E r ctx [] w = (Running, w)"
| "reconcile_loop E r ctx (Cancelled # es) w = (Finished, w)"
| "reconcile_loop E r ctx (Tick # es) w = reconcile_loop E r ctx es (reconcile E r ctx w)"

definition reconciler_Start ::
  "'x env \<Rightarrow> ('d, 'x) reconciler \<Rightarrow> ctx \<Rightarrow> wake_up list \<Rightarrow> ('d, 'x) world \<Rightarrow>
   loop_state \<times> ('d, 'x) world" where
  "reconciler_Start E r ctx es w =
     (if rc_interval r \<le> 0 then (Panicked, w) else reconcile_loop E r ctx es w)"

subsection \<open>What a pass does\<close>

text \<open>
  A row as the reconciler may leave it: as it was, or moved out of PROVISIONING, provided it
  names a source.
\<close>

definition reconciled :: "cost_instance option \<Rightarrow> cost_instance option \<Rightarrow> bool" where
  "reconciled a b \<longleftrightarrow> b = a \<or>
     (\<exists>r t. a = Some r \<and> Status r = ''PROVISIONING'' \<and> KokuSourceUUID r \<noteq> [] \<and>
        (b = Some (set_status ''READY'' msg_ready t r) \<or>
         b = Some (set_status ''ERROR'' msg_timeout t r)))"

lemma reconciled_intros [intro, simp]:
  "reconciled a a"
  "Status r = ''PROVISIONING'' \<Longrightarrow> KokuSourceUUID r \<noteq> [] \<Longrightarrow>
   reconciled (Some r) (Some (set_status ''READY'' msg_ready t r))"
  "Status r = ''PROVISIONING'' \<Longrightarrow> KokuSourceUUID r \<noteq> [] \<Longrightarrow>
   reconciled (Some r) (Some (set_status ''ERROR'' msg_timeout t r))"
  unfolding reconciled_def by blast+

text \<open>The instance has got this status, and that has been announced at most once.\<close>

definition status_moved ::
  "(('d, 'x) world \<Rightarrow> string \<rightharpoonup> cost_instance) \<Rightarrow> string \<Rightarrow> string \<Rightarrow> string \<Rightarrow>
   ('d, 'x) world \<Rightarrow> ('d, 'x) world \<Rightarrow> bool" where
  "status_moved T k s m w w' \<longleftrightarrow>
     (\<exists>r t. T w k = Some r \<and> T w' = (T w)(k \<mapsto> set_status s m t r)) \<and> one_event k s m w w'"

lemma status_moved_from:
  "T w1 = T w \<Longrightarrow> published w1 = published w \<Longrightarrow>
   status_moved T k s m w1 w' = status_moved T k s m w w'"
  by (simp add: status_moved_def one_event_def)

locale reconcilers =
  instance_store_laws "rc_store RC" T + koku_api "rc_koku RC" + status_publisher "rc_publisher RC"
  for RC :: "('d, 'x) reconciler" and T :: "('d, 'x) world \<Rightarrow> string \<rightharpoonup> cost_instance"
begin

lemma koku_table: "koku_only n w w' \<Longrightarrow> T w' = T w"
  by (rule table_frame) (rule koku_onlyD)

lemma timed_out_spec:
  assumes "timed_out E RC inst w = (late, w1)"
  shows "same_effects w w1 \<and> T w1 = T w \<and> db w1 = db w"
proof -
  have "db w1 = db w" "same_effects w w1"
    using assms
    by (auto simp: timed_out_def same_effects_def on_ext_def split: if_splits prod.splits)
  then show ?thesis using table_frame by blast
qed

lemma set_and_publish_spec:
  assumes w'_def: "w' = set_and_publish RC c k s m w"
  shows "outgoing w' = outgoing w \<and> InstancesManaged w' = InstancesManaged w \<and>
    (T w' = T w \<and> published w' = published w \<or>
     status_moved T k s m w w')"
proof -
  obtain err w1 where u: "st_UpdateStatus (rc_store RC) k s m w = (err, w1)" by fastforce
  have eff: "same_effects w w1" using UpdateStatus_effects [of w k s m] u by simp
  show ?thesis
  proof (cases err)
    case None
    define w2 where "w2 = snd (pub_Publish (rc_publisher RC) c k s m w1)"
    have "w' = w2" using u None by (simp add: w'_def w2_def set_and_publish_def)
    moreover have "T w2 = T w1"
      by (rule table_frame) (simp add: w2_def Publish_db)
    ultimately show ?thesis
      using UpdateStatus_ok [OF u [unfolded None]] Publish_outgoing [of c k s m w1]
        Publish_gauge [of c k s m w1] Publish_events [of c k s m w1] same_effectsD [OF eff]
      by (auto simp: w2_def one_event_def status_moved_def)
  next
    case (Some e)
    then show ?thesis
      using u UpdateStatus_failed [OF u [unfolded Some]] same_effectsD [OF eff]
      by (simp add: w'_def set_and_publish_def)
  qed
qed

lemma set_and_publish_ok:
  assumes "w' = set_and_publish RC c k s m w" and "fst (st_UpdateStatus (rc_store RC) k s m w) = None"
  shows "status_moved T k s m w w'"
proof -
  obtain w1 where u: "st_UpdateStatus (rc_store RC) k s m w = (None, w1)"
    using assms(2) by (metis prod.collapse)
  have w': "w' = snd (pub_Publish (rc_publisher RC) c k s m w1)"
    using u assms(1) by (simp add: set_and_publish_def)
  then have "T w' = T w1" by (intro table_frame) (simp add: Publish_db)
  moreover have "published w1 = published w"
    using UpdateStatus_effects [of w k s m] u by (simp add: same_effects_def)
  ultimately show ?thesis
    using UpdateStatus_ok [OF u] Publish_events [of c k s m w1] w'
    by (auto simp: status_moved_def one_event_def)
qed

text \<open>The whole of \<open>reconcileOne\<close> for an instance with a source.\<close>

lemma reconcileOne_outcome:
  assumes "w' = reconcileOne E RC c inst w" and "KokuSourceUUID inst \<noteq> []"
    and "timed_out E RC inst w = (late, w1)"
    and "kk_GetSourceStats (rc_koku RC) (WithTimeout c perInstanceTimeout) (KokuSourceUUID inst) w1 =
      (res, w2)"
  shows "w' = (if late then set_and_publish RC c (ID inst) ''ERROR'' msg_timeout w1
      else if \<exists>stats. res = Inr stats \<and> hasData stats
      then set_and_publish RC c (ID inst) ''READY'' msg_ready w2 else w2)"
    and "T w1 = T w" "published w1 = published w" "outgoing w1 = outgoing w" "db w1 = db w"
    and "T w2 = T w" "published w2 = published w" "db w2 = db w"
proof -
  show "w' = (if late then set_and_publish RC c (ID inst) ''ERROR'' msg_timeout w1
      else if \<exists>stats. res = Inr stats \<and> hasData stats
      then set_and_publish RC c (ID inst) ''READY'' msg_ready w2 else w2)"
    using assms by (auto simp: reconcileOne_def split: sum.splits)
  show w1: "T w1 = T w" "published w1 = published w" "outgoing w1 = outgoing w" "db w1 = db w"
    using timed_out_spec [OF assms(3)] by (simp_all add: same_effectsD)
  have "koku_only maxRetries w1 w2"
    using koku_bounded_only [OF GetSourceStats_frame] assms(4) by (metis snd_conv)
  then show "T w2 = T w" "published w2 = published w" "db w2 = db w"
    using koku_table [of maxRetries w1 w2] koku_onlyD(1,2) [of maxRetries w1 w2] w1 by simp_all
qed

lemma reconcileOne_spec:
  assumes w'_def: "w' = reconcileOne E RC c inst w"
  shows "InstancesManaged w' = InstancesManaged w \<and>
    (\<exists>reqs. outgoing w' = outgoing w @ reqs \<and> length reqs \<le> maxRetries) \<and>
    (T w' = T w \<and> published w' = published w \<or>
     KokuSourceUUID inst \<noteq> [] \<and>
     (status_moved T (ID inst) ''READY'' msg_ready w w' \<or>
      status_moved T (ID inst) ''ERROR'' msg_timeout w w'))"
proof (cases "KokuSourceUUID inst = []")
  case True
  then have "w' = w" by (simp add: w'_def reconcileOne_def)
  then show ?thesis by simp
next
  case False
  obtain late w1 where l: "timed_out E RC inst w = (late, w1)" by fastforce
  note l1 = timed_out_spec [OF l]
  show ?thesis
  proof (cases late)
    case True
    then have "w' = set_and_publish RC c (ID inst) ''ERROR'' msg_timeout w1"
      using l False by (simp add: w'_def reconcileOne_def)
    from set_and_publish_spec [OF this] show ?thesis
      using l1 False status_moved_from [of T w1 w] by (auto simp: same_effectsD)
  next
    case early: False
    obtain res w2 where g: "kk_GetSourceStats (rc_koku RC) (WithTimeout c perInstanceTimeout)
        (KokuSourceUUID inst) w1 = (res, w2)" by fastforce
    have k: "koku_only maxRetries w1 w2"
      using koku_bounded_only [OF GetSourceStats_frame] g by (metis snd_conv)
    note k2 = koku_table [OF k] koku_onlyD [OF k]
    consider "w' = w2" | "w' = set_and_publish RC c (ID inst) ''READY'' msg_ready w2"
      using l early False g
      by (cases "\<exists>stats. res = Inr stats \<and> hasData stats")
        (auto simp: w'_def reconcileOne_def split: sum.splits)
    then show ?thesis
    proof cases
      case 1
      then show ?thesis using k2 l1 same_effectsD [of w w1] by simp
    next
      case 2
      from set_and_publish_spec [OF this] show ?thesis
        using k2 l1 False status_moved_from [of T w2 w] by (auto simp: same_effectsD)
    qed
  qed
qed

lemma reconcileOne_row:
  assumes "w' = reconcileOne E RC c inst w"
    and "T w (ID inst) = Some inst" and "Status inst = ''PROVISIONING''"
  shows "reconciled (T w k) (T w' k)" and "k \<noteq> ID inst \<Longrightarrow> T w' k = T w k"
  using reconcileOne_spec [OF assms(1)] assms(2,3)
  by (auto simp: status_moved_def)

lemma reconcile_each_spec:
  assumes "w' = reconcile_each E RC c rows w" and "distinct (map ID rows)"
    and "\<forall>r \<in> set rows. T w (ID r) = Some r \<and> Status r = ''PROVISIONING''"
  shows "InstancesManaged w' = InstancesManaged w \<and>
    (\<exists>reqs. outgoing w' = outgoing w @ reqs \<and> length reqs \<le> maxRetries * length rows) \<and>
    (\<forall>k. reconciled (T w k) (T w' k) \<and> (k \<notin> ID ` set rows \<longrightarrow> T w' k = T w k))"
  using assms
proof (induction rows arbitrary: w)
  case Nil
  then show ?case by simp
next
  case (Cons r rows)
  show ?case
  proof (cases "env_ctx_err E c (ext w)")
    case True
    then show ?thesis using Cons.prems(1) by simp
  next
    case False
    define w1 where "w1 = reconcileOne E RC c r w"
    have r: "T w (ID r) = Some r" "Status r = ''PROVISIONING''" using Cons.prems(3) by simp_all
    note one = reconcileOne_spec [OF w1_def] reconcileOne_row [OF w1_def r]
    have other: "T w1 (ID x) = T w (ID x)" if "x \<in> set rows" for x
      using one(3) Cons.prems(2) that by (auto simp: image_iff)
    have "w' = reconcile_each E RC c rows w1"
      using Cons.prems(1) False by (simp add: w1_def)
    from Cons.IH [OF this] Cons.prems(2,3) other
    have rest: "InstancesManaged w' = InstancesManaged w1"
      "\<exists>reqs. outgoing w' = outgoing w1 @ reqs \<and> length reqs \<le> maxRetries * length rows"
      "\<And>k. reconciled (T w1 k) (T w' k)" "\<And>k. k \<notin> ID ` set rows \<Longrightarrow> T w' k = T w1 k"
      by auto
    have "reconciled (T w k) (T w' k)" for k
    proof (cases "k \<in> ID ` set rows")
      case True
      then show ?thesis using rest(3) [of k] other by auto
    next
      case False
      then show ?thesis using rest(4) one(2) by simp
    qed
    moreover have "\<exists>reqs. outgoing w' = outgoing w @ reqs \<and>
        length reqs \<le> maxRetries * length (r # rows)"
      using one(1) rest(2) by fastforce
    ultimately show ?thesis using one rest by auto
  qed
qed

lemma listed_rows:
  assumes "st_ListByStatus (rc_store RC) s w = (Inr rows, w1)"
  shows "same_effects w w1 \<and> T w1 = T w \<and> distinct (map ID rows) \<and>
    (\<forall>r \<in> set rows. T w (ID r) = Some r \<and> Status r = s)"
proof -
  have "T w (ID r) = Some r \<and> Status r = s" if "r \<in> set rows" for r
    using ListByStatus_ok [OF assms] that table_key by (auto simp: ran_def)
  then show ?thesis
    using ListByStatus_ok [OF assms] ListByStatus_same [OF assms] ListByStatus_effects [of w s] assms
    by simp
qed

lemma reconcile_spec:
  assumes "w' = reconcile E RC c w"
  shows "InstancesManaged w' = InstancesManaged w \<and> (\<forall>k. reconciled (T w k) (T w' k)) \<and>
    (\<exists>reqs. outgoing w' = outgoing w @ reqs)"
proof -
  obtain res w1 where l: "st_ListByStatus (rc_store RC) ''PROVISIONING'' w = (res, w1)" by fastforce
  show ?thesis
  proof (cases res)
    case (Inl e)
    then have "w' = w1" using assms l by (simp add: reconcile_def)
    then show ?thesis
      using l ListByStatus_same [OF l] ListByStatus_effects [of w "''PROVISIONING''"]
      by (simp add: same_effectsD)
  next
    case (Inr rows)
    note ls = listed_rows [OF l [unfolded Inr]]
    have "w' = reconcile_each E RC c rows w1" using assms l Inr by (simp add: reconcile_def)
    from reconcile_each_spec [OF this] ls show ?thesis by (auto simp: same_effectsD)
  qed
qed

end

end
