(* ===== verification/MemDb.thy ===== *)
theory MemDb
  imports Store
begin

text \<open>
  A database that fulfils the contract \<open>gorm_db\<close>: a list of rows in memory, a clock for the
  time stamps, and a script of faults (\<open>True\<close> makes the next statement fail with an I/O error).
  It shows that the contract can be met, interprets the store's locales, and lets a witness
  run the handlers on concrete tables, failures included.
\<close>

record mem_db =
  md_rows :: "cost_instance list"
  md_clock :: time
  md_faults :: "bool list"

definition mem_fault :: "mem_db \<Rightarrow> bool" where
  "mem_fault d = (case md_faults d of [] \<Rightarrow> False | b # _ \<Rightarrow> b)"

definition mem_tick :: "mem_db \<Rightarrow> mem_db" where
  "mem_tick d = d\<lparr>md_clock := md_clock d + 1, md_faults := tl (md_faults d)\<rparr>"

definition io_error :: gorm_error where
  "io_error = GormError ''disk I/O error''"

text \<open>Of several rows with one id, the first one counts.\<close>

fun uniq :: "cost_instance list \<Rightarrow> cost_instance list" where
  "uniq [] = []"
| "uniq (r # rs) = r # filter (\<lambda>x. ID x \<noteq> ID r) (uniq rs)"

definition mem_table :: "mem_db \<Rightarrow> cost_instance list" where
  "mem_table d = uniq (md_rows d)"

definition mem_rows :: "mem_db \<Rightarrow> string \<rightharpoonup> cost_instance" where
  "mem_rows d = map_of (map (\<lambda>r. (ID r, r)) (mem_table d))"

definition stamp_new :: "time \<Rightarrow> cost_instance \<Rightarrow> cost_instance" where
  "stamp_new t i =
     i\<lparr>CreatedAt := (if CreatedAt i = 0 then t else CreatedAt i), UpdatedAt := t\<rparr>"

definition clash :: "mem_db \<Rightarrow> cost_instance \<Rightarrow> bool" where
  "clash d i \<longleftrightarrow> list_ex (\<lambda>r. ID r = ID i \<or> TargetResourceID r = TargetResourceID i) (mem_table d)"

definition target_clash :: "mem_db \<Rightarrow> cost_instance \<Rightarrow> bool" where
  "target_clash d i \<longleftrightarrow>
     list_ex (\<lambda>r. ID r \<noteq> ID i \<and> TargetResourceID r = TargetResourceID i) (mem_table d)"

definition unique_error :: gorm_error where
  "unique_error = GormError ''UNIQUE constraint failed: cost_instances''"

definition mem_put :: "cost_instance \<Rightarrow> mem_db \<Rightarrow> mem_db" where
  "mem_put i d = d\<lparr>md_rows := i # md_rows d\<rparr>"

definition mem_create ::
  "cost_instance \<Rightarrow> mem_db \<Rightarrow> (gorm_error option \<times> cost_instance) \<times> mem_db" where
  "mem_create i d =
     (let i' = stamp_new (md_clock d) i
      in if mem_fault d then ((Some io_error, i'), mem_tick d)
         else if clash d i then ((Some unique_error, i'), mem_tick d)
         else ((None, i'), mem_put i' (mem_tick d)))"

definition mem_save ::
  "cost_instance \<Rightarrow> mem_db \<Rightarrow> (gorm_error option \<times> cost_instance) \<times> mem_db" where
  "mem_save i d =
     (let i' = i\<lparr>UpdatedAt := md_clock d\<rparr>
      in if mem_fault d then ((Some io_error, i'), mem_tick d)
         else if target_clash d i then ((Some unique_error, i'), mem_tick d)
         else ((None, i'), mem_put i' (mem_tick d)))"

definition mem_find ::
  "(cost_instance \<Rightarrow> bool) \<Rightarrow> mem_db \<Rightarrow> (gorm_error + cost_instance) \<times> mem_db" where
  "mem_find P d =
     (if mem_fault d then Inl io_error
      else (case List.find P (mem_table d) of None \<Rightarrow> Inl GormRecordNotFound | Some r \<Rightarrow> Inr r),
      mem_tick d)"

definition newest_first :: "cost_instance list \<Rightarrow> cost_instance list" where
  "newest_first rs = sort_key (\<lambda>r. - CreatedAt r) rs"

definition mem_count :: "mem_db \<Rightarrow> (gorm_error + int) \<times> mem_db" where
  "mem_count d = (if mem_fault d then Inl io_error else Inr (int (length (mem_table d))), mem_tick d)"

definition mem_page :: "int \<Rightarrow> int \<Rightarrow> mem_db \<Rightarrow> (gorm_error + cost_instance list) \<times> mem_db" where
  "mem_page l off d =
     (if mem_fault d then Inl io_error
      else Inr (take (nat l) (drop (nat off) (newest_first (mem_table d)))), mem_tick d)"

definition mem_update_status ::
  "string \<Rightarrow> string \<Rightarrow> string \<Rightarrow> mem_db \<Rightarrow> (int \<times> gorm_error option) \<times> mem_db" where
  "mem_update_status k s m d =
     (if mem_fault d then ((0, Some io_error), mem_tick d)
      else (case List.find (\<lambda>r. ID r = k) (mem_table d) of
              None \<Rightarrow> ((0, None), mem_tick d)
            | Some r \<Rightarrow> ((1, None), mem_put (set_status s m (md_clock d) r) (mem_tick d))))"

definition mem_find_status ::
  "string \<Rightarrow> mem_db \<Rightarrow> (gorm_error + cost_instance list) \<times> mem_db" where
  "mem_find_status s d =
     (if mem_fault d then Inl io_error else Inr (filter (\<lambda>r. Status r = s) (mem_table d)),
      mem_tick d)"

definition mem_gorm :: "mem_db gorm" where
  "mem_gorm =
     \<lparr>gm_create = mem_create, gm_save = mem_save,
      gm_first_id = \<lambda>k. mem_find (\<lambda>r. ID r = k),
      gm_first_target = \<lambda>k. mem_find (\<lambda>r. TargetResourceID r = k),
      gm_count = mem_count, gm_page = mem_page, gm_update_status = mem_update_status,
      gm_find_status = mem_find_status\<rparr>"

subsection \<open>It fulfils the contract\<close>

lemma uniq_subset: "set (uniq rs) \<subseteq> set rs"
  by (induction rs rule: uniq.induct) auto

lemma distinct_uniq: "distinct (map ID (uniq rs))"
  by (induction rs rule: uniq.induct) (auto simp: distinct_map_filter)

lemma mem_table_distinct: "distinct (map ID (mem_table d))"
  by (simp add: mem_table_def distinct_uniq)

lemma mem_rows_Some: "mem_rows d k = Some r \<longleftrightarrow> r \<in> set (mem_table d) \<and> ID r = k"
  using mem_table_distinct [of d]
  by (auto simp: mem_rows_def map_of_eq_Some_iff comp_def image_iff)

lemma ran_mem_rows: "ran (mem_rows d) = set (mem_table d)"
  by (auto simp: ran_def mem_rows_Some)

lemma dom_mem_rows: "dom (mem_rows d) = ID ` set (mem_table d)"
  by (auto simp: dom_def mem_rows_Some)

lemma mem_rows_None: "mem_rows d k = None \<longleftrightarrow> (\<forall>r \<in> set (mem_table d). ID r \<noteq> k)"
proof -
  have "mem_rows d k = None \<longleftrightarrow> k \<notin> dom (mem_rows d)" by auto
  then show ?thesis by (auto simp: dom_mem_rows)
qed

lemma mem_tick_rows [simp]: "mem_rows (mem_tick d) = mem_rows d"
  by (simp add: mem_rows_def mem_table_def mem_tick_def)

lemma map_of_filter_key:
  "k \<noteq> ID i \<Longrightarrow>
   map_of (map (\<lambda>r. (ID r, r)) (filter (\<lambda>x. ID x \<noteq> ID i) rs)) k = map_of (map (\<lambda>r. (ID r, r)) rs) k"
  by (induction rs) auto

lemma mem_rows_put [simp]: "mem_rows (mem_put i d) = (mem_rows d)(ID i \<mapsto> i)"
  by (rule ext) (auto simp: mem_rows_def mem_table_def mem_put_def map_of_filter_key)

lemma same_data_stamp [simp]: "same_data i (stamp_new t i)" "same_data i (i\<lparr>UpdatedAt := t\<rparr>)"
  by (simp_all add: same_data_def stamp_new_def)

lemma ID_stamp [simp]: "ID (stamp_new t i) = ID i"
  by (simp add: stamp_new_def)

lemma ID_set_status [simp]: "ID (set_status s m t r) = ID r"
  by (simp add: set_status_def)

lemma not_unique_io [simp]: "\<not> isUniqueConstraintError io_error"
  by (simp add: isUniqueConstraintError_def io_error_def has_prefix_def)

lemma io_error_not_missing [simp]: "io_error \<noteq> GormRecordNotFound" "GormRecordNotFound \<noteq> io_error"
  by (simp_all add: io_error_def)

lemma find_hit: "List.find P xs = Some x \<Longrightarrow> x \<in> set xs \<and> P x"
  by (induction xs) (auto split: if_splits)

lemma newest_first_sorted: "sorted_wrt (\<lambda>a b. CreatedAt b \<le> CreatedAt a) (newest_first rs)"
  using sorted_sort_key [of "\<lambda>r. - CreatedAt r" rs]
  by (simp add: newest_first_def sorted_map)

lemma newest_first_elems [simp]:
  "set (newest_first rs) = set rs" "distinct (newest_first rs) = distinct rs"
  by (simp_all add: newest_first_def)

interpretation mem: gorm_db mem_gorm mem_rows
proof unfold_locales
  show "page_of (mem_rows d) l off rows"
    if "gm_page mem_gorm l off d = (Inr rows, d')" and "0 < l" and "0 \<le> off" for d l off rows d'
    using that mem_table_distinct [of d]
    by (auto simp: mem_gorm_def mem_page_def page_of_def ran_mem_rows newest_first_sorted
        distinct_map intro!: exI [of _ "newest_first (mem_table d)"]
        split: if_splits)
next
  show "n = int (card (dom (mem_rows d)))" if "gm_count mem_gorm d = (Inr n, d')" for d n d'
    using that mem_table_distinct [of d]
    by (auto simp: mem_gorm_def mem_count_def dom_mem_rows distinct_map card_image distinct_card
        split: if_splits)
next
  show "eo = None \<and> (\<exists>r t. mem_rows d k = Some r \<and> mem_rows d' = (mem_rows d)(k \<mapsto> set_status s m t r))"
    if "gm_update_status mem_gorm k s m d = ((n, eo), d')" and "n \<noteq> 0" for k s m d n eo d'
  proof -
    note asm = that
    obtain r where r: "List.find (\<lambda>r. ID r = k) (mem_table d) = Some r"
      and res: "eo = None" "d' = mem_put (set_status s m (md_clock d) r) (mem_tick d)"
      using asm by (auto simp: mem_gorm_def mem_update_status_def split: if_splits option.splits)
    have "mem_rows d k = Some r" using find_hit [OF r] by (simp add: mem_rows_Some)
    then show ?thesis using res find_hit [OF r] by auto
  qed
qed (auto simp: mem_gorm_def mem_create_def mem_save_def mem_find_def mem_count_def mem_page_def
      mem_update_status_def mem_find_status_def mem_rows_Some mem_rows_None dom_mem_rows
      ran_mem_rows clash_def target_clash_def target_free_def list_ex_iff Let_def
      find_None_iff mem_table_distinct distinct_map_filter dest: find_hit
      split: if_splits option.splits)

end
