(* ===== verification/App.thy ===== *)
theory App
  imports Reconciler MemDb
begin

text \<open>
  The handler and the reconciler as \<open>cmd/koku-cost-provider/main.go\<close> builds them, over the same
  store, Koku client and publisher. They fulfil the contracts of \<open>HandlerLaws\<close> and
  \<open>Reconciler\<close> for every database and publisher that fulfil theirs; the interpretations
  instantiate them with both publishers of the program.
\<close>

definition app_handler ::
  "'d gorm \<Rightarrow> 'x env \<Rightarrow> koku_conf \<Rightarrow> ('d, 'x) world status_publisher \<Rightarrow> checker \<Rightarrow>
   ('d, 'x) handler" where
  "app_handler G E C P c =
     \<lparr>hd_store = store_of G, hd_koku = koku_of E C, hd_publisher = P, hd_checker = c\<rparr>"

definition app_reconciler ::
  "'d gorm \<Rightarrow> 'x env \<Rightarrow> koku_conf \<Rightarrow> ('d, 'x) world status_publisher \<Rightarrow> duration \<Rightarrow> duration \<Rightarrow>
   ('d, 'x) reconciler" where
  "app_reconciler G E C P interval timeout =
     \<lparr>rc_store = store_of G, rc_koku = koku_of E C, rc_publisher = P, rc_interval = interval,
      rc_timeout = timeout\<rparr>"

lemma app_handler_simps [simp]:
  "hd_store (app_handler G E C P c) = store_of G" "hd_koku (app_handler G E C P c) = koku_of E C"
  "hd_publisher (app_handler G E C P c) = P" "hd_checker (app_handler G E C P c) = c"
  by (simp_all add: app_handler_def)

lemma app_reconciler_simps [simp]:
  "rc_store (app_reconciler G E C P i t) = store_of G"
  "rc_koku (app_reconciler G E C P i t) = koku_of E C"
  "rc_publisher (app_reconciler G E C P i t) = P"
  "rc_interval (app_reconciler G E C P i t) = i" "rc_timeout (app_reconciler G E C P i t) = t"
  by (simp_all add: app_reconciler_def)

context gorm_db
begin

lemma store_contract: "instance_store_laws (store_of G) (\<lambda>w. R (db w))"
  by unfold_locales

end

lemma app_handlers:
  assumes "gorm_db G R" and "status_publisher P"
  shows "handlers (app_handler G E C P c) (\<lambda>w. R (db w))"
  unfolding handlers_def
  by (simp add: gorm_db.store_contract [OF assms(1)] client.koku_api_axioms assms(2))

lemma app_reconcilers:
  assumes "gorm_db G R" and "status_publisher P"
  shows "reconcilers (app_reconciler G E C P i t) (\<lambda>w. R (db w))"
  unfolding reconcilers_def
  by (simp add: gorm_db.store_contract [OF assms(1)] client.koku_api_axioms assms(2))

sublocale gorm_db \<subseteq> nats_app:
  handlers "app_handler G E C (NATSPublisher E n) c" "\<lambda>w. R (db w)" for E C n c
  by (rule app_handlers [OF gorm_db_axioms nats.status_publisher_axioms])

sublocale gorm_db \<subseteq> noop_app:
  handlers "app_handler G E C NoopPublisher c" "\<lambda>w. R (db w)" for E C c
  by (rule app_handlers [OF gorm_db_axioms noop.status_publisher_axioms])

interpretation mem_app: handlers "app_handler mem_gorm E C (NATSPublisher E n) c"
  "\<lambda>w. mem_rows (db w)" for E C n c
  by (rule app_handlers [OF mem.gorm_db_axioms nats.status_publisher_axioms])

interpretation mem_reconciler: reconcilers "app_reconciler mem_gorm E C (NATSPublisher E n) i t"
  "\<lambda>w. mem_rows (db w)" for E C n i t
  by (rule app_reconcilers [OF mem.gorm_db_axioms nats.status_publisher_axioms])

end
