(* ===== verification/Lifecycle.thy ===== *)
theory Lifecycle
  imports App
begin

text \<open>
  The service as a whole: any sequence of requests and reconciler passes, each running to its
  end. \<open>life_step\<close> is the abstract specification, over a table of targets and statuses only;
  every step of the service refines one of its steps. The invariants are proved on the
  specification by rule induction and carried back.
\<close>

subsection \<open>The specification\<close>

type_synonym life_table = "string \<rightharpoonup> string \<times> string"

text \<open>
  An instance of a target may be provisioned under a new id, or again under its own id once it
  has failed or been deleted; provisioning instances advance; any instance may be deleted.
\<close>

inductive life_step :: "life_table \<Rightarrow> life_table \<Rightarrow> bool" where
  stay: "life_step A A"
| provision: "A k = None \<or> A k = Some (t, ''ERROR'') \<or> A k = Some (t, ''DELETED'') \<Longrightarrow>
    (\<And>j s. A j = Some (t, s) \<Longrightarrow> j = k) \<Longrightarrow> s = ''PROVISIONING'' \<or> s = ''ERROR'' \<Longrightarrow>
    life_step A (A(k \<mapsto> (t, s)))"
| advance: "(\<And>k. B k = A k \<or>
      (\<exists>t. A k = Some (t, ''PROVISIONING'') \<and> (B k = Some (t, ''READY'') \<or> B k = Some (t, ''ERROR'')))) \<Longrightarrow>
    life_step A B"
| delete: "A k = Some (t, s) \<Longrightarrow> life_step A (A(k \<mapsto> (t, ''DELETED'')))"

text \<open>What each step of the specification keeps.\<close>

definition one_per_target :: "life_table \<Rightarrow> bool" where
  "one_per_target A \<longleftrightarrow> (\<forall>j k t s s'. A j = Some (t, s) \<longrightarrow> A k = Some (t, s') \<longrightarrow> j = k)"

definition known_statuses :: "life_table \<Rightarrow> bool" where
  "known_statuses A \<longleftrightarrow> (\<forall>k t s. A k = Some (t, s) \<longrightarrow> CostInstanceStatus_Valid s)"

lemma life_step_target:
  assumes "life_step A B" and "A k = Some (t, s)"
  shows "\<exists>s'. B k = Some (t, s')"
  using assms
proof (induction rule: life_step.induct)
  case (provision A k' t' s')
  then show ?case by (cases "k = k'") auto
next
  case (advance B A)
  from advance.hyps [of k] advance.prems show ?case by auto
next
  case (delete A k' t' s')
  then show ?case by (cases "k = k'") auto
qed auto

lemma life_step_one_per_target:
  assumes "life_step A B" and "one_per_target A"
  shows "one_per_target B"
  using assms
proof (induction rule: life_step.induct)
  case (provision A k t s)
  then show ?case by (auto simp: one_per_target_def)
next
  case (advance B A)
  have "\<exists>s'. A k = Some (t, s')" if "B k = Some (t, s)" for k t s
    using advance.hyps [of k] that by (metis option.inject prod.inject)
  then show ?case using advance.prems unfolding one_per_target_def by blast
next
  case (delete A k t s)
  then show ?case by (auto simp: one_per_target_def split: if_splits)
qed

lemma valid_statuses [simp]:
  "CostInstanceStatus_Valid ''PROVISIONING''" "CostInstanceStatus_Valid ''READY''"
  "CostInstanceStatus_Valid ''ERROR''" "CostInstanceStatus_Valid ''DELETED''"
  by (simp_all add: CostInstanceStatus_Valid_def)

lemma life_step_known:
  assumes "life_step A B" and "known_statuses A"
  shows "known_statuses B"
  using assms
proof (induction rule: life_step.induct)
  case (advance B A)
  show ?case unfolding known_statuses_def
  proof (intro allI impI)
    fix k t s
    assume "B k = Some (t, s)"
    then have "A k = Some (t, s) \<or> s = ''READY'' \<or> s = ''ERROR''"
      using advance.hyps [of k] by auto
    then show "CostInstanceStatus_Valid s"
      using advance.prems by (auto simp: known_statuses_def)
  qed
qed (auto simp: known_statuses_def)

subsection \<open>The service\<close>

inductive service_step ::
  "'x env \<Rightarrow> ('d, 'x) handler \<Rightarrow> ('d, 'x) reconciler \<Rightarrow> ('d, 'x) world \<Rightarrow> ('d, 'x) world \<Rightarrow> bool"
  for E H RC where
  create: "CreateInstance E H c pid body w = (resp, w') \<Longrightarrow> service_step E H RC w w'"
| get: "GetInstance E H k w = (resp, w') \<Longrightarrow> service_step E H RC w w'"
| lists: "ListInstances E H ps w = (resp, w') \<Longrightarrow> service_step E H RC w w'"
| delete: "DeleteInstance E H c k w = (resp, w') \<Longrightarrow> service_step E H RC w w'"
| usage: "GetUsage E H c k metric rp w = (resp, w') \<Longrightarrow> service_step E H RC w w'"
| report: "GetCostReport E H c k rp w = (resp, w') \<Longrightarrow> service_step E H RC w w'"
| forecast: "GetCostForecast E H c k w = (resp, w') \<Longrightarrow> service_step E H RC w w'"
| health: "GetHealth E H w = (resp, w') \<Longrightarrow> service_step E H RC w w'"
| pass: "service_step E H RC w (reconcile E RC c w)"
| outside: "service_step E H RC w (w\<lparr>ext := x\<rparr>)"

inductive reachable ::
  "'x env \<Rightarrow> ('d, 'x) handler \<Rightarrow> ('d, 'x) reconciler \<Rightarrow> ('d, 'x) world \<Rightarrow> ('d, 'x) world \<Rightarrow> bool"
  for E H RC w0 where
  here: "reachable E H RC w0 w0"
| step: "reachable E H RC w0 w \<Longrightarrow> service_step E H RC w w' \<Longrightarrow> reachable E H RC w0 w'"

lemma reachable_trans:
  assumes "reachable E H RC w1 w2" and "reachable E H RC w0 w1"
  shows "reachable E H RC w0 w2"
  using assms by (induction rule: reachable.induct) (auto intro: reachable.step)

subsection \<open>Refinement\<close>

definition life :: "(string \<rightharpoonup> cost_instance) \<Rightarrow> life_table" where
  "life R k = map_option (\<lambda>r. (TargetResourceID r, Status r)) (R k)"

lemma life_upd: "life (R(k \<mapsto> r)) = (life R)(k \<mapsto> (TargetResourceID r, Status r))"
  by (rule ext) (simp add: life_def)

lemma set_status_fields [simp]:
  "Status (set_status s m t r) = s" "StatusMessage (set_status s m t r) = m"
  "TargetResourceID (set_status s m t r) = TargetResourceID r" "ID (set_status s m t r) = ID r"
  "KokuSourceUUID (set_status s m t r) = KokuSourceUUID r"
  by (simp_all add: set_status_def)

lemma probeKoku_db [simp]: "db (snd (probeKoku E c w)) = db w"
  by (simp add: probeKoku_def on_ext_def split: prod.splits option.splits)

lemma kokuHealthy_db [simp]: "db (snd (kokuHealthy E c w)) = db w"
  by (simp add: kokuHealthy_def case_prod_unfold Let_def)

lemma Check_db [simp]: "db (snd (Check E c w)) = db w"
  by (simp add: Check_def case_prod_unfold Let_def)

locale service =
  h: handlers H T + r: reconcilers RC T
  for H :: "('d, 'x) handler" and RC :: "('d, 'x) reconciler"
    and T :: "('d, 'x) world \<Rightarrow> string \<rightharpoonup> cost_instance"
begin

lemma create_life:
  assumes "CreateInstance E H c pid body w = (resp, w')"
  shows "life_step (life (T w)) (life (T w'))"
proof (cases "T w' = T w")
  case True
  then show ?thesis by (simp add: life_step.stay)
next
  case False
  with h.CreateInstance_table [OF assms] obtain spec js r
    where r: "create_checks E body = Inr (spec, js)"
      "reservable (T w) (ID r) (ResourceId (Target spec))" "T w' = (T w)(ID r \<mapsto> r)"
      "TargetResourceID r = ResourceId (Target spec)"
    and st: "Status r = ''PROVISIONING'' \<or> Status r = ''ERROR''"
    by auto
  have "life (T w) (ID r) = None \<or> life (T w) (ID r) = Some (TargetResourceID r, ''ERROR'') \<or>
      life (T w) (ID r) = Some (TargetResourceID r, ''DELETED'')"
    using r(2,4) by (auto simp: reservable_def life_def active_def split: option.splits)
  moreover have "j = ID r" if "life (T w) j = Some (TargetResourceID r, s)" for j s
  proof -
    note asm = that
    obtain q where q: "T w j = Some q" "TargetResourceID q = TargetResourceID r"
      using asm by (auto simp: life_def)
    then have "ID q = ID r" using r(2,4) by (auto simp: reservable_def target_free_def intro: ranI)
    then show ?thesis using h.table_key [OF q(1)] by simp
  qed
  ultimately show ?thesis unfolding r(3) life_upd using st by (rule life_step.provision)
qed

lemma delete_life:
  assumes "DeleteInstance E H c k w = (resp, w')"
  shows "life_step (life (T w)) (life (T w'))"
  using assms
proof (cases rule: h.DeleteInstance_cases)
  case (deleted r)
  have "life (T w) k = Some (TargetResourceID r, Status r)" using deleted(1) by (simp add: life_def)
  then show ?thesis
    using deleted(4) life_step.delete [of "life (T w)" k "TargetResourceID r" "Status r"]
    by (auto simp: life_upd life_step.stay)
qed (simp_all add: life_step.stay)

lemma pass_life: "life_step (life (T w)) (life (T (reconcile E RC c w)))"
proof (rule life_step.advance)
  fix k
  from r.reconcile_spec [OF refl, of E c w] have "reconciled (T w k) (T (reconcile E RC c w) k)"
    by blast
  then show "life (T (reconcile E RC c w)) k = life (T w) k \<or>
      (\<exists>t. life (T w) k = Some (t, ''PROVISIONING'') \<and>
        (life (T (reconcile E RC c w)) k = Some (t, ''READY'') \<or>
         life (T (reconcile E RC c w)) k = Some (t, ''ERROR'')))"
    by (auto simp: reconciled_def life_def)
qed

text \<open>Every step of the service is a step of the specification.\<close>

lemma step_refines:
  assumes "service_step E H RC w w'"
  shows "life_step (life (T w)) (life (T w'))"
  using assms
proof cases
  case create
  then show ?thesis by (rule create_life)
next
  case delete
  then show ?thesis by (rule delete_life)
next
  case pass
  then show ?thesis by (simp add: pass_life)
next
  case get
  then show ?thesis using h.GetInstance_spec by (metis life_step.stay)
next
  case lists
  then show ?thesis using h.ListInstances_same by (metis life_step.stay)
next
  case usage
  then show ?thesis using h.GetUsage_read_only by (metis life_step.stay read_only_def)
next
  case report
  then show ?thesis using h.GetCostReport_read_only by (metis life_step.stay read_only_def)
next
  case forecast
  then show ?thesis using h.GetCostForecast_read_only by (metis life_step.stay read_only_def)
next
  case (health resp)
  have "w' = snd (Check E (hd_checker H) w)" using health by (auto simp: GetHealth_def split: prod.splits)
  then have "T w' = T w" by (intro h.table_frame) simp
  then show ?thesis by (simp add: life_step.stay)
next
  case (outside x)
  have "T w' = T w" by (rule h.table_frame) (simp add: outside)
  then show ?thesis by (simp add: life_step.stay)
qed

text \<open>A row that is in PROVISIONING but names no source can only be deleted.\<close>

lemma stuck_step:
  assumes "service_step E H RC w w'" and "T w k = Some r"
    and "Status r = ''PROVISIONING''" and "KokuSourceUUID r = []"
  shows "T w' k = Some r \<or> (\<exists>c resp. DeleteInstance E H c k w = (resp, w'))"
  using assms(1)
proof cases
  case (create c pid body resp)
  show ?thesis
  proof (cases "T w' = T w")
    case False
    with h.CreateInstance_table [OF create] obtain spec js q
      where "create_checks E body = Inr (spec, js)"
        and q: "reservable (T w) (ID q) (ResourceId (Target spec))" "T w' = (T w)(ID q \<mapsto> q)"
        and "TargetResourceID q = ResourceId (Target spec)"
        and "Status q = ''PROVISIONING'' \<or> Status q = ''ERROR''"
      by auto
    have "ID q \<noteq> k" using q(1) assms(2,3) by (auto simp: reservable_def active_def)
    then show ?thesis using q(2) assms(2) by simp
  qed (simp add: assms(2))
next
  case (delete c j resp)
  show ?thesis
  proof (cases "j = k")
    case True
    then show ?thesis using delete by blast
  next
    case False
    from delete have "T w' k = T w k"
      by (cases rule: h.DeleteInstance_cases) (use False in auto)
    then show ?thesis using assms(2) by simp
  qed
next
  case (pass c)
  from r.reconcile_spec [OF refl, of E c w] have "reconciled (T w k) (T w' k)"
    unfolding pass by blast
  then show ?thesis using assms(2-4) by (auto simp: reconciled_def)
next
  case get
  then show ?thesis using h.GetInstance_spec assms(2) by metis
next
  case lists
  then show ?thesis using h.ListInstances_same assms(2) by metis
next
  case usage
  then show ?thesis using h.GetUsage_read_only assms(2) by (metis read_only_def)
next
  case report
  then show ?thesis using h.GetCostReport_read_only assms(2) by (metis read_only_def)
next
  case forecast
  then show ?thesis using h.GetCostForecast_read_only assms(2) by (metis read_only_def)
next
  case (health resp)
  have "w' = snd (Check E (hd_checker H) w)" using health by (auto simp: GetHealth_def split: prod.splits)
  then have "T w' = T w" by (intro h.table_frame) simp
  then show ?thesis using assms(2) by simp
next
  case (outside x)
  have "T w' = T w" by (rule h.table_frame) (simp add: outside)
  then show ?thesis using assms(2) by simp
qed

lemma reachable_invariants:
  assumes "reachable E H RC w0 w" and "one_per_target (life (T w0))" and "known_statuses (life (T w0))"
  shows "one_per_target (life (T w)) \<and> known_statuses (life (T w))"
  using assms
  by (induction rule: reachable.induct)
    (blast dest: step_refines life_step_one_per_target life_step_known)+

lemma reachable_target:
  assumes "reachable E H RC w0 w" and "T w0 k = Some r"
  shows "\<exists>r'. T w k = Some r' \<and> TargetResourceID r' = TargetResourceID r"
  using assms
proof (induction rule: reachable.induct)
  case (step w w')
  then obtain r' where "T w k = Some r'" "TargetResourceID r' = TargetResourceID r" by auto
  then have "life (T w) k = Some (TargetResourceID r, Status r')" by (simp add: life_def)
  from life_step_target [OF step_refines [OF step.hyps(2)] this] show ?case by (auto simp: life_def)
qed simp

lemma unique_targets_life: "one_per_target (life (T w)) \<longleftrightarrow> unique_targets (T w)"
proof
  assume one: "one_per_target (life (T w))"
  show "unique_targets (T w)" unfolding unique_targets_def
  proof (intro ballI impI)
    fix a b
    assume "a \<in> ran (T w)" and "b \<in> ran (T w)" and eq: "TargetResourceID a = TargetResourceID b"
    then obtain j k where jk: "T w j = Some a" "T w k = Some b" by (auto simp: ran_def)
    then have "life (T w) j = Some (TargetResourceID b, Status a)"
      and "life (T w) k = Some (TargetResourceID b, Status b)" using eq by (simp_all add: life_def)
    then have "j = k" using one unfolding one_per_target_def by blast
    then show "a = b" using jk by simp
  qed
next
  assume uniq: "unique_targets (T w)"
  show "one_per_target (life (T w))" unfolding one_per_target_def
  proof (intro allI impI)
    fix j k t s s'
    assume "life (T w) j = Some (t, s)" and "life (T w) k = Some (t, s')"
    then obtain a b where ab: "T w j = Some a" "T w k = Some b"
      "TargetResourceID a = TargetResourceID b" by (auto simp: life_def)
    then have "a = b" using uniq unfolding unique_targets_def by (blast intro: ranI)
    then show "j = k" using ab(1,2) h.table_key by blast
  qed
qed

end

lemma app_service:
  assumes "gorm_db G R" and "status_publisher P"
  shows "service (app_handler G E C P ck) (app_reconciler G E C P i t) (\<lambda>w. R (db w))"
  unfolding service_def using app_handlers [OF assms] app_reconcilers [OF assms] by simp

interpretation mem_service:
  service "app_handler mem_gorm E C (NATSPublisher E n) ck"
    "app_reconciler mem_gorm E C (NATSPublisher E n) i t" "\<lambda>w. mem_rows (db w)" for E C n ck i t
  by (rule app_service [OF mem.gorm_db_axioms nats.status_publisher_axioms])

end
