(* ===== verification/Script.thy ===== *)
theory Script
  imports App
begin

text \<open>
  A concrete set-up on which the witnesses run the program: scripted answers, the in-memory
  database and sample rows and requests, with lemmas that evaluate the client, the store and the
  publisher on it for a state given by its symbolic parts.
\<close>

subsection \<open>A concrete set-up\<close>

text \<open>
  The rest of the world for the witnesses: the responses of Koku and of the registry come from
  a list, the clock stands 25 hours after the zero time, nothing is cancelled, and NATS accepts
  every message.
\<close>

record script =
  sc_answers :: "(string + http_response) list"

definition script_time :: time where
  "script_time = 90000 * second"

definition script_http :: "script \<Rightarrow> (string + http_response) \<times> script" where
  "script_http x =
     (case sc_answers x of
        [] \<Rightarrow> (Inl ''connection refused'', x)
      | a # rest \<Rightarrow> (a, x\<lparr>sc_answers := rest\<rparr>))"

text \<open>Four floats, with their bit patterns, are enough.\<close>

definition float_table :: "(float64 \<times> string) list" where
  "float_table = [(0, ''0''), (0x3FE0000000000000, ''0.5''), (0x3FF0000000000000, ''1''),
     (0x4000000000000000, ''2'')]"

definition table_floats :: float_fmt where
  "table_floats =
     \<lparr>ff_print = \<lambda>v. (case map_of float_table v of None \<Rightarrow> ''0'' | Some s \<Rightarrow> s),
      ff_parse = \<lambda>s. map_of (map prod.swap float_table) s\<rparr>"

definition script_env :: "script env" where
  "script_env =
     \<lparr>env_now = \<lambda>x. (script_time, x),
      env_uuid = \<lambda>x. (''new-id'', x),
      env_http = \<lambda>c r x. script_http x,
      env_new_request_err = \<lambda>m u. None,
      env_ctx_err = \<lambda>c x. False,
      env_sleep = \<lambda>c d x. x,
      env_nats = \<lambda>s d x. (None, x),
      env_nats_close = \<lambda>x. x,
      env_float = table_floats,
      env_json_err = \<lambda>s e. ''invalid'',
      env_marshal_err = \<lambda>j. ''unsupported value''\<rparr>"

definition script_conf :: koku_conf where
  "script_conf = \<lparr>kc_baseURL = ''http://koku'', kc_identity = ''me''\<rparr>"

definition script_handler :: "(mem_db, script) handler" where
  "script_handler =
     app_handler mem_gorm script_env script_conf (NATSPublisher script_env ''dcm'')
       (NewChecker ''1.0'' 0 ''http://koku'')"

definition start ::
  "cost_instance list \<Rightarrow> bool list \<Rightarrow> (string + http_response) list \<Rightarrow> (mem_db, script) world" where
  "start rows faults answers =
     \<lparr>db = \<lparr>md_rows = rows, md_clock = 5, md_faults = faults\<rparr>,
      ext = \<lparr>sc_answers = answers\<rparr>, outgoing = [],
      published = [], HTTPRequestsTotal = (\<lambda>k. 0), RequestDuration = (\<lambda>k. []),
      InstancesManaged = 0, KokuRequestsTotal = (\<lambda>k. 0), NATSEventsPublished = 0, cachedAt = 0,
      cachedKokuOK = False\<rparr>"

definition answer :: "int \<Rightarrow> string \<Rightarrow> string + http_response" where
  "answer code body = Inr \<lparr>rs_status = code, rs_body = body, rs_body_err = None\<rparr>"

text \<open>The body \<open>{"uuid":"s1"}\<close>, written with its codes for the quotes.\<close>

definition uuid_body :: "string \<Rightarrow> string" where
  "uuid_body u = CHR ''{'' # quote ''uuid'' @ '':'' @ quote u @ ''}''"

definition sample_spec :: "string \<Rightarrow> string option \<Rightarrow> api_rate list \<Rightarrow> cost_spec" where
  "sample_spec target cur rates =
     zero_spec\<lparr>Target := (Target zero_spec)\<lparr>ResourceId := target\<rparr>, Currency := cur,
       CostModel := (if rates = [] then None
         else Some \<lparr>Distribution = None, Markup = None, Rates = Some rates\<rparr>)\<rparr>"

definition sample_body :: "cost_spec \<Rightarrow> api_cost_instance option" where
  "sample_body spec =
     Some \<lparr>ci_ClusterId = None, ci_CreateTime = None, ci_Id = None, ci_Path = None, ci_Spec = spec,
       ci_Status = None, ci_StatusMessage = None, ci_UpdateTime = None\<rparr>"

definition sample_row :: "string \<Rightarrow> string \<Rightarrow> string \<Rightarrow> string \<Rightarrow> cost_instance" where
  "sample_row k target status source =
     \<lparr>ID = k, TargetResourceID = target, ClusterID = target, KokuSourceUUID = source,
      KokuCostModelUUID = [], Status = status, StatusMessage = [], Name = [], SpecJSON = [],
      CreatedAt = 1, UpdatedAt = 1\<rparr>"

subsection \<open>Running it\<close>

lemma world_same [simp]: "w\<lparr>ext := ext w\<rparr> = w" "w\<lparr>db := db w\<rparr> = w"
  by (cases w; simp)+

lemma script_now [simp]: "on_ext (env_now script_env) w = (script_time, w)"
  by (simp add: on_ext_def script_env_def)

lemma script_uuid [simp]: "on_ext (env_uuid script_env) w = (''new-id'', w)"
  by (simp add: on_ext_def script_env_def)

text \<open>The state after one request of the client has been answered.\<close>

definition told ::
  "http_request \<Rightarrow> string \<Rightarrow> int \<Rightarrow> ('d, script) world \<Rightarrow> ('d, script) world" where
  "told req oper code w = count_koku_request oper (result_label code)
     (w\<lparr>outgoing := outgoing w @ [req], ext := (ext w)\<lparr>sc_answers := tl (sc_answers (ext w))\<rparr>\<rparr>)"

lemma told_simps [simp]:
  "db (told req oper code w) = db w" "published (told req oper code w) = published w"
  "outgoing (told req oper code w) = outgoing w @ [req]"
  "InstancesManaged (told req oper code w) = InstancesManaged w"
  "sc_answers (ext (told req oper code w)) = tl (sc_answers (ext w))"
  by (simp_all add: told_def)

lemma told_db [simp]:
  "(told req oper code w)\<lparr>db := d\<rparr> = told req oper code (w\<lparr>db := d\<rparr>)"
  by (simp add: told_def count_koku_request_def)

lemma script_doWithRetry:
  assumes "sc_answers (ext w) = Inr resp # rest" and "rs_status resp < 500"
    and "sendable script_env C meth path body = Some req"
  shows "doWithRetry script_env C ctx meth path body w =
    (Inr resp, told req (NormalizeKokuOp meth path) (rs_status resp) w)"
proof -
  have "koku_do script_env C ctx meth path body w =
      (Inr resp, told req (NormalizeKokuOp meth path) (rs_status resp) w)"
    using assms
    by (auto simp: koku_do_def sendable_def on_ext_def script_env_def script_http_def told_def Let_def
        split: sum.splits option.splits if_splits)
  then show ?thesis using assms(2) by (simp add: doWithRetry_def maxRetries_def numeral_3_eq_3)
qed

text \<open>The requests of the sample runs can be encoded.\<close>

lemma script_marshal: "json_finite j \<Longrightarrow>
  sendable script_env C meth path (Some j) =
    Some (koku_request C meth path (Some (print_json table_floats j)))"
  by (simp add: sendable_def marshal_body_def json_marshal_def script_env_def)

lemma script_no_body: "sendable script_env C meth path None = Some (koku_request C meth path None)"
  by (simp add: sendable_def marshal_body_def script_env_def)

text \<open>What Koku can answer, and what the client makes of it.\<close>

lemma uuid_decoded:
  "decodeJSON script_env dec_source_response
     \<lparr>src_UUID = [], src_Name = [], src_SourceType = [], src_Paused = False\<rparr>
     \<lparr>rs_status = 201, rs_body = uuid_body ''s1'', rs_body_err = None\<rparr> =
   Inr \<lparr>src_UUID = ''s1'', src_Name = [], src_SourceType = [], src_Paused = False\<rparr>"
  by code_simp

definition source_posted :: "string \<Rightarrow> string \<Rightarrow> http_request" where
  "source_posted target name =
     koku_request script_conf ''POST'' ''/api/cost-management/v1/sources/''
       (Some (print_json table_floats (source_request target name)))"

lemma script_CreateSource:
  assumes "sc_answers (ext w) = answer code body # rest" and "code < 500"
  shows "CreateSource script_env script_conf c target name w =
    (if code \<noteq> 201
     then Inl (status_error ''create source'' \<lparr>rs_status = code, rs_body = body, rs_body_err = None\<rparr>)
     else decodeJSON script_env dec_source_response
       \<lparr>src_UUID = [], src_Name = [], src_SourceType = [], src_Paused = False\<rparr>
       \<lparr>rs_status = code, rs_body = body, rs_body_err = None\<rparr>,
     told (source_posted target name) (NormalizeKokuOp ''POST'' ''/api/cost-management/v1/sources/'')
       code w)"
  using script_doWithRetry [of w "\<lparr>rs_status = code, rs_body = body, rs_body_err = None\<rparr>" rest
      script_conf "''POST''" "''/api/cost-management/v1/sources/''" "Some (source_request target name)"
      "source_posted target name" c] assms
  by (simp add: CreateSource_def source_posted_def answer_def script_marshal source_request_def)

text \<open>An event published by a run.\<close>

definition script_event :: "string \<Rightarrow> string \<Rightarrow> string \<Rightarrow> cloud_event" where
  "script_event iid status message =
     \<lparr>ce_SpecVersion = ''1.0'', ce_ID = ''new-id'', ce_Source = ''dcm/providers/'' @ ''dcm'',
      ce_Type = ''dcm.status.cost'', ce_Time = format_rfc3339 script_time, ce_Subject = ''dcm.cost'',
      ce_DataContentType = ''application/json'',
      ce_Data = \<lparr>sp_ID = iid, sp_Status = status, sp_Message = message,
        sp_Timestamp = script_time\<rparr>\<rparr>"

lemma script_year: "date_year (civil_date (script_time div second div 86400)) = 1"
  by code_simp

lemma script_publish:
  "pub_Publish (NATSPublisher script_env ''dcm'') c iid status message w =
   (None, count_event (w\<lparr>published := published w @ [script_event iid status message]\<rparr>))"
proof -
  have "NewStatusCloudEvent script_env ''dcm'' iid status message w =
      (script_event iid status message, w)"
    by (simp add: NewStatusCloudEvent_def script_event_def)
  moreover have "marshal_event script_env (script_event iid status message) =
      Inr (print_json table_floats (enc_event (script_event iid status message)))"
    by (simp add: marshal_event_def script_event_def script_year Let_def) (simp add: script_env_def)
  moreover have "on_ext (env_nats script_env subject data) w = (None, w)" for subject data
    by (simp add: on_ext_def script_env_def)
  ultimately show ?thesis by (simp add: NATSPublisher_def nats_Publish_def)
qed

lemma script_parts [simp]:
  "hd_koku script_handler = koku_of script_env script_conf"
  "hd_publisher script_handler = NATSPublisher script_env ''dcm''"
  by (simp_all add: script_handler_def)

lemma koku_of_simps [simp]:
  "kk_CreateSource (koku_of E C) = CreateSource E C" "kk_PauseSource (koku_of E C) = PauseSource E C"
  "kk_CreateCostModel (koku_of E C) = CreateCostModel E C"
  "kk_DeleteCostModel (koku_of E C) = DeleteCostModel E C"
  "kk_GetSourceStats (koku_of E C) = GetSourceStats E C"
  "kk_GetReports (koku_of E C) = GetReports E C" "kk_GetForecasts (koku_of E C) = GetForecasts E C"
  by (simp_all add: koku_of_def)

text \<open>Statements of the in-memory database when no fault is due.\<close>

lemma script_Create:
  assumes "md_faults (db w) = []"
  shows "st_Create (hd_store script_handler) i w =
    (let i' = stamp_new (md_clock (db w)) i
     in if clash (db w) i then ((Some ErrAlreadyExists, i'), w\<lparr>db := mem_tick (db w)\<rparr>)
        else ((None, i'), w\<lparr>db := mem_put i' (mem_tick (db w))\<rparr>))"
proof -
  have "isUniqueConstraintError unique_error" by code_simp
  then show ?thesis using assms
    by (simp add: script_handler_def store_of_def on_db_def store_Create_def mem_gorm_def
        mem_create_def mem_fault_def Let_def)
qed

lemma script_Update:
  assumes "md_faults (db w) = []" and "\<not> target_clash (db w) i"
  shows "st_Update (hd_store script_handler) i w =
    ((None, i\<lparr>UpdatedAt := md_clock (db w)\<rparr>),
     w\<lparr>db := mem_put (i\<lparr>UpdatedAt := md_clock (db w)\<rparr>) (mem_tick (db w))\<rparr>)"
  using assms by (simp add: script_handler_def store_of_def on_db_def store_Update_def mem_gorm_def
      mem_save_def mem_fault_def Let_def)

lemma script_find:
  assumes "md_faults (db w) = []"
  shows "st_Get (hd_store script_handler) k w =
      (case List.find (\<lambda>r. ID r = k) (mem_table (db w)) of
         None \<Rightarrow> Inl ErrNotFound | Some r \<Rightarrow> Inr r, w\<lparr>db := mem_tick (db w)\<rparr>)"
    "st_GetByTarget (hd_store script_handler) k w =
      (case List.find (\<lambda>r. TargetResourceID r = k) (mem_table (db w)) of
         None \<Rightarrow> Inl ErrNotFound | Some r \<Rightarrow> Inr r, w\<lparr>db := mem_tick (db w)\<rparr>)"
  using assms
  by (simp_all add: script_handler_def store_of_def on_db_def store_Get_def store_GetByTarget_def
      mem_gorm_def mem_find_def mem_fault_def not_found_or_def split: option.splits)

lemma script_UpdateStatus:
  assumes "md_faults (db w) = []" and "List.find (\<lambda>r. ID r = k) (mem_table (db w)) = Some r"
  shows "st_UpdateStatus (hd_store script_handler) k s m w =
    (None, w\<lparr>db := mem_put (set_status s m (md_clock (db w)) r) (mem_tick (db w))\<rparr>)"
  using assms by (simp add: script_handler_def store_of_def on_db_def store_UpdateStatus_def
      mem_gorm_def mem_update_status_def mem_fault_def)

lemma mem_tick_simps [simp]:
  "md_rows (mem_tick d) = md_rows d" "md_clock (mem_tick d) = md_clock d + 1"
  "md_faults (mem_tick d) = tl (md_faults d)" "md_rows (mem_put i d) = i # md_rows d"
  "md_clock (mem_put i d) = md_clock d" "md_faults (mem_put i d) = md_faults d"
  by (simp_all add: mem_tick_def mem_put_def)

lemma start_simps [simp]:
  "db (start rows faults answers) = \<lparr>md_rows = rows, md_clock = 5, md_faults = faults\<rparr>"
  "sc_answers (ext (start rows faults answers)) = answers"
  "outgoing (start rows faults answers) = []" "published (start rows faults answers) = []"
  "InstancesManaged (start rows faults answers) = 0"
  by (simp_all add: start_def)

lemma sample_spec_simps [simp]:
  "ResourceId (Target (sample_spec t cur rates)) = t"
  "metadata_Name (Metadata (sample_spec t cur rates)) = []"
  "Currency (sample_spec t cur rates) = cur"
  by (simp_all add: sample_spec_def zero_spec_def zero_metadata_def)

definition sample_json :: "string \<Rightarrow> string option \<Rightarrow> api_rate list \<Rightarrow> string" where
  "sample_json t cur rates = print_json table_floats (enc_spec (sample_spec t cur rates))"

lemma sample_checks:
  assumes "safeIDPattern t" and "json_finite (enc_spec (sample_spec t cur rates))"
  shows "create_checks script_env (sample_body (sample_spec t cur rates)) =
    Inr (sample_spec t cur rates, sample_json t cur rates)"
proof -
  have "t \<noteq> []" using assms by (auto simp: safeIDPattern_def)
  then show ?thesis using assms
    by (simp add: create_checks_def sample_body_def marshal_spec_def json_marshal_def sample_json_def
        script_env_def Let_def)
qed

definition sample_rate :: api_rate where
  "sample_rate = \<lparr>rate_CostType = None, rate_Metric = ''cpu_core_usage_per_hour'',
     rate_Value = 0x3FF0000000000000\<rparr>"

lemma sample_ok:
  "create_checks script_env (sample_body (sample_spec ''c1'' None [])) =
     Inr (sample_spec ''c1'' None [], sample_json ''c1'' None [])"
  "create_checks script_env (sample_body (sample_spec ''c1'' (Some ''XXX'') [sample_rate])) =
     Inr (sample_spec ''c1'' (Some ''XXX'') [sample_rate],
       sample_json ''c1'' (Some ''XXX'') [sample_rate])"
proof -
  have "safeIDPattern ''c1''" and "json_finite (enc_spec (sample_spec ''c1'' None []))"
    and "json_finite (enc_spec (sample_spec ''c1'' (Some ''XXX'') [sample_rate]))"
    by code_simp+
  then show "create_checks script_env (sample_body (sample_spec ''c1'' None [])) =
     Inr (sample_spec ''c1'' None [], sample_json ''c1'' None [])"
   and "create_checks script_env (sample_body (sample_spec ''c1'' (Some ''XXX'') [sample_rate])) =
     Inr (sample_spec ''c1'' (Some ''XXX'') [sample_rate],
       sample_json ''c1'' (Some ''XXX'') [sample_rate])"
    by (simp_all only: sample_checks)
qed

text \<open>
  A run that creates an instance in an empty table, with no rates: the row it stores and the
  state it ends in.
\<close>

definition created_row :: cost_instance where
  "created_row = (new_instance ''new-id'' (sample_spec ''c1'' None []) (sample_json ''c1'' None []))
     \<lparr>KokuSourceUUID := ''s1'', StatusMessage := msg_source_created, CreatedAt := 5, UpdatedAt := 6\<rparr>"

lemma sample_no_rates [simp]: "wanted_rates (sample_spec t cur []) = None"
  by (simp add: wanted_rates_def sample_spec_def zero_spec_def)

lemma run_reserve:
  "create_reserve script_handler ''c1'' (new_instance ''new-id'' spec js) (start [] [] answers) =
    (Inr (stamp_new 5 (new_instance ''new-id'' spec js)),
     (start [] [] answers)\<lparr>db := \<lparr>md_rows = [stamp_new 5 (new_instance ''new-id'' spec js)],
        md_clock = 6, md_faults = []\<rparr>\<rparr>)"
  by (simp add: create_reserve_def script_Create clash_def mem_table_def mem_put_def mem_tick_def Let_def)

lemma run_create:
  "\<exists>w'. CreateInstance script_env script_handler c None (sample_body (sample_spec ''c1'' None []))
      (start [] [] [answer 201 (uuid_body ''s1'')]) =
    (OkInstance 201 (toAPICostInstance script_env created_row), w') \<and>
    mem_rows (db w') = [''new-id'' \<mapsto> created_row] \<and>
    published w' = [script_event ''new-id'' ''PROVISIONING'' msg_source_created] \<and>
    outgoing w' = [source_posted ''c1'' ''dcm-new-id'']"
  by (simp add: CreateInstance_def sample_ok run_reserve create_provision_def
      script_CreateSource [where rest = "[]"] uuid_decoded create_cost_model_def create_finish_def
      script_Update script_publish target_clash_def mem_table_def mem_rows_def)
    (simp add: stamp_new_def new_instance_def created_row_def)

text \<open>Koku refuses the source.\<close>

lemma run_no_source_then_delete:
  "\<exists>w1 w2. CreateInstance script_env script_handler c None (sample_body (sample_spec ''c1'' None []))
      (start [] [] [answer 400 ''no'']) =
      (internal_error ''failed to create Koku source'', w1) \<and> InstancesManaged w1 = 0 \<and>
    DeleteInstance script_env script_handler c ''new-id'' w1 = (NoContent, w2) \<and>
    InstancesManaged w2 = - 1"
  by (simp add: CreateInstance_def sample_ok run_reserve create_provision_def
      script_CreateSource [where rest = "[]"] script_UpdateStatus mem_table_def)
    (simp add: DeleteInstance_def script_find delete_upstream_def script_UpdateStatus
      script_publish mem_table_def stamp_new_def new_instance_def set_status_def)

text \<open>An instance of the target is there already.\<close>

lemma run_conflict:
  "\<exists>w'. CreateInstance script_env script_handler c None (sample_body (sample_spec ''c1'' None []))
      (start [sample_row ''i1'' ''c1'' ''READY'' ''s1''] [] []) = (conflict, w')"
proof -
  let ?w = "start [sample_row ''i1'' ''c1'' ''READY'' ''s1''] [] []"
  have "clash (db ?w) (new_instance k spec js)" if "ResourceId (Target spec) = ''c1''" for k spec js
    using that by (simp add: clash_def mem_table_def sample_row_def)
  then show ?thesis
    by (simp add: CreateInstance_def sample_ok create_reserve_def script_Create script_find
        mem_table_def Let_def)
      (simp add: sample_row_def)
qed

text \<open>Rates in a currency that is not supported.\<close>

lemma sample_rates [simp]:
  "wanted_rates (sample_spec t cur [r]) =
     Some (\<lparr>Distribution = None, Markup = None, Rates = Some [r]\<rparr>, [r])"
  by (simp add: wanted_rates_def sample_spec_def zero_spec_def)

lemma bad_currency: "spec_currency (sample_spec t (Some ''XXX'') rs) \<notin> set validCurrencies"
  by (simp add: spec_currency_def validCurrencies_def)

lemma run_currency:
  "\<exists>w' d. CreateInstance script_env script_handler c None
      (sample_body (sample_spec ''c1'' (Some ''XXX'') [sample_rate]))
      (start [] [] [answer 201 (uuid_body ''s1'')]) = (bad_request d, w')"
  by (simp add: CreateInstance_def sample_ok run_reserve create_provision_def
      script_CreateSource [where rest = "[]"] uuid_decoded create_cost_model_def bad_currency) blast

text \<open>Deleting an instance that has no source yet.\<close>

lemma run_delete:
  "\<exists>w'. DeleteInstance script_env script_handler c ''i1''
      (start [sample_row ''i1'' ''c1'' ''ERROR'' []] [] []) = (NoContent, w') \<and>
    published w' = [script_event ''i1'' ''DELETED'' ''instance deleted''] \<and>
    InstancesManaged w' = - 1"
  by (simp add: DeleteInstance_def script_find delete_upstream_def script_UpdateStatus
      script_publish mem_table_def sample_row_def)

subsection \<open>Running the reconciler\<close>

definition script_reconciler :: "duration \<Rightarrow> (mem_db, script) reconciler" where
  "script_reconciler timeout =
     app_reconciler mem_gorm script_env script_conf (NATSPublisher script_env ''dcm'') second timeout"

definition stats_asked :: "string \<Rightarrow> http_request" where
  "stats_asked u = koku_request script_conf ''GET''
     (''/api/cost-management/v1/sources/'' @ u @ ''/stats/'') None"

text \<open>Statistics with data: \<open>{"a":[1]}\<close>.\<close>

definition data_body :: string where
  "data_body = CHR ''{'' # quote ''a'' @ '':[1]}''"

lemma data_decoded:
  "decodeJSON script_env dec_json_map None
     \<lparr>rs_status = 200, rs_body = data_body, rs_body_err = None\<rparr> =
   Inr (Some [(''a'', JArr [JNum 0x3FF0000000000000])])"
  by code_simp

lemma script_GetSourceStats:
  assumes "sc_answers (ext w) = answer 200 data_body # rest"
  shows "GetSourceStats script_env script_conf c u w =
    (Inr (Some [(''a'', JArr [JNum 0x3FF0000000000000])]),
     told (stats_asked u)
       (NormalizeKokuOp ''GET'' (''/api/cost-management/v1/sources/'' @ u @ ''/stats/'')) 200 w)"
  using script_doWithRetry [of w "\<lparr>rs_status = 200, rs_body = data_body, rs_body_err = None\<rparr>" rest
      script_conf "''GET''" "''/api/cost-management/v1/sources/'' @ u @ ''/stats/''" None
      "stats_asked u" c] assms
  by (simp add: GetSourceStats_def stats_asked_def answer_def script_no_body data_decoded)

end
