(* ===== verification/ServiceProps.thy ===== *)
theory ServiceProps
  imports Lifecycle Script
begin

text \<open>
  The properties of the service's operations, for the handler and the reconciler that
  \<open>main.go\<close> builds: over every database that fulfils \<open>gorm_db\<close>, every publisher that fulfils
  \<open>status_publisher\<close>, and every behaviour of the rest of the world. Each follows from the
  lemmas of \<open>HandlerLaws\<close>, \<open>Reconciler\<close> and \<open>Lifecycle\<close>; its witness runs the program on the
  in-memory database.
\<close>

lemmas mem_contract = mem.gorm_db_axioms
lemmas nats_contract = nats.status_publisher_axioms [of script_env "''dcm''"]

lemma same_effects_all:
  "same_effects w w' \<longleftrightarrow> outgoing w' = outgoing w \<and> published w' = published w \<and>
     InstancesManaged w' = InstancesManaged w"
  by (simp add: same_effects_def)

subsection \<open>Create\<close>



text \<open>C2. While a target has an active instance (neither failed nor deleted), a create for it
  changes nothing at all and answers 409, or 500 when the database fails: no row is written, no
  request is sent, no event is published and the gauge stays.\<close>

theorem create_active_target:
  assumes "gorm_db G R" and "status_publisher P"
    and "CreateInstance E (app_handler G E C P ck) c pid body w = (resp, w')"
    and "create_checks E body = Inr (spec, js)"
    and "R (db w) k = Some r" and "TargetResourceID r = ResourceId (Target spec)" and "active r"
  shows "(resp = conflict \<or> (\<exists>d. resp = internal_error d)) \<and> R (db w') = R (db w) \<and>
    outgoing w' = outgoing w \<and> published w' = published w \<and>
    InstancesManaged w' = InstancesManaged w"
  using handlers.CreateInstance_active [OF app_handlers [OF assms(1,2)] assms(3-)]
  by (simp add: same_effects_all)

theorem create_active_target_witness:
  "\<exists>w'. CreateInstance script_env script_handler (Ctx 0) None (sample_body (sample_spec ''c1'' None []))
      (start [sample_row ''i1'' ''c1'' ''READY'' ''s1''] [] []) = (conflict, w') \<and>
    mem_rows (db w') = mem_rows (db (start [sample_row ''i1'' ''c1'' ''READY'' ''s1''] [] []))"
proof -
  obtain w' where run: "CreateInstance script_env script_handler (Ctx 0) None
      (sample_body (sample_spec ''c1'' None []))
      (start [sample_row ''i1'' ''c1'' ''READY'' ''s1''] [] []) = (conflict, w')"
    using run_conflict by blast
  have "mem_rows (db (start [sample_row ''i1'' ''c1'' ''READY'' ''s1''] [] [])) ''i1'' =
      Some (sample_row ''i1'' ''c1'' ''READY'' ''s1'')"
    by (simp add: mem_rows_def mem_table_def sample_row_def)
  from create_active_target [OF mem_contract nats_contract run [unfolded script_handler_def]
      sample_ok(1) this] run
  show ?thesis by (simp add: sample_row_def active_def)
qed

text \<open>C7. A create that answers with a problem publishes nothing and leaves the gauge. In the table
  it leaves either nothing, or its reserved row: marked ERROR (with 500), or still reserved (with
  500, or with 400 for an unsupported currency). 409 is answered only when the target has an
  active instance, and then nothing is left.\<close>

theorem create_problem:
  assumes "gorm_db G R" and "status_publisher P"
    and "CreateInstance E (app_handler G E C P ck) c pid body w = (Problem code e, w')"
  shows "published w' = published w \<and> InstancesManaged w' = InstancesManaged w \<and>
    (code = 409 \<longrightarrow> R (db w') = R (db w) \<and> outgoing w' = outgoing w \<and>
       (\<exists>spec js. create_checks E body = Inr (spec, js) \<and>
          (\<exists>r \<in> ran (R (db w)). TargetResourceID r = ResourceId (Target spec) \<and> active r))) \<and>
    (R (db w') = R (db w) \<or>
     (\<exists>spec js i. create_checks E body = Inr (spec, js) \<and> reserved_row spec js i \<and>
        reservable (R (db w)) (ID i) (ResourceId (Target spec)) \<and>
        (code = 500 \<and> (\<exists>m t. R (db w') = (R (db w))(ID i \<mapsto> set_status ''ERROR'' m t i)) \<or>
         (code = 500 \<or> code = 400 \<and> unsupported_currency spec) \<and>
           R (db w') = (R (db w))(ID i \<mapsto> i))))"
proof (intro conjI impI)
  note h = handlers.CreateInstance_problem [OF app_handlers [OF assms(1,2)] assms(3)]
  show "published w' = published w" "InstancesManaged w' = InstancesManaged w" using h by simp_all
  show "R (db w') = R (db w) \<or>
     (\<exists>spec js i. create_checks E body = Inr (spec, js) \<and> reserved_row spec js i \<and>
        reservable (R (db w)) (ID i) (ResourceId (Target spec)) \<and>
        (code = 500 \<and> (\<exists>m t. R (db w') = (R (db w))(ID i \<mapsto> set_status ''ERROR'' m t i)) \<or>
         (code = 500 \<or> code = 400 \<and> unsupported_currency spec) \<and>
           R (db w') = (R (db w))(ID i \<mapsto> i)))"
    using h by simp
  assume "code = 409"
  note k = handlers.CreateInstance_conflict [OF app_handlers [OF assms(1,2)]
      assms(3) [unfolded this]]
  show "R (db w') = R (db w)" "outgoing w' = outgoing w"
    "\<exists>spec js. create_checks E body = Inr (spec, js) \<and>
       (\<exists>r \<in> ran (R (db w)). TargetResourceID r = ResourceId (Target spec) \<and> active r)"
    using k by simp_all
qed

theorem create_problem_witness:
  "\<exists>w' d. CreateInstance script_env script_handler (Ctx 0) None
      (sample_body (sample_spec ''c1'' (Some ''XXX'') [sample_rate]))
      (start [] [] [answer 201 (uuid_body ''s1'')]) = (bad_request d, w') \<and>
    published w' = [] \<and> InstancesManaged w' = 0"
proof -
  obtain w' d where run: "CreateInstance script_env script_handler (Ctx 0) None
      (sample_body (sample_spec ''c1'' (Some ''XXX'') [sample_rate]))
      (start [] [] [answer 201 (uuid_body ''s1'')]) = (bad_request d, w')"
    using run_currency by blast
  from create_problem [OF mem_contract nats_contract
      run [unfolded script_handler_def bad_request_def]] run
  show ?thesis by auto
qed





text \<open>C13. Rates in an unsupported currency: once the target is reserved and the source created, the
  create answers 400, but the row stays in PROVISIONING without the source's id, while the source
  exists in Koku and nothing refers to it. The currency is checked after these effects.\<close>

theorem create_unsupported_currency_leaks:
  assumes "gorm_db G R" and "status_publisher P"
    and "create_provision E (app_handler G E C P ck) c spec name i w = (resp, w')"
    and "CreateSource E C c (ResourceId (Target spec)) name w = (Inr src, w1)"
    and "unsupported_currency spec"
  shows "(\<exists>d. resp = bad_request d) \<and> R (db w') = R (db w) \<and>
    (\<exists>reqs req k. sendable E C ''POST'' ''/api/cost-management/v1/sources/''
         (Some (source_request (ResourceId (Target spec)) name)) = Some req \<and> 0 < k \<and>
       outgoing w' = outgoing w @ replicate k req @ reqs)"
proof -
  have "kk_CreateSource (hd_koku (app_handler G E C P ck)) c (ResourceId (Target spec)) name w =
      (Inr src, w1)" using assms(4) by (simp add: koku_of_def)
  note h = handlers.create_provision_source [OF app_handlers [OF assms(1,2)] assms(3) this]
  from CreateSource_answered [OF assms(4)] obtain req k
    where "sendable E C ''POST'' ''/api/cost-management/v1/sources/''
        (Some (source_request (ResourceId (Target spec)) name)) = Some req" "0 < k"
      "outgoing w1 = outgoing w @ replicate k req" by blast
  moreover obtain reqs where "outgoing w' = outgoing w1 @ reqs" using h by blast
  ultimately have "\<exists>reqs req k. sendable E C ''POST'' ''/api/cost-management/v1/sources/''
         (Some (source_request (ResourceId (Target spec)) name)) = Some req \<and> 0 < k \<and>
       outgoing w' = outgoing w @ replicate k req @ reqs" by auto
  then show ?thesis using h assms(5) by simp
qed

theorem create_unsupported_currency_leaks_witness:
  "\<exists>resp w'. create_provision script_env script_handler (Ctx 0)
      (sample_spec ''c1'' (Some ''XXX'') [sample_rate]) ''n''
      (sample_row ''i1'' ''c1'' ''PROVISIONING'' [])
      (start [sample_row ''i1'' ''c1'' ''PROVISIONING'' []] [] [answer 201 (uuid_body ''s1'')]) =
      (resp, w') \<and>
    (\<exists>d. resp = bad_request d) \<and>
    mem_rows (db w') ''i1'' = Some (sample_row ''i1'' ''c1'' ''PROVISIONING'' []) \<and> outgoing w' \<noteq> []"
proof -
  let ?row = "sample_row ''i1'' ''c1'' ''PROVISIONING'' []"
  let ?w = "start [?row] [] [answer 201 (uuid_body ''s1'')]"
  let ?spec = "sample_spec ''c1'' (Some ''XXX'') [sample_rate]"
  obtain resp w' where run: "create_provision script_env script_handler (Ctx 0) ?spec ''n'' ?row ?w =
      (resp, w')" by fastforce
  obtain src w1 where src: "CreateSource script_env script_conf (Ctx 0)
      (ResourceId (Target ?spec)) ''n'' ?w = (Inr src, w1)"
    by (simp add: script_CreateSource [where rest = "[]"] uuid_decoded)
  have bad: "unsupported_currency ?spec"
    using bad_currency by (simp add: unsupported_currency_def)
  have row: "mem_rows (db ?w) ''i1'' = Some ?row"
    by (simp add: mem_rows_def mem_table_def sample_row_def)
  from create_unsupported_currency_leaks [OF mem_contract nats_contract
      run [unfolded script_handler_def] src bad] run row
  show ?thesis by auto
qed

subsection \<open>Delete and reads\<close>



text \<open>The gauge of managed instances does not count them: an instance that failed to be
  provisioned was never added, but deleting it subtracts one, so that the gauge goes below zero.\<close>

lemma gauge_below_zero:
  "\<exists>w1 w2. CreateInstance script_env script_handler (Ctx 0) None
       (sample_body (sample_spec ''c1'' None [])) (start [] [] [answer 400 ''no'']) =
       (internal_error ''failed to create Koku source'', w1) \<and>
     InstancesManaged w1 = 0 \<and>
     DeleteInstance script_env script_handler (Ctx 0) ''new-id'' w1 = (NoContent, w2) \<and>
     InstancesManaged w2 = - 1"
  using run_no_source_then_delete by blast

text \<open>C24. Get, list and the three report operations never change the table, the events or the gauge,
  and send at most three requests.\<close>

theorem reads_change_nothing:
  assumes "gorm_db G R" and "status_publisher P"
    and "H = app_handler G E C P ck" and "T = (\<lambda>w. R (db w))"
  shows "read_only T 0 w (snd (GetInstance E H k w)) \<and>
    read_only T 0 w (snd (ListInstances E H ps w)) \<and>
    read_only T maxRetries w (snd (GetUsage E H c k metric rp w)) \<and>
    read_only T maxRetries w (snd (GetCostReport E H c k rp w)) \<and>
    read_only T maxRetries w (snd (GetCostForecast E H c k w))"
proof (intro conjI)
  note h = app_handlers [OF assms(1,2), of E C ck, folded assms(3)]
  show "read_only T 0 w (snd (GetInstance E H k w))"
    using handlers.GetInstance_spec [OF h prod.collapse [symmetric]]
    by (simp add: read_only_def assms(4) same_effects_all)
  show "read_only T 0 w (snd (ListInstances E H ps w))"
    using handlers.ListInstances_same [OF h prod.collapse [symmetric]]
    by (simp add: read_only_def assms(4) same_effects_all)
  show "read_only T maxRetries w (snd (GetUsage E H c k metric rp w))"
    using handlers.GetUsage_read_only [OF h prod.collapse [symmetric]] by (simp add: assms(4))
  show "read_only T maxRetries w (snd (GetCostReport E H c k rp w))"
    using handlers.GetCostReport_read_only [OF h prod.collapse [symmetric]] by (simp add: assms(4))
  show "read_only T maxRetries w (snd (GetCostForecast E H c k w))"
    using handlers.GetCostForecast_read_only [OF h prod.collapse [symmetric]] by (simp add: assms(4))
qed

theorem reads_change_nothing_witness:
  "read_only (\<lambda>w. mem_rows (db w)) maxRetries (start [] [] [])
     (snd (GetUsage script_env script_handler (Ctx 0) ''i1'' ''compute''
        \<lparr>StartDate = None, EndDate = None\<rparr> (start [] [] [])))"
  using reads_change_nothing [OF mem_contract nats_contract script_handler_def refl] by blast

subsection \<open>The service over time\<close>

text \<open>C3. Every step of the service (any request, any reconciler pass, any change of the outside
  world) is a step of the abstract life cycle: provisioning under a new id or that of a failed or
  deleted instance of the target, advancing from PROVISIONING to READY or ERROR, deleting.\<close>

theorem service_refines_life_cycle:
  assumes "gorm_db G R" and "status_publisher P"
    and "service_step E (app_handler G E C P ck) (app_reconciler G E C P i t) w w'"
  shows "life_step (life (R (db w))) (life (R (db w')))"
  by (rule service.step_refines [OF app_service [OF assms(1,2)] assms(3)])

theorem service_refines_life_cycle_witness:
  "\<exists>w'. DeleteInstance script_env script_handler (Ctx 0) ''i1''
      (start [sample_row ''i1'' ''c1'' ''ERROR'' []] [] []) = (NoContent, w') \<and>
    life_step (life (mem_rows (db (start [sample_row ''i1'' ''c1'' ''ERROR'' []] [] []))))
      (life (mem_rows (db w')))"
proof -
  obtain w' where run: "DeleteInstance script_env script_handler (Ctx 0) ''i1''
      (start [sample_row ''i1'' ''c1'' ''ERROR'' []] [] []) = (NoContent, w')"
    using run_delete by blast
  from service_refines_life_cycle [OF mem_contract nats_contract
      service_step.delete [OF run [unfolded script_handler_def]]] run
  show ?thesis by blast
qed

text \<open>C4. In every state the service reaches from an empty table, no two instances have the same
  target, every status is one of the API's, and a row, once there, is never removed and never
  changes its target.\<close>

theorem service_invariants:
  assumes "gorm_db G R" and "status_publisher P"
    and "H = app_handler G E C P ck" and "RC = app_reconciler G E C P i t"
    and "reachable E H RC w0 w" and "R (db w0) = Map.empty" and "reachable E H RC w w'"
  shows "unique_targets (R (db w)) \<and>
    (\<forall>r \<in> ran (R (db w)). CostInstanceStatus_Valid (Status r)) \<and>
    (\<forall>k r. R (db w) k = Some r \<longrightarrow>
       (\<exists>r'. R (db w') k = Some r' \<and> ID r' = k \<and> TargetResourceID r' = TargetResourceID r))"
proof -
  note sv = app_service [OF assms(1,2), of E C ck i t, folded assms(3,4)]
  have "life (R (db w0)) = Map.empty" using assms(6) by (simp add: life_def fun_eq_iff)
  then have "one_per_target (life (R (db w))) \<and> known_statuses (life (R (db w)))"
    using service.reachable_invariants [OF sv assms(5)]
    by (simp add: one_per_target_def known_statuses_def)
  then have "unique_targets (R (db w))" "known_statuses (life (R (db w)))"
    using service.unique_targets_life [OF sv] by simp_all
  moreover have "CostInstanceStatus_Valid (Status r)" if "r \<in> ran (R (db w))" for r
    using that calculation(2) by (fastforce simp: known_statuses_def life_def ran_def)
  moreover have "\<exists>r'. R (db w') k = Some r' \<and> ID r' = k \<and> TargetResourceID r' = TargetResourceID r"
    if "R (db w) k = Some r" for k r
    using service.reachable_target [OF sv assms(7) that] gorm_db.rows_key [OF assms(1)] by blast
  ultimately show ?thesis by blast
qed

theorem service_invariants_witness:
  "\<exists>w. reachable script_env script_handler
        (app_reconciler mem_gorm script_env script_conf (NATSPublisher script_env ''dcm'') second 0)
        (start [] [] [answer 201 (uuid_body ''s1'')]) w \<and>
      mem_rows (db w) ''new-id'' = Some created_row \<and> unique_targets (mem_rows (db w))"
proof -
  let ?RC = "app_reconciler mem_gorm script_env script_conf (NATSPublisher script_env ''dcm'')
    second 0"
  let ?w0 = "start [] [] [answer 201 (uuid_body ''s1'')]"
  obtain w where run: "CreateInstance script_env script_handler (Ctx 0) None
      (sample_body (sample_spec ''c1'' None [])) ?w0 =
      (OkInstance 201 (toAPICostInstance script_env created_row), w)"
    and row: "mem_rows (db w) = [''new-id'' \<mapsto> created_row]"
    using run_create by blast
  have "reachable script_env script_handler ?RC ?w0 w"
    by (rule reachable.step [OF reachable.here service_step.create [OF run]])
  moreover have "mem_rows (db ?w0) = Map.empty" by (simp add: mem_rows_def mem_table_def)
  ultimately have "unique_targets (mem_rows (db w))"
    using service_invariants [OF mem_contract nats_contract script_handler_def refl _ _
        reachable.here] by blast
  then show ?thesis using \<open>reachable script_env script_handler ?RC ?w0 w\<close> row by auto
qed

text \<open>C14. A half-created instance (in PROVISIONING, without a source id,
  as a create with an unsupported currency leaves it) is
  stuck: no step of the service changes its row, except deleting it. The reconciler skips it, even
  past the provisioning timeout, and a create for its target is refused.\<close>

theorem half_created_is_stuck:
  assumes "gorm_db G R" and "status_publisher P"
    and "H = app_handler G E C P ck" and "RC = app_reconciler G E C P i t"
    and "service_step E H RC w w'" and "R (db w) k = Some r"
    and "Status r = ''PROVISIONING''" and "KokuSourceUUID r = []"
  shows "R (db w') k = Some r \<or> (\<exists>c resp. DeleteInstance E H c k w = (resp, w'))"
  using service.stuck_step [OF app_service [OF assms(1,2), of E C ck i t, folded assms(3,4)]
      assms(5-8)] .

theorem half_created_is_stuck_witness:
  "mem_rows (db (reconcile script_env
       (app_reconciler mem_gorm script_env script_conf (NATSPublisher script_env ''dcm'') second
          second) (Ctx 0)
       (start [sample_row ''i1'' ''c1'' ''PROVISIONING'' []] [] []))) ''i1'' =
     Some (sample_row ''i1'' ''c1'' ''PROVISIONING'' []) \<or>
   (\<exists>c resp. DeleteInstance script_env script_handler c ''i1''
      (start [sample_row ''i1'' ''c1'' ''PROVISIONING'' []] [] []) =
      (resp, reconcile script_env
       (app_reconciler mem_gorm script_env script_conf (NATSPublisher script_env ''dcm'') second
          second) (Ctx 0)
       (start [sample_row ''i1'' ''c1'' ''PROVISIONING'' []] [] [])))"
  by (rule half_created_is_stuck [OF mem_contract nats_contract script_handler_def refl
        service_step.pass])
    (simp_all add: mem_rows_def mem_table_def sample_row_def)

subsection \<open>The reconciler\<close>

text \<open>C10. A pass of the reconciler leaves each row as it was, or moves it from PROVISIONING to READY
  or to ERROR, changing its status, message and time stamp only, and only when it names a source.
  It never touches the gauge, and no row appears or disappears.\<close>

theorem reconcile_pass:
  assumes "gorm_db G R" and "status_publisher P"
    and "w' = reconcile E (app_reconciler G E C P i t) c w"
  shows "(\<forall>k. reconciled (R (db w) k) (R (db w') k)) \<and> dom (R (db w')) = dom (R (db w)) \<and>
    InstancesManaged w' = InstancesManaged w"
proof -
  note h = reconcilers.reconcile_spec [OF app_reconcilers [OF assms(1,2)] assms(3)]
  have "R (db w') k = None \<longleftrightarrow> R (db w) k = None" for k
  proof -
    have "reconciled (R (db w) k) (R (db w') k)" using h by blast
    then show ?thesis by (auto simp: reconciled_def)
  qed
  then have "dom (R (db w')) = dom (R (db w))" by (auto simp: dom_def)
  with h show ?thesis by simp
qed

theorem reconcile_pass_witness:
  "dom (mem_rows (db (reconcile script_env (script_reconciler 0) (Ctx 0)
      (start [sample_row ''i1'' ''c1'' ''PROVISIONING'' ''s1''] [] [answer 200 data_body])))) =
   dom (mem_rows (db (start [sample_row ''i1'' ''c1'' ''PROVISIONING'' ''s1''] [] [answer 200 data_body])))"
  using reconcile_pass [OF mem_contract nats_contract refl] unfolding script_reconciler_def by blast



end
