(* ===== verification/Reports.thy ===== *)
theory Reports
  imports ServiceProps
begin

text \<open>
  The report proxies, from the instance in the store to the request that Koku receives, and the
  race between the reconciler's snapshot and a delete.
\<close>

subsection \<open>Report proxies\<close>

text \<open>The request of a report or forecast; it has no body, so that it can always be encoded.\<close>

lemma bodyless_request:
  "sendable E C meth path None = Some r \<Longrightarrow> r = koku_request C meth path None"
  by (auto simp: sendable_def marshal_body_def Let_def split: if_splits)

lemma bodyless_sent:
  "\<exists>n \<le> maxRetries. outgoing (snd (doWithRetry E C ctx meth path None w)) =
     outgoing w @ replicate n (koku_request C meth path None)"
proof -
  obtain reqs where reqs: "koku_effect reqs w (snd (doWithRetry E C ctx meth path None w))"
    "length reqs \<le> maxRetries" "\<forall>r \<in> set reqs. sendable E C meth path None = Some r"
    using doWithRetry_effect by blast
  then have "reqs = replicate (length reqs) (koku_request C meth path None)"
    using bodyless_request by (metis replicate_eqI)
  then show ?thesis using koku_effect_frame(2) [OF reqs(1)] reqs(2) by metis
qed

lemma bodyless_answered:
  assumes "doWithRetry E C ctx meth path None w = (Inr resp, w')"
  shows "\<exists>n. 0 < n \<and> n \<le> maxRetries \<and>
    outgoing w' = outgoing w @ replicate n (koku_request C meth path None)"
  using doWithRetry_answered [OF assms] bodyless_request koku_effect_frame(2) by metis

definition asked ::
  "koku_conf \<Rightarrow> string \<Rightarrow> 'e + 'a \<Rightarrow> ('d, 'x) world \<Rightarrow> ('d, 'x) world \<Rightarrow> bool" where
  "asked C path res w w' \<longleftrightarrow>
     (\<exists>n \<le> maxRetries. outgoing w' = outgoing w @ replicate n (koku_request C ''GET'' path None) \<and>
        (\<forall>d. res = Inr d \<longrightarrow> 0 < n))"

lemma GetReports_asked:
  assumes "GetReports E C ctx cluster report ps w = (res, w')"
  shows "asked C (report_path cluster report ps) res w w'"
proof -
  obtain r w1 where d: "doWithRetry E C ctx ''GET'' (report_path cluster report ps) None w = (r, w1)"
    by fastforce
  then have w': "w' = w1" using assms by (auto simp: GetReports_def split: sum.splits if_splits)
  show ?thesis
  proof (cases r)
    case (Inl e)
    then have "\<exists>f. res = Inl f" using assms d by (simp add: GetReports_def) blast
    then show ?thesis
      using bodyless_sent [of E C ctx "''GET''" "report_path cluster report ps" w] d w' by (auto simp: asked_def)
  next
    case (Inr resp)
    from bodyless_answered [OF d [unfolded this]] show ?thesis using w' by (auto simp: asked_def)
  qed
qed

lemma GetForecasts_asked:
  assumes "GetForecasts E C ctx cluster ps w = (res, w')"
  shows "asked C (forecast_path cluster ps) res w w'"
proof -
  obtain r w1 where d: "doWithRetry E C ctx ''GET'' (forecast_path cluster ps) None w = (r, w1)"
    by fastforce
  then have w': "w' = w1" using assms by (auto simp: GetForecasts_def split: sum.splits if_splits)
  show ?thesis
  proof (cases r)
    case (Inl e)
    then have "\<exists>f. res = Inl f" using assms d by (simp add: GetForecasts_def) blast
    then show ?thesis
      using bodyless_sent [of E C ctx "''GET''" "forecast_path cluster ps" w] d w' by (auto simp: asked_def)
  next
    case (Inr resp)
    from bodyless_answered [OF d [unfolded this]] show ?thesis using w' by (auto simp: asked_def)
  qed
qed

text \<open>
  The outcome of a proxied report: the instance is not found, or the store fails, and nothing is
  sent; or Koku is asked for the cluster of the stored instance, and its answer is passed on with
  200 if it came and with 502 otherwise.
\<close>

definition proxied ::
  "koku_conf \<Rightarrow> (cost_instance \<Rightarrow> string) \<Rightarrow> (string \<rightharpoonup> cost_instance) \<Rightarrow> string \<Rightarrow>
   api_response \<Rightarrow> ('d, 'x) world \<Rightarrow> ('d, 'x) world \<Rightarrow> bool" where
  "proxied C path rows k resp w w' \<longleftrightarrow>
     (\<exists>e. resp = lookup_error e \<and> outgoing w' = outgoing w \<and> (e = ErrNotFound \<longrightarrow> rows k = None)) \<or>
     (\<exists>r n. rows k = Some r \<and> n \<le> maxRetries \<and>
        outgoing w' = outgoing w @ replicate n (koku_request C ''GET'' (path r) None) \<and>
        ((\<exists>m. resp = OkReport m) \<and> 0 < n \<or> (\<exists>d. resp = bad_gateway d)))"

lemma proxied_lookup:
  assumes "handlers (app_handler G E C P ck) T"
    and "st_Get (store_of G) k w = (Inl e, w1)"
  shows "proxied C path (T w) k (lookup_error e) w w1"
  using handlers.Get_spec [OF assms(1), of k w] assms(2)
  by (auto simp: proxied_def same_effects_all)

lemma proxied_asked:
  assumes "handlers (app_handler G E C P ck) T" and "st_Get (store_of G) k w = (Inr r, w1)"
    and "asked C (path r) res w1 w'"
    and "case res of Inl e \<Rightarrow> \<exists>d. resp = bad_gateway d | Inr x \<Rightarrow> \<exists>m. resp = OkReport m"
  shows "proxied C path (T w) k resp w w'"
proof -
  have "T w k = Some r" and "outgoing w1 = outgoing w"
    using handlers.Get_spec [OF assms(1), of k w] assms(2) by (auto simp: same_effects_all)
  then show ?thesis
    using assms(3,4) unfolding proxied_def asked_def by (cases res) auto
qed



subsection \<open>A stale snapshot\<close>

text \<open>C39. A pass of the reconciler works on the rows it listed at its start. When an instance is
  deleted while the pass is under way, and Koku then reports data for its source, the reconciler
  makes the deleted instance READY: its update does not look at the status the row has by then.\<close>

theorem stale_snapshot_revives:
  fixes inst :: cost_instance
  assumes "gorm_db G R" and "status_publisher P" and "RC = app_reconciler G E C P i t"
    and "KokuSourceUUID inst \<noteq> []" and "timed_out E RC inst w = (False, w1)"
    and "GetSourceStats E C (WithTimeout c perInstanceTimeout) (KokuSourceUUID inst) w1 = (Inr stats, w2)"
    and "hasData stats"
    and "R (db w) (ID inst) = Some r" and "Status r = ''DELETED''"
    and "fst (store_UpdateStatus G (ID inst) ''READY'' msg_ready (db w)) = None"
  shows "\<exists>r'. R (db (reconcileOne E RC c inst w)) (ID inst) = Some r' \<and> Status r' = ''READY'' \<and>
    active r'"
proof -
  note rc = app_reconcilers [OF assms(1,2), of E C i t, folded assms(3)]
  have stats: "kk_GetSourceStats (rc_koku RC) (WithTimeout c perInstanceTimeout)
      (KokuSourceUUID inst) w1 = (Inr stats, w2)"
    using assms(3,6) by (simp add: koku_of_def)
  note out = reconcilers.reconcileOne_outcome [OF rc refl assms(4,5) stats]
  have "fst (st_UpdateStatus (rc_store RC) (ID inst) ''READY'' msg_ready w2) = None"
    using assms(10) out(8) by (auto simp: assms(3) store_of_def on_db_def split: prod.splits)
  from reconcilers.set_and_publish_ok [OF rc refl this]
  have "status_moved (\<lambda>w. R (db w)) (ID inst) ''READY'' msg_ready w2 (reconcileOne E RC c inst w)"
    using out(1) assms(7) by simp
  then show ?thesis
    by (auto simp: status_moved_def set_status_def active_def)
qed

text \<open>The instance was listed in PROVISIONING and is deleted by now.\<close>

theorem stale_snapshot_revives_witness:
  "\<exists>r'. mem_rows (db (reconcileOne script_env (script_reconciler 0) (Ctx 0)
      (sample_row ''i1'' ''c1'' ''PROVISIONING'' ''s1'')
      (start [sample_row ''i1'' ''c1'' ''DELETED'' ''s1''] [] [answer 200 data_body]))) ''i1'' = Some r' \<and>
    Status r' = ''READY'' \<and> active r'"
proof -
  let ?inst = "sample_row ''i1'' ''c1'' ''PROVISIONING'' ''s1''"
  let ?row = "sample_row ''i1'' ''c1'' ''DELETED'' ''s1''"
  let ?w = "start [?row] [] [answer 200 data_body]"
  have late: "timed_out script_env (script_reconciler 0) ?inst ?w = (False, ?w)"
    by (simp add: timed_out_def script_reconciler_def)
  have uuid: "KokuSourceUUID ?inst = ''s1''" "ID ?inst = ''i1''" "ID ?row = ''i1''"
    "Status ?row = ''DELETED''"
    by (simp_all add: sample_row_def)
  note stats = script_GetSourceStats [of ?w "[]" "WithTimeout (Ctx 0) perInstanceTimeout"
      "KokuSourceUUID ?inst"]
  have some: "hasData (Some [(''a'', JArr [JNum 0x3FF0000000000000])])"
    by (simp add: hasData_def has_elements_def)
  have ok: "fst (store_UpdateStatus mem_gorm (ID ?inst) ''READY'' msg_ready (db ?w)) = None"
    using script_UpdateStatus [of ?w "''i1''" ?row "''READY''" msg_ready] uuid
    by (simp add: script_handler_def store_of_def on_db_def mem_table_def split: prod.splits)
  have row: "mem_rows (db ?w) (ID ?inst) = Some ?row" using uuid by (simp add: mem_rows_def mem_table_def)
  have "KokuSourceUUID ?inst \<noteq> []" by (simp add: uuid)
  from stale_snapshot_revives [OF mem_contract nats_contract script_reconciler_def this late stats
      some row uuid(4) ok] uuid
  show ?thesis by (simp add: script_reconciler_def)
qed

end
