(* ===== verification/Paging.thy ===== *)
theory Paging
  imports App Script
begin

text \<open>
  Listing: the page tokens of \<open>internal/handler/handler.go\<close>, and a client that follows them
  from the first page to the last. The tokens are opaque to the client; the property of the
  whole listing is that it contains every row once, newest first.
\<close>

text \<open>The pages a client collects; \<open>None\<close> when a page is refused or the fuel is used up.\<close>

fun follow_pages ::
  "'x env \<Rightarrow> ('d, 'x) handler \<Rightarrow> nat \<Rightarrow> int \<Rightarrow> string option \<Rightarrow> ('d, 'x) world \<Rightarrow>
   api_cost_instance list option" where
  "follow_pages E H 0 psize token w = None"
| "follow_pages E H (Suc n) psize token w =
     (case ListInstances E H \<lparr>PageToken = token, MaxPageSize = Some psize\<rparr> w of
        (OkList l, w1) \<Rightarrow>
          (case cl_NextPageToken l of
             None \<Rightarrow> Some (case cl_Instances l of None \<Rightarrow> [] | Some xs \<Rightarrow> xs)
           | Some t \<Rightarrow>
               map_option (append (case cl_Instances l of None \<Rightarrow> [] | Some xs \<Rightarrow> xs))
                 (follow_pages E H n psize (Some t) w1))
      | _ \<Rightarrow> None)"

text \<open>Newest first, without ties, there is one order only.\<close>

lemma newest_first_unique:
  assumes "sorted_wrt (\<lambda>a b. CreatedAt b \<le> CreatedAt a) xs"
    and "sorted_wrt (\<lambda>a b. CreatedAt b \<le> CreatedAt a) ys"
    and "distinct xs" and "distinct ys" and "set xs = set ys" and "inj_on CreatedAt (set xs)"
  shows "xs = ys"
proof -
  let ?f = "\<lambda>r. - CreatedAt r"
  have inj: "inj_on ?f (set xs)" using assms(6) by (auto simp: inj_on_def)
  have "sorted (map ?f xs)" "sorted (map ?f ys)"
    using assms(1,2) by (simp_all add: sorted_map)
  moreover have "distinct (map ?f xs)" "distinct (map ?f ys)"
    using assms(3-5) inj by (simp_all add: distinct_map)
  moreover have "set (map ?f xs) = set (map ?f ys)" using assms(5) by simp
  ultimately have "map ?f xs = map ?f ys" by (intro sorted_distinct_set_unique)
  then show ?thesis using inj assms(5) by (simp add: inj_on_map_eq_map)
qed

lemma token_roundtrip: "0 \<le> n \<Longrightarrow> n \<le> max_int64 \<Longrightarrow> decodePageToken (encodePageToken n) = n"
  by (simp add: decodePageToken_def encodePageToken_def b64_decode_encode atoi_itoa min_int64_def)

lemma token_nonempty:
  assumes "0 \<le> n" and "n \<le> max_int64"
  shows "encodePageToken n \<noteq> []"
proof
  assume "encodePageToken n = []"
  then have "b64_decode [] = Some (itoa n)"
    using b64_decode_encode [of "itoa n"] by (simp add: encodePageToken_def)
  moreover have "b64_decode [] = Some []" by code_simp
  moreover have "atoi [] = None" by code_simp
  ultimately show False using atoi_itoa [of n] assms by (simp add: min_int64_def)
qed

text \<open>A database that answers its listings: \<open>ok\<close> holds and keeps holding.\<close>

definition lists_well :: "'d gorm \<Rightarrow> ('d \<Rightarrow> bool) \<Rightarrow> bool" where
  "lists_well G ok \<longleftrightarrow>
     (\<forall>d. ok d \<longrightarrow>
        (\<exists>n d1. gm_count G d = (Inr n, d1) \<and> ok d1) \<and>
        (\<forall>l off. \<exists>rows d1. gm_page G l off d = (Inr rows, d1) \<and> ok d1))"

text \<open>The token with which a page at this offset is asked for.\<close>

definition token_at :: "int \<Rightarrow> string option" where
  "token_at off = (if off = 0 then None else Some (encodePageToken off))"

lemma token_at_offset:
  assumes "0 \<le> off" and "off \<le> max_int64"
  shows "(case token_at off of None \<Rightarrow> 0 | Some t \<Rightarrow> if t = [] then 0 else decodePageToken t) = off"
  using token_roundtrip [OF assms] token_nonempty [OF assms] by (simp add: token_at_def)

context gorm_db
begin

lemma length_listing:
  assumes "distinct full" and "set full = ran (R d)"
  shows "length full = card (dom (R d))"
proof -
  have "dom (R d) = ID ` ran (R d)" by (auto simp: ran_def image_iff dest: rows_key)
  moreover have "inj_on ID (ran (R d))"
  proof (rule inj_onI)
    fix x y
    assume "x \<in> ran (R d)" and "y \<in> ran (R d)" and "ID x = ID y"
    then obtain j k where jk: "R d j = Some x" "R d k = Some y" by (auto simp: ran_def)
    then have "j = k" using rows_key [OF jk(1)] rows_key [OF jk(2)] \<open>ID x = ID y\<close> by simp
    then show "x = y" using jk by simp
  qed
  ultimately show ?thesis
    using assms by (metis card_image distinct_card)
qed

lemma list_page:
  assumes ok: "lists_well G ok" "ok (db w)"
    and "distinct full" "set full = ran (R (db w))"
    and "sorted_wrt (\<lambda>a b. CreatedAt b \<le> CreatedAt a) full" and "inj_on CreatedAt (set full)"
    and n: "0 < n" "0 \<le> off" "off + n \<le> max_int64"
  shows "\<exists>d. ok d \<and> R d = R (db w) \<and>
    ListInstances E (app_handler G E C P ck) \<lparr>PageToken = token_at off, MaxPageSize = Some n\<rparr> w =
      (OkList \<lparr>cl_Instances = Some (map (toAPICostInstance E) (take (nat n) (drop (nat off) full))),
         cl_NextPageToken = (if off + n < int (length full) then Some (encodePageToken (off + n))
           else None)\<rparr>, w\<lparr>db := d\<rparr>)"
proof -
  obtain m d1 where c: "gm_count G (db w) = (Inr m, d1)" "ok d1"
    using ok unfolding lists_well_def by blast
  obtain rows d2 where p: "gm_page G n off d1 = (Inr rows, d2)" "ok d2"
    using ok(1) c(2) unfolding lists_well_def by blast
  have R1: "R d1 = R (db w)" and "R d2 = R (db w)"
    using count_same [OF c(1)] page_same [OF p(1)] by simp_all
  have m: "m = int (length full)" using count_ok [OF c(1)] length_listing assms(3,4) by simp
  obtain other where other: "distinct other" "set other = ran (R d1)"
    "sorted_wrt (\<lambda>a b. CreatedAt b \<le> CreatedAt a) other" "rows = take (nat n) (drop (nat off) other)"
    using page_ok [OF p(1) n(1,2)] by (auto simp: page_of_def)
  have "full = other"
    by (rule newest_first_unique [OF assms(5) other(3) assms(3) other(1) _ assms(6)])
      (simp add: other(2) R1 assms(4))
  moreover have "wrap64 (off + n) = off + n"
    using n by (intro wrap64_id) (simp_all add: min_int64_def)
  moreover have "st_List (store_of G) n off w = (Inr (rows, m), w\<lparr>db := d2\<rparr>)"
    using c p by (simp add: store_of_def on_db_def store_List_def)
  moreover have "(case token_at off of None \<Rightarrow> 0 | Some t \<Rightarrow> if t = [] then 0 else decodePageToken t)
      = off"
    using n by (intro token_at_offset) auto
  ultimately show ?thesis
    using p(2) \<open>R d2 = R (db w)\<close> other(4) m by (auto simp: ListInstances_def Let_def)
qed

lemma follow_pages_from:
  assumes "lists_well G ok" and "distinct full"
    and "sorted_wrt (\<lambda>a b. CreatedAt b \<le> CreatedAt a) full" and "inj_on CreatedAt (set full)"
    and "0 < n" and "int (length full) + n \<le> max_int64"
  shows "ok (db w) \<Longrightarrow> set full = ran (R (db w)) \<Longrightarrow> 0 \<le> off \<Longrightarrow> off \<le> int (length full) \<Longrightarrow>
    0 < fuel \<Longrightarrow> int (length full) \<le> off + int fuel * n \<Longrightarrow>
    follow_pages E (app_handler G E C P ck) fuel n (token_at off) w =
      Some (map (toAPICostInstance E) (drop (nat off) full))"
proof (induction fuel arbitrary: off w)
  case (Suc fuel)
  obtain d where d: "ok d" "R d = R (db w)"
    and page: "ListInstances E (app_handler G E C P ck)
        \<lparr>PageToken = token_at off, MaxPageSize = Some n\<rparr> w =
      (OkList \<lparr>cl_Instances = Some (map (toAPICostInstance E) (take (nat n) (drop (nat off) full))),
         cl_NextPageToken = (if off + n < int (length full) then Some (encodePageToken (off + n))
           else None)\<rparr>, w\<lparr>db := d\<rparr>)"
    using list_page [OF assms(1) Suc.prems(1) assms(2) Suc.prems(2) assms(3,4,5), of off E C P ck]
      Suc.prems(3,4) assms(6) by auto
  show ?case
  proof (cases "off + n < int (length full)")
    case True
    have "0 < fuel"
    proof (rule ccontr)
      assume "\<not> 0 < fuel"
      then show False using True Suc.prems(6) by simp
    qed
    moreover have "int (length full) \<le> off + n + int fuel * n"
      using Suc.prems(6) by (simp add: algebra_simps)
    ultimately have "follow_pages E (app_handler G E C P ck) fuel n (token_at (off + n))
        (w\<lparr>db := d\<rparr>) = Some (map (toAPICostInstance E) (drop (nat (off + n)) full))"
      using Suc.IH [of "w\<lparr>db := d\<rparr>" "off + n"] d Suc.prems(2,3) True assms(5) by simp
    moreover have "token_at (off + n) = Some (encodePageToken (off + n))"
      using Suc.prems(3) assms(5) by (simp add: token_at_def)
    moreover have "nat (off + n) = nat off + nat n"
      using Suc.prems(3) assms(5) by (simp add: nat_add_distrib)
    ultimately show ?thesis
      using page True take_drop_append_drop [of "nat n" "nat off" full]
      by (simp flip: map_append)
  next
    case False
    then have "length full - nat off \<le> nat n" using Suc.prems(3,4) by linarith
    then show ?thesis using page False by simp
  qed
qed simp

end

text \<open>C21. A page token is read back as the offset it was made from, for every offset an int64
  holds; any other token, whatever it is, is read as some offset from 0 to the largest int64.\<close>

theorem page_token_roundtrip:
  "(0 \<le> n \<and> n \<le> max_int64 \<longrightarrow> decodePageToken (encodePageToken n) = n) \<and>
   0 \<le> decodePageToken t \<and> decodePageToken t \<le> max_int64"
  using token_roundtrip [of n] atoi_range
  by (auto simp: decodePageToken_def max_int64_def min_int64_def split: option.splits)

theorem page_token_roundtrip_witness:
  "decodePageToken (encodePageToken 150) = 150 \<and> decodePageToken ''%%'' \<le> max_int64"
  using page_token_roundtrip [of 150 "''%%''"] by (simp add: max_int64_def)

text \<open>C20. Following the page tokens from the first page lists every row of the table exactly once,
  newest first, for every page size; it needs no more pages than there are rows, plus one. This
  holds while the table does not change, the database answers and no two rows were created in the
  same instant (SQL leaves the order of such rows open, so pages might then overlap).\<close>

theorem listing_complete:
  assumes "gorm_db G R" and "lists_well G ok" and "ok (db w)"
    and "inj_on CreatedAt (ran (R (db w)))" and "0 < n"
    and "int (card (dom (R (db w)))) + n \<le> max_int64"
  shows "\<exists>full. distinct full \<and> set full = ran (R (db w)) \<and>
    sorted_wrt (\<lambda>a b. CreatedAt b \<le> CreatedAt a) full \<and>
    follow_pages E (app_handler G E C P ck) (Suc (card (dom (R (db w))))) n None w =
      Some (map (toAPICostInstance E) full)"
proof -
  obtain rows d where "gm_page G n 0 (db w) = (Inr rows, d)"
    using assms(2,3) unfolding lists_well_def by blast
  then obtain full where full: "distinct full" "set full = ran (R (db w))"
    "sorted_wrt (\<lambda>a b. CreatedAt b \<le> CreatedAt a) full"
    using gorm_db.page_ok [OF assms(1) _ assms(5), of 0 "db w" rows d] by (auto simp: page_of_def)
  have len: "length full = card (dom (R (db w)))"
    by (rule gorm_db.length_listing [OF assms(1) full(1,2)])
  have "int (length full) \<le> int (Suc (length full)) * n"
    using assms(5) mult_mono [of "int (length full)" "int (Suc (length full))" 1 n] by simp
  then have "follow_pages E (app_handler G E C P ck) (Suc (length full)) n (token_at 0) w =
      Some (map (toAPICostInstance E) (drop (nat 0) full))"
    using gorm_db.follow_pages_from [OF assms(1,2) full(1,3) _ assms(5), of w 0 "Suc (length full)"]
      assms(3,4,6) full(2) len by simp
  then have "follow_pages E (app_handler G E C P ck) (Suc (card (dom (R (db w))))) n None w =
      Some (map (toAPICostInstance E) full)"
    by (simp add: len token_at_def)
  with full show ?thesis by blast
qed

lemma mem_lists_well: "lists_well mem_gorm (\<lambda>d. md_faults d = [])"
  by (simp add: lists_well_def mem_gorm_def mem_count_def mem_page_def mem_fault_def mem_tick_def)

theorem listing_complete_witness:
  "\<exists>full. set full = {sample_row ''i1'' ''c1'' ''READY'' ''s1''} \<and>
    follow_pages script_env script_handler 2 50 None
      (start [sample_row ''i1'' ''c1'' ''READY'' ''s1''] [] []) =
      Some (map (toAPICostInstance script_env) full)"
proof -
  let ?w = "start [sample_row ''i1'' ''c1'' ''READY'' ''s1''] [] []"
  have rows: "mem_rows (db ?w) = [''i1'' \<mapsto> sample_row ''i1'' ''c1'' ''READY'' ''s1'']"
    by (simp add: mem_rows_def mem_table_def sample_row_def)
  then have "ran (mem_rows (db ?w)) = {sample_row ''i1'' ''c1'' ''READY'' ''s1''}"
    and "Suc (card (dom (mem_rows (db ?w)))) = 2" by simp_all
  then show ?thesis
    using listing_complete [OF mem.gorm_db_axioms mem_lists_well, of ?w 50 script_env script_conf
        "NATSPublisher script_env ''dcm''" "NewChecker ''1.0'' 0 ''http://koku''"]
    by (simp add: script_handler_def rows max_int64_def numeral_2_eq_2 del: follow_pages.simps) blast
qed

end
