(* ===== verification/ClientProps.thy ===== *)
theory ClientProps
  imports Script
begin

text \<open>
  Properties of the Koku client, of the proxies that pass its reports on, of the label
  normalization and of the health checker.
\<close>

subsection \<open>Retries\<close>

text \<open>C22. Whatever happens to it, a call of the client sends the same request at most three times,
  with the given method, the URL under the base URL, the identity header and the encoded body; it
  only counts requests besides; and a response it returns follows at least one sending and is never
  a server error.\<close>

theorem retry_requests:
  assumes "doWithRetry E C ctx meth path body w = (res, w')"
  shows "\<exists>reqs. koku_effect reqs w w' \<and> length reqs \<le> 3 \<and>
    (\<forall>r \<in> set reqs. rq_method r = meth \<and> rq_url r = kc_baseURL C @ path \<and>
       (''x-rh-identity'', kc_identity C) \<in> set (rq_headers r) \<and>
       rq_body r = map_option (print_json (env_float E)) body) \<and>
    (\<forall>resp. res = Inr resp \<longrightarrow> reqs \<noteq> [] \<and> rs_status resp < 500)"
proof -
  have built: "rq_method r = meth \<and> rq_url r = kc_baseURL C @ path \<and>
      (''x-rh-identity'', kc_identity C) \<in> set (rq_headers r) \<and>
      rq_body r = map_option (print_json (env_float E)) body"
    if "sendable E C meth path body = Some r" for r
    using that
    by (auto simp: sendable_def marshal_body_def json_marshal_def koku_request_def Let_def
        split: option.splits if_splits)
  show ?thesis
  proof (cases res)
    case (Inl e)
    then show ?thesis
      using doWithRetry_effect [of w E C ctx meth path body] assms built
      by (auto simp: maxRetries_def)
  next
    case (Inr resp)
    from doWithRetry_answered [OF assms [unfolded Inr]] obtain req k
      where req: "sendable E C meth path body = Some req" "0 < k" "k \<le> maxRetries"
        "koku_effect (replicate k req) w w'" "rs_status resp < 500" by blast
    then show ?thesis
      using Inr built [OF req(1)] by (intro exI [of _ "replicate k req"]) (simp add: maxRetries_def)
  qed
qed

theorem retry_requests_witness:
  "\<exists>reqs. koku_effect reqs (start [] [] [answer 204 []])
     (snd (doWithRetry script_env script_conf (Ctx 0) ''DELETE'' ''/x'' None
        (start [] [] [answer 204 []]))) \<and> length reqs \<le> 3 \<and> reqs \<noteq> []"
proof -
  have run: "doWithRetry script_env script_conf (Ctx 0) ''DELETE'' ''/x'' None
      (start [] [] [answer 204 []]) =
      (Inr \<lparr>rs_status = 204, rs_body = [], rs_body_err = None\<rparr>,
       snd (doWithRetry script_env script_conf (Ctx 0) ''DELETE'' ''/x'' None
         (start [] [] [answer 204 []])))"
    using script_doWithRetry [of "start [] [] [answer 204 []]" _ "[]" script_conf "''DELETE''"
        "''/x''" None]
    by (simp add: answer_def script_no_body)
  from retry_requests [OF run] show ?thesis by auto
qed


definition failing_env :: "script env" where
  "failing_env = script_env\<lparr>env_http := \<lambda>c r x. (answer 503 [], x)\<rparr>"


subsection \<open>Labels\<close>

text \<open>The HTTP label of a path has, segment by segment, only empty segments, the known static
  ones and \<open>{id}\<close>, so that no id gets into a label; it is a fixed point of the normalization.\<close>

lemma NormalizePath_segments:
  "set (split_on CHR ''/'' (NormalizePath p)) \<subseteq> insert [] (insert ''{id}'' (set staticSegments)) \<and>
   NormalizePath (NormalizePath p) = NormalizePath p"
proof (cases rule: NormalizePath_cases [of p])
  case 1
  have "split_on CHR ''/'' ''/'' = [[], []]" and "NormalizePath ''/'' = ''/''" by code_simp+
  then show ?thesis by (simp add: 1)
next
  case (2 s)
  let ?n = "join_with ''/'' (map normalize_part (split_on CHR ''/'' s))"
  have end_n: "?n \<noteq> []" "last ?n \<noteq> CHR ''/''" using normalized_no_trailing [OF 2(1,2)] by auto
  have "NormalizePath ?n = join_with ''/'' (map normalize_part (split_on CHR ''/'' ?n))"
    using trim_right_id [OF end_n] end_n
    by (simp add: NormalizePath_def Let_def normalized_parts comp_def)
  then have "NormalizePath ?n = ?n" by (simp add: normalized_parts comp_def)
  then show ?thesis
    using normalize_part_cases by (auto simp: 2(3) normalized_parts)
qed

text \<open>The operation label of a report request is not bounded: the query string, with the cluster
  id, is taken for a path segment and kept, so that every cluster gets labels of its own.\<close>

lemma koku_label_keeps_cluster:
  "NormalizeKokuOp ''GET'' (report_path ''prod-1'' ''compute'' None) =
     ''GET reports/compute/?filter%5Bcluster%5D=prod-1'' \<and>
   NormalizeKokuOp ''GET'' (forecast_path ''prod-2'' None) =
     ''GET forecasts/costs/?filter%5Bcluster%5D=prod-2''"
  by code_simp

end
