(* ===== verification/ApiEncode.thy ===== *)
theory ApiEncode
  imports Monitoring KokuClient
begin

text \<open>
  How \<open>encoding/json\<close> writes the response types of the API and reads the body of a create
  request, by the struct tags of the generated types. The types are the ones of
  \<open>api/v1alpha1/types.gen.go\<close>; \<open>internal/api/server/server.gen.go\<close> holds an identical copy.
\<close>

subsection \<open>Times\<close>

text \<open>\<open>Time.MarshalJSON\<close> of a UTC time; it refuses years outside 0 to 9999.\<close>

definition enc_time :: "time \<Rightarrow> json" where
  "enc_time t = JStr (format_rfc3339nano t)"

definition time_encodable :: "time \<Rightarrow> bool" where
  "time_encodable t \<longleftrightarrow>
     (let y = date_year (civil_date (t div second div 86400)) in 0 \<le> y \<and> y \<le> 9999)"

definition opt_time_encodable :: "time option \<Rightarrow> bool" where
  "opt_time_encodable t = (case t of None \<Rightarrow> True | Some x \<Rightarrow> time_encodable x)"

text \<open>The inverse of \<open>civil_date\<close>: days since January 1, year 1.\<close>

definition days_of_date :: "api_date \<Rightarrow> int" where
  "days_of_date dt =
     (let m = date_month dt;
          y = date_year dt - (if m \<le> 2 then 1 else 0);
          yoe = y mod 400;
          doy = (153 * (if m > 2 then m - 3 else m + 9) + 2) div 5 + date_day dt - 1
      in y div 400 * 146097 + yoe * 365 + yoe div 4 - yoe div 100 + doy - 306)"

definition days_in_month :: "int \<Rightarrow> int \<Rightarrow> int" where
  "days_in_month y m =
     (if m = 2 then (if y mod 4 = 0 \<and> (y mod 100 \<noteq> 0 \<or> y mod 400 = 0) then 29 else 28)
      else if m \<in> {4, 6, 9, 11} then 30 else 31)"

text \<open>A field of exactly \<open>n\<close> digits with its value between two bounds, and what follows.\<close>

definition number_field :: "nat \<Rightarrow> nat \<Rightarrow> nat \<Rightarrow> string \<Rightarrow> (int \<times> string) option" where
  "number_field n lo hi s =
     (if length s < n then None
      else (case dec_val 0 (take n s) of
              None \<Rightarrow> None
            | Some v \<Rightarrow> if lo \<le> v \<and> v \<le> hi then Some (int v, drop n s) else None))"

definition expect_char :: "char \<Rightarrow> string \<Rightarrow> string option" where
  "expect_char c s = (case s of [] \<Rightarrow> None | x # r \<Rightarrow> if x = c then Some r else None)"

text \<open>A fraction of a second in nanoseconds; digits after the ninth are cut off.\<close>

definition fraction :: "string \<Rightarrow> int \<times> string" where
  "fraction s =
     (case s of
        c # r \<Rightarrow>
          (let (d, q) = take_digits r
           in if c = CHR ''.'' \<and> d \<noteq> []
              then (case dec_val 0 (take 9 (d @ replicate 9 (CHR ''0''))) of
                      Some v \<Rightarrow> (int v, q) | None \<Rightarrow> (0, q))
              else (0, s))
      | [] \<Rightarrow> (0, s))"

text \<open>A zone: \<open>Z\<close>, or a sign with hours and minutes; the offset is in seconds.\<close>

definition zone_offset :: "string \<Rightarrow> int option" where
  "zone_offset s =
     (case s of
        [] \<Rightarrow> None
      | c # r \<Rightarrow>
          if c = CHR ''Z'' then (if r = [] then Some 0 else None)
          else if c = CHR ''+'' \<or> c = CHR ''-'' then
            (case number_field 2 0 23 r of None \<Rightarrow> None | Some (h, r1) \<Rightarrow>
            (case expect_char (CHR '':'') r1 of None \<Rightarrow> None | Some r2 \<Rightarrow>
            (case number_field 2 0 59 r2 of None \<Rightarrow> None | Some (m, r3) \<Rightarrow>
             if r3 = [] then Some ((if c = CHR ''-'' then -1 else 1) * (h * 3600 + m * 60)) else None)))
          else None)"

text \<open>\<open>Time.UnmarshalJSON\<close> on the text of a string without escapes: strict RFC 3339.\<close>

definition parse_rfc3339 :: "string \<Rightarrow> time option" where
  "parse_rfc3339 s =
     (case number_field 4 0 9999 s of None \<Rightarrow> None | Some (y, s1) \<Rightarrow>
     (case expect_char (CHR ''-'') s1 of None \<Rightarrow> None | Some s2 \<Rightarrow>
     (case number_field 2 1 12 s2 of None \<Rightarrow> None | Some (mo, s3) \<Rightarrow>
     (case expect_char (CHR ''-'') s3 of None \<Rightarrow> None | Some s4 \<Rightarrow>
     (case number_field 2 1 (nat (days_in_month y mo)) s4 of None \<Rightarrow> None | Some (d, s5) \<Rightarrow>
     (case expect_char (CHR ''T'') s5 of None \<Rightarrow> None | Some s6 \<Rightarrow>
     (case number_field 2 0 23 s6 of None \<Rightarrow> None | Some (h, s7) \<Rightarrow>
     (case expect_char (CHR '':'') s7 of None \<Rightarrow> None | Some s8 \<Rightarrow>
     (case number_field 2 0 59 s8 of None \<Rightarrow> None | Some (mi, s9) \<Rightarrow>
     (case expect_char (CHR '':'') s9 of None \<Rightarrow> None | Some s10 \<Rightarrow>
     (case number_field 2 0 59 s10 of None \<Rightarrow> None | Some (se, s11) \<Rightarrow>
     (let (ns, s12) = fraction s11
      in case zone_offset s12 of None \<Rightarrow> None | Some z \<Rightarrow>
         Some (((days_of_date \<lparr>date_year = y, date_month = mo, date_day = d\<rparr> * 86400 +
                 h * 3600 + mi * 60 + se - z) * second) + ns)))))))))))))"

definition dec_time :: "time decoder" where
  "dec_time j cur = (case j of JNull \<Rightarrow> Some cur | JStr s \<Rightarrow> parse_rfc3339 s | _ \<Rightarrow> None)"

subsection \<open>Responses\<close>

definition enc_cost_instance :: "api_cost_instance \<Rightarrow> json" where
  "enc_cost_instance i =
     JObj (enc_opt ''cluster_id'' JStr (ci_ClusterId i) @
       enc_opt ''create_time'' enc_time (ci_CreateTime i) @
       enc_opt ''id'' JStr (ci_Id i) @
       enc_opt ''path'' JStr (ci_Path i) @
       [(''spec'', enc_spec (ci_Spec i))] @
       enc_opt ''status'' JStr (ci_Status i) @
       enc_opt ''status_message'' JStr (ci_StatusMessage i) @
       enc_opt ''update_time'' enc_time (ci_UpdateTime i))"

definition instance_encodable :: "api_cost_instance \<Rightarrow> bool" where
  "instance_encodable i \<longleftrightarrow>
     opt_time_encodable (ci_CreateTime i) \<and> opt_time_encodable (ci_UpdateTime i)"

definition enc_cost_instance_list :: "cost_instance_list \<Rightarrow> json" where
  "enc_cost_instance_list l =
     JObj (enc_opt ''instances'' (\<lambda>is. JArr (map enc_cost_instance is)) (cl_Instances l) @
       enc_opt ''next_page_token'' JStr (cl_NextPageToken l))"

definition enc_api_error :: "api_error \<Rightarrow> json" where
  "enc_api_error e =
     JObj (enc_opt ''detail'' JStr (err_Detail e) @
       enc_opt ''instance'' JStr (err_Instance e) @
       enc_opt ''status'' JInt (err_Status e) @
       [(''title'', JStr (err_Title e)), (''type'', JStr (error_type_string (err_Type e)))])"

definition enc_health :: "api_health \<Rightarrow> json" where
  "enc_health h =
     JObj (enc_opt ''path'' JStr (hl_Path h) @
       enc_opt ''status'' JStr (hl_Status h) @
       enc_opt ''type'' JStr (hl_Type h) @
       enc_opt ''uptime'' JInt (hl_Uptime h) @
       enc_opt ''version'' JStr (hl_Version h))"

text \<open>
  A \<open>map[string]interface{}\<close> is written with its keys in ascending order, at every level; a
  repeated key of the decoded text counts once, with its last value. The nil map is \<open>null\<close>.
\<close>

fun any_value :: "json \<Rightarrow> json" where
  "any_value (JArr vs) = JArr (map any_value vs)"
| "any_value (JObj ms) =
     JObj (sort_key fst (map_entries [] (map (\<lambda>m. (fst m, any_value (snd m))) ms)))"
| "any_value j = j"

definition enc_json_map :: "json_map \<Rightarrow> json" where
  "enc_json_map m = (case m of None \<Rightarrow> JNull | Some ms \<Rightarrow> any_value (JObj ms))"

subsection \<open>The body of a create request\<close>

definition zero_instance :: api_cost_instance where
  "zero_instance =
     \<lparr>ci_ClusterId = None, ci_CreateTime = None, ci_Id = None, ci_Path = None,
      ci_Spec = zero_spec, ci_Status = None, ci_StatusMessage = None, ci_UpdateTime = None\<rparr>"

definition dec_cost_instance :: "api_cost_instance decoder" where
  "dec_cost_instance = dec_struct (\<lambda>ms i.
     case dec_field ''cluster_id'' (dec_ptr [] dec_string) ms (ci_ClusterId i) of None \<Rightarrow> None | Some c \<Rightarrow>
     (case dec_field ''create_time'' (dec_ptr 0 dec_time) ms (ci_CreateTime i) of None \<Rightarrow> None | Some ct \<Rightarrow>
     (case dec_field ''id'' (dec_ptr [] dec_string) ms (ci_Id i) of None \<Rightarrow> None | Some k \<Rightarrow>
     (case dec_field ''path'' (dec_ptr [] dec_string) ms (ci_Path i) of None \<Rightarrow> None | Some p \<Rightarrow>
     (case dec_field ''spec'' dec_spec ms (ci_Spec i) of None \<Rightarrow> None | Some s \<Rightarrow>
     (case dec_field ''status'' (dec_ptr [] dec_string) ms (ci_Status i) of None \<Rightarrow> None | Some st \<Rightarrow>
     (case dec_field ''status_message'' (dec_ptr [] dec_string) ms (ci_StatusMessage i) of None \<Rightarrow> None | Some sm \<Rightarrow>
     (case dec_field ''update_time'' (dec_ptr 0 dec_time) ms (ci_UpdateTime i) of None \<Rightarrow> None | Some ut \<Rightarrow>
      Some \<lparr>ci_ClusterId = c, ci_CreateTime = ct, ci_Id = k, ci_Path = p, ci_Spec = s,
        ci_Status = st, ci_StatusMessage = sm, ci_UpdateTime = ut\<rparr>))))))))"

text \<open>
  \<open>json.NewDecoder(r.Body).Decode\<close>: the first value of the body, which is the bytes that can be
  read before the error, if any, that ends reading.
\<close>

definition decode_body :: "'x env \<Rightarrow> 'a decoder \<Rightarrow> 'a \<Rightarrow> string \<times> string option \<Rightarrow> string + 'a" where
  "decode_body E d zero body =
     (let err = env_json_err E (fst body) (snd body)
      in case json_decode (env_float E) (fst body) of
           None \<Rightarrow> Inl err
         | Some j \<Rightarrow> (case d j zero of None \<Rightarrow> Inl err | Some v \<Rightarrow> Inr v))"

end
