(* ===== verification/ServerErrors.thy ===== *)
theory ServerErrors
  imports ApiEncode Http
begin

text \<open>
  Error values of the HTTP layer: the parameter errors of
  \<open>internal/api/server/server.gen.go\<close>, the answer \<open>http.Error\<close> writes, and
  \<open>internal/apiserver/errors.go\<close>, which turns errors into problem documents.
\<close>

subsection \<open>Error values\<close>

text \<open>
  A Go error with the errors it wraps. \<open>FilterError\<close> and \<open>SchemaError\<close> stand for the two error
  types of the validation library that the program inspects, reduced to what it reads: the
  parameter's name and place, whether the error is about the body, the reason, the wrapped
  error, and the text. The other named constructors are the generated types.
\<close>

datatype go_error =
    PlainError string
  | WrapError string go_error
  | FilterError "(string \<times> string) option" bool string "go_error option" string
  | SchemaError string "go_error option" string
  | UnescapedCookieParamError string go_error
  | UnmarshalingParamError string go_error
  | RequiredParamError string
  | RequiredHeaderError string go_error
  | InvalidParamFormatError string go_error
  | TooManyValuesForParamError string int

text \<open>The method \<open>Error\<close>.\<close>

fun error_text :: "go_error \<Rightarrow> string" where
  "error_text (PlainError t) = t"
| "error_text (WrapError t _) = t"
| "error_text (FilterError _ _ _ _ t) = t"
| "error_text (SchemaError _ _ t) = t"
| "error_text (UnescapedCookieParamError name _) =
     ''error unescaping cookie parameter '' @ [CHR 0x27] @ name @ [CHR 0x27]"
| "error_text (UnmarshalingParamError name err) =
     ''Error unmarshaling parameter '' @ name @ '' as JSON: '' @ error_text err"
| "error_text (RequiredParamError name) =
     ''Query argument '' @ name @ '' is required, but not found''"
| "error_text (RequiredHeaderError name _) =
     ''Header parameter '' @ name @ '' is required, but not found''"
| "error_text (InvalidParamFormatError name err) =
     ''Invalid format for parameter '' @ name @ '': '' @ error_text err"
| "error_text (TooManyValuesForParamError name n) =
     ''Expected one value for '' @ name @ '', got '' @ itoa n"

text \<open>The method \<open>Unwrap\<close>; \<open>None\<close> when the type has none or it returns nil.\<close>

fun unwrap :: "go_error \<Rightarrow> go_error option" where
  "unwrap (WrapError _ err) = Some err"
| "unwrap (FilterError _ _ _ err _) = err"
| "unwrap (SchemaError _ err _) = err"
| "unwrap (UnescapedCookieParamError _ err) = Some err"
| "unwrap (UnmarshalingParamError _ err) = Some err"
| "unwrap (RequiredHeaderError _ err) = Some err"
| "unwrap (InvalidParamFormatError _ err) = Some err"
| "unwrap _ = None"

lemma unwrap_size [simp, termination_simp]: "unwrap e = Some f \<Longrightarrow> size f < size e"
  by (cases e rule: unwrap.cases) auto

text \<open>\<open>errors.As\<close>: the first error of the chain that the test accepts.\<close>

function errors_as :: "(go_error \<Rightarrow> 'a option) \<Rightarrow> go_error \<Rightarrow> 'a option" where
  "errors_as f e =
     (case f e of
        Some a \<Rightarrow> Some a
      | None \<Rightarrow> (case unwrap e of None \<Rightarrow> None | Some c \<Rightarrow> errors_as f c))"
  by auto
termination by (relation "measure (\<lambda>(f, e). size e)") auto

declare errors_as.simps [simp del]

definition errors_as_opt :: "(go_error \<Rightarrow> 'a option) \<Rightarrow> go_error option \<Rightarrow> 'a option" where
  "errors_as_opt f e = (case e of None \<Rightarrow> None | Some x \<Rightarrow> errors_as f x)"

fun as_filter :: "go_error \<Rightarrow> ((string \<times> string) option \<times> bool \<times> string \<times> go_error option) option" where
  "as_filter (FilterError p b reason err _) = Some (p, b, reason, err)"
| "as_filter _ = None"

fun as_schema :: "go_error \<Rightarrow> string option" where
  "as_schema (SchemaError reason _ _) = Some reason"
| "as_schema _ = None"

fun as_param_format :: "go_error \<Rightarrow> string option" where
  "as_param_format (InvalidParamFormatError name _) = Some name"
| "as_param_format _ = None"

fun as_required :: "go_error \<Rightarrow> string option" where
  "as_required (RequiredParamError name) = Some name"
| "as_required _ = None"

fun as_unmarshaling :: "go_error \<Rightarrow> string option" where
  "as_unmarshaling (UnmarshalingParamError name _) = Some name"
| "as_unmarshaling _ = None"

subsection \<open>Answers\<close>

text \<open>\<open>http.Error\<close>; the header it deletes first is never set by this program.\<close>

definition http_error :: "string \<Rightarrow> int \<Rightarrow> write_call list" where
  "http_error text code =
     [SetHeader ''Content-Type'' ''text/plain; charset=utf-8'',
      SetHeader ''X-Content-Type-Options'' ''nosniff'', WriteHeader code,
      WriteBody (text @ [CHR 0x0A])]"

definition contentTypeProblemJSON :: string where
  "contentTypeProblemJSON = ''application/problem+json''"

definition problem_body :: "'x env \<Rightarrow> api_error \<Rightarrow> string" where
  "problem_body E e = print_json (env_float E) (enc_api_error e) @ [CHR 0x0A]"

definition problem_of :: "int \<Rightarrow> error_type \<Rightarrow> string \<Rightarrow> string \<Rightarrow> api_error" where
  "problem_of code errType title detail =
     \<lparr>err_Detail = Some detail, err_Instance = None, err_Status = Some code, err_Title = title,
      err_Type = errType\<rparr>"

definition writeRFC7807 ::
  "'x env \<Rightarrow> int \<Rightarrow> error_type \<Rightarrow> string \<Rightarrow> string \<Rightarrow> write_call list" where
  "writeRFC7807 E statusCode errType title detail =
     [SetHeader ''Content-Type'' contentTypeProblemJSON, WriteHeader statusCode,
      WriteBody (problem_body E (problem_of statusCode errType title detail))]"

definition with_prefix :: "string \<Rightarrow> string \<Rightarrow> string" where
  "with_prefix prefix reason = (if prefix \<noteq> [] then prefix @ '': '' @ reason else reason)"

definition filter_prefix :: "(string \<times> string) option \<Rightarrow> bool \<Rightarrow> string" where
  "filter_prefix p body =
     (case p of
        Some (name, place) \<Rightarrow> ''parameter '' @ quote name @ '' in '' @ place
      | None \<Rightarrow> if body then ''request body'' else [])"

definition scrubValidationError :: "go_error \<Rightarrow> string" where
  "scrubValidationError err =
     (let genericMsg = ''invalid request''
      in case errors_as as_filter err of
           Some (p, body, reason, cause) \<Rightarrow>
             (let prefix = filter_prefix p body
              in case errors_as_opt as_schema cause of
                   Some schemaReason \<Rightarrow>
                     if schemaReason \<noteq> [] then with_prefix prefix schemaReason
                     else if reason \<noteq> [] then with_prefix prefix reason else genericMsg
                 | None \<Rightarrow> if reason \<noteq> [] then with_prefix prefix reason else genericMsg)
         | None \<Rightarrow>
             (case errors_as as_param_format err of
                Some name \<Rightarrow> ''invalid format for parameter '' @ quote name
              | None \<Rightarrow>
                  (case errors_as as_required err of
                     Some name \<Rightarrow> ''missing required parameter '' @ quote name
                   | None \<Rightarrow>
                       (case errors_as as_unmarshaling err of
                          Some name \<Rightarrow> ''invalid value for parameter '' @ quote name
                        | None \<Rightarrow> genericMsg))))"

definition newBadRequestHandler :: "'x env \<Rightarrow> go_error \<Rightarrow> write_call list" where
  "newBadRequestHandler E err =
     writeRFC7807 E 400 INVALIDARGUMENT ''Bad Request'' (scrubValidationError err)"

subsection \<open>Facts\<close>

lemma wire_status_writeRFC7807 [simp]: "wire_status (writeRFC7807 E c t a d @ rest) = Some c"
  "wire_status (writeRFC7807 E c t a d) = Some c"
  by (simp_all add: writeRFC7807_def)

lemma wire_status_http_error [simp]: "wire_status (http_error t c) = Some c"
  "wire_status (http_error t c @ rest) = Some c"
  by (simp_all add: http_error_def)

lemma wire_status_bad_request [simp]: "wire_status (newBadRequestHandler E err) = Some 400"
  by (simp add: newBadRequestHandler_def)

lemma errors_as_here [simp]: "f e = Some a \<Longrightarrow> errors_as f e = Some a"
  by (subst errors_as.simps) simp

lemma errors_as_next: "f e = None \<Longrightarrow> unwrap e = Some c \<Longrightarrow> errors_as f e = errors_as f c"
  by (subst errors_as.simps) simp

lemma errors_as_end: "f e = None \<Longrightarrow> unwrap e = None \<Longrightarrow> errors_as f e = None"
  by (subst errors_as.simps) simp

end
