(* ===== verification/Router.thy ===== *)
theory Router
  imports ServerErrors
begin

text \<open>
  The generated router of \<open>internal/api/server/server.gen.go\<close>: parameter binding in front of
  every operation and the table of routes. The binders (\<open>oapi-codegen/runtime\<close>) and the chi
  router are not part of the repository: they are the parameters \<open>param_bind\<close> and \<open>chi_router\<close>.
  A Go middleware is a function from handlers to handlers.
\<close>

type_synonym ('d, 'x) middleware = "('d, 'x) http_handler \<Rightarrow> ('d, 'x) http_handler"

text \<open>A handler that only writes, without touching the state.\<close>

definition write_only :: "write_call list \<Rightarrow> ('d, 'x) http_handler" where
  "write_only cs r w = (returned cs, w)"

subsection \<open>ServerInterface\<close>

record ('d, 'x) server_interface =
  si_ListInstances :: "list_params \<Rightarrow> ('d, 'x) http_handler"
  si_CreateInstance :: "string option \<Rightarrow> ('d, 'x) http_handler"
  si_GetHealth :: "('d, 'x) http_handler"
  si_DeleteInstance :: "string \<Rightarrow> ('d, 'x) http_handler"
  si_GetInstance :: "string \<Rightarrow> ('d, 'x) http_handler"
  si_GetCostReport :: "string \<Rightarrow> report_params \<Rightarrow> ('d, 'x) http_handler"
  si_GetCostForecast :: "string \<Rightarrow> ('d, 'x) http_handler"
  si_GetUsage :: "string \<Rightarrow> string \<Rightarrow> report_params \<Rightarrow> ('d, 'x) http_handler"

definition not_implemented :: "('d, 'x) http_handler" where
  "not_implemented = write_only [WriteHeader 501]"

definition Unimplemented :: "('d, 'x) server_interface" where
  "Unimplemented =
     \<lparr>si_ListInstances = \<lambda>params. not_implemented,
      si_CreateInstance = \<lambda>params. not_implemented,
      si_GetHealth = not_implemented,
      si_DeleteInstance = \<lambda>instanceId. not_implemented,
      si_GetInstance = \<lambda>instanceId. not_implemented,
      si_GetCostReport = \<lambda>instanceId params. not_implemented,
      si_GetCostForecast = \<lambda>instanceId. not_implemented,
      si_GetUsage = \<lambda>instanceId metric params. not_implemented\<rparr>"

subsection \<open>Binding parameters\<close>

text \<open>
  \<open>BindQueryParameterWithOptions\<close> at the three destination types in use, given the name and
  \<open>r.URL.Query()\<close>, and \<open>BindStyledParameterWithOptions\<close> for a path parameter, given its name
  and raw text. \<open>Inl\<close> is the error.
\<close>

record param_bind =
  bind_query_string :: "string \<Rightarrow> (string \<times> string) list \<Rightarrow> go_error + string option"
  bind_query_int32 :: "string \<Rightarrow> (string \<times> string) list \<Rightarrow> go_error + int option"
  bind_query_date :: "string \<Rightarrow> (string \<times> string) list \<Rightarrow> go_error + api_date option"
  bind_path_string :: "string \<Rightarrow> string \<Rightarrow> go_error + string"

record ('d, 'x) siw =
  siw_Handler :: "('d, 'x) server_interface"
  siw_HandlerMiddlewares :: "('d, 'x) middleware list"
  siw_ErrorHandlerFunc :: "in_request \<Rightarrow> go_error \<Rightarrow> write_call list"

text \<open>Binding one parameter: its error ends the request, otherwise the rest goes on.\<close>

definition bind_param ::
  "('d, 'x) siw \<Rightarrow> string \<Rightarrow> (in_request \<Rightarrow> go_error + 'v) \<Rightarrow> ('v \<Rightarrow> ('d, 'x) http_handler) \<Rightarrow>
   ('d, 'x) http_handler" where
  "bind_param S name b rest r w =
     (case b r of
        Inl err \<Rightarrow>
          (returned (siw_ErrorHandlerFunc S r (InvalidParamFormatError name err)), w)
      | Inr v \<Rightarrow> rest v r w)"

text \<open>The loop over \<open>HandlerMiddlewares\<close>: the last one ends up outermost.\<close>

definition with_middlewares :: "('d, 'x) siw \<Rightarrow> ('d, 'x) http_handler \<Rightarrow> ('d, 'x) http_handler" where
  "with_middlewares S handler = fold (\<lambda>middleware h. middleware h) (siw_HandlerMiddlewares S) handler"

text \<open>\<open>chi.URLParam\<close>: the empty string for a name that is not bound.\<close>

type_synonym url_params = "(string \<times> string) list"

definition URLParam :: "url_params \<Rightarrow> string \<Rightarrow> string" where
  "URLParam ps name = (case map_of ps name of None \<Rightarrow> [] | Some v \<Rightarrow> v)"

definition siw_ListInstances :: "param_bind \<Rightarrow> ('d, 'x) siw \<Rightarrow> ('d, 'x) http_handler" where
  "siw_ListInstances B S =
     bind_param S ''page_token'' (\<lambda>r. bind_query_string B ''page_token'' (ir_query r)) (\<lambda>tok.
     bind_param S ''max_page_size'' (\<lambda>r. bind_query_int32 B ''max_page_size'' (ir_query r)) (\<lambda>n.
     with_middlewares S
       (si_ListInstances (siw_Handler S) \<lparr>PageToken = tok, MaxPageSize = n\<rparr>)))"

definition siw_CreateInstance :: "param_bind \<Rightarrow> ('d, 'x) siw \<Rightarrow> ('d, 'x) http_handler" where
  "siw_CreateInstance B S =
     bind_param S ''id'' (\<lambda>r. bind_query_string B ''id'' (ir_query r)) (\<lambda>k.
     with_middlewares S (si_CreateInstance (siw_Handler S) k))"

definition siw_GetHealth :: "('d, 'x) siw \<Rightarrow> ('d, 'x) http_handler" where
  "siw_GetHealth S = with_middlewares S (si_GetHealth (siw_Handler S))"

definition siw_DeleteInstance :: "param_bind \<Rightarrow> ('d, 'x) siw \<Rightarrow> url_params \<Rightarrow> ('d, 'x) http_handler" where
  "siw_DeleteInstance B S ps =
     bind_param S ''instanceId'' (\<lambda>r. bind_path_string B ''instanceId'' (URLParam ps ''instanceId''))
       (\<lambda>instanceId. with_middlewares S (si_DeleteInstance (siw_Handler S) instanceId))"

definition siw_GetInstance :: "param_bind \<Rightarrow> ('d, 'x) siw \<Rightarrow> url_params \<Rightarrow> ('d, 'x) http_handler" where
  "siw_GetInstance B S ps =
     bind_param S ''instanceId'' (\<lambda>r. bind_path_string B ''instanceId'' (URLParam ps ''instanceId''))
       (\<lambda>instanceId. with_middlewares S (si_GetInstance (siw_Handler S) instanceId))"

definition siw_GetCostReport :: "param_bind \<Rightarrow> ('d, 'x) siw \<Rightarrow> url_params \<Rightarrow> ('d, 'x) http_handler" where
  "siw_GetCostReport B S ps =
     bind_param S ''instanceId'' (\<lambda>r. bind_path_string B ''instanceId'' (URLParam ps ''instanceId''))
       (\<lambda>instanceId.
     bind_param S ''start_date'' (\<lambda>r. bind_query_date B ''start_date'' (ir_query r)) (\<lambda>sd.
     bind_param S ''end_date'' (\<lambda>r. bind_query_date B ''end_date'' (ir_query r)) (\<lambda>ed.
     with_middlewares S
       (si_GetCostReport (siw_Handler S) instanceId \<lparr>StartDate = sd, EndDate = ed\<rparr>))))"

definition siw_GetCostForecast :: "param_bind \<Rightarrow> ('d, 'x) siw \<Rightarrow> url_params \<Rightarrow> ('d, 'x) http_handler" where
  "siw_GetCostForecast B S ps =
     bind_param S ''instanceId'' (\<lambda>r. bind_path_string B ''instanceId'' (URLParam ps ''instanceId''))
       (\<lambda>instanceId. with_middlewares S (si_GetCostForecast (siw_Handler S) instanceId))"

definition siw_GetUsage :: "param_bind \<Rightarrow> ('d, 'x) siw \<Rightarrow> url_params \<Rightarrow> ('d, 'x) http_handler" where
  "siw_GetUsage B S ps =
     bind_param S ''instanceId'' (\<lambda>r. bind_path_string B ''instanceId'' (URLParam ps ''instanceId''))
       (\<lambda>instanceId.
     bind_param S ''metric'' (\<lambda>r. bind_path_string B ''metric'' (URLParam ps ''metric'')) (\<lambda>metric.
     bind_param S ''start_date'' (\<lambda>r. bind_query_date B ''start_date'' (ir_query r)) (\<lambda>sd.
     bind_param S ''end_date'' (\<lambda>r. bind_query_date B ''end_date'' (ir_query r)) (\<lambda>ed.
     with_middlewares S
       (si_GetUsage (siw_Handler S) instanceId metric \<lparr>StartDate = sd, EndDate = ed\<rparr>)))))"

subsection \<open>Routes\<close>

text \<open>
  The chi router finds, for a table of methods and patterns and a request, the number of the
  route with its path parameters; \<open>chi_unmatched\<close> is what it answers when there is none.
\<close>

record chi_router =
  chi_find :: "(string \<times> string) list \<Rightarrow> in_request \<Rightarrow> (nat \<times> url_params) option"
  chi_unmatched :: "(string \<times> string) list \<Rightarrow> in_request \<Rightarrow> write_call list"

text \<open>
  \<open>ChiServerOptions\<close>. A base router is given by the middlewares it uses, the first one
  outermost; \<open>None\<close> is the nil router, for which a new one is made.
\<close>

record ('d, 'x) chi_options =
  BaseURL :: string
  BaseRouter :: "('d, 'x) middleware list option"
  Middlewares :: "('d, 'x) middleware list"
  ErrorHandlerFunc :: "(in_request \<Rightarrow> go_error \<Rightarrow> write_call list) option"

type_synonym ('d, 'x) route = "(string \<times> string) \<times> (url_params \<Rightarrow> ('d, 'x) http_handler)"

definition routes :: "param_bind \<Rightarrow> string \<Rightarrow> ('d, 'x) siw \<Rightarrow> ('d, 'x) route list" where
  "routes B base S =
     [((''GET'', base @ ''/api/v1alpha1/instances''), \<lambda>ps. siw_ListInstances B S),
      ((''POST'', base @ ''/api/v1alpha1/instances''), \<lambda>ps. siw_CreateInstance B S),
      ((''GET'', base @ ''/api/v1alpha1/instances/health''), \<lambda>ps. siw_GetHealth S),
      ((''DELETE'', base @ ''/api/v1alpha1/instances/{instanceId}''), siw_DeleteInstance B S),
      ((''GET'', base @ ''/api/v1alpha1/instances/{instanceId}''), siw_GetInstance B S),
      ((''GET'', base @ ''/api/v1alpha1/instances/{instanceId}/cost-reports''), siw_GetCostReport B S),
      ((''GET'', base @ ''/api/v1alpha1/instances/{instanceId}/cost-reports/forecast''),
        siw_GetCostForecast B S),
      ((''GET'', base @ ''/api/v1alpha1/instances/{instanceId}/usage/{metric}''), siw_GetUsage B S)]"

text \<open>A request through the table: the route that chi finds, or its own answer.\<close>

definition dispatch :: "chi_router \<Rightarrow> ('d, 'x) route list \<Rightarrow> ('d, 'x) http_handler" where
  "dispatch chi rs r w =
     (let table = map fst rs
      in case chi_find chi table r of
           None \<Rightarrow> (returned (chi_unmatched chi table r), w)
         | Some (n, ps) \<Rightarrow>
             if n < length rs then snd (rs ! n) ps r w
             else (returned (chi_unmatched chi table r), w))"

definition default_param_error :: "in_request \<Rightarrow> go_error \<Rightarrow> write_call list" where
  "default_param_error r err = http_error (error_text err) 400"

definition HandlerWithOptions ::
  "chi_router \<Rightarrow> param_bind \<Rightarrow> ('d, 'x) server_interface \<Rightarrow> ('d, 'x) chi_options \<Rightarrow>
   ('d, 'x) http_handler" where
  "HandlerWithOptions chi B si options =
     (let stack = (case BaseRouter options of None \<Rightarrow> [] | Some ms \<Rightarrow> ms);
          wrapper = \<lparr>siw_Handler = si, siw_HandlerMiddlewares = Middlewares options,
            siw_ErrorHandlerFunc =
              (case ErrorHandlerFunc options of None \<Rightarrow> default_param_error | Some f \<Rightarrow> f)\<rparr>
      in foldr (\<lambda>middleware h. middleware h) stack
           (dispatch chi (routes B (BaseURL options) wrapper)))"

definition no_options :: "('d, 'x) chi_options" where
  "no_options = \<lparr>BaseURL = [], BaseRouter = None, Middlewares = [], ErrorHandlerFunc = None\<rparr>"

text \<open>\<open>Handler\<close>, \<open>HandlerFromMux\<close> and \<open>HandlerFromMuxWithBaseURL\<close>.\<close>

definition HandlerDefault ::
  "chi_router \<Rightarrow> param_bind \<Rightarrow> ('d, 'x) server_interface \<Rightarrow> ('d, 'x) http_handler" where
  "HandlerDefault chi B si = HandlerWithOptions chi B si no_options"

definition HandlerFromMux ::
  "chi_router \<Rightarrow> param_bind \<Rightarrow> ('d, 'x) server_interface \<Rightarrow> ('d, 'x) middleware list \<Rightarrow>
   ('d, 'x) http_handler" where
  "HandlerFromMux chi B si mux = HandlerWithOptions chi B si (no_options\<lparr>BaseRouter := Some mux\<rparr>)"

definition HandlerFromMuxWithBaseURL ::
  "chi_router \<Rightarrow> param_bind \<Rightarrow> ('d, 'x) server_interface \<Rightarrow> ('d, 'x) middleware list \<Rightarrow> string \<Rightarrow>
   ('d, 'x) http_handler" where
  "HandlerFromMuxWithBaseURL chi B si mux baseURL =
     HandlerWithOptions chi B si (no_options\<lparr>BaseURL := baseURL, BaseRouter := Some mux\<rparr>)"

end
