(* ===== verification/StrictServer.thy ===== *)
theory StrictServer
  imports Router Handler
begin

text \<open>
  The strict server of \<open>internal/api/server/server.gen.go\<close>: the request objects, the visitors
  that write a response, and \<open>strictHandler\<close>, which decodes the body, calls the service and
  writes its answer. \<open>strict_of\<close> is the handler of \<open>internal/handler\<close> seen through the interface
  \<open>StrictServerInterface\<close> that it implements.
\<close>

subsection \<open>Writing responses\<close>

text \<open>
  What writing depends on besides the response: the error, if any, with which the connection
  refuses a body, and the name \<open>fmt\<close> prints for the dynamic type of a response.
\<close>

record response_io =
  io_write_err :: "string \<Rightarrow> string option"
  io_type_name :: "api_response \<Rightarrow> string"

text \<open>A visitor yields the calls it makes on the writer, and the error it returns.\<close>

type_synonym visit = "write_call list \<times> string option"

text \<open>
  The body shared by the generated visitors: encode into a buffer, and only then write the
  header and the buffer. A value that cannot be encoded leaves the writer untouched.
\<close>

definition write_json ::
  "'x env \<Rightarrow> response_io \<Rightarrow> string \<Rightarrow> int \<Rightarrow> bool \<Rightarrow> json \<Rightarrow> visit" where
  "write_json E K ctype code encodable j =
     (if encodable \<and> json_finite j
      then
        (let buf = print_json (env_float E) j @ [CHR 0x0A]
         in ([SetHeader ''Content-Type'' ctype, WriteHeader code, WriteBody buf],
             io_write_err K buf))
      else ([], Some (env_marshal_err E j)))"

definition write_problem :: "'x env \<Rightarrow> response_io \<Rightarrow> int \<Rightarrow> api_error \<Rightarrow> visit" where
  "write_problem E K code e = write_json E K ''application/problem+json'' code True (enc_api_error e)"

definition write_instance :: "'x env \<Rightarrow> response_io \<Rightarrow> int \<Rightarrow> api_cost_instance \<Rightarrow> visit" where
  "write_instance E K code i =
     write_json E K ''application/json'' code (instance_encodable i) (enc_cost_instance i)"

definition write_report :: "'x env \<Rightarrow> response_io \<Rightarrow> json_map \<Rightarrow> visit" where
  "write_report E K m = write_json E K ''application/json'' 200 True (enc_json_map m)"

text \<open>
  One visitor per operation, defined on the response types that implement the operation's
  interface; \<open>None\<close> is a response of another operation.
\<close>

definition VisitListInstancesResponse ::
  "'x env \<Rightarrow> response_io \<Rightarrow> api_response \<Rightarrow> visit option" where
  "VisitListInstancesResponse E K response =
     (case response of
        OkList l \<Rightarrow>
          Some (write_json E K ''application/json'' 200
                  (list_all instance_encodable (case cl_Instances l of None \<Rightarrow> [] | Some is \<Rightarrow> is))
                  (enc_cost_instance_list l))
      | Problem code e \<Rightarrow> if code \<in> {400, 500} then Some (write_problem E K code e) else None
      | _ \<Rightarrow> None)"

definition VisitCreateInstanceResponse ::
  "'x env \<Rightarrow> response_io \<Rightarrow> api_response \<Rightarrow> visit option" where
  "VisitCreateInstanceResponse E K response =
     (case response of
        OkInstance code i \<Rightarrow> if code = 201 then Some (write_instance E K 201 i) else None
      | Problem code e \<Rightarrow>
          if code \<in> {400, 409, 422, 500} then Some (write_problem E K code e) else None
      | _ \<Rightarrow> None)"

definition VisitGetHealthResponse ::
  "'x env \<Rightarrow> response_io \<Rightarrow> api_response \<Rightarrow> visit option" where
  "VisitGetHealthResponse E K response =
     (case response of
        OkHealth h \<Rightarrow> Some (write_json E K ''application/json'' 200 True (enc_health h))
      | _ \<Rightarrow> None)"

definition VisitDeleteInstanceResponse ::
  "'x env \<Rightarrow> response_io \<Rightarrow> api_response \<Rightarrow> visit option" where
  "VisitDeleteInstanceResponse E K response =
     (case response of
        NoContent \<Rightarrow> Some ([WriteHeader 204], None)
      | Problem code e \<Rightarrow> if code \<in> {404, 500} then Some (write_problem E K code e) else None
      | _ \<Rightarrow> None)"

definition VisitGetInstanceResponse ::
  "'x env \<Rightarrow> response_io \<Rightarrow> api_response \<Rightarrow> visit option" where
  "VisitGetInstanceResponse E K response =
     (case response of
        OkInstance code i \<Rightarrow> if code = 200 then Some (write_instance E K 200 i) else None
      | Problem code e \<Rightarrow> if code \<in> {404, 500} then Some (write_problem E K code e) else None
      | _ \<Rightarrow> None)"

definition VisitGetCostReportResponse ::
  "'x env \<Rightarrow> response_io \<Rightarrow> api_response \<Rightarrow> visit option" where
  "VisitGetCostReportResponse E K response =
     (case response of
        OkReport m \<Rightarrow> Some (write_report E K m)
      | Problem code e \<Rightarrow> if code \<in> {404, 500, 502} then Some (write_problem E K code e) else None
      | _ \<Rightarrow> None)"

definition VisitGetCostForecastResponse ::
  "'x env \<Rightarrow> response_io \<Rightarrow> api_response \<Rightarrow> visit option" where
  "VisitGetCostForecastResponse E K response =
     (case response of
        OkReport m \<Rightarrow> Some (write_report E K m)
      | Problem code e \<Rightarrow> if code \<in> {404, 500, 502} then Some (write_problem E K code e) else None
      | _ \<Rightarrow> None)"

definition VisitGetUsageResponse ::
  "'x env \<Rightarrow> response_io \<Rightarrow> api_response \<Rightarrow> visit option" where
  "VisitGetUsageResponse E K response =
     (case response of
        OkReport m \<Rightarrow> Some (write_report E K m)
      | Problem code e \<Rightarrow> if code \<in> {404, 500, 502} then Some (write_problem E K code e) else None
      | _ \<Rightarrow> None)"

subsection \<open>The service behind the server\<close>

datatype request_object =
    ListInstancesRequestObject list_params
  | CreateInstanceRequestObject "string option" "api_cost_instance option"
  | GetHealthRequestObject
  | DeleteInstanceRequestObject string
  | GetInstanceRequestObject string
  | GetCostReportRequestObject string report_params
  | GetCostForecastRequestObject string
  | GetUsageRequestObject string string report_params

text \<open>The result of a service call: an error, or a response that may be nil.\<close>

type_synonym strict_result = "string + api_response option"

record ('d, 'x) strict_server_interface =
  ssi_ListInstances :: "ctx \<Rightarrow> list_params \<Rightarrow> ('d, 'x) world \<Rightarrow> strict_result \<times> ('d, 'x) world"
  ssi_CreateInstance ::
    "ctx \<Rightarrow> string option \<Rightarrow> api_cost_instance option \<Rightarrow> ('d, 'x) world \<Rightarrow>
     strict_result \<times> ('d, 'x) world"
  ssi_GetHealth :: "ctx \<Rightarrow> ('d, 'x) world \<Rightarrow> strict_result \<times> ('d, 'x) world"
  ssi_DeleteInstance :: "ctx \<Rightarrow> string \<Rightarrow> ('d, 'x) world \<Rightarrow> strict_result \<times> ('d, 'x) world"
  ssi_GetInstance :: "ctx \<Rightarrow> string \<Rightarrow> ('d, 'x) world \<Rightarrow> strict_result \<times> ('d, 'x) world"
  ssi_GetCostReport ::
    "ctx \<Rightarrow> string \<Rightarrow> report_params \<Rightarrow> ('d, 'x) world \<Rightarrow> strict_result \<times> ('d, 'x) world"
  ssi_GetCostForecast :: "ctx \<Rightarrow> string \<Rightarrow> ('d, 'x) world \<Rightarrow> strict_result \<times> ('d, 'x) world"
  ssi_GetUsage ::
    "ctx \<Rightarrow> string \<Rightarrow> string \<Rightarrow> report_params \<Rightarrow> ('d, 'x) world \<Rightarrow>
     strict_result \<times> ('d, 'x) world"

text \<open>The methods of \<open>internal/handler\<close> return a response and never an error.\<close>

definition answered :: "api_response \<times> ('d, 'x) world \<Rightarrow> strict_result \<times> ('d, 'x) world" where
  "answered out = (Inr (Some (fst out)), snd out)"

definition strict_of ::
  "'x env \<Rightarrow> ('d, 'x) handler \<Rightarrow> ('d, 'x) strict_server_interface" where
  "strict_of E H =
     \<lparr>ssi_ListInstances = \<lambda>ctx params w. answered (ListInstances E H params w),
      ssi_CreateInstance = \<lambda>ctx k body w. answered (CreateInstance E H ctx k body w),
      ssi_GetHealth = \<lambda>ctx w. answered (GetHealth E H w),
      ssi_DeleteInstance = \<lambda>ctx k w. answered (DeleteInstance E H ctx k w),
      ssi_GetInstance = \<lambda>ctx k w. answered (GetInstance E H k w),
      ssi_GetCostReport = \<lambda>ctx k params w. answered (GetCostReport E H ctx k params w),
      ssi_GetCostForecast = \<lambda>ctx k w. answered (GetCostForecast E H ctx k w),
      ssi_GetUsage = \<lambda>ctx k metric params w. answered (GetUsage E H ctx k metric params w)\<rparr>"

subsection \<open>strictHandler\<close>

text \<open>
  A strict middleware wraps the call of the service and is told the operation's name. A request
  object of another operation makes the call panic: it fails the type assertion.
\<close>

type_synonym ('d, 'x) strict_func =
  "ctx \<Rightarrow> in_request \<Rightarrow> request_object \<Rightarrow> ('d, 'x) world \<Rightarrow>
   (panic + strict_result) \<times> ('d, 'x) world"

type_synonym ('d, 'x) strict_middleware = "('d, 'x) strict_func \<Rightarrow> string \<Rightarrow> ('d, 'x) strict_func"

record strict_options =
  RequestErrorHandlerFunc :: "in_request \<Rightarrow> string \<Rightarrow> write_call list"
  ResponseErrorHandlerFunc :: "in_request \<Rightarrow> string \<Rightarrow> write_call list"

record ('d, 'x) strictHandler =
  sh_ssi :: "('d, 'x) strict_server_interface"
  sh_middlewares :: "('d, 'x) strict_middleware list"
  sh_options :: strict_options

definition NewStrictHandlerWithOptions ::
  "('d, 'x) strict_server_interface \<Rightarrow> ('d, 'x) strict_middleware list \<Rightarrow> strict_options \<Rightarrow>
   ('d, 'x) strictHandler" where
  "NewStrictHandlerWithOptions ssi middlewares options =
     \<lparr>sh_ssi = ssi, sh_middlewares = middlewares, sh_options = options\<rparr>"

definition NewStrictHandler ::
  "('d, 'x) strict_server_interface \<Rightarrow> ('d, 'x) strict_middleware list \<Rightarrow> ('d, 'x) strictHandler" where
  "NewStrictHandler ssi middlewares =
     \<lparr>sh_ssi = ssi, sh_middlewares = middlewares,
      sh_options =
        \<lparr>RequestErrorHandlerFunc = \<lambda>r err. http_error err 400,
         ResponseErrorHandlerFunc = \<lambda>r err. http_error err 500\<rparr>\<rparr>"

definition assertion_failed :: "panic + strict_result" where
  "assertion_failed = Inl (OtherPanic ''interface conversion'')"

definition call_result ::
  "strict_result \<times> ('d, 'x) world \<Rightarrow> (panic + strict_result) \<times> ('d, 'x) world" where
  "call_result out = (Inr (fst out), snd out)"

definition with_strict_middlewares ::
  "('d, 'x) strictHandler \<Rightarrow> string \<Rightarrow> ('d, 'x) strict_func \<Rightarrow> ('d, 'x) strict_func" where
  "with_strict_middlewares sh name handler =
     fold (\<lambda>middleware h. middleware h name) (sh_middlewares sh) handler"

text \<open>The end of every operation: the error, the response, or a response of the wrong type.\<close>

definition finish_strict ::
  "response_io \<Rightarrow> ('d, 'x) strictHandler \<Rightarrow> (api_response \<Rightarrow> visit option) \<Rightarrow> in_request \<Rightarrow>
   (panic + strict_result) \<times> ('d, 'x) world \<Rightarrow> handler_result \<times> ('d, 'x) world" where
  "finish_strict K sh visit r out =
     (let fail = ResponseErrorHandlerFunc (sh_options sh) r
      in case fst out of
           Inl p \<Rightarrow> (\<lparr>hr_calls = [], hr_panic = Some p\<rparr>, snd out)
         | Inr (Inl err) \<Rightarrow> (returned (fail err), snd out)
         | Inr (Inr None) \<Rightarrow> (returned [], snd out)
         | Inr (Inr (Some response)) \<Rightarrow>
             (case visit response of
                Some (calls, None) \<Rightarrow> (returned calls, snd out)
              | Some (calls, Some err) \<Rightarrow> (returned (calls @ fail err), snd out)
              | None \<Rightarrow>
                  (returned (fail (''unexpected response type: '' @ io_type_name K response)),
                   snd out)))"

definition strict_ListInstances ::
  "'x env \<Rightarrow> response_io \<Rightarrow> ('d, 'x) strictHandler \<Rightarrow> list_params \<Rightarrow> ('d, 'x) http_handler" where
  "strict_ListInstances E K sh params r w =
     (let request = ListInstancesRequestObject params;
          handler = (\<lambda>ctx r request w. case request of
              ListInstancesRequestObject p \<Rightarrow> call_result (ssi_ListInstances (sh_ssi sh) ctx p w)
            | _ \<Rightarrow> (assertion_failed, w))
      in finish_strict K sh (VisitListInstancesResponse E K) r
           (with_strict_middlewares sh ''ListInstances'' handler (ir_ctx r) r request w))"

text \<open>
  \<open>CreateInstance\<close> first decodes the body into the instance, which starts from its zero value.
  A request the server has received never has a nil body; for one, the decoder would panic.
\<close>

definition strict_CreateInstance ::
  "'x env \<Rightarrow> response_io \<Rightarrow> ('d, 'x) strictHandler \<Rightarrow> string option \<Rightarrow> ('d, 'x) http_handler" where
  "strict_CreateInstance E K sh param_id r w =
     (case ir_body r of
        None \<Rightarrow> (\<lparr>hr_calls = [], hr_panic = Some (OtherPanic ''nil pointer dereference'')\<rparr>, w)
      | Some body \<Rightarrow>
          (case decode_body E dec_cost_instance zero_instance body of
             Inl err \<Rightarrow>
               (returned (RequestErrorHandlerFunc (sh_options sh) r
                  (''can'' @ [CHR 0x27] @ ''t decode JSON body: '' @ err)), w)
           | Inr v \<Rightarrow>
               (let request = CreateInstanceRequestObject param_id (Some v);
                    handler = (\<lambda>ctx r request w. case request of
                        CreateInstanceRequestObject k b \<Rightarrow>
                          call_result (ssi_CreateInstance (sh_ssi sh) ctx k b w)
                      | _ \<Rightarrow> (assertion_failed, w))
                in finish_strict K sh (VisitCreateInstanceResponse E K) r
                     (with_strict_middlewares sh ''CreateInstance'' handler (ir_ctx r) r request w))))"

definition strict_GetHealth ::
  "'x env \<Rightarrow> response_io \<Rightarrow> ('d, 'x) strictHandler \<Rightarrow> ('d, 'x) http_handler" where
  "strict_GetHealth E K sh r w =
     (let request = GetHealthRequestObject;
          handler = (\<lambda>ctx r request w. case request of
              GetHealthRequestObject \<Rightarrow> call_result (ssi_GetHealth (sh_ssi sh) ctx w)
            | _ \<Rightarrow> (assertion_failed, w))
      in finish_strict K sh (VisitGetHealthResponse E K) r
           (with_strict_middlewares sh ''GetHealth'' handler (ir_ctx r) r request w))"

definition strict_DeleteInstance ::
  "'x env \<Rightarrow> response_io \<Rightarrow> ('d, 'x) strictHandler \<Rightarrow> string \<Rightarrow> ('d, 'x) http_handler" where
  "strict_DeleteInstance E K sh instanceId r w =
     (let request = DeleteInstanceRequestObject instanceId;
          handler = (\<lambda>ctx r request w. case request of
              DeleteInstanceRequestObject k \<Rightarrow> call_result (ssi_DeleteInstance (sh_ssi sh) ctx k w)
            | _ \<Rightarrow> (assertion_failed, w))
      in finish_strict K sh (VisitDeleteInstanceResponse E K) r
           (with_strict_middlewares sh ''DeleteInstance'' handler (ir_ctx r) r request w))"

definition strict_GetInstance ::
  "'x env \<Rightarrow> response_io \<Rightarrow> ('d, 'x) strictHandler \<Rightarrow> string \<Rightarrow> ('d, 'x) http_handler" where
  "strict_GetInstance E K sh instanceId r w =
     (let request = GetInstanceRequestObject instanceId;
          handler = (\<lambda>ctx r request w. case request of
              GetInstanceRequestObject k \<Rightarrow> call_result (ssi_GetInstance (sh_ssi sh) ctx k w)
            | _ \<Rightarrow> (assertion_failed, w))
      in finish_strict K sh (VisitGetInstanceResponse E K) r
           (with_strict_middlewares sh ''GetInstance'' handler (ir_ctx r) r request w))"

definition strict_GetCostReport ::
  "'x env \<Rightarrow> response_io \<Rightarrow> ('d, 'x) strictHandler \<Rightarrow> string \<Rightarrow> report_params \<Rightarrow> ('d, 'x) http_handler" where
  "strict_GetCostReport E K sh instanceId params r w =
     (let request = GetCostReportRequestObject instanceId params;
          handler = (\<lambda>ctx r request w. case request of
              GetCostReportRequestObject k p \<Rightarrow> call_result (ssi_GetCostReport (sh_ssi sh) ctx k p w)
            | _ \<Rightarrow> (assertion_failed, w))
      in finish_strict K sh (VisitGetCostReportResponse E K) r
           (with_strict_middlewares sh ''GetCostReport'' handler (ir_ctx r) r request w))"

definition strict_GetCostForecast ::
  "'x env \<Rightarrow> response_io \<Rightarrow> ('d, 'x) strictHandler \<Rightarrow> string \<Rightarrow> ('d, 'x) http_handler" where
  "strict_GetCostForecast E K sh instanceId r w =
     (let request = GetCostForecastRequestObject instanceId;
          handler = (\<lambda>ctx r request w. case request of
              GetCostForecastRequestObject k \<Rightarrow> call_result (ssi_GetCostForecast (sh_ssi sh) ctx k w)
            | _ \<Rightarrow> (assertion_failed, w))
      in finish_strict K sh (VisitGetCostForecastResponse E K) r
           (with_strict_middlewares sh ''GetCostForecast'' handler (ir_ctx r) r request w))"

definition strict_GetUsage ::
  "'x env \<Rightarrow> response_io \<Rightarrow> ('d, 'x) strictHandler \<Rightarrow> string \<Rightarrow> string \<Rightarrow> report_params \<Rightarrow> ('d, 'x) http_handler" where
  "strict_GetUsage E K sh instanceId metric params r w =
     (let request = GetUsageRequestObject instanceId metric params;
          handler = (\<lambda>ctx r request w. case request of
              GetUsageRequestObject k m p \<Rightarrow> call_result (ssi_GetUsage (sh_ssi sh) ctx k m p w)
            | _ \<Rightarrow> (assertion_failed, w))
      in finish_strict K sh (VisitGetUsageResponse E K) r
           (with_strict_middlewares sh ''GetUsage'' handler (ir_ctx r) r request w))"

text \<open>The strict handler as the interface the router calls.\<close>

definition server_of ::
  "'x env \<Rightarrow> response_io \<Rightarrow> ('d, 'x) strictHandler \<Rightarrow> ('d, 'x) server_interface" where
  "server_of E K sh =
     \<lparr>si_ListInstances = strict_ListInstances E K sh,
      si_CreateInstance = strict_CreateInstance E K sh,
      si_GetHealth = strict_GetHealth E K sh,
      si_DeleteInstance = strict_DeleteInstance E K sh,
      si_GetInstance = strict_GetInstance E K sh,
      si_GetCostReport = strict_GetCostReport E K sh,
      si_GetCostForecast = strict_GetCostForecast E K sh,
      si_GetUsage = strict_GetUsage E K sh\<rparr>"

end
