(* ===== verification/Middlewares.thy ===== *)
theory Middlewares
  imports StrictServer Metrics
begin

text \<open>
  \<open>internal/apiserver/middleware.go\<close> and the response writer of \<open>errors.go\<close>: recovery from
  panics, the request timeout, request logging, the limit of the body and the validation against
  the OpenAPI document. The validation library is the parameter \<open>validator\<close>.
\<close>

subsection \<open>responseWriter\<close>

text \<open>
  The fields of \<open>responseWriter\<close> after a sequence of calls: \<open>WriteHeader\<close> records its code
  and that a header was written, \<open>Write\<close> and \<open>Flush\<close> only the latter. Every call is passed on.
\<close>

record response_writer =
  rw_statusCode :: int
  rw_wroteHeader :: bool

definition new_response_writer :: response_writer where
  "new_response_writer = \<lparr>rw_statusCode = 200, rw_wroteHeader = False\<rparr>"

fun rw_WriteHeader :: "int \<Rightarrow> response_writer \<Rightarrow> response_writer" where
  "rw_WriteHeader code rw = rw\<lparr>rw_statusCode := code, rw_wroteHeader := True\<rparr>"

fun rw_Write :: "response_writer \<Rightarrow> response_writer" where
  "rw_Write rw = rw\<lparr>rw_wroteHeader := True\<rparr>"

fun rw_Flush :: "response_writer \<Rightarrow> response_writer" where
  "rw_Flush rw = rw\<lparr>rw_wroteHeader := True\<rparr>"

fun rw_call :: "write_call \<Rightarrow> response_writer \<Rightarrow> response_writer" where
  "rw_call (SetHeader _ _) rw = rw"
| "rw_call (WriteHeader code) rw = rw_WriteHeader code rw"
| "rw_call (WriteBody _) rw = rw_Write rw"
| "rw_call Flush rw = rw_Flush rw"

definition rw_after :: "write_call list \<Rightarrow> response_writer" where
  "rw_after cs = fold rw_call cs new_response_writer"

subsection \<open>Recovery\<close>

definition rfc7807RecoveryMiddleware :: "'x env \<Rightarrow> ('d, 'x) middleware" where
  "rfc7807RecoveryMiddleware E next r w =
     (let (out, w1) = next r w
      in case hr_panic out of
           None \<Rightarrow> (out, w1)
         | Some ErrAbortHandler \<Rightarrow> (out, w1)
         | Some (OtherPanic _) \<Rightarrow>
             if rw_wroteHeader (rw_after (hr_calls out)) then (returned (hr_calls out), w1)
             else
               (returned (hr_calls out @
                  writeRFC7807 E 500 INTERNAL ''Internal Server Error''
                    ''an unexpected error occurred''), w1))"

subsection \<open>Timeout and logging\<close>

definition requestTimeoutMiddleware :: "duration \<Rightarrow> ('d, 'x) middleware" where
  "requestTimeoutMiddleware timeout next r w =
     next (r\<lparr>ir_ctx := WithTimeout (ir_ctx r) timeout\<rparr>) w"

text \<open>Logging reads the clock before the request and, if the handler returns, after it.\<close>

definition requestLoggingMiddleware :: "'x env \<Rightarrow> ('d, 'x) middleware" where
  "requestLoggingMiddleware E next r w =
     (let (start, w1) = on_ext (env_now E) w;
          (out, w2) = next r w1
      in case hr_panic out of
           Some _ \<Rightarrow> (out, w2)
         | None \<Rightarrow> (out, snd (on_ext (env_now E) w2)))"

subsection \<open>Body limit\<close>

text \<open>
  \<open>http.MaxBytesReader\<close>: a body of more than \<open>n\<close> bytes is cut after \<open>n\<close> and then fails. The
  writer it is given is a wrapper, so that the connection is not marked for closing.
\<close>

definition body_too_large :: string where
  "body_too_large = ''http: request body too large''"

definition max_bytes_reader :: "int \<Rightarrow> string \<times> string option \<Rightarrow> string \<times> string option" where
  "max_bytes_reader n body =
     (if int (length (fst body)) > n then (take (nat n) (fst body), Some body_too_large) else body)"

definition bodySizeLimitMiddleware :: "int \<Rightarrow> ('d, 'x) middleware" where
  "bodySizeLimitMiddleware maxBytes next r w =
     (case ir_body r of
        Some body \<Rightarrow>
          if maxBytes > 0 then next (r\<lparr>ir_body := Some (max_bytes_reader maxBytes body)\<rparr>) w
          else next r w
      | None \<Rightarrow> next r w)"

subsection \<open>Validation\<close>

text \<open>
  The OpenAPI router and \<open>ValidateRequest\<close>. A route is a token of the library; whether there is
  one does not depend on the body. The validator sees the request with its body rewound.
\<close>

record 'r validator =
  va_FindRoute :: "in_request \<Rightarrow> go_error + 'r \<times> (string \<times> string) list"
  va_ValidateRequest :: "'r \<Rightarrow> (string \<times> string) list \<Rightarrow> in_request \<Rightarrow> go_error option"

definition openAPIValidationMiddleware ::
  "'x env \<Rightarrow> 'r validator \<Rightarrow> (go_error \<Rightarrow> write_call list) \<Rightarrow> ('d, 'x) middleware" where
  "openAPIValidationMiddleware E V badReq next r w =
     (case va_FindRoute V r of
        Inl _ \<Rightarrow> next r w
      | Inr (route, pathParams) \<Rightarrow>
          (case (case ir_body r of
                   None \<Rightarrow> Inr None
                 | Some (data, None) \<Rightarrow> Inr (Some data)
                 | Some (data, Some e) \<Rightarrow> Inl e) of
             Inl _ \<Rightarrow>
               (returned (writeRFC7807 E 413 INVALIDARGUMENT ''Request Entity Too Large''
                  ''request body too large''), w)
           | Inr bodyBytes \<Rightarrow>
               (let r1 = r\<lparr>ir_body := map_option (\<lambda>data. (data, None)) bodyBytes\<rparr>
                in case va_ValidateRequest V route pathParams r1 of
                     Some err \<Rightarrow> (returned (badReq err), w)
                   | None \<Rightarrow> next r1 w)))"

subsection \<open>Facts\<close>

lemma rw_after_append: "rw_after (xs @ ys) = fold rw_call ys (rw_after xs)"
  by (simp add: rw_after_def)

lemma wroteHeader_stays: "rw_wroteHeader rw \<Longrightarrow> rw_wroteHeader (fold rw_call cs rw)"
proof (induction cs arbitrary: rw)
  case (Cons c cs)
  then show ?case by (cases c) auto
qed simp

text \<open>The flag is set exactly when the client has been sent a status.\<close>

lemma wroteHeader_iff: "rw_wroteHeader (rw_after cs) \<longleftrightarrow> wire_status cs \<noteq> None"
proof -
  have "rw_wroteHeader (fold rw_call cs rw) \<longleftrightarrow> rw_wroteHeader rw \<or> wire_status cs \<noteq> None" for rw
  proof (induction cs arbitrary: rw)
    case (Cons c cs)
    then show ?case by (cases c) auto
  qed simp
  then show ?thesis by (simp add: rw_after_def new_response_writer_def)
qed

text \<open>The status of the wrapper is the last code written, 200 when there was none.\<close>

lemma rw_statusCode_after: "rw_statusCode (rw_after cs) = wrapper_status cs"
proof -
  have "rw_statusCode (fold rw_call cs rw) =
      (if header_codes cs = [] then rw_statusCode rw else last (header_codes cs))" for rw
  proof (induction cs arbitrary: rw)
    case (Cons c cs)
    then show ?case by (cases c) auto
  qed simp
  then show ?thesis by (simp add: rw_after_def new_response_writer_def wrapper_status_def Let_def)
qed

text \<open>A handler that answers: it ends without a panic, having sent a status.\<close>

definition answers :: "handler_result \<times> ('d, 'x) world \<Rightarrow> bool" where
  "answers out \<longleftrightarrow> hr_panic (fst out) = None \<and> wire_status (hr_calls (fst out)) \<noteq> None"

definition total_handler :: "('d, 'x) http_handler \<Rightarrow> bool" where
  "total_handler h \<longleftrightarrow> (\<forall>r w. answers (h r w))"

end
