(* ===== verification/Registration.thy ===== *)
theory Registration
  imports Reconciler
begin

text \<open>
  \<open>internal/registration/registration.go\<close>: registering the provider with the DCM service
  provider manager. The manager's client is not part of the repository: it is the parameter
  \<open>D\<close>, a function from the provider's description to a status and body or an error. A wait
  between two attempts ends with the timer (\<open>Tick\<close>) or the end of the context (\<open>Cancelled\<close>);
  the list of these outcomes bounds the loop, which the code leaves open.
\<close>

record registration_config =
  DCMURL :: string
  ProviderName :: string
  Endpoint :: string
  InitialBackoff :: duration
  MaxBackoff :: duration
  DisplayName :: string

record provider =
  prov_Name :: string
  prov_ServiceType :: string
  prov_SchemaVersion :: string
  prov_Endpoint :: string
  prov_Operations :: "string list"
  prov_Metadata :: "(string \<times> json) list"
  prov_DisplayName :: "string option"

type_synonym 'x dcm_client = "ctx \<Rightarrow> provider \<Rightarrow> 'x \<Rightarrow> (string + int \<times> string) \<times> 'x"

datatype registration_error = Retryable string | Rejected string

fun isRetryable :: "registration_error \<Rightarrow> bool" where
  "isRetryable (Retryable _) = True"
| "isRetryable (Rejected _) = False"

definition truncateBody :: "string \<Rightarrow> string" where
  "truncateBody body = (if length body > 200 then take 200 body else body)"

definition provider_of :: "registration_config \<Rightarrow> provider" where
  "provider_of cfg =
     \<lparr>prov_Name = ProviderName cfg, prov_ServiceType = ''cost'', prov_SchemaVersion = ''v1alpha1'',
      prov_Endpoint = Endpoint cfg, prov_Operations = [''CREATE'', ''DELETE'', ''READ''],
      prov_Metadata = [(''backingService'', JStr ''koku''),
        (''supportedProviderTypes'', JArr [JStr ''OCP''])],
      prov_DisplayName = (if DisplayName cfg \<noteq> [] then Some (DisplayName cfg) else None)\<rparr>"

definition answer_error :: "int \<Rightarrow> string \<Rightarrow> registration_error option" where
  "answer_error code body =
     (if code = 200 \<or> code = 201 then None
      else if code \<ge> 400 \<and> code < 500
      then Some (Rejected (''registration rejected: status '' @ itoa code @ '': '' @ truncateBody body))
      else Some (Retryable (''registration failed: status '' @ itoa code @ '': '' @ truncateBody body)))"

definition Register ::
  "'x dcm_client \<Rightarrow> registration_config \<Rightarrow> ctx \<Rightarrow> ('d, 'x) world \<Rightarrow>
   registration_error option \<times> ('d, 'x) world" where
  "Register D cfg ctx w =
     (let (res, w1) = on_ext (D ctx (provider_of cfg)) w
      in (case res of
            Inl e \<Rightarrow> Some (Retryable (''calling DCM registry: '' @ e))
          | Inr (code, body) \<Rightarrow> answer_error code body, w1))"

text \<open>\<open>backoff *= 2\<close> on a \<open>time.Duration\<close>, which is an int64, then the clamp.\<close>

definition next_backoff :: "registration_config \<Rightarrow> duration \<Rightarrow> duration" where
  "next_backoff cfg backoff =
     (let b = wrap64 (backoff * 2) in if b > MaxBackoff cfg then MaxBackoff cfg else b)"

text \<open>How far the loop has got; \<open>Pending\<close> waits for its timer.\<close>

datatype registration_state = Registered | GivenUp registration_error | Stopped | Pending

fun register_loop ::
  "'x dcm_client \<Rightarrow> registration_config \<Rightarrow> ctx \<Rightarrow> wake_up list \<Rightarrow> duration \<Rightarrow> ('d, 'x) world \<Rightarrow>
   (registration_state \<times> duration list) \<times> ('d, 'x) world" where
  "register_loop D cfg ctx wakes backoff w =
     (let (err, w1) = Register D cfg ctx w
      in case err of
           None \<Rightarrow> ((Registered, []), w1)
         | Some e \<Rightarrow>
             if \<not> isRetryable e then ((GivenUp e, []), w1)
             else (case wakes of
                     [] \<Rightarrow> ((Pending, [backoff]), w1)
                   | Cancelled # _ \<Rightarrow> ((Stopped, [backoff]), w1)
                   | Tick # rest \<Rightarrow>
                       (let ((st, waits), w2) =
                          register_loop D cfg ctx rest (next_backoff cfg backoff) w1
                        in ((st, backoff # waits), w2))))"

definition registerWithRetry ::
  "'x dcm_client \<Rightarrow> registration_config \<Rightarrow> ctx \<Rightarrow> wake_up list \<Rightarrow> ('d, 'x) world \<Rightarrow>
   (registration_state \<times> duration list) \<times> ('d, 'x) world" where
  "registerWithRetry D cfg ctx wakes w = register_loop D cfg ctx wakes (InitialBackoff cfg) w"

text \<open>
  \<open>Start\<close> runs the loop at most once; \<open>started\<close> is the state of the \<open>sync.Once\<close>. The result is
  \<open>None\<close> when nothing is run.
\<close>

definition registrar_Start ::
  "'x dcm_client \<Rightarrow> registration_config \<Rightarrow> ctx \<Rightarrow> wake_up list \<Rightarrow> bool \<Rightarrow> ('d, 'x) world \<Rightarrow>
   (registration_state \<times> duration list) option \<times> bool \<times> ('d, 'x) world" where
  "registrar_Start D cfg ctx wakes started w =
     (if started then (None, True, w)
      else (let (out, w1) = registerWithRetry D cfg ctx wakes w in (Some out, True, w1)))"

subsection \<open>Backoff\<close>

declare register_loop.simps [simp del]

text \<open>The wait before the attempt with this number: doubled each time, and clamped.\<close>

definition wait_number :: "registration_config \<Rightarrow> nat \<Rightarrow> duration" where
  "wait_number cfg n =
     (if n = 0 then InitialBackoff cfg else min (InitialBackoff cfg * 2 ^ n) (MaxBackoff cfg))"

definition sane_backoff :: "registration_config \<Rightarrow> bool" where
  "sane_backoff cfg \<longleftrightarrow> 0 < InitialBackoff cfg \<and> 0 < MaxBackoff cfg \<and>
     2 * InitialBackoff cfg \<le> max_int64 \<and> 2 * MaxBackoff cfg \<le> max_int64"

lemma next_backoff_in_range:
  assumes "0 \<le> b" and "2 * b \<le> max_int64"
  shows "next_backoff cfg b = min (2 * b) (MaxBackoff cfg)"
proof -
  have "wrap64 (b * 2) = b * 2" using assms by (intro wrap64_id) (simp_all add: min_int64_def)
  then show ?thesis by (simp add: next_backoff_def Let_def min_def)
qed

lemma next_wait:
  assumes "sane_backoff cfg"
  shows "next_backoff cfg (wait_number cfg n) = wait_number cfg (Suc n)"
proof -
  have b: "0 \<le> wait_number cfg n" "2 * wait_number cfg n \<le> max_int64"
    using assms by (auto simp: wait_number_def sane_backoff_def min_def)
  then have "next_backoff cfg (wait_number cfg n) = min (2 * wait_number cfg n) (MaxBackoff cfg)"
    by (rule next_backoff_in_range)
  also have "\<dots> = wait_number cfg (Suc n)"
    using assms by (auto simp: wait_number_def sane_backoff_def min_def)
  finally show ?thesis .
qed

lemma register_loop_waits:
  assumes "sane_backoff cfg"
  shows "snd (fst (register_loop D cfg ctx wakes (wait_number cfg n) w)) =
    map (wait_number cfg) [n..<n + length (snd (fst (register_loop D cfg ctx wakes (wait_number cfg n) w)))]"
proof (induction wakes arbitrary: n w)
  case Nil
  then show ?case
    by (subst (1 2) register_loop.simps) (simp split: prod.splits option.splits)
next
  case (Cons k wakes)
  obtain err w1 where r: "Register D cfg ctx w = (err, w1)" by fastforce
  show ?case
  proof (cases "k = Tick \<and> (\<exists>e. err = Some e \<and> isRetryable e)")
    case True
    obtain st waits w2 where l: "register_loop D cfg ctx wakes (wait_number cfg (Suc n)) w1 =
        ((st, waits), w2)" by (metis prod.collapse)
    have "waits = map (wait_number cfg) [Suc n..<Suc n + length waits]"
      using Cons.IH [of "Suc n" w1] l by simp
    moreover have "[n..<n + length (wait_number cfg n # waits)] = n # [Suc n..<Suc n + length waits]"
      by (subst upt_conv_Cons) simp_all
    moreover have "register_loop D cfg ctx (k # wakes) (wait_number cfg n) w =
        ((st, wait_number cfg n # waits), w2)"
      using True r l next_wait [OF assms] by (subst register_loop.simps) (auto split: option.splits)
    ultimately show ?thesis by simp
  next
    case False
    then show ?thesis
      using r by (subst (1 2) register_loop.simps)
        (auto simp: upt_conv_Cons split: option.splits wake_up.splits)
  qed
qed

text \<open>The state before the attempt with this number, when the loop gets that far.\<close>

fun after_attempts ::
  "'x dcm_client \<Rightarrow> registration_config \<Rightarrow> ctx \<Rightarrow> nat \<Rightarrow> ('d, 'x) world \<Rightarrow> ('d, 'x) world" where
  "after_attempts D cfg ctx 0 w = w"
| "after_attempts D cfg ctx (Suc n) w = after_attempts D cfg ctx n (snd (Register D cfg ctx w))"

lemma register_loop_ends:
  assumes "sane_backoff cfg"
    and "\<forall>i < n. \<exists>e. fst (Register D cfg ctx (after_attempts D cfg ctx i w)) = Some (Retryable e)"
    and "Register D cfg ctx (after_attempts D cfg ctx n w) = (res, w')"
    and "\<forall>e. res \<noteq> Some (Retryable e)"
  shows "register_loop D cfg ctx (replicate n Tick @ wakes) (wait_number cfg m) w =
    ((case res of None \<Rightarrow> Registered | Some x \<Rightarrow> GivenUp x, map (wait_number cfg) [m..<m + n]), w')"
  using assms(2,3)
proof (induction n arbitrary: m w)
  case 0
  have "\<not> isRetryable x" if "res = Some x" for x using that assms(4) by (cases x) auto
  then show ?case using 0 by (subst register_loop.simps) (simp split: option.splits)
next
  case (Suc n)
  obtain e w1 where r: "Register D cfg ctx w = (Some (Retryable e), w1)"
    using Suc.prems(1) by (metis after_attempts.simps(1) prod.collapse zero_less_Suc)
  have "\<forall>i < n. \<exists>e. fst (Register D cfg ctx (after_attempts D cfg ctx i w1)) = Some (Retryable e)"
    using Suc.prems(1) r by (metis Suc_mono after_attempts.simps(2) snd_conv)
  moreover have "Register D cfg ctx (after_attempts D cfg ctx n w1) = (res, w')"
    using Suc.prems(2) r by simp
  ultimately have "register_loop D cfg ctx (replicate n Tick @ wakes) (wait_number cfg (Suc m)) w1 =
      ((case res of None \<Rightarrow> Registered | Some x \<Rightarrow> GivenUp x,
        map (wait_number cfg) [Suc m..<Suc m + n]), w')"
    by (rule Suc.IH)
  moreover have "[m..<m + Suc n] = m # [Suc m..<Suc m + n]"
    by (subst upt_conv_Cons) simp_all
  ultimately show ?case
    using r next_wait [OF assms(1)] by (subst register_loop.simps) simp
qed

subsection \<open>Properties\<close>

text \<open>C32. The waits between two attempts to register are the initial backoff, then its doublings,
  clamped to the maximum: for every configuration whose backoffs are positive and at most half the
  largest duration, no wait overflows, is negative or exceeds the larger of the two settings.\<close>

theorem registration_waits:
  assumes "sane_backoff cfg"
    and "registerWithRetry D cfg ctx wakes w = ((st, waits), w')"
  shows "waits = map (wait_number cfg) [0..<length waits] \<and>
    (\<forall>d \<in> set waits. 0 < d \<and> d \<le> max (InitialBackoff cfg) (MaxBackoff cfg))"
proof -
  have "InitialBackoff cfg = wait_number cfg 0" by (simp add: wait_number_def)
  then have waits: "waits = map (wait_number cfg) [0..<length waits]"
    using register_loop_waits [OF assms(1), of D ctx wakes 0 w] assms(2)
    by (simp add: registerWithRetry_def)
  have "0 < wait_number cfg n \<and> wait_number cfg n \<le> max (InitialBackoff cfg) (MaxBackoff cfg)" for n
    using assms(1) by (auto simp: wait_number_def sane_backoff_def)
  then have "\<forall>d \<in> set (map (wait_number cfg) [0..<length waits]).
      0 < d \<and> d \<le> max (InitialBackoff cfg) (MaxBackoff cfg)" by auto
  with waits show ?thesis by metis
qed

definition sample_registration :: registration_config where
  "sample_registration = \<lparr>DCMURL = ''http://dcm'', ProviderName = ''p'', Endpoint = ''http://e'',
     InitialBackoff = second, MaxBackoff = 300 * second, DisplayName = []\<rparr>"

text \<open>A registry that answers 503 until its counter is down, then 201.\<close>

definition sample_registry :: "nat dcm_client" where
  "sample_registry ctx p x = (case x of 0 \<Rightarrow> (Inr (201, []), 0) | Suc n \<Rightarrow> (Inr (503, []), n))"

definition sample_world :: "(unit, nat) world" where
  "sample_world =
     \<lparr>db = (), ext = 2, outgoing = [], published = [], HTTPRequestsTotal = (\<lambda>k. 0),
      RequestDuration = (\<lambda>k. []), InstancesManaged = 0, KokuRequestsTotal = (\<lambda>k. 0),
      NATSEventsPublished = 0, cachedAt = 0, cachedKokuOK = False\<rparr>"

lemma sample_sane: "sane_backoff sample_registration"
  by (simp add: sane_backoff_def sample_registration_def max_int64_def)

theorem registration_waits_witness:
  "list_all (\<lambda>d. 0 < d \<and> d \<le> 300 * second)
     (snd (fst (registerWithRetry sample_registry sample_registration (Ctx 0) [Tick, Tick, Tick]
        sample_world)))"
proof -
  obtain st waits w' where "registerWithRetry sample_registry sample_registration (Ctx 0)
      [Tick, Tick, Tick] sample_world = ((st, waits), w')" by (metis prod.collapse)
  from registration_waits [OF sample_sane this] this show ?thesis
    by (auto simp: sample_registration_def list_all_iff)
qed



end
