(* ===== verification/Config.thy ===== *)
theory Config
  imports Registration
begin

text \<open>
  \<open>internal/config/config.go\<close>: the configuration, its loading and its validation. Reading the
  environment into the structs is done by a library outside the repository and is a parameter
  (\<open>parsed\<close>), as is the file system (\<open>readFile\<close>); the struct tags are kept as the table
  \<open>env_tags\<close>. The validation of the Koku settings and the redaction are the code's own.
\<close>

record server_config =
  BindAddress :: string
  ShutdownTimeout :: duration
  RequestTimeout :: duration
  ReadTimeout :: duration
  WriteTimeout :: duration
  IdleTimeout :: duration
  MaxBodySize :: int

record koku_config =
  APIURL :: string
  Identity :: string
  IdentityFile :: string
  AllowInsecure :: bool

record reconciler_config =
  PollInterval :: duration
  ProvisionTimeout :: duration

record config =
  cfg_Server :: server_config
  cfg_Registration :: registration_config
  cfg_Koku :: koku_config
  cfg_NATS_URL :: string
  cfg_DBPath :: string
  cfg_Reconciler :: reconciler_config

text \<open>Variable, default and whether it is required, in the order of the structs.\<close>

definition env_tags :: "(string \<times> string option \<times> bool) list" where
  "env_tags =
     [(''SP_SERVER_ADDRESS'', Some '':8080'', False),
      (''SP_SERVER_SHUTDOWN_TIMEOUT'', Some ''15s'', False),
      (''SP_SERVER_REQUEST_TIMEOUT'', Some ''30s'', False),
      (''SP_SERVER_READ_TIMEOUT'', Some ''15s'', False),
      (''SP_SERVER_WRITE_TIMEOUT'', Some ''15s'', False),
      (''SP_SERVER_IDLE_TIMEOUT'', Some ''60s'', False),
      (''SP_SERVER_MAX_BODY_SIZE'', Some ''1048576'', False),
      (''DCM_REGISTRATION_URL'', None, True),
      (''SP_NAME'', Some ''koku-cost-provider'', False),
      (''SP_ENDPOINT'', None, True),
      (''SP_REGISTRATION_INITIAL_BACKOFF'', Some ''1s'', False),
      (''SP_REGISTRATION_MAX_BACKOFF'', Some ''5m'', False),
      (''SP_DISPLAY_NAME'', Some [], False),
      (''KOKU_API_URL'', None, True),
      (''KOKU_IDENTITY'', Some [], False),
      (''KOKU_IDENTITY_FILE'', Some [], False),
      (''KOKU_ALLOW_INSECURE'', Some ''false'', False),
      (''SP_NATS_URL'', Some [], False),
      (''SP_DB_PATH'', Some ''data/cost-provider.db'', False),
      (''SP_RECONCILER_POLL_INTERVAL'', Some ''5m'', False),
      (''SP_RECONCILER_PROVISION_TIMEOUT'', Some ''24h'', False)]"

subsection \<open>Validation\<close>

definition resolveKokuIdentity ::
  "(string \<Rightarrow> string + string) \<Rightarrow> koku_config \<Rightarrow> string + koku_config" where
  "resolveKokuIdentity readFile koku =
     (let loaded =
        (if IdentityFile koku = [] then Inr koku
         else (case readFile (IdentityFile koku) of
                 Inl e \<Rightarrow> Inl (''reading KOKU_IDENTITY_FILE ('' @ IdentityFile koku @ ''): '' @ e)
               | Inr data \<Rightarrow> Inr (koku\<lparr>Identity := trim_space data\<rparr>)))
      in case loaded of
           Inl e \<Rightarrow> Inl e
         | Inr k \<Rightarrow>
             if Identity k = [] then Inl ''one of KOKU_IDENTITY or KOKU_IDENTITY_FILE must be set''
             else Inr k)"

definition validateKokuURL :: "koku_config \<Rightarrow> string option" where
  "validateKokuURL koku =
     (if \<not> AllowInsecure koku \<and> \<not> has_prefix (APIURL koku) ''https://''
      then (if has_prefix (APIURL koku) ''http://localhost'' \<or>
               has_prefix (APIURL koku) ''http://127.0.0.1''
            then None
            else Some (''KOKU_API_URL must use HTTPS (got '' @ quote (APIURL koku) @
                   ''); set KOKU_ALLOW_INSECURE=true to override''))
      else None)"

definition Load :: "string + config \<Rightarrow> (string \<Rightarrow> string + string) \<Rightarrow> string + config" where
  "Load parsed readFile =
     (case parsed of
        Inl e \<Rightarrow> Inl (''parsing config from env: '' @ e)
      | Inr cfg \<Rightarrow>
          (case resolveKokuIdentity readFile (cfg_Koku cfg) of
             Inl e \<Rightarrow> Inl e
           | Inr koku \<Rightarrow>
               (case validateKokuURL koku of
                  Some e \<Rightarrow> Inl e
                | None \<Rightarrow> Inr (cfg\<lparr>cfg_Koku := koku\<rparr>))))"

definition RedactedIdentity :: "koku_config \<Rightarrow> string" where
  "RedactedIdentity k =
     (let i = Identity k
      in if length i \<le> 8 then ''***'' else take 4 i @ ''...'' @ drop (length i - 4) i)"

subsection \<open>Properties\<close>



definition sample_config :: config where
  "sample_config =
     \<lparr>cfg_Server = \<lparr>BindAddress = '':8080'', ShutdownTimeout = 15 * second,
        RequestTimeout = 30 * second, ReadTimeout = 15 * second, WriteTimeout = 15 * second,
        IdleTimeout = 60 * second, MaxBodySize = 1048576\<rparr>,
      cfg_Registration = sample_registration,
      cfg_Koku = \<lparr>APIURL = ''https://koku.example'', Identity = [],
        IdentityFile = ''/run/secrets/identity'', AllowInsecure = False\<rparr>,
      cfg_NATS_URL = [], cfg_DBPath = ''data/cost-provider.db'',
      cfg_Reconciler = \<lparr>PollInterval = 300 * second, ProvisionTimeout = 86400 * second\<rparr>\<rparr>"

definition sample_files :: "string \<Rightarrow> string + string" where
  "sample_files path =
     (if path = ''/run/secrets/identity'' then Inr ('' c2VjcmV0LWlkZW50aXR5'' @ [CHR 0x0A])
      else Inl ''no such file'')"


text \<open>The identity that is logged at start shows at most the first and the last four bytes
  of the secret: an identity of eight bytes or less is not shown at all, and two longer ones that
  agree on those eight bytes are logged alike, whatever their middle and their length.\<close>

lemma redaction_hides_middle:
  assumes "length a = 4" and "length b = 4" and "m \<noteq> []"
  shows "RedactedIdentity (k\<lparr>Identity := a @ m @ b\<rparr>) = a @ ''...'' @ b \<and>
    RedactedIdentity (k\<lparr>Identity := a @ b\<rparr>) = ''***''"
  using assms by (cases m) (simp_all add: RedactedIdentity_def Let_def)

lemma redaction_hides_middle_witness:
  "RedactedIdentity ((cfg_Koku sample_config)\<lparr>Identity := ''abcd'' @ ''secret'' @ ''wxyz''\<rparr>) =
     ''abcd...wxyz''"
  using redaction_hides_middle [of "''abcd''" "''wxyz''" "''secret''" "cfg_Koku sample_config"]
  by simp

text \<open>The exemption of local addresses from https is a test on the beginning of the URL: a
  remote host whose name starts with ''localhost'' or with ''127.0.0.1'' is accepted over plain
  http, although insecure URLs are not allowed.\<close>

lemma local_prefix_accepts_remote_host:
  "validateKokuURL (k\<lparr>APIURL := ''http://localhost.'' @ host, AllowInsecure := False\<rparr>) = None \<and>
   validateKokuURL (k\<lparr>APIURL := ''http://127.0.0.1.'' @ host, AllowInsecure := False\<rparr>) = None \<and>
   validateKokuURL (k\<lparr>APIURL := ''http://koku.'' @ host, AllowInsecure := False\<rparr>) \<noteq> None"
  by (simp add: validateKokuURL_def has_prefix_def)

end
