(* ===== verification/ApiServer.thy ===== *)
theory ApiServer
  imports Middlewares Config
begin

text \<open>
  \<open>internal/apiserver/server.go\<close>: the chain of middlewares around the generated router, the
  mux in front of it, the readiness probe and the life of the server. What happens outside (the
  answers to the probe, the end of the context, the result of serving and of shutting down) is
  an argument of the definitions.
\<close>

subsection \<open>net/http.ServeMux\<close>

text \<open>
  The mux of the program has the patterns \<open>/metrics\<close> and \<open>/\<close>. A request whose path is not
  clean is redirected first (except CONNECT); the text of that answer is a parameter. The mux
  works on the escaped path, which the model does not tell from the path.
\<close>

primrec clean_segments :: "string list \<Rightarrow> string list \<Rightarrow> string list" where
  "clean_segments [] acc = rev acc"
| "clean_segments (s # ss) acc =
     (if s = [] \<or> s = ''.'' then clean_segments ss acc
      else if s = ''..'' then clean_segments ss (tl acc)
      else clean_segments ss (s # acc))"

definition cleanPath :: "string \<Rightarrow> string" where
  "cleanPath p =
     (if p = [] then ''/''
      else
        (let np = CHR ''/'' # join_with ''/'' (clean_segments (split_on (CHR ''/'') p) [])
         in if last p = CHR ''/'' \<and> np \<noteq> ''/'' then np @ ''/'' else np))"

definition serve_mux ::
  "(string \<Rightarrow> write_call list) \<Rightarrow> ('d, 'x) http_handler \<Rightarrow> ('d, 'x) http_handler \<Rightarrow>
   ('d, 'x) http_handler" where
  "serve_mux redirect metrics root r w =
     (if ir_method r \<noteq> ''CONNECT'' \<and> cleanPath (ir_path r) \<noteq> ir_path r
      then (returned (redirect (cleanPath (ir_path r))), w)
      else if ir_path r = ''/metrics'' then metrics r w
      else root r w)"

subsection \<open>New\<close>

text \<open>
  The libraries around the server: chi, the parameter binding, the validator (\<open>None\<close> when the
  embedded document or its router fails to load), the Prometheus handler and the redirect.
\<close>

record ('r, 'd, 'x) libraries =
  lib_chi :: chi_router
  lib_bind :: param_bind
  lib_validator :: "'r validator option"
  lib_promhttp :: "('d, 'x) http_handler"
  lib_redirect :: "string \<Rightarrow> write_call list"

record ('d, 'x) server =
  srv_cfg :: server_config
  srv_Handler :: "('d, 'x) http_handler"
  srv_ReadTimeout :: duration
  srv_WriteTimeout :: duration
  srv_IdleTimeout :: duration
  srv_onReady :: bool

definition middleware_stack ::
  "'x env \<Rightarrow> 'r validator option \<Rightarrow> server_config \<Rightarrow> ('d, 'x) middleware list" where
  "middleware_stack E V cfg =
     [rfc7807RecoveryMiddleware E, Middleware E, requestLoggingMiddleware E] @
     (if MaxBodySize cfg > 0 then [bodySizeLimitMiddleware (MaxBodySize cfg)] else []) @
     (case V of
        None \<Rightarrow> []
      | Some v \<Rightarrow> [openAPIValidationMiddleware E v (newBadRequestHandler E)])"

definition server_New ::
  "'x env \<Rightarrow> ('r, 'd, 'x) libraries \<Rightarrow> server_config \<Rightarrow> ('d, 'x) server_interface \<Rightarrow>
   ('d, 'x) server" where
  "server_New E L cfg handler =
     (let httpHandler = HandlerWithOptions (lib_chi L) (lib_bind L) handler
            \<lparr>BaseURL = [], BaseRouter = Some (middleware_stack E (lib_validator L) cfg),
             Middlewares = [], ErrorHandlerFunc = Some (\<lambda>r. newBadRequestHandler E)\<rparr>
      in \<lparr>srv_cfg = cfg,
          srv_Handler = serve_mux (lib_redirect L) (lib_promhttp L) httpHandler,
          srv_ReadTimeout = ReadTimeout cfg, srv_WriteTimeout = WriteTimeout cfg,
          srv_IdleTimeout = IdleTimeout cfg, srv_onReady = False\<rparr>)"

text \<open>\<open>WithOnReady\<close>: the callback of the program only starts goroutines, so it is a flag.\<close>

definition WithOnReady :: "('d, 'x) server \<Rightarrow> ('d, 'x) server" where
  "WithOnReady s = s\<lparr>srv_onReady := True\<rparr>"

subsection \<open>Readiness\<close>

datatype probe = NoRequest string | NoAnswer | Answered int
datatype pause = CtxDone string | DeadlineReached | Ticked
datatype readiness = Ready | NotReady string | Probing

text \<open>
  The loop over probes and the pauses after them. \<open>Probing\<close> is the state of the loop when the
  list ends; a tick every 50 ms against a deadline of 5 s bounds the list that the timers of
  Go can produce.
\<close>

fun after_pause :: "pause \<Rightarrow> readiness \<Rightarrow> readiness" where
  "after_pause (CtxDone e) k = NotReady e"
| "after_pause DeadlineReached k = NotReady ''server readiness probe timed out after 5s''"
| "after_pause Ticked k = k"

fun waitForReady :: "(probe \<times> pause) list \<Rightarrow> readiness" where
  "waitForReady [] = Probing"
| "waitForReady ((NoRequest e, p) # rest) =
     NotReady (''creating readiness probe request: '' @ e)"
| "waitForReady ((NoAnswer, p) # rest) = after_pause p (waitForReady rest)"
| "waitForReady ((Answered code, p) # rest) =
     (if code = 200 then Ready else after_pause p (waitForReady rest))"

subsection \<open>Run\<close>

text \<open>How \<open>Run\<close> is woken: by its context, by an error of \<open>Serve\<close>, or by its regular end.\<close>

datatype stop = ContextDone | ServeFailed string | ServeEnded

record run_outcome =
  ro_error :: "string option"
  ro_started :: bool

text \<open>The handler that serves: with the request timeout when one is set.\<close>

definition served_handler :: "('d, 'x) server \<Rightarrow> ('d, 'x) http_handler" where
  "served_handler s =
     (if RequestTimeout (srv_cfg s) > 0
      then requestTimeoutMiddleware (RequestTimeout (srv_cfg s)) (srv_Handler s)
      else srv_Handler s)"

text \<open>
  \<open>Run\<close> up to its return: its error, and whether the callback was run. \<open>None\<close> while the
  readiness loop is still probing.
\<close>

definition server_Run ::
  "('d, 'x) server \<Rightarrow> string \<Rightarrow> (probe \<times> pause) list \<Rightarrow> stop \<Rightarrow> string option \<Rightarrow>
   run_outcome option" where
  "server_Run s addr probes stop shutdown_err =
     (let ready = (if srv_onReady s then waitForReady probes else NotReady []);
          err = (case stop of
              ServeFailed e \<Rightarrow> Some (''serving on '' @ addr @ '': '' @ e)
            | _ \<Rightarrow> map_option (\<lambda>e. ''shutting down server: '' @ e) shutdown_err)
      in case ready of
           Probing \<Rightarrow> None
         | Ready \<Rightarrow> Some \<lparr>ro_error = err, ro_started = True\<rparr>
         | NotReady _ \<Rightarrow> Some \<lparr>ro_error = err, ro_started = False\<rparr>)"

end
