(* ===== verification/ServerProps.thy ===== *)
theory ServerProps
  imports ApiServer Script
begin

text \<open>
  Properties of the HTTP layer: responses conform to the interface of their operation, panics and
  errors become answers, every request through the assembled server is answered, and requests
  that are refused on the way in never reach the service.
\<close>

subsection \<open>Responses conform to their operation\<close>

text \<open>The status that goes with a type of problem, as the OpenAPI document pairs them.\<close>

fun problem_status :: "error_type \<Rightarrow> int" where
  "problem_status INVALIDARGUMENT = 400"
| "problem_status UNAUTHENTICATED = 401"
| "problem_status PERMISSIONDENIED = 403"
| "problem_status NOTFOUND = 404"
| "problem_status ALREADYEXISTS = 409"
| "problem_status UNPROCESSABLEENTITY = 422"
| "problem_status INTERNAL = 500"
| "problem_status BADGATEWAY = 502"
| "problem_status UNAVAILABLE = 503"

text \<open>
  A response conforms to an operation when its visitor accepts it, and a problem document states
  the status it is sent with, the type of that status, and a detail.
\<close>

definition conforms :: "(api_response \<Rightarrow> visit option) \<Rightarrow> api_response \<Rightarrow> bool" where
  "conforms visit resp \<longleftrightarrow>
     visit resp \<noteq> None \<and>
     (case resp of
        Problem code e \<Rightarrow>
          err_Status e = Some code \<and> problem_status (err_Type e) = code \<and> err_Detail e \<noteq> None
      | _ \<Rightarrow> True)"

lemmas visit_defs = VisitListInstancesResponse_def VisitCreateInstanceResponse_def
  VisitGetHealthResponse_def VisitDeleteInstanceResponse_def VisitGetInstanceResponse_def
  VisitGetCostReportResponse_def VisitGetCostForecastResponse_def VisitGetUsageResponse_def

lemma conforms_lookup_error [simp]:
  "conforms (VisitGetInstanceResponse E K) (lookup_error e)"
  "conforms (VisitDeleteInstanceResponse E K) (lookup_error e)"
  "conforms (VisitGetCostReportResponse E K) (lookup_error e)"
  "conforms (VisitGetCostForecastResponse E K) (lookup_error e)"
  "conforms (VisitGetUsageResponse E K) (lookup_error e)"
  by (simp_all add: conforms_def lookup_error_def not_found_def internal_error_def errResp_def
      visit_defs split: store_error.split)

lemma conforms_problems [simp]:
  "conforms (VisitListInstancesResponse E K) (internal_error d)"
  "conforms (VisitCreateInstanceResponse E K) (internal_error d)"
  "conforms (VisitCreateInstanceResponse E K) (bad_request d)"
  "conforms (VisitCreateInstanceResponse E K) conflict"
  "conforms (VisitGetCostReportResponse E K) (bad_gateway d)"
  "conforms (VisitGetCostForecastResponse E K) (bad_gateway d)"
  "conforms (VisitGetUsageResponse E K) (bad_gateway d)"
  by (simp_all add: conforms_def internal_error_def bad_request_def conflict_def bad_gateway_def
      errResp_def visit_defs)

lemma conforms_ok [simp]:
  "conforms (VisitListInstancesResponse E K) (OkList l)"
  "conforms (VisitCreateInstanceResponse E K) (OkInstance 201 i)"
  "conforms (VisitGetHealthResponse E K) (OkHealth h)"
  "conforms (VisitDeleteInstanceResponse E K) NoContent"
  "conforms (VisitGetInstanceResponse E K) (OkInstance 200 i)"
  "conforms (VisitGetCostReportResponse E K) (OkReport m)"
  "conforms (VisitGetCostForecastResponse E K) (OkReport m)"
  "conforms (VisitGetUsageResponse E K) (OkReport m)"
  by (simp_all add: conforms_def visit_defs)

lemma create_reserve_conforms:
  "create_reserve H target inst w = (Inl resp, w1) \<Longrightarrow>
   conforms (VisitCreateInstanceResponse E K) resp"
  by (auto simp: create_reserve_def split: prod.splits sum.splits option.splits if_splits
      store_error.splits)

lemma create_cost_model_conforms:
  "create_cost_model H ctx spec name inst w = (Inl resp, w1) \<Longrightarrow>
   conforms (VisitCreateInstanceResponse E K) resp"
  by (auto simp: create_cost_model_def Let_def split: prod.splits sum.splits option.splits if_splits)

lemma create_checks_conforms:
  "create_checks E body = Inl resp \<Longrightarrow> conforms (VisitCreateInstanceResponse E' K) resp"
  by (auto simp: create_checks_def Let_def split: option.splits if_splits)

lemma create_provision_conforms:
  "conforms (VisitCreateInstanceResponse E' K) (fst (create_provision E H ctx spec name inst w))"
  by (auto simp: create_provision_def create_finish_def Let_def split: prod.splits sum.splits
      dest: create_cost_model_conforms)

lemma CreateInstance_conforms:
  "conforms (VisitCreateInstanceResponse E' K) (fst (CreateInstance E H ctx k body w))"
  by (auto simp: CreateInstance_def Let_def split: prod.splits sum.splits
      dest: create_checks_conforms create_reserve_conforms
      simp: create_provision_conforms [simplified fst_conv])

lemma operations_conform:
  "conforms (VisitListInstancesResponse E K) (fst (ListInstances E H lp w))"
  "conforms (VisitGetHealthResponse E K) (fst (GetHealth E H w))"
  "conforms (VisitDeleteInstanceResponse E K) (fst (DeleteInstance E H ctx k w))"
  "conforms (VisitGetInstanceResponse E K) (fst (GetInstance E H k w))"
  "conforms (VisitGetCostReportResponse E K) (fst (GetCostReport E H ctx k rp w))"
  "conforms (VisitGetCostForecastResponse E K) (fst (GetCostForecast E H ctx k w))"
  "conforms (VisitGetUsageResponse E K) (fst (GetUsage E H ctx k metric rp w))"
  by (simp_all add: ListInstances_def GetHealth_def DeleteInstance_def GetInstance_def
      GetCostReport_def GetCostForecast_def GetUsage_def Let_def split: prod.split sum.split)

text \<open>C28. Every response of every operation is one that the OpenAPI document declares for it: the
  generated visitor of the operation accepts it, so that no request ends in the branch for an
  unexpected response type; and a problem document carries the status that it is sent with, a type
  that stands for that status, and a detail.\<close>

theorem responses_conform:
  "conforms (VisitListInstancesResponse E K) (fst (ListInstances E H lp w)) \<and>
   conforms (VisitCreateInstanceResponse E K) (fst (CreateInstance E H ctx cid body w)) \<and>
   conforms (VisitGetHealthResponse E K) (fst (GetHealth E H w)) \<and>
   conforms (VisitDeleteInstanceResponse E K) (fst (DeleteInstance E H ctx k w)) \<and>
   conforms (VisitGetInstanceResponse E K) (fst (GetInstance E H k w)) \<and>
   conforms (VisitGetCostReportResponse E K) (fst (GetCostReport E H ctx k rp w)) \<and>
   conforms (VisitGetCostForecastResponse E K) (fst (GetCostForecast E H ctx k w)) \<and>
   conforms (VisitGetUsageResponse E K) (fst (GetUsage E H ctx k metric rp w))"
  by (simp add: operations_conform CreateInstance_conforms)

subsection \<open>Writing a response\<close>

fun response_status :: "api_response \<Rightarrow> int" where
  "response_status (OkInstance code _) = code"
| "response_status (Problem code _) = code"
| "response_status NoContent = 204"
| "response_status _ = 200"

text \<open>The only responses that cannot be written: a time outside the years of RFC 3339, or a float
  that is not finite.\<close>

fun response_encodable :: "api_response \<Rightarrow> bool" where
  "response_encodable (OkInstance _ i) =
     (instance_encodable i \<and> json_finite (enc_cost_instance i))"
| "response_encodable (OkList l) =
     (list_all instance_encodable (case cl_Instances l of None \<Rightarrow> [] | Some is \<Rightarrow> is) \<and>
      json_finite (enc_cost_instance_list l))"
| "response_encodable (OkReport m) = json_finite (enc_json_map m)"
| "response_encodable _ = True"

lemma finite_opt [simp]:
  "list_all (\<lambda>m. json_finite (snd m)) (enc_opt k JStr v)"
  "list_all (\<lambda>m. json_finite (snd m)) (enc_opt k JInt i)"
  by (cases v; simp add: enc_opt_def) (cases i; simp add: enc_opt_def)

lemma finite_problem [simp]: "json_finite (enc_api_error e)" "json_finite (enc_health h)"
  by (simp_all add: enc_api_error_def enc_health_def)

definition visitors :: "'x env \<Rightarrow> response_io \<Rightarrow> (api_response \<Rightarrow> visit option) set" where
  "visitors E K =
     {VisitListInstancesResponse E K, VisitCreateInstanceResponse E K, VisitGetHealthResponse E K,
      VisitDeleteInstanceResponse E K, VisitGetInstanceResponse E K, VisitGetCostReportResponse E K,
      VisitGetCostForecastResponse E K, VisitGetUsageResponse E K}"

text \<open>What a visitor does: nothing but an error, or the whole response.\<close>

lemma visited:
  assumes "visit \<in> visitors E K" and "visit resp = Some (calls, err)"
  shows "if response_encodable resp then wire_status calls = Some (response_status resp)
    else calls = [] \<and> err \<noteq> None"
  using assms
  by (cases resp) (auto simp: visitors_def visit_defs write_json_def write_problem_def
      write_instance_def write_report_def Let_def split: if_splits)

text \<open>The strict handler of the program: no middlewares, the default error handlers.\<close>

definition plain :: "('d, 'x) strict_server_interface \<Rightarrow> ('d, 'x) strictHandler" where
  "plain ssi = NewStrictHandler ssi []"

lemma plain_simps [simp]:
  "sh_ssi (plain ssi) = ssi" "sh_middlewares (plain ssi) = []"
  "ResponseErrorHandlerFunc (sh_options (plain ssi)) r err = http_error err 500"
  "RequestErrorHandlerFunc (sh_options (plain ssi)) r err = http_error err 400"
  by (simp_all add: plain_def NewStrictHandler_def)

lemma finish_conforming:
  assumes "visit \<in> visitors E K" and "conforms visit resp"
  shows "\<exists>cs. finish_strict K (plain ssi) visit r (Inr (Inr (Some resp)), w) = (returned cs, w) \<and>
    wire_status cs = Some (if response_encodable resp then response_status resp else 500)"
proof -
  obtain calls err where v: "visit resp = Some (calls, err)"
    using assms(2) by (auto simp: conforms_def)
  then show ?thesis
    using visited [OF assms(1) v]
    by (cases err) (auto simp: finish_strict_def Let_def wire_status_append split: if_splits)
qed

text \<open>The run of one operation through the strict handler.\<close>

definition served :: "api_response \<times> ('d, 'x) world \<Rightarrow> handler_result \<times> ('d, 'x) world \<Rightarrow> bool" where
  "served op out \<longleftrightarrow>
     snd out = snd op \<and> hr_panic (fst out) = None \<and>
     wire_status (hr_calls (fst out)) =
       Some (if response_encodable (fst op) then response_status (fst op) else 500)"

lemma served_finish:
  assumes "visit \<in> visitors E K" and "conforms visit (fst op)"
  shows "served op (finish_strict K (plain ssi) visit r (call_result (answered op)))"
  using finish_conforming [OF assms, of ssi r "snd op"]
  by (auto simp: served_def call_result_def answered_def)

lemmas strict_defs = strict_ListInstances_def strict_CreateInstance_def strict_GetHealth_def
  strict_DeleteInstance_def strict_GetInstance_def strict_GetCostReport_def
  strict_GetCostForecast_def strict_GetUsage_def

lemma strict_of_simps [simp]:
  "ssi_ListInstances (strict_of E H) ctx lp w = answered (ListInstances E H lp w)"
  "ssi_CreateInstance (strict_of E H) ctx cid b w = answered (CreateInstance E H ctx cid b w)"
  "ssi_GetHealth (strict_of E H) ctx w = answered (GetHealth E H w)"
  "ssi_DeleteInstance (strict_of E H) ctx k w = answered (DeleteInstance E H ctx k w)"
  "ssi_GetInstance (strict_of E H) ctx k w = answered (GetInstance E H k w)"
  "ssi_GetCostReport (strict_of E H) ctx k rp w = answered (GetCostReport E H ctx k rp w)"
  "ssi_GetCostForecast (strict_of E H) ctx k w = answered (GetCostForecast E H ctx k w)"
  "ssi_GetUsage (strict_of E H) ctx k metric rp w = answered (GetUsage E H ctx k metric rp w)"
  by (simp_all add: strict_of_def)

lemma strict_served:
  "served (ListInstances E H lp w) (strict_ListInstances E K (plain (strict_of E H)) lp r w)"
  "served (GetHealth E H w) (strict_GetHealth E K (plain (strict_of E H)) r w)"
  "served (DeleteInstance E H (ir_ctx r) k w) (strict_DeleteInstance E K (plain (strict_of E H)) k r w)"
  "served (GetInstance E H k w) (strict_GetInstance E K (plain (strict_of E H)) k r w)"
  "served (GetCostReport E H (ir_ctx r) k rp w)
     (strict_GetCostReport E K (plain (strict_of E H)) k rp r w)"
  "served (GetCostForecast E H (ir_ctx r) k w)
     (strict_GetCostForecast E K (plain (strict_of E H)) k r w)"
  "served (GetUsage E H (ir_ctx r) k metric rp w)
     (strict_GetUsage E K (plain (strict_of E H)) k metric rp r w)"
  by (simp_all add: strict_defs Let_def with_strict_middlewares_def,
      (rule served_finish [where E = E]; simp add: visitors_def operations_conform)+)

lemma strict_create_served:
  assumes "ir_body r = Some body" and "decode_body E dec_cost_instance zero_instance body = Inr v"
  shows "served (CreateInstance E H (ir_ctx r) cid (Some v) w)
    (strict_CreateInstance E K (plain (strict_of E H)) cid r w)"
proof -
  have "served (CreateInstance E H (ir_ctx r) cid (Some v) w)
      (finish_strict K (plain (strict_of E H)) (VisitCreateInstanceResponse E K) r
        (call_result (answered (CreateInstance E H (ir_ctx r) cid (Some v) w))))"
    by (rule served_finish [where E = E]) (simp_all add: visitors_def CreateInstance_conforms)
  with assms show ?thesis by (simp add: strict_defs Let_def with_strict_middlewares_def)
qed

lemma strict_create_undecodable:
  assumes "ir_body r = Some body" and "decode_body E dec_cost_instance zero_instance body = Inl err"
  shows "strict_CreateInstance E K (plain (strict_of E H)) cid r w =
    (returned (http_error (''can'' @ [CHR 0x27] @ ''t decode JSON body: '' @ err) 400), w)"
  using assms by (simp add: strict_defs)

text \<open>C27. The strict server sends what the service answered: the state is the one the operation
  leaves, there is no panic, and the status on the wire is the status of the response, even when
  the connection then refuses the body; only a response that JSON cannot express (a time outside
  the years 0 to 9999, a float that is not finite) becomes a 500. A create whose body does not
  decode is answered 400 and changes nothing.\<close>

theorem strict_server_serves:
  "served (ListInstances E H lp w) (strict_ListInstances E K (plain (strict_of E H)) lp r w) \<and>
   served (GetHealth E H w) (strict_GetHealth E K (plain (strict_of E H)) r w) \<and>
   served (DeleteInstance E H (ir_ctx r) k w) (strict_DeleteInstance E K (plain (strict_of E H)) k r w) \<and>
   served (GetInstance E H k w) (strict_GetInstance E K (plain (strict_of E H)) k r w) \<and>
   served (GetCostReport E H (ir_ctx r) k rp w)
     (strict_GetCostReport E K (plain (strict_of E H)) k rp r w) \<and>
   served (GetCostForecast E H (ir_ctx r) k w)
     (strict_GetCostForecast E K (plain (strict_of E H)) k r w) \<and>
   served (GetUsage E H (ir_ctx r) k metric rp w)
     (strict_GetUsage E K (plain (strict_of E H)) k metric rp r w) \<and>
   (case map_option (decode_body E dec_cost_instance zero_instance) (ir_body r) of
      None \<Rightarrow> True
    | Some (Inl err) \<Rightarrow> \<exists>text. strict_CreateInstance E K (plain (strict_of E H)) cid r w =
        (returned (http_error text 400), w)
    | Some (Inr v) \<Rightarrow> served (CreateInstance E H (ir_ctx r) cid (Some v) w)
        (strict_CreateInstance E K (plain (strict_of E H)) cid r w))"
  by (auto simp: strict_served strict_create_served strict_create_undecodable
      split: option.splits sum.splits)

subsection \<open>Recovery and the chain\<close>

text \<open>
  A run has settled when it has sent a status or panics with something that is recovered. The
  chain below the recovery keeps this of every handler, and the recovery turns it into an answer.
\<close>

definition settled :: "handler_result \<Rightarrow> bool" where
  "settled out \<longleftrightarrow>
     (case hr_panic out of
        None \<Rightarrow> wire_status (hr_calls out) \<noteq> None
      | Some p \<Rightarrow> p \<noteq> ErrAbortHandler)"

definition settles :: "('d, 'x) http_handler \<Rightarrow> bool" where
  "settles h \<longleftrightarrow> (\<forall>r w. settled (fst (h r w)))"

lemma settled_returned [simp]: "settled (returned cs) \<longleftrightarrow> wire_status cs \<noteq> None"
  by (simp add: settled_def)

lemma served_settled: "served op out \<Longrightarrow> settled (fst out)"
  by (simp add: served_def settled_def)

lemma settlesI [intro?]: "(\<And>r w. settled (fst (h r w))) \<Longrightarrow> settles h"
  by (simp add: settles_def)

lemma settlesD: "settles h \<Longrightarrow> settled (fst (h r w))"
  by (simp add: settles_def)

definition writes_status :: "(in_request \<Rightarrow> go_error \<Rightarrow> write_call list) \<Rightarrow> bool" where
  "writes_status f \<longleftrightarrow> (\<forall>r e. wire_status (f r e) \<noteq> None)"

lemma settles_bind:
  assumes "writes_status (siw_ErrorHandlerFunc S)" and "\<And>v. settles (rest v)"
  shows "settles (bind_param S name b rest)"
  using assms by (auto simp: settles_def bind_param_def writes_status_def split: sum.splits)

lemma strict_settles:
  "settles (strict_ListInstances E K (plain (strict_of E H)) lp)"
  "settles (strict_CreateInstance E K (plain (strict_of E H)) cid)"
  "settles (strict_GetHealth E K (plain (strict_of E H)))"
  "settles (strict_DeleteInstance E K (plain (strict_of E H)) k)"
  "settles (strict_GetInstance E K (plain (strict_of E H)) k)"
  "settles (strict_GetCostReport E K (plain (strict_of E H)) k rp)"
  "settles (strict_GetCostForecast E K (plain (strict_of E H)) k)"
  "settles (strict_GetUsage E K (plain (strict_of E H)) k metric rp)"
proof -
  have "settled (fst (strict_CreateInstance E K (plain (strict_of E H)) cid r w))" for r w
  proof (cases "ir_body r")
    case None
    then show ?thesis by (simp add: strict_defs settled_def)
  next
    case (Some body)
    then show ?thesis
      by (cases "decode_body E dec_cost_instance zero_instance body")
         (simp add: strict_create_undecodable, rule served_settled, rule strict_create_served)
  qed
  then show "settles (strict_CreateInstance E K (plain (strict_of E H)) cid)" by (rule settlesI)
qed (rule settlesI, rule served_settled, rule strict_served)+

definition plain_siw ::
  "('d, 'x) server_interface \<Rightarrow> (in_request \<Rightarrow> go_error \<Rightarrow> write_call list) \<Rightarrow> ('d, 'x) siw" where
  "plain_siw si f = \<lparr>siw_Handler = si, siw_HandlerMiddlewares = [], siw_ErrorHandlerFunc = f\<rparr>"

lemma plain_siw_simps [simp]:
  "siw_Handler (plain_siw si f) = si" "siw_ErrorHandlerFunc (plain_siw si f) = f"
  "with_middlewares (plain_siw si f) h = h"
  by (simp_all add: plain_siw_def with_middlewares_def)

lemma server_of_simps [simp]:
  "si_ListInstances (server_of E K sh) = strict_ListInstances E K sh"
  "si_CreateInstance (server_of E K sh) = strict_CreateInstance E K sh"
  "si_GetHealth (server_of E K sh) = strict_GetHealth E K sh"
  "si_DeleteInstance (server_of E K sh) = strict_DeleteInstance E K sh"
  "si_GetInstance (server_of E K sh) = strict_GetInstance E K sh"
  "si_GetCostReport (server_of E K sh) = strict_GetCostReport E K sh"
  "si_GetCostForecast (server_of E K sh) = strict_GetCostForecast E K sh"
  "si_GetUsage (server_of E K sh) = strict_GetUsage E K sh"
  by (simp_all add: server_of_def)

lemmas siw_defs = siw_ListInstances_def siw_CreateInstance_def siw_GetHealth_def
  siw_DeleteInstance_def siw_GetInstance_def siw_GetCostReport_def siw_GetCostForecast_def
  siw_GetUsage_def

lemma routes_settle:
  assumes "writes_status f" and "route \<in> set (routes B base (plain_siw (server_of E K (plain (strict_of E H))) f))"
  shows "settles (snd route ps)"
  using assms
  by (auto simp: routes_def siw_defs strict_settles intro!: settles_bind)

definition chi_answers :: "chi_router \<Rightarrow> bool" where
  "chi_answers chi \<longleftrightarrow> (\<forall>table r. wire_status (chi_unmatched chi table r) \<noteq> None)"

lemma dispatch_settles:
  assumes "chi_answers chi" and "\<And>route ps. route \<in> set rs \<Longrightarrow> settles (snd route ps)"
  shows "settles (dispatch chi rs)"
proof
  fix r w
  have "settled (fst (snd (rs ! n) ps r w))" if "n < length rs" for n ps
    using assms(2) [OF nth_mem [OF that]] by (rule settlesD)
  then show "settled (fst (dispatch chi rs r w))"
    using assms(1) by (auto simp: dispatch_def Let_def chi_answers_def split: option.split)
qed

lemma Middleware_settles:
  fixes h :: "('d, 'x) http_handler"
  assumes "settles h"
  shows "settles (Middleware E h)"
proof
  fix r and w :: "('d, 'x) world"
  obtain t w1 where t: "on_ext (env_now E) w = (t, w1)" by fastforce
  obtain out w2 where h: "h r w1 = (out, w2)" by fastforce
  have "settled out" using settlesD [OF assms, of r w1] h by simp
  then show "settled (fst (Middleware E h r w))"
    by (simp add: Middleware_def t h split: option.split prod.split)
qed

lemma logging_settles:
  fixes h :: "('d, 'x) http_handler"
  assumes "settles h"
  shows "settles (requestLoggingMiddleware E h)"
proof
  fix r and w :: "('d, 'x) world"
  obtain t w1 where t: "on_ext (env_now E) w = (t, w1)" by fastforce
  obtain out w2 where h: "h r w1 = (out, w2)" by fastforce
  have "settled out" using settlesD [OF assms, of r w1] h by simp
  then show "settled (fst (requestLoggingMiddleware E h r w))"
    by (simp add: requestLoggingMiddleware_def t h split: option.split)
qed

lemma body_limit_settles: "settles h \<Longrightarrow> settles (bodySizeLimitMiddleware n h)"
  by (auto simp: settles_def bodySizeLimitMiddleware_def split: option.splits)

lemma validation_settles:
  "settles h \<Longrightarrow> settles (openAPIValidationMiddleware E V (newBadRequestHandler E) h)"
  by (auto simp: settles_def openAPIValidationMiddleware_def Let_def
      split: option.splits sum.splits prod.splits)

text \<open>
  C30. A panic below the recovery middleware becomes an answer: a 500 problem document when no
  status was sent before, and otherwise the response that was begun, with nothing appended. The
  panic that aborts a connection on purpose goes on, and a handler that returns is not changed.\<close>

theorem panics_become_problems:
  assumes "next r w = (out, w1)"
  shows "rfc7807RecoveryMiddleware E next r w =
    (case hr_panic out of
       None \<Rightarrow> (out, w1)
     | Some ErrAbortHandler \<Rightarrow> (out, w1)
     | Some (OtherPanic _) \<Rightarrow>
         if wire_status (hr_calls out) = None
         then (returned (hr_calls out @ [SetHeader ''Content-Type'' ''application/problem+json'',
                 WriteHeader 500, WriteBody (problem_body E
                   (problem_of 500 INTERNAL ''Internal Server Error''
                      ''an unexpected error occurred''))]), w1)
         else (returned (hr_calls out), w1))"
  using assms
  by (auto simp: rfc7807RecoveryMiddleware_def wroteHeader_iff writeRFC7807_def
      contentTypeProblemJSON_def split: option.split panic.split)

lemma recovery_total:
  assumes "settles h"
  shows "total_handler (rfc7807RecoveryMiddleware E h)"
proof -
  have "answers (rfc7807RecoveryMiddleware E h r w)" for r w
  proof -
    obtain out w1 where h: "h r w = (out, w1)" by fastforce
    have "settled out" using settlesD [OF assms, of r w] h by simp
    then show ?thesis
      by (auto simp: rfc7807RecoveryMiddleware_def h answers_def settled_def wroteHeader_iff
          wire_status_append split: option.splits panic.splits)
  qed
  then show ?thesis by (simp add: total_handler_def)
qed

subsection \<open>The assembled server\<close>

definition api_server ::
  "'x env \<Rightarrow> ('r, 'd, 'x) libraries \<Rightarrow> server_config \<Rightarrow> response_io \<Rightarrow> ('d, 'x) handler \<Rightarrow>
   ('d, 'x) server" where
  "api_server E L cfg K H =
     server_New E L cfg (server_of E K (NewStrictHandler (strict_of E H) []))"

definition api_routes ::
  "'x env \<Rightarrow> ('r, 'd, 'x) libraries \<Rightarrow> response_io \<Rightarrow> ('d, 'x) handler \<Rightarrow> ('d, 'x) http_handler" where
  "api_routes E L K H =
     dispatch (lib_chi L) (routes (lib_bind L) []
       (plain_siw (server_of E K (plain (strict_of E H))) (\<lambda>r. newBadRequestHandler E)))"

text \<open>Inside the recovery, the metrics and the log: the body limit and the validation.\<close>

definition inner_chain ::
  "'x env \<Rightarrow> ('r, 'd, 'x) libraries \<Rightarrow> server_config \<Rightarrow> response_io \<Rightarrow> ('d, 'x) handler \<Rightarrow>
   ('d, 'x) http_handler" where
  "inner_chain E L cfg K H =
     (let v = (case lib_validator L of
                 None \<Rightarrow> api_routes E L K H
               | Some V \<Rightarrow> openAPIValidationMiddleware E V (newBadRequestHandler E) (api_routes E L K H))
      in if MaxBodySize cfg > 0 then bodySizeLimitMiddleware (MaxBodySize cfg) v else v)"

definition timed_request :: "server_config \<Rightarrow> in_request \<Rightarrow> in_request" where
  "timed_request cfg r =
     (if RequestTimeout cfg > 0 then r\<lparr>ir_ctx := WithTimeout (ir_ctx r) (RequestTimeout cfg)\<rparr> else r)"

lemma timed_request_simps [simp]:
  "ir_method (timed_request cfg r) = ir_method r" "ir_path (timed_request cfg r) = ir_path r"
  "ir_query (timed_request cfg r) = ir_query r" "ir_body (timed_request cfg r) = ir_body r"
  by (simp_all add: timed_request_def)

lemma api_server_handler:
  "srv_Handler (api_server E L cfg K H) =
   serve_mux (lib_redirect L) (lib_promhttp L)
     (rfc7807RecoveryMiddleware E (Middleware E (requestLoggingMiddleware E (inner_chain E L cfg K H))))"
  by (simp add: api_server_def server_New_def HandlerWithOptions_def middleware_stack_def
      inner_chain_def api_routes_def plain_def plain_siw_def Let_def split: option.split)

lemma api_server_cfg [simp]: "srv_cfg (api_server E L cfg K H) = cfg"
  by (simp add: api_server_def server_New_def Let_def)

lemma served_handler_eq:
  "served_handler (api_server E L cfg K H) r w =
   serve_mux (lib_redirect L) (lib_promhttp L)
     (rfc7807RecoveryMiddleware E (Middleware E (requestLoggingMiddleware E (inner_chain E L cfg K H))))
     (timed_request cfg r) w"
  by (simp add: served_handler_def requestTimeoutMiddleware_def timed_request_def api_server_handler)

lemma inner_chain_settles:
  assumes "chi_answers (lib_chi L)"
  shows "settles (inner_chain E L cfg K H)"
proof -
  have "writes_status (\<lambda>r. newBadRequestHandler E)" by (simp add: writes_status_def)
  then have "settles (api_routes E L K H)"
    unfolding api_routes_def by (intro dispatch_settles assms routes_settle)
  then show ?thesis
    by (auto simp: inner_chain_def Let_def intro: validation_settles body_limit_settles
        split: option.split)
qed

lemma server_answers:
  assumes "chi_answers (lib_chi L)" and "total_handler (lib_promhttp L)"
    and "\<forall>p. wire_status (lib_redirect L p) \<noteq> None"
  shows "answers (served_handler (api_server E L cfg K H) r w)"
proof -
  have "total_handler (rfc7807RecoveryMiddleware E
      (Middleware E (requestLoggingMiddleware E (inner_chain E L cfg K H))))"
    by (intro recovery_total Middleware_settles logging_settles inner_chain_settles assms(1))
  then show ?thesis
    using assms(2,3) by (auto simp: served_handler_eq serve_mux_def total_handler_def answers_def)
qed

text \<open>C26. Every request is answered: whatever the request, the store, Koku and the publisher do,
  the assembled server (mux, recovery, metrics, log, body limit, validation, router, parameter
  binding, strict handler, service) sends a status and does not panic, provided that the libraries
  around it do so: the router for a request without a route, the metrics handler and the redirect
  of the mux.\<close>

theorem every_request_answered:
  assumes "chi_answers (lib_chi L)" and "total_handler (lib_promhttp L)"
    and "\<forall>p. wire_status (lib_redirect L p) \<noteq> None"
  shows "answers (served_handler (api_server E L cfg K H) r w)"
  using assms by (rule server_answers)

text \<open>An inner handler that only writes is counted and logged, and nothing else changes.\<close>

lemma only_written:
  assumes "\<And>w. h r w = (returned cs, w)" and "\<exists>c. wire_status cs = Some c"
  shows "\<exists>w'. rfc7807RecoveryMiddleware E (Middleware E (requestLoggingMiddleware E h)) r w =
      (returned cs, w') \<and>
    db w' = db w \<and> outgoing w' = outgoing w \<and> published w' = published w \<and>
    InstancesManaged w' = InstancesManaged w \<and>
    HTTPRequestsTotal w' = (HTTPRequestsTotal w)
      ((ir_method r, NormalizePath (ir_path r), itoa (wrapper_status cs)) :=
         Suc (HTTPRequestsTotal w (ir_method r, NormalizePath (ir_path r), itoa (wrapper_status cs))))"
proof -
  have tot: "HTTPRequestsTotal (snd (on_ext f v)) = HTTPRequestsTotal v" for f and v :: "('c, 'd) world"
    by (simp add: on_ext_def split: prod.split)
  obtain t1 w1 where 1: "on_ext (env_now E) w = (t1, w1)" by fastforce
  obtain t2 w2 where 2: "on_ext (env_now E) w1 = (t2, w2)" by fastforce
  obtain t3 w3 where 3: "on_ext (env_now E) w2 = (t3, w3)" by fastforce
  obtain t4 w4 where 4: "on_ext (env_now E) w3 = (t4, w4)" by fastforce
  note eqs = arg_cong [OF 1, of snd] arg_cong [OF 2, of snd] arg_cong [OF 3, of snd]
    arg_cong [OF 4, of snd]
  have frame: "db w4 = db w" "outgoing w4 = outgoing w" "published w4 = published w"
    "InstancesManaged w4 = InstancesManaged w" "HTTPRequestsTotal w4 = HTTPRequestsTotal w"
    using eqs by (metis on_ext_db on_ext_other snd_conv tot)+
  then show ?thesis
    by (simp add: rfc7807RecoveryMiddleware_def Middleware_def requestLoggingMiddleware_def assms(1)
        1 2 3 4 count_http_request_def)
qed

subsection \<open>Refused on the way in\<close>

text \<open>The body as the validation reads it, behind the limit.\<close>

definition limited_body :: "server_config \<Rightarrow> (string \<times> string option) option \<Rightarrow> (string \<times> string option) option" where
  "limited_body cfg body =
     (if MaxBodySize cfg > 0 then map_option (max_bytes_reader (MaxBodySize cfg)) body else body)"

definition limited_request :: "server_config \<Rightarrow> in_request \<Rightarrow> in_request" where
  "limited_request cfg r = r\<lparr>ir_body := limited_body cfg (ir_body r)\<rparr>"

lemma body_same [simp]: "ir_body r = b \<Longrightarrow> r\<lparr>ir_body := b\<rparr> = r"
  by (cases r) auto

lemma inner_chain_eq:
  assumes "lib_validator L = Some V"
  shows "inner_chain E L cfg K H r w =
    openAPIValidationMiddleware E V (newBadRequestHandler E) (api_routes E L K H) (limited_request cfg r) w"
  using assms by (auto simp: inner_chain_def Let_def bodySizeLimitMiddleware_def
      limited_request_def limited_body_def split: option.split)

text \<open>The request reaches the API: not redirected, not the metrics page.\<close>

definition api_path :: "in_request \<Rightarrow> bool" where
  "api_path r \<longleftrightarrow> (ir_method r = ''CONNECT'' \<or> cleanPath (ir_path r) = ir_path r) \<and>
     ir_path r \<noteq> ''/metrics''"

lemma served_inner:
  assumes "api_path r"
  shows "served_handler (api_server E L cfg K H) r w =
    rfc7807RecoveryMiddleware E (Middleware E (requestLoggingMiddleware E (inner_chain E L cfg K H)))
      (timed_request cfg r) w"
  using assms by (auto simp: served_handler_eq serve_mux_def api_path_def)

definition refused_with ::
  "int \<Rightarrow> ('d, 'x) world \<Rightarrow> handler_result \<times> ('d, 'x) world \<Rightarrow> bool" where
  "refused_with code w out \<longleftrightarrow>
     hr_panic (fst out) = None \<and> wire_status (hr_calls (fst out)) = Some code \<and>
     SetHeader ''Content-Type'' ''application/problem+json'' \<in> set (hr_calls (fst out)) \<and>
     db (snd out) = db w \<and> outgoing (snd out) = outgoing w \<and> published (snd out) = published w \<and>
     InstancesManaged (snd out) = InstancesManaged w"

text \<open>C29. A request that matches an operation but breaks its contract never reaches the service: a
  body longer than the limit is answered 413 and a request that the OpenAPI document does not
  admit is answered 400, both as problem documents, and neither the store, nor Koku, nor the
  event stream, nor the gauge of instances sees it.\<close>

theorem refused_before_service:
  assumes "api_path r" and "lib_validator L = Some V"
    and "va_FindRoute V (limited_request cfg (timed_request cfg r)) = Inr (route, ps)"
    and "ir_body r = Some (data, None)"
  shows "(MaxBodySize cfg > 0 \<and> int (length data) > MaxBodySize cfg \<longrightarrow>
      refused_with 413 w (served_handler (api_server E L cfg K H) r w)) \<and>
    (\<not> (MaxBodySize cfg > 0 \<and> int (length data) > MaxBodySize cfg) \<and>
      va_ValidateRequest V route ps (limited_request cfg (timed_request cfg r)) = Some err \<longrightarrow>
      refused_with 400 w (served_handler (api_server E L cfg K H) r w))"
proof -
  define q where "q = timed_request cfg r"
  have body: "ir_body (limited_request cfg q) = Some
      (if MaxBodySize cfg > 0 \<and> int (length data) > MaxBodySize cfg
       then (take (nat (MaxBodySize cfg)) data, Some body_too_large) else (data, None))"
    using assms(4) by (simp add: limited_request_def limited_body_def max_bytes_reader_def q_def)
  have finish: "refused_with c w (served_handler (api_server E L cfg K H) r w)"
    if "\<And>v :: ('b, 'c) world. inner_chain E L cfg K H q v = (returned cs, v)"
      and "wire_status cs = Some c"
      and "SetHeader ''Content-Type'' ''application/problem+json'' \<in> set cs" for c cs
    using only_written [of "inner_chain E L cfg K H" q cs E w] that
    by (auto simp: served_inner [OF assms(1)] q_def [symmetric] refused_with_def)
  have large: "inner_chain E L cfg K H q v = (returned (writeRFC7807 E 413 INVALIDARGUMENT
      ''Request Entity Too Large'' ''request body too large''), v)"
    if "MaxBodySize cfg > 0 \<and> int (length data) > MaxBodySize cfg" for v :: "('b, 'c) world"
    using that body assms(3)
    by (simp add: inner_chain_eq [OF assms(2)] openAPIValidationMiddleware_def q_def)
  have invalid: "inner_chain E L cfg K H q v = (returned (newBadRequestHandler E err), v)"
    if "\<not> (MaxBodySize cfg > 0 \<and> int (length data) > MaxBodySize cfg)"
      and "va_ValidateRequest V route ps (limited_request cfg q) = Some err" for v :: "('b, 'c) world"
    using that body assms(3) body_same [OF body]
    by (auto simp: inner_chain_eq [OF assms(2)] openAPIValidationMiddleware_def q_def Let_def)
  have ct: "SetHeader ''Content-Type'' ''application/problem+json'' \<in> set (writeRFC7807 E c t a d)"
    for c t a d by (simp add: writeRFC7807_def contentTypeProblemJSON_def)
  then have ct': "SetHeader ''Content-Type'' ''application/problem+json'' \<in>
      set (newBadRequestHandler E err)" by (simp add: newBadRequestHandler_def)
  show ?thesis
    using finish [OF large _ ct] finish [OF invalid _ ct'] by (auto simp: q_def)
qed

subsection \<open>Parameters\<close>

text \<open>A parameter that does not bind is answered with a 400 problem document that names the
  first such parameter, in the order of the operation's parameters, and nothing of the cause; the
  service is not called. Here for the operation with the most parameters.\<close>

lemma bad_parameter_refused:
  assumes "errors_as as_filter cause = None"
  shows "siw_GetUsage B (plain_siw si (\<lambda>r. newBadRequestHandler E)) ps r w =
    (let path = (\<lambda>name. bind_path_string B name (URLParam ps name));
         date = (\<lambda>name. bind_query_date B name (ir_query r));
         refuse = (\<lambda>name err. (returned (newBadRequestHandler E (InvalidParamFormatError name err)), w))
     in case path ''instanceId'' of Inl err \<Rightarrow> refuse ''instanceId'' err | Inr k \<Rightarrow>
        (case path ''metric'' of Inl err \<Rightarrow> refuse ''metric'' err | Inr m \<Rightarrow>
        (case date ''start_date'' of Inl err \<Rightarrow> refuse ''start_date'' err | Inr sd \<Rightarrow>
        (case date ''end_date'' of Inl err \<Rightarrow> refuse ''end_date'' err | Inr ed \<Rightarrow>
         si_GetUsage si k m \<lparr>StartDate = sd, EndDate = ed\<rparr> r w)))) \<and>
    newBadRequestHandler E (InvalidParamFormatError name cause) =
      writeRFC7807 E 400 INVALIDARGUMENT ''Bad Request''
        (''invalid format for parameter '' @ quote name)"
proof -
  have "errors_as as_filter (InvalidParamFormatError name cause) = None"
    using assms by (simp add: errors_as_next)
  then show ?thesis
    by (simp add: siw_GetUsage_def bind_param_def newBadRequestHandler_def scrubValidationError_def
        Let_def split: sum.split)
qed

subsection \<open>Routing\<close>

text \<open>
  What chi documents of its patterns: a fixed pattern that equals the path wins over one with a
  parameter. A pattern is fixed when it has no brace.
\<close>

definition static_first :: "chi_router \<Rightarrow> bool" where
  "static_first chi \<longleftrightarrow>
     (\<forall>table r n. n < length table \<and> distinct table \<and> table ! n = (ir_method r, ir_path r) \<and>
        CHR ''{'' \<notin> set (ir_path r) \<longrightarrow> chi_find chi table r = Some (n, []))"

lemma routes_table:
  "map fst (routes B [] S) =
     [(''GET'', ''/api/v1alpha1/instances''), (''POST'', ''/api/v1alpha1/instances''),
      (''GET'', ''/api/v1alpha1/instances/health''),
      (''DELETE'', ''/api/v1alpha1/instances/{instanceId}''),
      (''GET'', ''/api/v1alpha1/instances/{instanceId}''),
      (''GET'', ''/api/v1alpha1/instances/{instanceId}/cost-reports''),
      (''GET'', ''/api/v1alpha1/instances/{instanceId}/cost-reports/forecast''),
      (''GET'', ''/api/v1alpha1/instances/{instanceId}/usage/{metric}'')]"
  by (simp add: routes_def)

text \<open>C31. The health check hides an instance of that name: the path of an instance whose id is
  ''health'' (an id that a client may choose when it creates an instance) is always routed to the
  health check, whatever the store holds, so that such an instance cannot be read.\<close>

theorem health_hides_instance:
  assumes "static_first (lib_chi L)" and "ir_method r = ''GET''"
    and "ir_path r = ''/api/v1alpha1/instances/'' @ ''health''"
  shows "api_routes E L K H r w = strict_GetHealth E K (plain (strict_of E H)) r w"
proof -
  let ?S = "plain_siw (server_of E K (plain (strict_of E H))) (\<lambda>r. newBadRequestHandler E)"
  let ?table = "map fst (routes (lib_bind L) [] ?S)"
  have "2 < length ?table \<and> distinct ?table \<and> ?table ! 2 = (ir_method r, ir_path r) \<and>
      CHR ''{'' \<notin> set (ir_path r)"
    unfolding routes_table assms(2,3) by simp
  then have "chi_find (lib_chi L) ?table r = Some (2, [])"
    using assms(1) unfolding static_first_def by blast
  then show ?thesis
    by (simp add: api_routes_def dispatch_def Let_def) (simp add: routes_def siw_GetHealth_def)
qed

text \<open>
  A router of this kind: it looks for an equal pattern first, and then for the first one that
  matches segment by segment.
\<close>

fun seg_match :: "string list \<Rightarrow> string list \<Rightarrow> url_params option" where
  "seg_match [] [] = Some []"
| "seg_match (p # ps) (s # ss) =
     (if has_prefix p ''{'' then
        (if s = [] then None
         else map_option (\<lambda>m. (butlast (tl p), s) # m) (seg_match ps ss))
      else if p = s then seg_match ps ss else None)"
| "seg_match _ _ = None"

fun find_pattern :: "nat \<Rightarrow> (string \<times> string) list \<Rightarrow> in_request \<Rightarrow> (nat \<times> url_params) option" where
  "find_pattern n [] r = None"
| "find_pattern n ((m, p) # table) r =
     (if m = ir_method r
      then (case seg_match (split_on (CHR ''/'') p) (split_on (CHR ''/'') (ir_path r)) of
              Some ps \<Rightarrow> Some (n, ps) | None \<Rightarrow> find_pattern (Suc n) table r)
      else find_pattern (Suc n) table r)"

fun find_static :: "nat \<Rightarrow> (string \<times> string) list \<Rightarrow> in_request \<Rightarrow> nat option" where
  "find_static n [] r = None"
| "find_static n (e # table) r =
     (if e = (ir_method r, ir_path r) \<and> CHR ''{'' \<notin> set (snd e) then Some n
      else find_static (Suc n) table r)"

definition segment_chi :: chi_router where
  "segment_chi =
     \<lparr>chi_find = \<lambda>table r. (case find_static 0 table r of
          Some n \<Rightarrow> Some (n, []) | None \<Rightarrow> find_pattern 0 table r),
      chi_unmatched = \<lambda>table r. http_error ''404 page not found'' 404\<rparr>"

lemma find_static_found:
  assumes "n < length table" and "distinct table" and "table ! n = (ir_method r, ir_path r)"
    and "CHR ''{'' \<notin> set (ir_path r)"
  shows "find_static k table r = Some (k + n)"
  using assms
proof (induction table arbitrary: n k)
  case (Cons e table)
  show ?case
  proof (cases n)
    case 0
    then show ?thesis using Cons.prems by simp
  next
    case (Suc m)
    then have "(ir_method r, ir_path r) \<in> set table"
      using Cons.prems by (metis Suc_less_eq length_Cons nth_Cons_Suc nth_mem)
    then have "e \<noteq> (ir_method r, ir_path r)" using Cons.prems by auto
    then show ?thesis using Cons.IH [of m "Suc k"] Cons.prems Suc by simp
  qed
qed simp

lemma segment_static_first: "static_first segment_chi"
  unfolding static_first_def
proof (intro allI impI, elim conjE)
  fix table :: "(string \<times> string) list" and r :: in_request and n
  assume "n < length table" and "distinct table" and "table ! n = (ir_method r, ir_path r)"
    and "CHR ''{'' \<notin> set (ir_path r)"
  from find_static_found [OF this, of 0] show "chi_find segment_chi table r = Some (n, [])"
    by (simp add: segment_chi_def)
qed

lemma segment_answers: "chi_answers segment_chi"
  by (simp add: chi_answers_def segment_chi_def)

subsection \<open>A sample server\<close>

text \<open>The libraries of the sample runs: every parameter binds, dates are not used.\<close>

definition sample_bind :: param_bind where
  "sample_bind =
     \<lparr>bind_query_string = \<lambda>name q. Inr (map_of q name),
      bind_query_int32 = \<lambda>name q. Inr None,
      bind_query_date = \<lambda>name q. Inr None,
      bind_path_string = \<lambda>name raw. Inr raw\<rparr>"

text \<open>A validator that knows every path and refuses the method \<open>PUT\<close>.\<close>

definition sample_validator :: "unit validator" where
  "sample_validator =
     \<lparr>va_FindRoute = \<lambda>r. Inr ((), []),
      va_ValidateRequest = \<lambda>route ps r. if ir_method r = ''PUT'' then Some (PlainError ''no'') else None\<rparr>"

definition sample_libs :: "(unit, 'd, 'x) libraries" where
  "sample_libs =
     \<lparr>lib_chi = segment_chi, lib_bind = sample_bind, lib_validator = Some sample_validator,
      lib_promhttp = write_only [WriteBody ''metrics''],
      lib_redirect = \<lambda>p. [SetHeader ''Location'' p, WriteHeader 301]\<rparr>"

definition sample_server :: server_config where
  "sample_server = \<lparr>BindAddress = '':8080'', ShutdownTimeout = 15 * second,
     RequestTimeout = 30 * second, ReadTimeout = 15 * second, WriteTimeout = 15 * second,
     IdleTimeout = 60 * second, MaxBodySize = 4\<rparr>"

definition sample_io :: response_io where
  "sample_io = \<lparr>io_write_err = \<lambda>b. None, io_type_name = \<lambda>resp. ''response''\<rparr>"

definition sample_request :: "string \<Rightarrow> string \<Rightarrow> string \<Rightarrow> in_request" where
  "sample_request meth path body =
     \<lparr>ir_method = meth, ir_path = path, ir_query = [], ir_body = Some (body, None), ir_ctx = Ctx 0\<rparr>"

lemma sample_libs_fine:
  "chi_answers (lib_chi sample_libs)" "total_handler (lib_promhttp sample_libs)"
  "\<forall>p. wire_status (lib_redirect sample_libs p) \<noteq> None" "static_first (lib_chi sample_libs)"
  "lib_validator sample_libs = Some sample_validator"
  by (simp_all add: sample_libs_def segment_answers segment_static_first total_handler_def
      answers_def write_only_def)

lemma sample_api_path: "api_path (sample_request ''POST'' ''/api/v1alpha1/instances'' body)"
proof -
  have "cleanPath ''/api/v1alpha1/instances'' = ''/api/v1alpha1/instances''" by code_simp
  then show ?thesis by (simp add: api_path_def sample_request_def)
qed

theorem every_request_answered_witness:
  "answers (served_handler (api_server script_env sample_libs sample_server sample_io script_handler)
     (sample_request ''POST'' ''/api/v1alpha1/instances'' ''{}'') (start [] [] []))"
  by (rule every_request_answered [OF sample_libs_fine(1-3)])

theorem health_hides_instance_witness:
  "api_routes script_env sample_libs sample_io script_handler
     (sample_request ''GET'' ''/api/v1alpha1/instances/health'' [])
     (start [sample_row ''health'' ''c1'' ''READY'' ''s1''] [] []) =
   strict_GetHealth script_env sample_io (plain (strict_of script_env script_handler))
     (sample_request ''GET'' ''/api/v1alpha1/instances/health'' [])
     (start [sample_row ''health'' ''c1'' ''READY'' ''s1''] [] [])"
  by (rule health_hides_instance [OF sample_libs_fine(4)]) (simp_all add: sample_request_def)

theorem refused_before_service_witness:
  "refused_with 413 (start [] [] [])
     (served_handler (api_server script_env sample_libs sample_server sample_io script_handler)
        (sample_request ''POST'' ''/api/v1alpha1/instances'' ''12345'') (start [] [] []))"
proof -
  have "va_FindRoute sample_validator q = Inr ((), [])" for q
    by (simp add: sample_validator_def)
  moreover have "ir_body (sample_request ''POST'' ''/api/v1alpha1/instances'' ''12345'') =
      Some (''12345'', None)" by (simp add: sample_request_def)
  moreover have "MaxBodySize sample_server > 0 \<and> int (length ''12345'') > MaxBodySize sample_server"
    by (simp add: sample_server_def)
  ultimately show ?thesis
    using refused_before_service [OF sample_api_path sample_libs_fine(5)] by blast
qed

theorem panics_become_problems_witness:
  "rfc7807RecoveryMiddleware script_env
     (\<lambda>r w. (\<lparr>hr_calls = [WriteHeader 200, WriteBody ''{''], hr_panic = Some (OtherPanic ''nil'')\<rparr>, w))
     (sample_request ''GET'' ''/'' []) (start [] [] []) =
   (returned [WriteHeader 200, WriteBody ''{''], start [] [] [])"
  using panics_become_problems [of "\<lambda>r w. (\<lparr>hr_calls = [WriteHeader 200, WriteBody ''{''],
      hr_panic = Some (OtherPanic ''nil'')\<rparr>, w)" "sample_request ''GET'' ''/'' []" "start [] [] []"
      "\<lparr>hr_calls = [WriteHeader 200, WriteBody ''{''], hr_panic = Some (OtherPanic ''nil'')\<rparr>"
      "start [] [] []" script_env]
  by simp

lemma bad_parameter_refused_witness:
  "newBadRequestHandler script_env
     (InvalidParamFormatError ''start_date'' (WrapError ''binding'' (PlainError ''secret''))) =
   writeRFC7807 script_env 400 INVALIDARGUMENT ''Bad Request''
     (''invalid format for parameter '' @ quote ''start_date'')"
proof -
  have "errors_as as_filter (WrapError ''binding'' (PlainError ''secret'')) = None"
    by (simp add: errors_as_next errors_as_end)
  from bad_parameter_refused [OF this, of sample_bind
      "server_of script_env sample_io (plain (strict_of script_env script_handler))" script_env "[]"
      "sample_request ''GET'' ''/'' []" "start [] [] []" "''start_date''"]
  show ?thesis by blast
qed

subsection \<open>Readiness\<close>

text \<open>The server counts as ready exactly when some probe is answered 200 and every probe before
  it failed or was answered otherwise and was followed by a tick: the end of the context and the
  deadline stop the probing, and an error in making the request ends it at once.\<close>

lemma ready_iff:
  "waitForReady probes = Ready \<longleftrightarrow>
     (\<exists>n < length probes. fst (probes ! n) = Answered 200 \<and>
        (\<forall>i < n. (fst (probes ! i) = NoAnswer \<or>
            (\<exists>c. fst (probes ! i) = Answered c \<and> c \<noteq> 200)) \<and> snd (probes ! i) = Ticked))"
proof (induction probes rule: waitForReady.induct)
  case (2 e p rest)
  then show ?case by (auto simp: Ex_less_Suc2 All_less_Suc2)
next
  case (3 p rest)
  then show ?case by (cases p) (auto simp: Ex_less_Suc2 All_less_Suc2)
next
  case (4 code p rest)
  then show ?case by (cases p) (auto simp: Ex_less_Suc2 All_less_Suc2)
qed auto

lemma ready_iff_witness:
  "waitForReady [(NoAnswer, Ticked), (Answered 503, Ticked), (Answered 200, DeadlineReached)] = Ready \<and>
   waitForReady [(NoAnswer, Ticked), (NoAnswer, DeadlineReached), (Answered 200, Ticked)] \<noteq> Ready"
  unfolding ready_iff by (auto simp: Ex_less_Suc2 All_less_Suc2 numeral_3_eq_3)

end
