(* ===== verification/MainProgram.thy ===== *)
theory MainProgram
  imports ServerProps
begin

text \<open>
  \<open>cmd/koku-cost-provider/main.go\<close>: how the program is put together, what it closes when it
  ends, and with which error. The outcomes of the calls that leave the program are the fields of
  \<open>boot\<close>; the goroutines that the readiness callback starts run as the interleaved steps of
  \<open>Lifecycle\<close>, so that \<open>run\<close> only says whether they were started.
\<close>

text \<open>
  \<open>bt_drained\<close>: a started reconciler whose context has ended closes its channel within five
  seconds.
\<close>

record 'd boot =
  bt_parsed :: "string + config"
  bt_readFile :: "string \<Rightarrow> string + string"
  bt_listen :: "string \<Rightarrow> string option"
  bt_mkdir_parent :: "string \<Rightarrow> string option"
  bt_gorm_open :: "string \<Rightarrow> string + 'd gorm"
  bt_auto_migrate :: "'d gorm \<Rightarrow> string option"
  bt_nats_connect :: "string \<Rightarrow> string option"
  bt_dcm_client :: "string \<Rightarrow> string option"
  bt_now :: time
  bt_addr :: string
  bt_probes :: "(probe \<times> pause) list"
  bt_stop :: stop
  bt_shutdown_err :: "string option"
  bt_drained :: bool

datatype resource = Listener | Signals | NATSConnection

text \<open>
  How the process ended: its error, what was opened, and what was closed, in this order; the
  program it ran, if it got that far; and whether it waited for the reconciler in vain.
\<close>

record ('d, 'x) program =
  pg_server :: "('d, 'x) server"
  pg_reconciler :: "('d, 'x) reconciler"
  pg_registration :: registration_config
  pg_started :: bool

record ('d, 'x) ended =
  en_error :: "string option"
  en_opened :: "resource list"
  en_closed :: "resource list"
  en_program :: "('d, 'x) program option"
  en_drain_timeout :: bool

definition version :: string where "version = ''0.0.1-dev''"

text \<open>Returning from \<open>run\<close> runs the deferred calls, the last one first.\<close>

definition return_with ::
  "string option \<Rightarrow> resource list \<Rightarrow> ('d, 'x) program option \<Rightarrow> bool \<Rightarrow> ('d, 'x) ended" where
  "return_with err opened prog waited =
     \<lparr>en_error = err, en_opened = opened, en_closed = rev opened, en_program = prog,
      en_drain_timeout = waited\<rparr>"

text \<open>The publisher: NATS when a URL is set and it connects, otherwise the one that does nothing.\<close>

definition choose_publisher ::
  "'x env \<Rightarrow> (string \<Rightarrow> string option) \<Rightarrow> config \<Rightarrow>
   ('d, 'x) world status_publisher \<times> resource list" where
  "choose_publisher E connect cfg =
     (if cfg_NATS_URL cfg \<noteq> []
      then (case NewNATSPublisher E connect (cfg_NATS_URL cfg) (ProviderName (cfg_Registration cfg)) of
              Inl _ \<Rightarrow> (NoopPublisher, [])
            | Inr p \<Rightarrow> (p, [NATSConnection]))
      else (NoopPublisher, []))"

definition koku_conf_of :: "config \<Rightarrow> koku_conf" where
  "koku_conf_of cfg = NewClient (APIURL (cfg_Koku cfg)) (Identity (cfg_Koku cfg))"

definition build_program ::
  "'x env \<Rightarrow> ('r, 'd, 'x) libraries \<Rightarrow> response_io \<Rightarrow> time \<Rightarrow> config \<Rightarrow> 'd gorm \<Rightarrow>
   ('d, 'x) world status_publisher \<Rightarrow> ('d, 'x) program" where
  "build_program E L K startTime cfg G P =
     (let C = koku_conf_of cfg;
          checker = NewChecker version startTime (APIURL (cfg_Koku cfg));
          h = app_handler G E C P checker;
          strictHandler = NewStrictHandler (strict_of E h) []
      in \<lparr>pg_server = WithOnReady (server_New E L (cfg_Server cfg) (server_of E K strictHandler)),
          pg_reconciler = app_reconciler G E C P (PollInterval (cfg_Reconciler cfg))
            (ProvisionTimeout (cfg_Reconciler cfg)),
          pg_registration = cfg_Registration cfg, pg_started = False\<rparr>)"

text \<open>
  \<open>run\<close>; \<open>None\<close> while the server is still probing itself. The context ends by a signal only:
  \<open>stop\<close> is deferred, so that a reconciler is still running when \<open>Serve\<close> fails, and the wait
  for it then always takes the five seconds.
\<close>

definition run ::
  "'x env \<Rightarrow> ('r, 'd, 'x) libraries \<Rightarrow> response_io \<Rightarrow> 'd boot \<Rightarrow> ('d, 'x) ended option" where
  "run E L K B =
     (case Load (bt_parsed B) (bt_readFile B) of
        Inl e \<Rightarrow> Some (return_with (Some (''loading configuration: '' @ e)) [] None False)
      | Inr cfg \<Rightarrow>
          (case bt_listen B (BindAddress (cfg_Server cfg)) of
             Some e \<Rightarrow>
               Some (return_with (Some (''listening on '' @ BindAddress (cfg_Server cfg) @ '': '' @ e))
                       [] None False)
           | None \<Rightarrow>
               (case bt_mkdir_parent B (cfg_DBPath cfg) of
                  Some e \<Rightarrow>
                    Some (return_with (Some (''creating database directory: '' @ e))
                            [Listener, Signals] None False)
                | None \<Rightarrow>
                    (case store_New (bt_gorm_open B) (bt_auto_migrate B) (cfg_DBPath cfg) of
                       Inl e \<Rightarrow>
                         Some (return_with (Some (''opening store: '' @ e)) [Listener, Signals] None False)
                     | Inr G \<Rightarrow>
                         (let (P, conns) = choose_publisher E (bt_nats_connect B) cfg;
                              opened = [Listener, Signals] @ conns
                          in case bt_dcm_client B (DCMURL (cfg_Registration cfg)) of
                               Some e \<Rightarrow>
                                 Some (return_with (Some (''creating DCM client: '' @ e)) opened None False)
                             | None \<Rightarrow>
                                 (let prog = build_program E L K (bt_now B) cfg G P
                                  in case server_Run (pg_server prog) (bt_addr B) (bt_probes B)
                                            (bt_stop B) (bt_shutdown_err B) of
                                       None \<Rightarrow> None
                                     | Some out \<Rightarrow>
                                         Some (return_with (ro_error out) opened
                                           (Some (prog\<lparr>pg_started := ro_started out\<rparr>))
                                           (\<not> (ro_started out \<and> bt_stop B = ContextDone \<and>
                                               bt_drained B)))))))))"

subsection \<open>Properties\<close>

text \<open>How a run that got as far as serving came about.\<close>

lemma run_served:
  assumes "run E L K B = Some e" and "en_program e = Some p"
  obtains cfg G P conns out where
    "Load (bt_parsed B) (bt_readFile B) = Inr cfg"
    "choose_publisher E (bt_nats_connect B) cfg = (P, conns)"
    "p = (build_program E L K (bt_now B) cfg G P)\<lparr>pg_started := ro_started out\<rparr>"
    "server_Run (pg_server p) (bt_addr B) (bt_probes B) (bt_stop B) (bt_shutdown_err B) = Some out"
    "en_error e = ro_error out"
    "en_drain_timeout e \<longleftrightarrow> \<not> (ro_started out \<and> bt_stop B = ContextDone \<and> bt_drained B)"
  using assms
  by (auto simp: run_def return_with_def Let_def split: sum.splits option.splits prod.splits)

lemma build_program_server:
  "pg_server (build_program E L K t cfg G P) =
   WithOnReady (api_server E L (cfg_Server cfg) K
     (app_handler G E (koku_conf_of cfg) P (NewChecker version t (APIURL (cfg_Koku cfg)))))"
  by (simp add: build_program_def api_server_def Let_def)

lemma served_handler_onReady [simp]: "served_handler (WithOnReady s) = served_handler s"
  by (simp add: served_handler_def WithOnReady_def)

text \<open>C36. NATS is optional: when the connection to a configured NATS server fails, the program runs
  exactly as it does when none is configured.\<close>

theorem nats_is_optional:
  fixes L :: "('r, 'd, 'x) libraries"
  assumes "bt_parsed B = Inr cfg" and "bt_nats_connect B (cfg_NATS_URL cfg) = Some err"
  shows "run E L K B = run E L K (B\<lparr>bt_parsed := Inr (cfg\<lparr>cfg_NATS_URL := []\<rparr>)\<rparr>)"
proof -
  have load: "Load (Inr (cfg\<lparr>cfg_NATS_URL := []\<rparr>)) f =
      (case Load (Inr cfg) f of Inl e \<Rightarrow> Inl e | Inr c \<Rightarrow> Inr (c\<lparr>cfg_NATS_URL := []\<rparr>))" for f
    by (simp add: Load_def split: sum.split option.split)
  have url: "cfg_NATS_URL c = cfg_NATS_URL cfg" if "Load (Inr cfg) f = Inr c" for c f
    using that by (auto simp: Load_def split: sum.splits option.splits)
  let ?noop = "(NoopPublisher, []) :: ('d, 'x) world status_publisher \<times> resource list"
  have pub: "choose_publisher E (bt_nats_connect B) c = ?noop"
    if "Load (Inr cfg) f = Inr c" for c f
    using url [OF that] assms(2) by (simp add: choose_publisher_def NewNATSPublisher_def)
  have build: "build_program E L K t (c\<lparr>cfg_NATS_URL := []\<rparr>) G P = build_program E L K t c G P"
    for t c G P
    by (simp add: build_program_def koku_conf_of_def)
  show ?thesis
  proof (cases "Load (Inr cfg) (bt_readFile B)")
    case (Inl e)
    then show ?thesis using assms(1) by (simp add: run_def load)
  next
    case (Inr c)
    have "choose_publisher E (bt_nats_connect B) (c\<lparr>cfg_NATS_URL := []\<rparr>) = ?noop"
      by (simp add: choose_publisher_def)
    then show ?thesis using Inr assms(1) pub [OF Inr]
      by (simp add: run_def load build Let_def cong: option.case_cong sum.case_cong)
  qed
qed



subsection \<open>A sample run\<close>

text \<open>NATS refuses the connection, \<open>Serve\<close> fails after the server was ready.\<close>

definition sample_boot :: "mem_db boot" where
  "sample_boot =
     \<lparr>bt_parsed = Inr (sample_config\<lparr>cfg_NATS_URL := ''nats://nats:4222''\<rparr>),
      bt_readFile = sample_files, bt_listen = \<lambda>a. None, bt_mkdir_parent = \<lambda>p. None,
      bt_gorm_open = \<lambda>dsn. Inr mem_gorm, bt_auto_migrate = \<lambda>G. None,
      bt_nats_connect = \<lambda>url. Some ''refused'', bt_dcm_client = \<lambda>url. None, bt_now = 0,
      bt_addr = ''[::]:8080'', bt_probes = [(NoAnswer, Ticked), (Answered 200, Ticked)],
      bt_stop = ServeFailed ''closed'', bt_shutdown_err = None, bt_drained = True\<rparr>"

lemma sample_run:
  obtains e p where "run script_env (sample_libs :: (unit, mem_db, script) libraries) sample_io
      sample_boot = Some e" and "en_program e = Some p"
proof -
  have "case Load (bt_parsed sample_boot) sample_files of Inr _ \<Rightarrow> True | Inl _ \<Rightarrow> False"
    by code_simp
  then obtain c where "Load (bt_parsed sample_boot) sample_files = Inr c"
    by (auto split: sum.splits)
  moreover obtain P :: "(mem_db, script) world status_publisher" and conns
    where "choose_publisher script_env (bt_nats_connect sample_boot) c = (P, conns)" by fastforce
  ultimately show ?thesis
    using that
    by (simp add: run_def sample_boot_def store_New_def server_Run_def build_program_def
        WithOnReady_def return_with_def Let_def)
qed

theorem nats_is_optional_witness:
  "run script_env (sample_libs :: (unit, mem_db, script) libraries) sample_io sample_boot =
   run script_env sample_libs sample_io (sample_boot\<lparr>bt_parsed := Inr
     ((sample_config\<lparr>cfg_NATS_URL := ''nats://nats:4222''\<rparr>)\<lparr>cfg_NATS_URL := []\<rparr>)\<rparr>)"
  by (rule nats_is_optional [where err = "''refused''"]) (simp_all add: sample_boot_def)



end
