(* ===== verification/JsonRoundtrip.thy ===== *)
theory JsonRoundtrip
  imports ApiTypes
begin

text \<open>
  What \<open>json.Marshal\<close> writes, \<open>json.Unmarshal\<close> reads back: for every value whose strings are
  valid UTF-8 and whose numbers have a literal of their own, the parser yields the value with its
  numbers as literals (\<open>reread\<close>). The lemmas follow the parser from string bodies to values; each
  says what the parser makes of printed text in front of any rest. The last part repeats, for
  reread values, that the decoders of the API types undo their encoders.
\<close>

subsection \<open>Strings\<close>

text \<open>Valid UTF-8: a sequence of encoded code points.\<close>

function utf8_valid :: "string \<Rightarrow> bool" where
  "utf8_valid s =
     (if s = [] then True else if utf8_len s = 0 then False else utf8_valid (drop (utf8_len s) s))"
  by auto
termination by (relation "measure length") auto

declare utf8_valid.simps [simp del]

lemma utf8_valid_Nil [simp]: "utf8_valid []"
  by (subst utf8_valid.simps) simp

lemma utf8_len_cases:
  assumes "utf8_len s = l" and "0 < l"
  obtains (ascii) c cs where "s = c # cs" "l = 1" "(of_char c :: nat) < 128"
  | (multi) a xs t where "s = a # xs @ t" "l = Suc (length xs)" "xs \<noteq> []"
      "194 \<le> (of_char a :: nat)" "\<And>u. utf8_len (a # xs @ u) = l" "length xs \<le> 3"
proof (cases s)
  case Nil
  then show ?thesis using assms by simp
next
  case (Cons a r)
  consider "in_range 0 127 a" | "\<not> in_range 0 127 a" "in_range 0xC2 0xDF a"
    | "\<not> in_range 0 127 a" "\<not> in_range 0xC2 0xDF a" "in_range 0xE0 0xEF a"
    | "\<not> in_range 0 127 a" "\<not> in_range 0xC2 0xDF a" "\<not> in_range 0xE0 0xEF a" "in_range 0xF0 0xF4 a"
    using assms Cons by (auto split: if_splits)
  then show ?thesis
  proof cases
    case 1
    then show ?thesis using assms Cons by (intro ascii [of a r]) (auto simp: in_range_def)
  next
    case 2
    then obtain b t where "r = b # t" "is_cont b"
      using assms Cons by (auto split: list.splits if_splits)
    then show ?thesis using assms Cons 2
      by (intro multi [of a "[b]" t]) (auto simp: in_range_def)
  next
    case 3
    then obtain b c t where "r = b # c # t" "is_cont b" "is_cont c"
      "(a = CHR 0xE0 \<longrightarrow> in_range 0xA0 0xBF b) \<and> (a = CHR 0xED \<longrightarrow> in_range 0x80 0x9F b)"
      using assms Cons by (auto split: list.splits if_splits)
    then show ?thesis using assms Cons 3
      by (intro multi [of a "[b, c]" t]) (auto simp: in_range_def)
  next
    case 4
    then obtain b c d t where "r = b # c # d # t" "is_cont b" "is_cont c" "is_cont d"
      "(a = CHR 0xF0 \<longrightarrow> in_range 0x90 0xBF b) \<and> (a = CHR 0xF4 \<longrightarrow> in_range 0x80 0x8F b)"
      using assms Cons by (auto split: list.splits if_splits)
    then show ?thesis using assms Cons 4
      by (intro multi [of a "[b, c, d]" t]) (auto simp: in_range_def)
  qed
qed

lemma escape_copy: "escape_bytes (xs @ t) (length xs) 0 = xs @ escape_bytes t 0 0"
  by (induction xs) auto

lemma escape_skip: "escape_bytes (xs @ t) c (length xs) = escape_bytes t c 0"
  by (induction xs) auto

text \<open>Induction over the code points of a valid string.\<close>

lemma utf8_induct [consumes 1, case_names Nil ascii multi]:
  assumes "utf8_valid s"
    and "P []"
    and "\<And>c t. (of_char c :: nat) < 128 \<Longrightarrow> utf8_valid t \<Longrightarrow> P t \<Longrightarrow> P (c # t)"
    and "\<And>a xs t. 194 \<le> (of_char a :: nat) \<Longrightarrow> xs \<noteq> [] \<Longrightarrow> length xs \<le> 3 \<Longrightarrow>
      (\<And>u. utf8_len (a # xs @ u) = Suc (length xs)) \<Longrightarrow> utf8_valid t \<Longrightarrow> P t \<Longrightarrow> P (a # xs @ t)"
  shows "P s"
  using assms(1)
proof (induction s rule: length_induct)
  case (1 s)
  show ?case
  proof (cases "s = []")
    case False
    then have pos: "0 < utf8_len s" and rest: "utf8_valid (drop (utf8_len s) s)"
      using "1.prems" by (simp_all add: utf8_valid.simps [of s] split: if_splits)
    from refl pos show ?thesis
    proof (cases rule: utf8_len_cases)
      case (ascii c cs)
      then show ?thesis using rest "1.IH" assms(3) [of c cs] by simp
    next
      case (multi a xs t)
      then have "utf8_valid t" using rest by simp
      moreover from this have "P t" using "1.IH" multi(1) by simp
      ultimately show ?thesis using assms(4) [of a xs t] multi by simp
    qed
  qed (simp add: assms(2))
qed

lemma hex_val_digit [simp]: "n < 16 \<Longrightarrow> hex_val (hex_digit_lower n) = Some n"
  by (auto simp: hex_val_def hex_digit_lower_def Let_def)

lemma hex4_u_escape:
  assumes "n < 65536"
  shows "hex4 (drop 2 (u_escape n) @ r) = Some (n, r)"
proof -
  have "n div 4096 < 16" using assms by simp
  moreover have "n div 4096 = n div 256 div 16" and "n div 256 = n div 16 div 16"
    by (simp_all add: div_mult2_eq [symmetric])
  then have "((n div 4096 * 16 + n div 256 mod 16) * 16 + n div 16 mod 16) * 16 + n mod 16 = n"
    by (metis div_mult_mod_eq)
  ultimately show ?thesis by (simp add: hex4_def u_escape_def)
qed

lemma u_rune_plain [simp]: "n < 0xD800 \<Longrightarrow> u_rune n r = (n, r)"
  by (simp add: u_rune_def)

text \<open>One escaped code point in front of the rest of a literal.\<close>

lemma parse_u_escape:
  assumes "n < 0xD800"
  shows "parse_str (Suc k) (u_escape n @ r) =
    map_option (\<lambda>(t, q). (utf8_encode n @ t, q)) (parse_str k r)"
proof -
  obtain ds where "u_escape n = backslash # CHR ''u'' # ds" by (simp add: u_escape_def)
  then show ?thesis using hex4_u_escape [of n r] assms by simp
qed

lemma utf8_encode_char: "(of_char c :: nat) < 128 \<Longrightarrow> utf8_encode (of_char c) = [c]"
  by (simp add: utf8_encode_def)

lemma control_chars:
  "(of_char c :: nat) \<in> {8, 9, 10, 12, 13} \<longleftrightarrow>
     c = CHR 0x08 \<or> c = CHR 0x09 \<or> c = CHR 0x0A \<or> c = CHR 0x0C \<or> c = CHR 0x0D"
proof -
  have "(of_char c :: nat) = of_char d \<longleftrightarrow> c = d" for d by (rule of_char_eq_iff)
  from this [of "CHR 0x08"] this [of "CHR 0x09"] this [of "CHR 0x0A"] this [of "CHR 0x0C"]
    this [of "CHR 0x0D"] show ?thesis by simp
qed

lemma separator_chars:
  "char_of (226::nat) = CHR 0xE2" "char_of (128::nat) = CHR 0x80" "char_of (168::nat) = CHR 0xA8"
  "char_of (169::nat) = CHR 0xA9"
  by code_simp+

lemma parse_escape_ascii:
  assumes "(of_char c :: nat) < 128"
  shows "parse_str (Suc k) (escape_ascii c @ r) =
    map_option (\<lambda>(t, q). (c # t, q)) (parse_str k r)"
proof -
  let ?n = "of_char c :: nat"
  consider "c = dquote \<or> c = backslash" | "?n \<in> {8, 9, 10, 12, 13}"
    | "\<not> (c = dquote \<or> c = backslash)" "?n \<notin> {8, 9, 10, 12, 13}"
      "?n < 32 \<or> c = CHR ''<'' \<or> c = CHR ''>'' \<or> c = CHR ''&''"
    | "\<not> (c = dquote \<or> c = backslash)" "\<not> ?n < 32" "c \<noteq> CHR ''<''" "c \<noteq> CHR ''>''" "c \<noteq> CHR ''&''"
    by auto
  then show ?thesis
  proof cases
    case 1
    then show ?thesis by (auto simp: escape_ascii_def simple_escape_def)
  next
    case 2
    then have "c = CHR 0x08 \<or> c = CHR 0x09 \<or> c = CHR 0x0A \<or> c = CHR 0x0C \<or> c = CHR 0x0D"
      by (simp only: control_chars)
    then show ?thesis by (auto simp: escape_ascii_def simple_escape_def)
  next
    case 3
    then have "escape_ascii c = u_escape ?n" by (simp add: escape_ascii_def Let_def)
    then show ?thesis
      using parse_u_escape [of ?n k r] assms utf8_encode_char [OF assms] by simp
  next
    case 4
    then have "escape_ascii c = [c]" by (simp add: escape_ascii_def Let_def)
    moreover have "utf8_len (c # r) = 1" using assms by (simp add: in_range_def)
    ultimately show ?thesis using 4 by (simp add: Let_def)
  qed
qed

lemma parse_multi:
  assumes "194 \<le> (of_char a :: nat)" and "\<And>u. utf8_len (a # xs @ u) = Suc (length xs)"
  shows "parse_str (Suc k) (a # xs @ r) =
    map_option (\<lambda>(t, q). (a # xs @ t, q)) (parse_str k r)"
  using assms by (auto simp: Let_def simp del: utf8_len.simps)

lemma escape_multi:
  assumes "\<And>u. utf8_len (a # xs @ u) = Suc (length xs)" and "xs \<noteq> []" and "length xs \<le> 3"
    and "194 \<le> (of_char a :: nat)"
  shows "(escape_bytes (a # xs @ t) 0 0 = a # xs @ escape_bytes t 0 0) \<or>
    (\<exists>n. n < 0xD800 \<and> utf8_encode n = a # xs \<and>
       escape_bytes (a # xs @ t) 0 0 = u_escape n @ escape_bytes t 0 0)"
proof (cases "take 3 (a # xs @ t) = [CHR 0xE2, CHR 0x80, CHR 0xA8] \<or>
    take 3 (a # xs @ t) = [CHR 0xE2, CHR 0x80, CHR 0xA9]")
  case True
  then have a: "a = CHR 0xE2" by auto
  have "length xs = 2"
  proof -
    have "utf8_len (CHR 0xE2 # xs) = Suc (length xs)" using assms(1) [of "[]"] a by simp
    then show ?thesis using assms(2)
      by (auto simp: in_range_def split: list.splits if_splits)
  qed
  then obtain b c where xs: "xs = [b, c]" by (auto simp: numeral_2_eq_2 length_Suc_conv)
  have "escape_bytes (a # xs @ t) 0 0 = u_escape (if c = CHR 0xA8 then 0x2028 else 0x2029) @
      escape_bytes ([b, c] @ t) 0 (length [b, c])"
    using True assms(1) [of t] xs a by (auto simp: Let_def numeral_2_eq_2 simp del: utf8_len.simps)
  then have "escape_bytes (a # xs @ t) 0 0 = u_escape (if c = CHR 0xA8 then 0x2028 else 0x2029) @
      escape_bytes t 0 0"
    by (simp only: escape_skip)
  moreover have "utf8_encode (if c = CHR 0xA8 then 0x2028 else 0x2029) = a # xs"
    using True xs by (auto simp: utf8_encode_def separator_chars)
  ultimately show ?thesis by (intro disjI2 exI [of _ "if c = CHR 0xA8 then 0x2028 else 0x2029"]) simp
next
  case False
  then have "escape_bytes (a # xs @ t) 0 0 = a # escape_bytes (xs @ t) (length xs) 0"
    using assms(1) [of t] assms(2) by (auto simp: Let_def simp del: utf8_len.simps)
  then show ?thesis by (simp add: escape_copy)
qed

text \<open>The body of a literal is read back, with fuel for each of its characters.\<close>

lemma parse_escaped:
  assumes "utf8_valid s"
  shows "length (escape_bytes s 0 0) < k \<Longrightarrow>
    parse_str k (escape_bytes s 0 0 @ dquote # r) = Some (s, r)"
  using assms
proof (induction s arbitrary: k rule: utf8_induct)
  case Nil
  then show ?case by (cases k) auto
next
  case (ascii c t)
  have e: "escape_bytes (c # t) 0 0 = escape_ascii c @ escape_bytes t 0 0"
    using ascii(1) by (simp add: in_range_def Let_def)
  have "1 \<le> length (escape_ascii c)" by (simp add: escape_ascii_def Let_def u_escape_def)
  then obtain k' where "k = Suc k'" "length (escape_bytes t 0 0) < k'"
    using ascii.prems e by (cases k) auto
  then show ?case using ascii.IH parse_escape_ascii [OF ascii(1)] e by simp
next
  case (multi a xs t)
  from escape_multi [OF multi(4,2,3,1), of t] show ?case
  proof (elim disjE exE conjE)
    assume e: "escape_bytes (a # xs @ t) 0 0 = a # xs @ escape_bytes t 0 0"
    then obtain k' where "k = Suc k'" "length (escape_bytes t 0 0) < k'"
      using multi.prems by (cases k) auto
    then show ?case using multi.IH parse_multi [OF multi(1,4)] e by simp
  next
    fix n
    assume n: "n < 0xD800" "utf8_encode n = a # xs"
      and e: "escape_bytes (a # xs @ t) 0 0 = u_escape n @ escape_bytes t 0 0"
    have "length (u_escape n) = 6" by (simp add: u_escape_def)
    then obtain k' where "k = Suc k'" "length (escape_bytes t 0 0) < k'"
      using multi.prems e by (cases k) auto
    then show ?case using multi.IH parse_u_escape [OF n(1)] n(2) e by simp
  qed
qed

subsection \<open>Numbers\<close>

text \<open>What may follow a value: nothing, a comma, a closing bracket or a line feed.\<close>

definition ends :: "string \<Rightarrow> bool" where
  "ends r \<longleftrightarrow> (case r of [] \<Rightarrow> True | c # _ \<Rightarrow> c = CHR '','' \<or> c = CHR '']'' \<or> c = CHR ''}'' \<or>
     c = CHR 0x0A)"

lemma ends_simps [simp]: "ends []" "ends (CHR '','' # r)" "ends (CHR '']'' # r)" "ends (CHR ''}'' # r)"
  "ends (CHR 0x0A # r)"
  by (simp_all add: ends_def)

lemma ends_cases:
  assumes "ends r"
  obtains "r = []" | c t where "r = c # t" "\<not> is_digit c" "c \<notin> {CHR ''.'', CHR ''e'', CHR ''E'',
    CHR ''+'', CHR ''-'', CHR ''0''}"
  using assms by (cases r) (auto simp: ends_def is_digit_def)

lemma take_digits_append:
  assumes "ends r"
  shows "take_digits (s @ r) = (fst (take_digits s), snd (take_digits s) @ r)"
proof -
  have "takeWhile is_digit r = [] \<and> dropWhile is_digit r = r"
    using assms by (cases rule: ends_cases) auto
  then show ?thesis by (induction s) (auto simp: take_digits_def)
qed

definition with_rest :: "string \<Rightarrow> (string \<times> string) option \<Rightarrow> (string \<times> string) option" where
  "with_rest r p = map_option (\<lambda>(l, q). (l, q @ r)) p"

lemma with_rest_simps [simp]: "with_rest r None = None" "with_rest r (Some (l, q)) = Some (l, q @ r)"
  by (simp_all add: with_rest_def)

lemma int_part_append:
  assumes "ends r"
  shows "int_part (s @ r) = with_rest r (int_part s)"
proof (cases s)
  case Nil
  with assms show ?thesis by (cases r) (auto simp: ends_def int_part_def is_digit_def)
next
  case (Cons c t)
  then show ?thesis
    using take_digits_append [OF assms, of s] by (auto simp: int_part_def with_rest_def split: prod.split)
qed

lemma frac_part_append:
  assumes "ends r"
  shows "frac_part (s @ r) = with_rest r (frac_part s)"
proof (cases s)
  case Nil
  with assms show ?thesis by (auto simp: frac_part_def elim: ends_cases)
next
  case (Cons c t)
  then show ?thesis
    using take_digits_append [OF assms, of t] by (auto simp: frac_part_def Let_def split: prod.split)
qed

lemma exp_part_append:
  assumes "ends r"
  shows "exp_part (s @ r) = with_rest r (exp_part s)"
proof (cases s)
  case Nil
  with assms show ?thesis by (auto simp: exp_part_def elim: ends_cases)
next
  case (Cons c t)
  show ?thesis
  proof (cases t)
    case Nil
    have "take_digits r = ([], r)" using take_digits_append [OF assms, of "[]"]
      by (simp add: take_digits_def)
    with assms Nil Cons show ?thesis
      by (auto simp: exp_part_def Let_def take_digits_def elim: ends_cases split: list.split)
  next
    case (Cons x u)
    then show ?thesis
      using \<open>s = c # t\<close> take_digits_append [OF assms, of t] take_digits_append [OF assms, of u]
      by (auto simp: exp_part_def Let_def split: prod.splits)
  qed
qed

lemma num_literal_append:
  assumes "ends r"
  shows "num_literal (s @ r) = with_rest r (num_literal s)"
proof -
  have sign: "(case s @ r of c # cs \<Rightarrow> if c = CHR ''-'' then ([c], cs) else ([], s @ r) | [] \<Rightarrow> ([], [])) =
      (case (case s of c # cs \<Rightarrow> if c = CHR ''-'' then ([c], cs) else ([], s) | [] \<Rightarrow> ([], [])) of
         (sg, t) \<Rightarrow> (sg, t @ r))"
    using assms by (cases s) (auto elim: ends_cases)
  show ?thesis
    unfolding num_literal_def sign
    by (auto simp: int_part_append [OF assms] frac_part_append [OF assms] exp_part_append [OF assms]
        with_rest_def split: prod.splits option.splits)
qed

text \<open>The text of a float: a number literal that is read back as the float.\<close>

definition float_text :: "float_fmt \<Rightarrow> float64 \<Rightarrow> bool" where
  "float_text F f \<longleftrightarrow> float_finite f \<and> num_literal (ff_print F f) = Some (ff_print F f, []) \<and>
     ff_parse F (ff_print F f) = Some f"

lemma num_literal_head:
  assumes "num_literal s = Some p"
  obtains c t where "s = c # t" "c = CHR ''-'' \<or> is_digit c"
proof (cases s)
  case Nil
  then show ?thesis using assms by (simp add: num_literal_def int_part_def)
next
  case (Cons c t)
  then show ?thesis using that assms
    by (cases "c = CHR ''-''")
       (auto simp: num_literal_def int_part_def is_digit_def split: if_splits option.splits prod.splits)
qed

lemma parse_print_num:
  assumes "num_literal l = Some (l, [])" and "ends r"
  shows "parse_num F (l @ r) = Some (JLit l (ff_parse F l), r)"
  using assms(1) num_literal_append [OF assms(2), of l] by (simp add: parse_num_def)

text \<open>The text of an integer is a number literal: no zero leads, unless it is the only digit.\<close>

lemma dec_digits_lead: "dec_digits n = c # t \<Longrightarrow> c = CHR ''0'' \<Longrightarrow> t = []"
proof (induction n arbitrary: c t rule: dec_digits.induct)
  case (1 n)
  show ?case
  proof (cases "n < 10")
    case True
    then show ?thesis using "1.prems" by (simp add: dec_digits.simps [of n])
  next
    case False
    then obtain d ds where d: "dec_digits (n div 10) = d # ds"
      by (cases "dec_digits (n div 10)") auto
    then have "c = d" "t = ds @ [digit_char (n mod 10)]"
      using "1.prems"(1) False by (simp_all add: dec_digits.simps [of n])
    then have "dec_digits (n div 10) = [CHR ''0'']" using "1.IH" [OF False d] "1.prems"(2) d by simp
    then have "dec_val 0 [CHR ''0''] = Some (n div 10)" using dec_val_dec_digits by metis
    then show ?thesis using False by (simp add: is_digit_def)
  qed
qed

lemma int_part_digits: "int_part (dec_digits n) = Some (dec_digits n, [])"
proof -
  obtain c t where d: "dec_digits n = c # t" by (cases "dec_digits n") auto
  have "\<forall>x \<in> set (c # t). is_digit x" using dec_digits_all_digits [of _ n] d by simp
  then have "take_digits (c # t) = (c # t, [])" by (simp add: take_digits_def dropWhile_eq_Nil_conv takeWhile_eq_all_conv)
  then show ?thesis using d dec_digits_lead [OF d] dec_digits_all_digits [of c n]
    by (auto simp: int_part_def)
qed

lemma num_literal_itoa: "num_literal (itoa i) = Some (itoa i, [])"
proof -
  have d: "num_literal (dec_digits n) = Some (dec_digits n, [])" for n
    using dec_digits_Cons_sign [of n] int_part_digits [of n]
    by (cases "dec_digits n") (simp_all add: num_literal_def frac_part_def exp_part_def)
  then show ?thesis
    using int_part_digits by (simp add: itoa_def num_literal_def frac_part_def exp_part_def)
qed

subsection \<open>Values\<close>

text \<open>A value that has a text of its own, and what the parser makes of that text.\<close>

fun printable :: "float_fmt \<Rightarrow> json \<Rightarrow> bool" where
  "printable F (JNum f) = float_text F f"
| "printable F (JLit l f) = False"
| "printable F (JStr s) = utf8_valid s"
| "printable F (JArr vs) = list_all (printable F) vs"
| "printable F (JObj ms) = list_all (\<lambda>m. utf8_valid (fst m) \<and> printable F (snd m)) ms"
| "printable F j = True"

fun reread :: "float_fmt \<Rightarrow> json \<Rightarrow> json" where
  "reread F (JNum f) = JLit (ff_print F f) (ff_parse F (ff_print F f))"
| "reread F (JInt i) = JLit (itoa i) (ff_parse F (itoa i))"
| "reread F (JArr vs) = JArr (map (reread F) vs)"
| "reread F (JObj ms) = JObj (map (\<lambda>m. (fst m, reread F (snd m))) ms)"
| "reread F j = j"

text \<open>The fuel that reading a value takes.\<close>

primrec need_items :: "nat list \<Rightarrow> nat" where
  "need_items [] = 0"
| "need_items (n # ns) = Suc (max n (need_items ns))"

fun need :: "json \<Rightarrow> nat" where
  "need (JArr vs) = Suc (need_items (map need vs))"
| "need (JObj ms) = Suc (need_items (map (\<lambda>m. need (snd m)) ms))"
| "need j = 1"

text \<open>The first character of a literal.\<close>

lemma num_head_chars:
  assumes "c = CHR ''-'' \<or> is_digit c"
  shows "\<not> is_ws c" "c \<notin> {CHR '']'', CHR ''}'', CHR ''{'', CHR ''['', dquote, CHR ''t'', CHR ''f'', CHR ''n''}"
  using assms by (auto simp: is_ws_def is_digit_def)

lemma print_head:
  assumes "printable F j"
  obtains c t where "print_json F j = c # t" "\<not> is_ws c" "c \<noteq> CHR '']''" "c \<noteq> CHR ''}''"
proof -
  have num: "\<exists>c t. l = c # t \<and> \<not> is_ws c \<and> c \<noteq> CHR '']'' \<and> c \<noteq> CHR ''}''"
    if "num_literal l = Some p" for l p
    using num_literal_head [OF that] num_head_chars by (metis insert_iff)
  have "\<exists>c t. print_json F j = c # t \<and> \<not> is_ws c \<and> c \<noteq> CHR '']'' \<and> c \<noteq> CHR ''}''"
  proof (cases j)
    case (JInt i)
    then show ?thesis using num [OF num_literal_itoa] by simp
  next
    case (JNum f)
    then have "num_literal (ff_print F f) = Some (ff_print F f, [])"
      using assms by (simp add: float_text_def)
    then show ?thesis using num JNum by simp
  qed (use assms in \<open>auto simp: print_str_def is_ws_def\<close>)
  then show ?thesis using that by blast
qed

lemma skip_ws_Cons [simp]: "\<not> is_ws c \<Longrightarrow> skip_ws (c # t) = c # t"
  by (simp add: skip_ws_def)

lemma not_ws [simp]: "\<not> is_ws (CHR '','')" "\<not> is_ws (CHR '']'')" "\<not> is_ws (CHR ''}'')"
  "\<not> is_ws (CHR '':'')" "\<not> is_ws dquote" "\<not> is_ws (CHR ''['')" "\<not> is_ws (CHR ''{'')"
  by (simp_all add: is_ws_def)

lemma parse_print_str:
  assumes "utf8_valid s"
  shows "parse_str (length (escape_bytes s 0 0 @ dquote # r)) (escape_bytes s 0 0 @ dquote # r) = Some (s, r)"
  using parse_escaped [OF assms, of "length (escape_bytes s 0 0 @ dquote # r)" r] by simp

definition reads :: "float_fmt \<Rightarrow> json \<Rightarrow> bool" where
  "reads F j \<longleftrightarrow> (\<forall>n r. need j \<le> n \<longrightarrow> ends r \<longrightarrow> parse_val F n (print_json F j @ r) = Some (reread F j, r))"

lemma readsD: "reads F j \<Longrightarrow> need j \<le> n \<Longrightarrow> ends r \<Longrightarrow> parse_val F n (print_json F j @ r) = Some (reread F j, r)"
  by (simp add: reads_def)

lemma parse_print_elems:
  assumes "\<forall>v \<in> set vs. reads F v" and "vs \<noteq> []" and "need_items (map need vs) \<le> n"
  shows "parse_elems F n (join_with '','' (map (print_json F) vs) @ CHR '']'' # r) = Some (map (reread F) vs, r)"
  using assms
proof (induction vs arbitrary: n)
  case (Cons v vs)
  then obtain k where n: "n = Suc k" "need v \<le> k" "need_items (map need vs) \<le> k"
    by (cases n) auto
  show ?case
  proof (cases vs)
    case Nil
    then show ?thesis using Cons.prems n readsD [of F v k "CHR '']'' # r"] by simp
  next
    case (Cons w ws)
    have "parse_elems F k (join_with '','' (map (print_json F) vs) @ CHR '']'' # r) = Some (map (reread F) vs, r)"
      using Cons.IH Cons.prems n Cons by simp
    then show ?thesis
      using Cons.prems n Cons
        readsD [of F v k "CHR '','' # join_with '','' (map (print_json F) vs) @ CHR '']'' # r"] by simp
  qed
qed simp

definition print_member :: "float_fmt \<Rightarrow> string \<times> json \<Rightarrow> string" where
  "print_member F m = print_str (fst m) @ '':'' @ print_json F (snd m)"

abbreviation reread_member :: "float_fmt \<Rightarrow> string \<times> json \<Rightarrow> string \<times> json" where
  "reread_member F m \<equiv> (fst m, reread F (snd m))"

lemma parse_member:
  assumes "utf8_valid key" and "reads F v" and "need v \<le> k" and "ends r"
  shows "parse_members F (Suc k) (print_member F (key, v) @ r) =
    (case skip_ws r of
       e # q \<Rightarrow>
         if e = CHR ''}'' then Some ([(key, reread F v)], q)
         else if e = CHR '','' then map_option (\<lambda>(ms, t). ((key, reread F v) # ms, t)) (parse_members F k q)
         else None
     | [] \<Rightarrow> None)"
  using parse_print_str [OF assms(1), of "CHR '':'' # print_json F v @ r"]
    readsD [OF assms(2,3,4)]
  by (simp add: print_member_def print_str_def)

lemma parse_print_members:
  assumes "\<forall>m \<in> set ms. utf8_valid (fst m) \<and> reads F (snd m)" and "ms \<noteq> []"
    and "need_items (map (\<lambda>m. need (snd m)) ms) \<le> n"
  shows "parse_members F n (join_with '','' (map (print_member F) ms) @ CHR ''}'' # r) =
    Some (map (reread_member F) ms, r)"
  using assms
proof (induction ms arbitrary: n)
  case (Cons m ms)
  then obtain k where n: "n = Suc k" "need (snd m) \<le> k" "need_items (map (\<lambda>m. need (snd m)) ms) \<le> k"
    by (cases n) auto
  obtain key v where m: "m = (key, v)" by fastforce
  have key: "utf8_valid key" and v: "reads F v" using Cons.prems m by auto
  have kv: "need v \<le> k" using n m by simp
  show ?case
  proof (cases ms)
    case Nil
    then show ?thesis using m n parse_member [OF key v kv, of "CHR ''}'' # r"] by simp
  next
    case (Cons m2 ms2)
    let ?rest = "join_with '','' (map (print_member F) ms) @ CHR ''}'' # r"
    have "parse_members F k ?rest = Some (map (reread_member F) ms, r)" using Cons.IH Cons.prems n Cons by simp
    then show ?thesis
      using m n Cons parse_member [OF key v kv, of "CHR '','' # ?rest"] by simp
  qed
qed simp

lemma reads_literal:
  assumes "num_literal l = Some (l, [])"
  shows "1 \<le> n \<Longrightarrow> ends r \<Longrightarrow> parse_val F n (l @ r) = Some (JLit l (ff_parse F l), r)"
proof -
  assume n: "1 \<le> n" and r: "ends r"
  obtain c t where h: "l = c # t" "c = CHR ''-'' \<or> is_digit c"
    using assms by (rule num_literal_head)
  obtain k where "n = Suc k" using n by (cases n) auto
  then show ?thesis using num_head_chars [OF h(2)] h(1) parse_print_num [OF assms r, of F] by simp
qed

lemma reads_printable:
  assumes "printable F j"
  shows "reads F j"
  using assms
proof (induction j)
  case (JNum f)
  then have "num_literal (ff_print F f) = Some (ff_print F f, [])" by (simp add: float_text_def)
  from reads_literal [OF this, where F = F] show ?case by (simp add: reads_def)
next
  case (JInt i)
  from reads_literal [OF num_literal_itoa, where F = F] show ?case by (simp add: reads_def)
next
  case (JStr s)
  show ?case unfolding reads_def
  proof (intro allI impI)
    fix n r assume "need (JStr s) \<le> n"
    then obtain k where "n = Suc k" by (cases n) auto
    then show "parse_val F n (print_json F (JStr s) @ r) = Some (reread F (JStr s), r)"
      using parse_print_str [of s r] JStr by (simp add: print_str_def)
  qed
next
  case (JArr vs)
  have vs: "\<forall>v \<in> set vs. reads F v" using JArr by (auto simp: list_all_iff)
  show ?case unfolding reads_def
  proof (intro allI impI)
    fix n r assume "need (JArr vs) \<le> n"
    then obtain k where n: "n = Suc k" "need_items (map need vs) \<le> k" by (cases n) auto
    show "parse_val F n (print_json F (JArr vs) @ r) = Some (reread F (JArr vs), r)"
    proof (cases vs)
      case Nil
      then show ?thesis using n by simp
    next
      case (Cons v ws)
      then have "printable F v" using JArr.prems by simp
      then obtain c t where c: "print_json F v = c # t" "\<not> is_ws c" "c \<noteq> CHR '']''"
        by (rule print_head)
      then have "\<exists>t'. join_with '','' (map (print_json F) vs) @ CHR '']'' # r = c # t'"
        using Cons by (cases ws) auto
      then show ?thesis
        using parse_print_elems [OF vs _ n(2), of r] Cons c n(1) by auto
    qed
  qed
next
  case (JObj ms)
  have ms: "\<forall>m \<in> set ms. utf8_valid (fst m) \<and> reads F (snd m)"
    using JObj by (auto simp: list_all_iff)
  have p: "print_json F (JObj ms) = ''{'' @ join_with '','' (map (print_member F) ms) @ ''}''"
    by (simp add: print_member_def [abs_def])
  show ?case unfolding reads_def
  proof (intro allI impI)
    fix n r assume "need (JObj ms) \<le> n"
    then obtain k where n: "n = Suc k" "need_items (map (\<lambda>m. need (snd m)) ms) \<le> k" by (cases n) auto
    show "parse_val F n (print_json F (JObj ms) @ r) = Some (reread F (JObj ms), r)"
    proof (cases ms)
      case Nil
      then show ?thesis using n by simp
    next
      case (Cons m ws)
      then have "\<exists>t'. join_with '','' (map (print_member F) ms) @ CHR ''}'' # r = dquote # t'"
        by (cases ws) (auto simp: print_member_def print_str_def)
      then show ?thesis
        using parse_print_members [OF ms _ n(2), of r] Cons n(1) unfolding p by auto
    qed
  qed
qed (auto simp: reads_def parse_lit_def has_prefix_def is_ws_def Suc_le_eq gr0_conv_Suc)

text \<open>The fuel the two entry points give is enough: a value needs no more than its bytes.\<close>

lemma need_items_le:
  assumes "\<forall>v \<in> set vs. f v \<le> length (g v)" and "vs \<noteq> []"
  shows "need_items (map f vs) \<le> length (join_with '','' (map g vs)) + 1"
  using assms
proof (induction vs)
  case (Cons v vs)
  then show ?case by (cases vs) auto
qed simp

lemma need_le:
  assumes "printable F j"
  shows "need j \<le> length (print_json F j)"
  using assms
proof (induction j)
  case (JNum f)
  then show ?case using print_head [of F "JNum f"] by (cases "ff_print F f") auto
next
  case (JInt i)
  then show ?case using print_head [of F "JInt i"] by (cases "itoa i") auto
next
  case (JArr vs)
  have "\<forall>v \<in> set vs. need v \<le> length (print_json F v)" using JArr by (auto simp: list_all_iff)
  then show ?case using need_items_le [of vs need "print_json F"] by (cases vs) auto
next
  case (JObj ms)
  have "\<forall>m \<in> set ms. need (snd m) \<le> length (print_member F m)"
    using JObj by (force simp: list_all_iff print_member_def)
  then have "need_items (map (\<lambda>m. need (snd m)) ms) \<le>
      length (join_with '','' (map (print_member F) ms)) + 1" 
    using need_items_le [of ms "\<lambda>m. need (snd m)" "print_member F"] by (cases ms) auto
  then show ?case by (simp add: print_member_def [abs_def])
qed (auto simp: print_str_def)

lemma unmarshal_print:
  assumes "printable F j"
  shows "json_unmarshal F (print_json F j) = Some (reread F j)"
  using readsD [OF reads_printable [OF assms], of "2 * length (print_json F j) + 2" "[]"]
    need_le [OF assms]
  by (simp add: json_unmarshal_def skip_ws_def)

text \<open>A document may be followed by a line feed, which is what \<open>json.Encoder\<close> writes.\<close>

lemma unmarshal_print_line:
  assumes "printable F j"
  shows "json_unmarshal F (print_json F j @ [CHR 0x0A]) = Some (reread F j)"
proof -
  let ?s = "print_json F j @ [CHR 0x0A]"
  have "need j \<le> 2 * length ?s + 2" using need_le [OF assms] by simp
  from readsD [OF reads_printable [OF assms] this ends_simps(5)]
  have "parse_val F (2 * length ?s + 2) ?s = Some (reread F j, [CHR 0x0A])" .
  then show ?thesis by (simp only: json_unmarshal_def) (simp add: skip_ws_def is_ws_def)
qed

lemma decode_print:
  assumes "printable F j" and "ends r"
  shows "json_decode F (print_json F j @ r) = Some (reread F j)"
  using readsD [OF reads_printable [OF assms(1)], of "2 * length (print_json F j @ r) + 2" r]
    need_le [OF assms(1)] assms(2)
  by (simp add: json_decode_def)

lemma printable_finite: "printable F j \<Longrightarrow> json_finite j"
  by (induction j) (auto simp: float_text_def list_all_iff)

subsection \<open>Decoding what was printed\<close>

lemma map_enc_opt [simp]:
  "map (reread_member F) (enc_opt k e v) = enc_opt k (\<lambda>x. reread F (e x)) v"
  by (cases v) (simp_all add: enc_opt_def)

lemma reread_not_null [simp]: "reread F j = JNull \<longleftrightarrow> j = JNull"
  by (cases j) simp_all

lemma printable_opt [simp]:
  "list_all (\<lambda>m. utf8_valid (fst m) \<and> printable F (snd m)) (enc_opt k e v) \<longleftrightarrow>
     (\<forall>x. v = Some x \<longrightarrow> utf8_valid k \<and> printable F (e x))"
  by (cases v) (simp_all add: enc_opt_def)

lemma dec_float_reread [simp]: "float_text F f \<Longrightarrow> dec_float (reread F (JNum f)) cur = Some f"
  by (simp add: dec_float_def float_text_def)

lemma dec_int_reread:
  assumes "min_int64 \<le> lo" and "hi \<le> max_int64" and "lo \<le> i" and "i \<le> hi"
  shows "dec_int lo hi (reread F (JInt i)) cur = Some i"
  using assms atoi_itoa [of i] by (simp add: dec_int_def)

lemma dec_metadata_reread:
  assumes "case Labels m of None \<Rightarrow> True | Some ls \<Rightarrow> sorted_wrt (<) (map fst ls)"
  shows "dec_metadata (reread F (enc_metadata m)) zero_metadata = Some m"
proof -
  have "dec_labels (reread F (enc_labels ls)) [] = Some ls" if "Labels m = Some ls" for ls
    using assms that dec_entries_enc [of "[]" ls]
    by (simp add: dec_labels_def enc_labels_def comp_def case_prod_unfold)
  then show ?thesis
    by (simp add: dec_metadata_def enc_metadata_def dec_struct_def dec_field_append
        zero_metadata_def enc_labels_def)
qed

lemma dec_rate_reread:
  "printable F (enc_rate r) \<Longrightarrow> dec_rate (reread F (enc_rate r)) zero_rate = Some r"
  by (simp add: dec_rate_def enc_rate_def dec_struct_def dec_field_append zero_rate_def
      del: reread.simps(1))

lemma dec_markup_reread:
  "printable F (enc_markup m) \<Longrightarrow> dec_markup (reread F (enc_markup m)) zero_markup = Some m"
  by (simp add: dec_markup_def enc_markup_def dec_struct_def zero_markup_def del: reread.simps(1))

lemma dec_rates_reread:
  "printable F (JArr (map enc_rate rs)) \<Longrightarrow> dec_rates (reread F (JArr (map enc_rate rs))) cur = Some rs"
proof -
  have "list_all (\<lambda>r. printable F (enc_rate r)) rs \<Longrightarrow>
      dec_list zero_rate dec_rate (map (\<lambda>r. reread F (enc_rate r)) rs) = Some rs"
    by (induction rs) (simp_all add: dec_rate_reread)
  then show "printable F (JArr (map enc_rate rs)) \<Longrightarrow> dec_rates (reread F (JArr (map enc_rate rs))) cur = Some rs"
    by (simp add: dec_rates_def comp_def list_all_iff)
qed

lemma dec_cost_model_reread:
  "printable F (enc_cost_model m) \<Longrightarrow>
   dec_cost_model (reread F (enc_cost_model m)) zero_cost_model = Some m"
  using dec_rates_reread dec_markup_reread
  by (simp add: dec_cost_model_def enc_cost_model_def dec_struct_def dec_field_append
      zero_cost_model_def)

lemma dec_target_reread: "dec_target (reread F (enc_target t)) zero_target = Some t"
  by (simp add: dec_target_def enc_target_def dec_struct_def zero_target_def)

lemma dec_spec_reread:
  assumes "spec_wf s" and "printable F (enc_spec s)"
  shows "dec_spec (reread F (enc_spec s)) zero_spec = Some s"
proof -
  have "dec_metadata (reread F (enc_metadata (Metadata s))) zero_metadata = Some (Metadata s)"
    using assms(1) by (intro dec_metadata_reread) (simp add: spec_wf_def)
  then show ?thesis using assms(2)
    by (simp add: dec_spec_def enc_spec_def dec_struct_def dec_field_append zero_spec_def
        dec_target_reread dec_cost_model_reread)
qed

end
