(* ===== verification/SpecStorage.thy ===== *)
theory SpecStorage
  imports ServiceProps JsonRoundtrip
begin

text \<open>
  A spec on its way through the service: encoded by \<open>json.Marshal\<close> when an instance is created,
  kept as text in the row, and decoded whenever the instance is returned.
\<close>

subsection \<open>The text of a spec\<close>

text \<open>The strings of the spec are valid UTF-8 and its floats have a text of their own.\<close>

definition spec_printable :: "float_fmt \<Rightarrow> cost_spec \<Rightarrow> bool" where
  "spec_printable F s \<longleftrightarrow> spec_wf s \<and> printable F (enc_spec s)"

lemma spec_text:
  assumes "spec_printable (env_float E) s"
  shows "marshal_spec E s = Some (print_json (env_float E) (enc_spec s))"
    and "unmarshal_spec E (print_json (env_float E) (enc_spec s)) = Some s"
  using assms printable_finite [of "env_float E" "enc_spec s"]
  by (simp_all add: spec_printable_def marshal_spec_def json_marshal_def
      unmarshal_spec_def unmarshal_print dec_spec_reread)

lemma spec_text_not_empty: "print_json F (enc_spec s) \<noteq> []"
  by (simp add: enc_spec_def)

text \<open>What is stored is shown.\<close>

lemma shown_spec:
  assumes "spec_printable (env_float E) s" and "marshal_spec E s = Some (SpecJSON i)"
  shows "ci_Spec (toAPICostInstance E i) = s"
  using assms spec_text [OF assms(1)] spec_text_not_empty [of "env_float E" s]
  by (simp add: toAPICostInstance_def)

lemma create_checks_spec:
  assumes "create_checks E body = Inr (spec, js)"
  shows "\<exists>b. body = Some b \<and> spec = ci_Spec b \<and> marshal_spec E spec = Some js"
  using assms by (auto simp: create_checks_def Let_def split: option.splits if_splits)

text \<open>C25. A spec survives being stored: \<open>json.Marshal\<close> of it succeeds, and \<open>json.Unmarshal\<close> of the
  text gives the same spec, whatever optional parts, labels, rates and characters it holds. Its
  strings must be valid UTF-8 (Go's decoder yields no others) and its numbers must be printed as
  literals that are read back as the same number (which \<open>strconv\<close> guarantees for finite ones).\<close>

theorem spec_text_roundtrip:
  assumes "spec_printable (env_float E) s"
  shows "\<exists>js. marshal_spec E s = Some js \<and> unmarshal_spec E js = Some s"
  using spec_text [OF assms] by blast

definition labelled_spec :: cost_spec where
  "labelled_spec = (sample_spec ''c1'' (Some ''EUR'') [sample_rate])
     \<lparr>Metadata := \<lparr>Labels = Some [(''env'', ''a<b''), (''team'', [dquote, CHR 0xC3, CHR 0xA9])],
        metadata_Name = [CHR 0x0A, CHR 0xE2, CHR 0x80, CHR 0xA8]\<rparr>\<rparr>"

lemma utf8_valid_step: "0 < utf8_len s \<Longrightarrow> utf8_valid (drop (utf8_len s) s) \<Longrightarrow> utf8_valid s"
  by (subst utf8_valid.simps) simp

lemma labelled_printable: "spec_printable table_floats labelled_spec"
proof -
  have floats: "float_text table_floats 0x3FF0000000000000"
    unfolding float_text_def by (intro conjI; code_simp)
  show ?thesis
    by (simp add: spec_printable_def spec_wf_def labelled_spec_def sample_spec_def zero_spec_def
        zero_metadata_def zero_target_def enc_spec_def enc_metadata_def enc_labels_def
        enc_cost_model_def enc_rate_def enc_target_def enc_opt_def sample_rate_def floats utf8_valid.simps
        in_range_def is_cont_def)
qed

theorem spec_text_roundtrip_witness:
  "\<exists>js. marshal_spec script_env labelled_spec = Some js \<and>
     unmarshal_spec script_env js = Some labelled_spec"
  by (rule spec_text_roundtrip) (simp add: script_env_def labelled_printable)

subsection \<open>From a create to a get\<close>

text \<open>C40. What a client posts is what it gets: the instance in the 201 answer of a create holds the
  spec of the request, and a GET of the id in that answer, right after it, finds the instance and
  returns that spec too (or 500 when the database fails), although both are decoded from the text
  in the row, and although the row may be the reserved one when the last update failed.\<close>

theorem created_spec_is_read_back:
  assumes "gorm_db G R" and "status_publisher P"
    and "spec_printable (env_float E) (ci_Spec b)"
    and "CreateInstance E (app_handler G E C P ck) c pid (Some b) w = (OkInstance code ci, w1)"
    and "ci_Id ci = Some k"
    and "GetInstance E (app_handler G E C P ck) k w1 = (resp, w2)"
  shows "ci_Spec ci = ci_Spec b \<and>
    (resp = internal_error ''failed to retrieve instance'' \<or>
     (\<exists>ci2. resp = OkInstance 200 ci2 \<and> ci_Id ci2 = Some k \<and> ci_Spec ci2 = ci_Spec b))"
proof -
  note h = handlers.CreateInstance_created [OF app_handlers [OF assms(1,2)] assms(4)]
  then obtain js i u r where cr: "create_checks E (Some b) = Inr (ci_Spec b, js)"
      "marshal_spec E (ci_Spec b) = Some js"
      "reserved_row (ci_Spec b) js i" "provisioned i u r" "ci = toAPICostInstance E r"
      "R (db w1) = (R (db w))(ID r \<mapsto> r) \<or> R (db w1) = (R (db w))(ID r \<mapsto> i)"
    using create_checks_spec by fastforce
  have js: "SpecJSON r = js" "SpecJSON i = js"
    using reserved_row_fields(7) [OF cr(3)] provisioned_fields(6) [OF cr(4)] by simp_all
  have k: "ID r = k" using assms(5) cr(5) by (simp add: toAPICostInstance_def)
  obtain row where row: "R (db w1) k = Some row" "row = r \<or> row = i" using cr(6) k by auto
  then have "ci_Spec (toAPICostInstance E row) = ci_Spec b"
    using shown_spec [OF assms(3)] cr(2) js by auto
  moreover have "ci_Id (toAPICostInstance E row) = Some k"
    using row(2) k provisioned_fields(1) [OF cr(4)] by (auto simp: toAPICostInstance_def)
  moreover have "resp = OkInstance 200 (toAPICostInstance E row) \<or>
      resp = internal_error ''failed to retrieve instance''"
    using handlers.GetInstance_spec [OF app_handlers [OF assms(1,2)] assms(6)] row(1)
    by (auto simp: lookup_error_def) (metis store_error.exhaust store_error.simps)
  moreover have "ci_Spec ci = ci_Spec b" using shown_spec [OF assms(3)] cr(2,5) js by simp
  ultimately show ?thesis by blast
qed

text \<open>A run that creates an instance and gets it.\<close>

lemma run_create_get:
  "\<exists>w1. CreateInstance script_env script_handler c None (sample_body (sample_spec ''c1'' None []))
      (start [] [] [answer 201 (uuid_body ''s1'')]) =
      (OkInstance 201 (toAPICostInstance script_env created_row), w1) \<and>
    fst (GetInstance script_env script_handler ''new-id'' w1) =
      OkInstance 200 (toAPICostInstance script_env created_row)"
  by (simp add: CreateInstance_def sample_ok run_reserve create_provision_def
      script_CreateSource [where rest = "[]"] uuid_decoded create_cost_model_def create_finish_def
      script_Update script_publish target_clash_def mem_table_def GetInstance_def script_find)
    (simp add: stamp_new_def new_instance_def created_row_def)

theorem created_spec_is_read_back_witness:
  "\<exists>w1. CreateInstance script_env script_handler (Ctx 0) None
      (sample_body (sample_spec ''c1'' None [])) (start [] [] [answer 201 (uuid_body ''s1'')]) =
      (OkInstance 201 (toAPICostInstance script_env created_row), w1) \<and>
    fst (GetInstance script_env script_handler ''new-id'' w1) =
      OkInstance 200 (toAPICostInstance script_env created_row) \<and>
    ci_Spec (toAPICostInstance script_env created_row) = sample_spec ''c1'' None []"
proof -
  let ?ci = "toAPICostInstance script_env created_row"
  obtain w1 where run: "CreateInstance script_env script_handler (Ctx 0) None
      (sample_body (sample_spec ''c1'' None [])) (start [] [] [answer 201 (uuid_body ''s1'')]) =
      (OkInstance 201 ?ci, w1)"
    and get: "fst (GetInstance script_env script_handler ''new-id'' w1) = OkInstance 200 ?ci"
    using run_create_get by blast
  have spec: "spec_printable (env_float script_env) (sample_spec ''c1'' None [])"
    by (simp add: spec_printable_def spec_wf_def sample_spec_def zero_spec_def zero_metadata_def
        zero_target_def enc_spec_def enc_metadata_def enc_target_def enc_opt_def utf8_valid.simps
        in_range_def)
  have "ci_Id ?ci = Some ''new-id''" by (simp add: toAPICostInstance_def created_row_def)
  from created_spec_is_read_back [OF mem_contract nats_contract _ run [unfolded script_handler_def sample_body_def]
      this prod.collapse [symmetric]] spec
  have "ci_Spec ?ci = sample_spec ''c1'' None []" by simp
  then show ?thesis using run get by blast
qed

end
