(* ===== verification/NetUrl.thy ===== *)
theory NetUrl
  imports Json
begin

text \<open>
  The part of \<open>net/url\<close> that the generated client uses: percent encoding, parsing, reference
  resolution, printing, and query strings. An authority (user info and host) is kept as the text
  that \<open>URL.String\<close> prints for it: the client never looks inside, so that its grammar is a
  parameter (\<open>authority_parser\<close>), which yields an error or that text.
\<close>

subsection \<open>Percent encoding\<close>

datatype encoding = EncodePath | EncodePathSegment | EncodeQueryComponent | EncodeFragment

definition reserved :: "char \<Rightarrow> bool" where
  "reserved c \<longleftrightarrow> c \<in> set ''$&+,/:;=?@''"

definition should_escape :: "encoding \<Rightarrow> char \<Rightarrow> bool" where
  "should_escape m c =
     (if url_unreserved c then False
      else if reserved c then
        (case m of
           EncodePath \<Rightarrow> c = CHR ''?''
         | EncodePathSegment \<Rightarrow> c \<in> set ''/;,?''
         | EncodeQueryComponent \<Rightarrow> True
         | EncodeFragment \<Rightarrow> False)
      else if m = EncodeFragment \<and> c \<in> set ''!()*'' then False
      else True)"

definition percent :: "char \<Rightarrow> string" where
  "percent c = [CHR ''%'', hex_digit (of_char c div 16), hex_digit (of_char c mod 16)]"

fun escape :: "encoding \<Rightarrow> string \<Rightarrow> string" where
  "escape m [] = []"
| "escape m (c # cs) =
     (if should_escape m c
      then (if c = CHR '' '' \<and> m = EncodeQueryComponent then [CHR ''+''] else percent c)
      else [c]) @ escape m cs"

definition escape_error :: "string \<Rightarrow> string" where
  "escape_error s = ''invalid URL escape '' @ quote (take 3 s)"

fun unescape :: "encoding \<Rightarrow> string \<Rightarrow> string + string" where
  "unescape m [] = Inr []"
| "unescape m (c # cs) =
     (if c = CHR ''%'' then
        (case cs of
           a # b # r \<Rightarrow>
             (case (hex_val a, hex_val b) of
                (Some x, Some y) \<Rightarrow> map_sum id (\<lambda>t. char_of (x * 16 + y) # t) (unescape m r)
              | _ \<Rightarrow> Inl (escape_error (c # cs)))
         | _ \<Rightarrow> Inl (escape_error (c # cs)))
      else
        map_sum id
          (\<lambda>t. (if c = CHR ''+'' \<and> m = EncodeQueryComponent then CHR '' '' else c) # t)
          (unescape m cs))"

subsection \<open>URLs\<close>

record url =
  u_Scheme :: string
  u_Opaque :: string
  u_Authority :: string
  u_Path :: string
  u_RawPath :: string
  u_OmitHost :: bool
  u_ForceQuery :: bool
  u_RawQuery :: string
  u_Fragment :: string
  u_RawFragment :: string

type_synonym authority_parser = "string \<Rightarrow> string + string"

definition empty_url :: url where
  "empty_url = \<lparr>u_Scheme = [], u_Opaque = [], u_Authority = [], u_Path = [], u_RawPath = [],
     u_OmitHost = False, u_ForceQuery = False, u_RawQuery = [], u_Fragment = [], u_RawFragment = []\<rparr>"

text \<open>\<open>strings.Cut\<close> at a byte: what comes before it, what comes after, and whether it was found.\<close>

definition cut :: "char \<Rightarrow> string \<Rightarrow> string \<times> string \<times> bool" where
  "cut c s =
     (let a = takeWhile (\<lambda>x. x \<noteq> c) s
      in if c \<in> set s then (a, drop (Suc (length a)) s, True) else (s, [], False))"

definition is_ctl :: "char \<Rightarrow> bool" where
  "is_ctl c \<longleftrightarrow> (of_char c :: nat) < 32 \<or> (of_char c :: nat) = 127"

definition is_alpha :: "char \<Rightarrow> bool" where
  "is_alpha c \<longleftrightarrow> in_range 65 90 c \<or> in_range 97 122 c"

text \<open>\<open>getScheme\<close>, with the bytes read so far.\<close>

fun get_scheme :: "string \<Rightarrow> string \<Rightarrow> string + string \<times> string" where
  "get_scheme seen [] = Inr ([], seen)"
| "get_scheme seen (c # cs) =
     (if is_alpha c then get_scheme (seen @ [c]) cs
      else if is_digit c \<or> c \<in> set ''+-.'' then
        (if seen = [] then Inr ([], c # cs) else get_scheme (seen @ [c]) cs)
      else if c = CHR '':'' then
        (if seen = [] then Inl ''missing protocol scheme'' else Inr (seen, cs))
      else Inr ([], seen @ c # cs))"

definition set_path :: "string \<Rightarrow> url \<Rightarrow> string + url" where
  "set_path p u =
     map_sum id (\<lambda>path. u\<lparr>u_Path := path, u_RawPath := (if p = escape EncodePath path then [] else p)\<rparr>)
       (unescape EncodePath p)"

definition set_fragment :: "string \<Rightarrow> url \<Rightarrow> string + url" where
  "set_fragment f u =
     map_sum id
       (\<lambda>frag. u\<lparr>u_Fragment := frag, u_RawFragment := (if f = escape EncodeFragment frag then [] else f)\<rparr>)
       (unescape EncodeFragment f)"

definition valid_encoded :: "encoding \<Rightarrow> string \<Rightarrow> bool" where
  "valid_encoded m s \<longleftrightarrow>
     list_all (\<lambda>c. c \<in> set (''!$&()*+,;=:@[]%'' @ [CHR 0x27]) \<or> \<not> should_escape m c) s"

definition EscapedPath :: "url \<Rightarrow> string" where
  "EscapedPath u =
     (if u_RawPath u \<noteq> [] \<and> valid_encoded EncodePath (u_RawPath u) \<and>
         unescape EncodePath (u_RawPath u) = Inr (u_Path u) then u_RawPath u
      else if u_Path u = ''*'' then ''*''
      else escape EncodePath (u_Path u))"

definition EscapedFragment :: "url \<Rightarrow> string" where
  "EscapedFragment u =
     (if u_RawFragment u \<noteq> [] \<and> valid_encoded EncodeFragment (u_RawFragment u) \<and>
         unescape EncodeFragment (u_RawFragment u) = Inr (u_Fragment u) then u_RawFragment u
      else escape EncodeFragment (u_Fragment u))"

text \<open>The query: a question mark at the very end, the only one, is kept as \<open>ForceQuery\<close>.\<close>

definition split_query :: "string \<Rightarrow> string \<times> string \<times> bool" where
  "split_query rest =
     (let (a, q, found) = cut (CHR ''?'') rest
      in if found \<and> q = [] then (a, [], True) else (a, q, False))"

text \<open>After the scheme and the query: opaque, or an authority and a path.\<close>

definition parse_hier :: "authority_parser \<Rightarrow> url \<Rightarrow> string \<Rightarrow> string + url" where
  "parse_hier A u rest =
     (if \<not> has_prefix rest ''/'' \<and> u_Scheme u \<noteq> [] then Inr (u\<lparr>u_Opaque := rest\<rparr>)
      else if \<not> has_prefix rest ''/'' \<and> CHR '':'' \<in> set (fst (cut (CHR ''/'') rest))
      then Inl ''first path segment in URL cannot contain colon''
      else if (u_Scheme u \<noteq> [] \<or> \<not> has_prefix rest ''///'') \<and> has_prefix rest ''//'' then
        (let authority = takeWhile (\<lambda>c. c \<noteq> CHR ''/'') (drop 2 rest);
             path = dropWhile (\<lambda>c. c \<noteq> CHR ''/'') (drop 2 rest)
         in case A authority of
              Inl e \<Rightarrow> Inl e
            | Inr a \<Rightarrow> set_path path (u\<lparr>u_Authority := a\<rparr>))
      else set_path rest (u\<lparr>u_OmitHost := u_Scheme u \<noteq> [] \<and> has_prefix rest ''/''\<rparr>))"

definition parse_no_fragment :: "authority_parser \<Rightarrow> string \<Rightarrow> string + url" where
  "parse_no_fragment A raw =
     (if list_ex is_ctl raw then Inl ''net/url: invalid control character in URL''
      else if raw = ''*'' then Inr (empty_url\<lparr>u_Path := ''*''\<rparr>)
      else
        (case get_scheme [] raw of
           Inl e \<Rightarrow> Inl e
         | Inr (scheme, rest) \<Rightarrow>
             (let (rest', query, force) = split_query rest
              in parse_hier A
                   (empty_url\<lparr>u_Scheme := map lower scheme, u_RawQuery := query,
                      u_ForceQuery := force\<rparr>) rest')))"

definition url_error :: "string \<Rightarrow> string \<Rightarrow> string" where
  "url_error raw err = ''parse '' @ quote raw @ '': '' @ err"

text \<open>\<open>url.Parse\<close>.\<close>

definition url_parse :: "authority_parser \<Rightarrow> string \<Rightarrow> string + url" where
  "url_parse A raw =
     (let (u, frag, found) = cut (CHR ''#'') raw
      in case parse_no_fragment A u of
           Inl e \<Rightarrow> Inl (url_error u e)
         | Inr v \<Rightarrow>
             if frag = [] then Inr v else map_sum (url_error raw) id (set_fragment frag v))"

subsection \<open>Resolution\<close>

text \<open>
  The loop of \<open>resolvePath\<close> over the segments of the path: \<open>dst\<close> is the text written after the
  first slash, and \<open>first\<close> tells that the next segment needs no slash in front.
\<close>

definition up_to_slash :: "string \<Rightarrow> string" where
  "up_to_slash s = rev (drop 1 (dropWhile (\<lambda>c. c \<noteq> CHR ''/'') (rev s)))"

fun resolve_loop :: "string list \<Rightarrow> string \<Rightarrow> bool \<Rightarrow> string" where
  "resolve_loop [] dst first = dst"
| "resolve_loop (elem # rest) dst first =
     (if elem = ''.'' then resolve_loop rest dst False
      else if elem = ''..'' then
        (if CHR ''/'' \<in> set dst then resolve_loop rest (up_to_slash dst) first
         else resolve_loop rest [] True)
      else resolve_loop rest (dst @ (if first then [] else ''/'') @ elem) False)"

definition resolve_path :: "string \<Rightarrow> string \<Rightarrow> string" where
  "resolve_path base ref =
     (let full = (if ref = [] then base
                  else if \<not> has_prefix ref ''/''
                  then rev (dropWhile (\<lambda>c. c \<noteq> CHR ''/'') (rev base)) @ ref
                  else ref)
      in if full = [] then []
         else
           (let elems = split_on (CHR ''/'') full;
                dst = resolve_loop elems [] True;
                r = CHR ''/'' # (if last elems = ''.'' \<or> last elems = ''..'' then dst @ ''/'' else dst)
            in if has_prefix (tl r) ''/'' then tl r else r))"

text \<open>\<open>setPath\<close> in a place where the code ignores its error: the URL keeps its paths then.\<close>

definition set_path_or_keep :: "string \<Rightarrow> url \<Rightarrow> url" where
  "set_path_or_keep p u = (case set_path p u of Inl e \<Rightarrow> u | Inr v \<Rightarrow> v)"

definition ResolveReference :: "url \<Rightarrow> url \<Rightarrow> url" where
  "ResolveReference u ref =
     (let v = (if u_Scheme ref = [] then ref\<lparr>u_Scheme := u_Scheme u\<rparr> else ref)
      in if u_Scheme ref \<noteq> [] \<or> u_Authority ref \<noteq> []
         then set_path_or_keep (resolve_path (EscapedPath ref) []) v
         else if u_Opaque ref \<noteq> [] then v\<lparr>u_Authority := [], u_Path := []\<rparr>
         else
           (let same = u_Path ref = [] \<and> \<not> u_ForceQuery ref \<and> u_RawQuery ref = [];
                v1 = (if same then v\<lparr>u_RawQuery := u_RawQuery u\<rparr> else v);
                v2 = (if same \<and> u_Fragment ref = []
                      then v1\<lparr>u_Fragment := u_Fragment u, u_RawFragment := u_RawFragment u\<rparr> else v1)
            in if u_Path ref = [] \<and> u_Opaque u \<noteq> []
               then v2\<lparr>u_Opaque := u_Opaque u, u_Authority := [], u_Path := []\<rparr>
               else set_path_or_keep (resolve_path (EscapedPath u) (EscapedPath ref))
                      (v2\<lparr>u_Authority := u_Authority u\<rparr>)))"

text \<open>The method \<open>Parse\<close>.\<close>

definition url_Parse :: "authority_parser \<Rightarrow> url \<Rightarrow> string \<Rightarrow> string + url" where
  "url_Parse A u ref = map_sum id (ResolveReference u) (url_parse A ref)"

subsection \<open>Printing\<close>

definition has_host :: "string \<Rightarrow> bool" where
  "has_host a \<longleftrightarrow> a \<noteq> [] \<and> last a \<noteq> CHR ''@''"

definition url_String :: "url \<Rightarrow> string" where
  "url_String u =
     (let scheme = (if u_Scheme u = [] then [] else u_Scheme u @ '':'');
          authority =
            (if u_Opaque u \<noteq> [] \<or> u_Scheme u = [] \<and> u_Authority u = [] then []
             else if u_OmitHost u \<and> u_Authority u = [] then []
             else (if u_Authority u \<noteq> [] \<or> u_Path u \<noteq> [] then ''//'' else []) @ u_Authority u);
          path = EscapedPath u;
          sep = (if path \<noteq> [] \<and> \<not> has_prefix path ''/'' \<and> has_host (u_Authority u) then ''/'' else []);
          dot = (if scheme @ authority @ sep = [] \<and> CHR '':'' \<in> set (fst (cut (CHR ''/'') path))
                 then ''./'' else []);
          hier = (if u_Opaque u \<noteq> [] then u_Opaque u else authority @ sep @ dot @ path)
      in scheme @ hier @
         (if u_ForceQuery u \<or> u_RawQuery u \<noteq> [] then CHR ''?'' # u_RawQuery u else []) @
         (if u_Fragment u \<noteq> [] then CHR ''#'' # EscapedFragment u else []))"

subsection \<open>Query strings\<close>

text \<open>
  \<open>url.Values\<close> with several values for a key: the list of its entries, those of one key in their
  order. \<open>Add\<close> appends an entry, and \<open>values_encode\<close> sorts by key, keeping that order.
\<close>

definition values_add :: "string \<Rightarrow> string \<Rightarrow> url_values \<Rightarrow> url_values" where
  "values_add k v vs = vs @ [(k, v)]"

text \<open>
  \<open>ParseQuery\<close>: the entries that could be read, and an error: that of a semicolon if there is one,
  otherwise the first one.
\<close>

definition parse_pair :: "string \<Rightarrow> string + string \<times> string" where
  "parse_pair p =
     (let (k, v, found) = cut (CHR ''='') p
      in case unescape EncodeQueryComponent k of
           Inl e \<Rightarrow> Inl e
         | Inr k' \<Rightarrow> map_sum id (Pair k') (unescape EncodeQueryComponent v))"

definition semicolon_error :: string where
  "semicolon_error = ''invalid semicolon separator in query''"

fun parse_pairs :: "string list \<Rightarrow> url_values \<times> string option" where
  "parse_pairs [] = ([], None)"
| "parse_pairs (p # ps) =
     (let (vs, err) = parse_pairs ps
      in if CHR '';'' \<in> set p then (vs, Some semicolon_error)
         else if p = [] then (vs, err)
         else (case parse_pair p of
                 Inl e \<Rightarrow> (vs, if err = Some semicolon_error then err else Some e)
               | Inr kv \<Rightarrow> (kv # vs, err)))"

definition parse_query :: "string \<Rightarrow> url_values \<times> string option" where
  "parse_query q = parse_pairs (split_on (CHR ''&'') q)"

text \<open>The method \<open>Query\<close> drops the error.\<close>

definition url_Query :: "url \<Rightarrow> url_values" where
  "url_Query u = fst (parse_query (u_RawQuery u))"

subsection \<open>Encoding and decoding\<close>

lemma hex_val_hex_digit [simp]: "n < 16 \<Longrightarrow> hex_val (hex_digit n) = Some n"
  by (auto simp: hex_val_def hex_digit_def Let_def)

lemma percent_sign [simp]: "\<not> url_unreserved (CHR ''%'')" "\<not> reserved (CHR ''%'')"
  "\<not> url_unreserved (CHR '' '')" "\<not> url_unreserved (CHR ''+'')" "reserved (CHR ''+'')"
  by (simp_all add: url_unreserved_def reserved_def)

lemma of_char_div_16 [simp]: "of_char c div 16 < (16 :: nat)"
proof -
  have "(of_char c :: nat) < 256" by (rule nat_of_char_less_256)
  then show ?thesis by (simp add: less_mult_imp_div_less)
qed

lemma unescape_percent [simp]:
  "unescape m (percent c @ r) = map_sum id (\<lambda>t. c # t) (unescape m r)"
  by (simp add: percent_def)

text \<open>Decoding undoes encoding, in every mode.\<close>

lemma unescape_escape [simp]: "unescape m (escape m s) = Inr s"
proof (induction s)
  case (Cons c cs)
  show ?case
  proof (cases "should_escape m c")
    case True
    then show ?thesis using Cons by (auto simp: should_escape_def)
  next
    case False
    then have "c \<noteq> CHR ''%''" "\<not> (c = CHR ''+'' \<and> m = EncodeQueryComponent)"
      by (auto simp: should_escape_def)
    then show ?thesis using Cons False by auto
  qed
qed simp

lemma query_escape_eq: "query_escape s = escape EncodeQueryComponent s"
  by (induction s) (auto simp: should_escape_def percent_def)

text \<open>Text that no mode escapes.\<close>

definition plain_text :: "string \<Rightarrow> bool" where
  "plain_text s \<longleftrightarrow> list_all url_unreserved s"

lemma plain_text_simps [simp]: "plain_text []" "plain_text (c # cs) \<longleftrightarrow> url_unreserved c \<and> plain_text cs"
  "plain_text (s @ t) \<longleftrightarrow> plain_text s \<and> plain_text t"
  by (simp_all add: plain_text_def)

lemma plain_escape: "plain_text s \<Longrightarrow> escape m s = s"
  by (induction s) (simp_all add: should_escape_def)

text \<open>What an encoded query holds: unreserved characters, plus and percent signs.\<close>

lemma hex_digit_plain: "n < 16 \<Longrightarrow> url_unreserved (hex_digit n)"
  by (auto simp: url_unreserved_def hex_digit_def Let_def)

lemma query_escape_chars:
  "c \<in> set (escape EncodeQueryComponent s) \<Longrightarrow> url_unreserved c \<or> c = CHR ''+'' \<or> c = CHR ''%''"
proof (induction s)
  case (Cons x xs)
  then show ?case using Cons hex_digit_plain
    by (auto simp: should_escape_def percent_def split: if_splits)
qed simp

lemma query_escape_no:
  assumes "c \<in> set ''&=;#?/: ''"
  shows "c \<notin> set (escape EncodeQueryComponent s)"
proof
  assume "c \<in> set (escape EncodeQueryComponent s)"
  then show False using query_escape_chars [of c s] assms by (auto simp: url_unreserved_def)
qed

lemma cut_found: "c \<notin> set a \<Longrightarrow> cut c (a @ c # b) = (a, b, True)"
  by (induction a) (auto simp: cut_def Let_def)

lemma cut_none: "c \<notin> set a \<Longrightarrow> cut c a = (a, [], False)"
  by (simp add: cut_def)

lemma parse_pair_encoded:
  "parse_pair (query_escape k @ ''='' @ query_escape v) = Inr (k, v)"
  using cut_found [OF query_escape_no [of "CHR ''=''" k]] by (simp add: parse_pair_def query_escape_eq)

lemma parse_pairs_encoded:
  "parse_pairs (map (\<lambda>(k, v). query_escape k @ ''='' @ query_escape v) vs) = (vs, None)"
proof (induction vs)
  case (Cons e vs)
  obtain k v where e: "e = (k, v)" by fastforce
  have "CHR '';'' \<notin> set (query_escape k @ ''='' @ query_escape v)"
    using query_escape_no [of "CHR '';''"] by (simp add: query_escape_eq)
  then show ?case using Cons e parse_pair_encoded [of k v] by simp
qed simp

lemma parse_query_encode [simp]: "parse_query (values_encode vs) = (sort_key fst vs, None)"
proof (cases "vs = []")
  case False
  have "split_on (CHR ''&'') (values_encode vs) =
      map (\<lambda>(k, v). query_escape k @ ''='' @ query_escape v) (sort_key fst vs)"
    unfolding values_encode_def
  proof (rule split_join)
    show "map (\<lambda>(k, v). query_escape k @ ''='' @ query_escape v) (sort_key fst vs) \<noteq> []"
      using False by (metis length_0_conv length_map length_sort)
    show "\<forall>p \<in> set (map (\<lambda>(k, v). query_escape k @ ''='' @ query_escape v) (sort_key fst vs)).
        CHR ''&'' \<notin> set p"
      using query_escape_no [of "CHR ''&''"] by (auto simp: query_escape_eq)
  qed
  then show ?thesis by (simp only: parse_query_def parse_pairs_encoded)
qed (simp add: values_encode_def parse_query_def)

subsection \<open>Plain URLs\<close>

text \<open>
  URLs of a site: a scheme of lower-case letters, an authority, a path of unreserved characters
  and slashes, and a query. They are parsed, printed and resolved without any escaping.
\<close>

definition plain_path :: "string \<Rightarrow> bool" where
  "plain_path p \<longleftrightarrow> list_all (\<lambda>c. url_unreserved c \<or> c = CHR ''/'') p"

definition query_text :: "string \<Rightarrow> bool" where
  "query_text q \<longleftrightarrow> list_all (\<lambda>c. c \<noteq> CHR ''#'' \<and> \<not> is_ctl c) q"

definition site :: "authority_parser \<Rightarrow> string \<Rightarrow> string \<Rightarrow> bool" where
  "site A sch auth \<longleftrightarrow> sch \<noteq> [] \<and> list_all (in_range 97 122) sch \<and> has_host auth \<and>
     list_all (\<lambda>c. c \<noteq> CHR ''/'' \<and> c \<noteq> CHR ''?'' \<and> c \<noteq> CHR ''#'' \<and> \<not> is_ctl c) auth \<and>
     A auth = Inr auth"

definition site_url :: "string \<Rightarrow> string \<Rightarrow> string \<Rightarrow> string \<Rightarrow> url" where
  "site_url sch auth path q =
     empty_url\<lparr>u_Scheme := sch, u_Authority := auth, u_Path := path, u_RawQuery := q\<rparr>"

definition query_suffix :: "string \<Rightarrow> string" where
  "query_suffix q = (if q = [] then [] else CHR ''?'' # q)"

lemma plain_path_simps [simp]: "plain_path []"
  "plain_path (c # cs) \<longleftrightarrow> (url_unreserved c \<or> c = CHR ''/'') \<and> plain_path cs"
  "plain_path (s @ t) \<longleftrightarrow> plain_path s \<and> plain_path t"
  by (simp_all add: plain_path_def)

lemma plain_text_path: "plain_text s \<Longrightarrow> plain_path s"
  by (simp add: plain_text_def plain_path_def list_all_iff)

lemma is_ctl_marks [simp]: "\<not> is_ctl (CHR ''?'')" "\<not> is_ctl (CHR '':'')" "\<not> is_ctl (CHR ''/'')"
  by (simp_all add: is_ctl_def)

lemma plain_path_char:
  assumes "plain_path p" and "c \<in> set p"
  shows "c \<notin> set ''?#%:'' \<and> \<not> is_ctl c"
  using assms by (auto simp: plain_path_def list_all_iff url_unreserved_def is_ctl_def Let_def)

lemma escape_plain_path: "plain_path p \<Longrightarrow> escape EncodePath p = p"
  by (induction p) (auto simp: should_escape_def reserved_def)

lemma unescape_plain_path: "plain_path p \<Longrightarrow> unescape EncodePath p = Inr p"
  using unescape_escape [of EncodePath p] by (simp add: escape_plain_path)

lemma set_path_plain: "plain_path p \<Longrightarrow> set_path p u = Inr (u\<lparr>u_Path := p, u_RawPath := []\<rparr>)"
  by (simp add: set_path_def unescape_plain_path escape_plain_path)

lemma EscapedPath_plain: "u_RawPath u = [] \<Longrightarrow> plain_path (u_Path u) \<Longrightarrow> EscapedPath u = u_Path u"
  by (auto simp: EscapedPath_def escape_plain_path url_unreserved_def)

lemma get_scheme_letters:
  "list_all (in_range 97 122) sch \<Longrightarrow> seen @ sch \<noteq> [] \<Longrightarrow>
   get_scheme seen (sch @ CHR '':'' # r) = Inr (seen @ sch, r)"
proof (induction sch arbitrary: seen)
  case Nil
  then show ?case by (simp add: is_alpha_def in_range_def is_digit_def)
next
  case (Cons c cs)
  then show ?case by (simp add: is_alpha_def)
qed

lemma lower_letters: "list_all (in_range 97 122) s \<Longrightarrow> map lower s = s"
  by (induction s) (auto simp: lower_def in_range_def)

lemma letter_char: "in_range 97 122 c \<Longrightarrow> c \<notin> set ''#?:'' \<and> \<not> is_ctl c"
  by (auto simp: in_range_def is_ctl_def)

lemma query_suffix_char:
  assumes "query_text q" and "c \<in> set (query_suffix q)"
  shows "c \<noteq> CHR ''#'' \<and> \<not> is_ctl c"
proof (cases "c = CHR ''?''")
  case False
  then have "c \<in> set q" using assms(2) by (simp add: query_suffix_def split: if_splits)
  then show ?thesis using assms(1) unfolding query_text_def list_all_iff by blast
qed simp

lemma split_query_suffix:
  assumes "CHR ''?'' \<notin> set a"
  shows "split_query (a @ query_suffix q) = (a, q, False)"
  using cut_found [OF assms, of q] cut_none [OF assms]
  by (auto simp: split_query_def query_suffix_def)

lemma parse_site:
  assumes "site A sch auth" and "plain_path p" and "has_prefix p ''/''" and "query_text q"
  shows "url_parse A (sch @ ''://'' @ auth @ p @ query_suffix q) = Inr (site_url sch auth p q)"
proof -
  let ?raw = "sch @ ''://'' @ auth @ p @ query_suffix q"
  have sch: "sch \<noteq> []" "list_all (in_range 97 122) sch"
    and auth: "list_all (\<lambda>c. c \<noteq> CHR ''/'' \<and> c \<noteq> CHR ''?'' \<and> c \<noteq> CHR ''#'' \<and> \<not> is_ctl c) auth"
      "A auth = Inr auth"
    using assms(1) by (simp_all add: site_def)
  have chars: "c \<noteq> CHR ''#'' \<and> \<not> is_ctl c" if "c \<in> set ?raw" for c
  proof -
    have "c \<in> set sch \<or> c \<in> set ''://'' \<or> c \<in> set auth \<or> c \<in> set p \<or> c \<in> set (query_suffix q)"
      using that by auto
    moreover have "c \<in> set sch \<Longrightarrow> c \<noteq> CHR ''#'' \<and> \<not> is_ctl c"
      using sch(2) letter_char [of c] by (simp add: list_all_iff)
    moreover have "c \<in> set ''://'' \<Longrightarrow> c \<noteq> CHR ''#'' \<and> \<not> is_ctl c" by auto
    moreover have "c \<in> set auth \<Longrightarrow> c \<noteq> CHR ''#'' \<and> \<not> is_ctl c"
      using auth(1) by (simp add: list_all_iff)
    moreover have "c \<in> set p \<Longrightarrow> c \<noteq> CHR ''#'' \<and> \<not> is_ctl c"
      using plain_path_char [OF assms(2)] by simp
    moreover have "c \<in> set (query_suffix q) \<Longrightarrow> c \<noteq> CHR ''#'' \<and> \<not> is_ctl c"
      using assms(4) by (rule query_suffix_char)
    ultimately show ?thesis by blast
  qed
  then have hash: "cut (CHR ''#'') ?raw = (?raw, [], False)" by (intro cut_none) blast
  have ctl: "\<not> list_ex is_ctl ?raw" using chars by (simp only: list_ex_iff) blast
  have star: "?raw \<noteq> ''*''" using sch by (cases sch) (auto simp: in_range_def)
  have scheme: "get_scheme [] ?raw = Inr (sch, ''//'' @ auth @ p @ query_suffix q)"
    using get_scheme_letters [OF sch(2), of "[]"] sch(1) by simp
  have "CHR ''?'' \<notin> set (''//'' @ auth @ p)"
    using auth(1) plain_path_char [OF assms(2), of "CHR ''?''"] by (auto simp: list_all_iff)
  from split_query_suffix [OF this, of q]
  have query: "split_query (''//'' @ auth @ p @ query_suffix q) = (''//'' @ auth @ p, q, False)" by simp
  obtain t where p: "p = CHR ''/'' # t" using assms(3) by (auto simp: has_prefix_iff)
  have split: "takeWhile (\<lambda>c. c \<noteq> CHR ''/'') (auth @ p) = auth" "dropWhile (\<lambda>c. c \<noteq> CHR ''/'') (auth @ p) = p"
    using auth(1) p by (induction auth) auto
  have "parse_hier A (empty_url\<lparr>u_Scheme := sch, u_RawQuery := q\<rparr>) (''//'' @ auth @ p) =
      Inr (site_url sch auth p q)"
    using sch(1) auth(2) split set_path_plain [OF assms(2)]
    by (simp add: parse_hier_def has_prefix_def Let_def) (simp add: site_url_def empty_url_def)
  moreover have "empty_url\<lparr>u_Scheme := sch, u_RawQuery := q, u_ForceQuery := False\<rparr> =
      empty_url\<lparr>u_Scheme := sch, u_RawQuery := q\<rparr>" by (simp add: empty_url_def)
  ultimately have "parse_no_fragment A ?raw = Inr (site_url sch auth p q)"
    using ctl star scheme query lower_letters [OF sch(2)] by (simp add: parse_no_fragment_def)
  then show ?thesis using hash by (simp add: url_parse_def)
qed

lemma print_site:
  assumes "site A sch auth" and "plain_path p" and "has_prefix p ''/''"
  shows "url_String (site_url sch auth p q) = sch @ ''://'' @ auth @ p @ query_suffix q"
  using assms EscapedPath_plain [of "site_url sch auth p q"]
  by (auto simp: url_String_def Let_def site_url_def empty_url_def site_def has_host_def query_suffix_def)

text \<open>A reference that starts with \<open>./\<close> and has plain segments.\<close>

lemma parse_dot_ref:
  assumes "plain_path p"
  shows "url_parse A (''./'' @ p) = Inr (empty_url\<lparr>u_Path := ''./'' @ p\<rparr>)"
proof -
  let ?raw = "''./'' @ p"
  have plain: "plain_path ?raw" using assms by (simp add: url_unreserved_def)
  have "cut (CHR ''#'') ?raw = (?raw, [], False)"
    using plain_path_char [OF plain, of "CHR ''#''"] by (intro cut_none) auto
  moreover have "\<not> list_ex is_ctl ?raw" using plain_path_char [OF plain] by (simp only: list_ex_iff) blast
  moreover have "split_query (?raw @ query_suffix []) = (?raw, [], False)"
    using plain_path_char [OF plain, of "CHR ''?''"] by (intro split_query_suffix) auto
  moreover have "get_scheme [] ?raw = Inr ([], ?raw)"
    by (simp add: is_alpha_def in_range_def)
  moreover have "parse_hier A empty_url ?raw = Inr (empty_url\<lparr>u_Path := ?raw\<rparr>)"
    using set_path_plain [OF plain]
    by (simp add: parse_hier_def has_prefix_def cut_def Let_def) (simp add: empty_url_def)
  moreover have "empty_url\<lparr>u_Scheme := [], u_RawQuery := [], u_ForceQuery := False\<rparr> = empty_url"
    by (simp add: empty_url_def)
  ultimately show ?thesis
    by (simp add: url_parse_def parse_no_fragment_def query_suffix_def)
qed

definition segment :: "string \<Rightarrow> bool" where
  "segment e \<longleftrightarrow> plain_text e \<and> e \<noteq> [] \<and> e \<noteq> ''.'' \<and> e \<noteq> ''..''"

lemma resolve_segments:
  "list_all segment es \<Longrightarrow> resolve_loop es dst False = dst @ concat (map (\<lambda>e. CHR ''/'' # e) es)"
  by (induction es arbitrary: dst) (auto simp: segment_def)

lemma join_slash: "es \<noteq> [] \<Longrightarrow> CHR ''/'' # join_with ''/'' es = concat (map (\<lambda>e. CHR ''/'' # e) es)"
  by (induction "''/''" es rule: join_with.induct) auto

lemma plain_text_no_slash: "plain_text e \<Longrightarrow> CHR ''/'' \<notin> set e"
  by (induction e) (auto simp: url_unreserved_def)

lemma resolve_dot_ref:
  assumes "list_all segment es" and "es \<noteq> []"
  shows "resolve_path ''/'' (''./'' @ join_with ''/'' es) = CHR ''/'' # join_with ''/'' es"
proof -
  have "\<forall>e \<in> set es. CHR ''/'' \<notin> set e"
    using assms(1) plain_text_no_slash by (auto simp: list_all_iff segment_def)
  then have split: "split_on (CHR ''/'') (''/./'' @ join_with ''/'' es) = [[], ''.''] @ es"
    using split_join [OF assms(2), of "CHR ''/''"] by simp
  have "last es \<noteq> ''.'' \<and> last es \<noteq> ''..''"
    using assms by (auto simp: list_all_iff segment_def)
  moreover have "resolve_loop es [] False = CHR ''/'' # join_with ''/'' es"
    using resolve_segments [OF assms(1), of "[]"] join_slash [OF assms(2)] by simp
  moreover have "has_prefix (''./'' @ x) ''/'' = False" for x by (simp add: has_prefix_def)
  ultimately show ?thesis
    using split assms(2) by (simp add: resolve_path_def Let_def) (simp add: has_prefix_def)
qed

lemma plain_path_join: "list_all plain_text es \<Longrightarrow> plain_path (join_with ''/'' es)"
  by (induction "''/''" es rule: join_with.induct) (auto simp: plain_text_path)

text \<open>Resolving such a reference against the root of a site appends its segments.\<close>

lemma resolve_site:
  assumes "list_all segment es" and "es \<noteq> []"
  shows "url_Parse A (site_url sch auth ''/'' []) (''./'' @ join_with ''/'' es) =
    Inr (site_url sch auth (CHR ''/'' # join_with ''/'' es) [])"
proof -
  have plain: "plain_path (join_with ''/'' es)"
    using assms(1) by (intro plain_path_join) (auto simp: list_all_iff segment_def)
  let ?ref = "empty_url\<lparr>u_Path := ''./'' @ join_with ''/'' es\<rparr>"
  have "EscapedPath ?ref = ''./'' @ join_with ''/'' es"
    using plain EscapedPath_plain [of ?ref] by (simp add: empty_url_def url_unreserved_def)
  moreover have "EscapedPath (site_url sch auth ''/'' []) = ''/''"
    using EscapedPath_plain [of "site_url sch auth ''/'' []"] by (simp add: site_url_def empty_url_def)
  moreover have "set_path (CHR ''/'' # join_with ''/'' es) u =
      Inr (u\<lparr>u_Path := CHR ''/'' # join_with ''/'' es, u_RawPath := []\<rparr>)" for u
    using plain by (intro set_path_plain) simp
  ultimately show ?thesis
    using parse_dot_ref [OF plain, of A] resolve_dot_ref [OF assms]
    by (simp add: url_Parse_def ResolveReference_def set_path_or_keep_def Let_def)
      (simp add: site_url_def empty_url_def)
qed

end
