(* ===== verification/ApiClient.thy ===== *)
theory ApiClient
  imports ApiEncode NetUrl
begin

text \<open>
  The generated client of the provider's API, \<open>pkg/client/client.gen.go\<close>: building requests,
  request editors, sending, and parsing responses. The state \<open>'s\<close> is whatever the caller's \<open>Doer\<close>
  and editors act on. \<open>StyleParamWithOptions\<close> (\<open>oapi-codegen/runtime\<close>) is the parameter
  \<open>param_style\<close>, at the types in use.
\<close>

subsection \<open>Requests and responses\<close>

record client_request =
  cr_Method :: string
  cr_URL :: url
  cr_Header :: "(string \<times> string) list"
  cr_Body :: "(string \<times> string option) option"
  cr_ctx :: "ctx option"

text \<open>The body of a response is the bytes that can be read and the error, if any, that ends them.\<close>

record client_response =
  cs_StatusCode :: int
  cs_Status :: string
  cs_Header :: "(string \<times> string) list"
  cs_Body :: "string \<times> string option"

definition header_get :: "(string \<times> string) list \<Rightarrow> string \<Rightarrow> string" where
  "header_get hs k = (case map_of hs k of None \<Rightarrow> [] | Some v \<Rightarrow> v)"

text \<open>\<open>http.NewRequest\<close> with a method that is valid. A port that is empty is cut off.\<close>

definition remove_empty_port :: "string \<Rightarrow> string" where
  "remove_empty_port a = (if a \<noteq> [] \<and> last a = CHR '':'' then butlast a else a)"

definition http_NewRequest ::
  "authority_parser \<Rightarrow> string \<Rightarrow> string \<Rightarrow> (string \<times> string option) option \<Rightarrow>
   string + client_request" where
  "http_NewRequest A meth rawURL body =
     map_sum id
       (\<lambda>u. \<lparr>cr_Method = meth, cr_URL = u\<lparr>u_Authority := remove_empty_port (u_Authority u)\<rparr>,
          cr_Header = [], cr_Body = body, cr_ctx = None\<rparr>)
       (url_parse A rawURL)"

record param_style =
  sp_path_string :: "string \<Rightarrow> string \<Rightarrow> string + string"
  sp_query_string :: "string \<Rightarrow> string \<Rightarrow> string + string"
  sp_query_int32 :: "string \<Rightarrow> int \<Rightarrow> string + string"
  sp_query_date :: "string \<Rightarrow> api_date \<Rightarrow> string + string"

record client_lib =
  lb_authority :: authority_parser
  lb_style :: param_style

text \<open>An error ends the function; otherwise the rest goes on with the value.\<close>

definition or_fail :: "'e + 'a \<Rightarrow> ('a \<Rightarrow> 'e + 'b) \<Rightarrow> 'e + 'b" where
  "or_fail x rest = (case x of Inl err \<Rightarrow> Inl err | Inr v \<Rightarrow> rest v)"

lemma or_fail_simps [simp]: "or_fail (Inl err) rest = Inl err" "or_fail (Inr v) rest = rest v"
  by (simp_all add: or_fail_def)

subsection \<open>The client\<close>

type_synonym 's request_editor =
  "ctx \<Rightarrow> client_request \<Rightarrow> 's \<Rightarrow> (string + client_request) \<times> 's"

type_synonym 's doer = "client_request \<Rightarrow> 's \<Rightarrow> (string + client_response) \<times> 's"

record 's api_client =
  cl_Server :: string
  cl_Client :: "'s doer option"
  cl_RequestEditors :: "'s request_editor list"

type_synonym 's client_option = "'s api_client \<Rightarrow> string + 's api_client"

fun apply_options :: "'s client_option list \<Rightarrow> 's api_client \<Rightarrow> string + 's api_client" where
  "apply_options [] c = Inr c"
| "apply_options (opt # opts) c = or_fail (opt c) (apply_options opts)"

text \<open>\<open>NewClient\<close>; \<open>dflt\<close> is the zero \<open>http.Client\<close>.\<close>

definition client_NewClient ::
  "'s doer \<Rightarrow> string \<Rightarrow> 's client_option list \<Rightarrow> string + 's api_client" where
  "client_NewClient dflt server opts =
     or_fail (apply_options opts \<lparr>cl_Server = server, cl_Client = None, cl_RequestEditors = []\<rparr>)
       (\<lambda>c. let c1 = (if rev (take 1 (rev (cl_Server c))) = ''/'' then c
                     else c\<lparr>cl_Server := cl_Server c @ ''/''\<rparr>)
            in Inr (if cl_Client c1 = None then c1\<lparr>cl_Client := Some dflt\<rparr> else c1))"

definition WithHTTPClient :: "'s doer \<Rightarrow> 's client_option" where
  "WithHTTPClient doer c = Inr (c\<lparr>cl_Client := Some doer\<rparr>)"

definition WithRequestEditorFn :: "'s request_editor \<Rightarrow> 's client_option" where
  "WithRequestEditorFn fn c = Inr (c\<lparr>cl_RequestEditors := cl_RequestEditors c @ [fn]\<rparr>)"

definition WithBaseURL :: "authority_parser \<Rightarrow> string \<Rightarrow> 's client_option" where
  "WithBaseURL A baseURL c =
     or_fail (url_parse A baseURL) (\<lambda>newBaseURL. Inr (c\<lparr>cl_Server := url_String newBaseURL\<rparr>))"

fun run_editors ::
  "ctx \<Rightarrow> 's request_editor list \<Rightarrow> client_request \<Rightarrow> 's \<Rightarrow> (string + client_request) \<times> 's" where
  "run_editors ctx [] req s = (Inr req, s)"
| "run_editors ctx (r # rs) req s =
     (case r ctx req s of
        (Inl err, s1) \<Rightarrow> (Inl err, s1)
      | (Inr req1, s1) \<Rightarrow> run_editors ctx rs req1 s1)"

definition applyEditors ::
  "'s api_client \<Rightarrow> ctx \<Rightarrow> client_request \<Rightarrow> 's request_editor list \<Rightarrow> 's \<Rightarrow>
   (string + client_request) \<times> 's" where
  "applyEditors c ctx req additionalEditors s =
     run_editors ctx (cl_RequestEditors c @ additionalEditors) req s"

subsection \<open>Building requests\<close>

text \<open>The path of an operation is made relative, so that it is appended to the server's.\<close>

definition relative_path :: "string \<Rightarrow> string" where
  "relative_path p = (if has_prefix p ''/'' then CHR ''.'' # p else p)"

definition operation_url :: "client_lib \<Rightarrow> string \<Rightarrow> string \<Rightarrow> string + url" where
  "operation_url L server operationPath =
     or_fail (url_parse (lb_authority L) server)
       (\<lambda>serverURL. url_Parse (lb_authority L) serverURL (relative_path operationPath))"

text \<open>
  A styled fragment is parsed as a query, and its entries are added. Go visits the keys of the
  parsed map in any order; entries of different keys do not affect each other.
\<close>

definition add_fragment :: "string + string \<Rightarrow> url_values \<Rightarrow> string + url_values" where
  "add_fragment styled queryValues =
     or_fail styled (\<lambda>queryFrag.
       case parse_query queryFrag of
         (parsed, Some err) \<Rightarrow> Inl err
       | (parsed, None) \<Rightarrow> Inr (fold (\<lambda>(k, v). values_add k v) parsed queryValues))"

definition query_param ::
  "(string \<Rightarrow> 'a \<Rightarrow> string + string) \<Rightarrow> string \<Rightarrow> 'a option \<Rightarrow> url_values \<Rightarrow> string + url_values" where
  "query_param style name p queryValues =
     (case p of None \<Rightarrow> Inr queryValues | Some v \<Rightarrow> add_fragment (style name v) queryValues)"

definition with_query :: "url \<Rightarrow> url_values \<Rightarrow> url" where
  "with_query queryURL queryValues = queryURL\<lparr>u_RawQuery := values_encode queryValues\<rparr>"

definition bodyless ::
  "client_lib \<Rightarrow> string \<Rightarrow> url \<Rightarrow> string + client_request" where
  "bodyless L meth queryURL = http_NewRequest (lb_authority L) meth (url_String queryURL) None"

definition NewListInstancesRequest ::
  "client_lib \<Rightarrow> string \<Rightarrow> list_params option \<Rightarrow> string + client_request" where
  "NewListInstancesRequest L server params =
     or_fail (operation_url L server ''/api/v1alpha1/instances'') (\<lambda>queryURL.
     or_fail
       (case params of
          None \<Rightarrow> Inr queryURL
        | Some p \<Rightarrow>
            or_fail (query_param (sp_query_string (lb_style L)) ''page_token'' (PageToken p)
              (url_Query queryURL)) (\<lambda>vs.
            or_fail (query_param (sp_query_int32 (lb_style L)) ''max_page_size'' (MaxPageSize p) vs)
              (\<lambda>vs. Inr (with_query queryURL vs)))) (\<lambda>queryURL.
     bodyless L ''GET'' queryURL))"

definition NewCreateInstanceRequestWithBody ::
  "client_lib \<Rightarrow> string \<Rightarrow> string option option \<Rightarrow> string \<Rightarrow> (string \<times> string option) option \<Rightarrow>
   string + client_request" where
  "NewCreateInstanceRequestWithBody L server params contentType body =
     or_fail (operation_url L server ''/api/v1alpha1/instances'') (\<lambda>queryURL.
     or_fail
       (case params of
          None \<Rightarrow> Inr queryURL
        | Some k \<Rightarrow>
            or_fail (query_param (sp_query_string (lb_style L)) ''id'' k (url_Query queryURL))
              (\<lambda>vs. Inr (with_query queryURL vs))) (\<lambda>queryURL.
     or_fail (http_NewRequest (lb_authority L) ''POST'' (url_String queryURL) body) (\<lambda>req.
     Inr (req\<lparr>cr_Header := cr_Header req @ [(''Content-Type'', contentType)]\<rparr>))))"

definition marshal_instance :: "'x env \<Rightarrow> api_cost_instance \<Rightarrow> string + string" where
  "marshal_instance E i =
     (let j = enc_cost_instance i
      in if instance_encodable i \<and> json_finite j then Inr (print_json (env_float E) j)
         else Inl (env_marshal_err E j))"

definition NewCreateInstanceRequest ::
  "'x env \<Rightarrow> client_lib \<Rightarrow> string \<Rightarrow> string option option \<Rightarrow> api_cost_instance \<Rightarrow>
   string + client_request" where
  "NewCreateInstanceRequest E L server params body =
     or_fail (marshal_instance E body) (\<lambda>buf.
     NewCreateInstanceRequestWithBody L server params ''application/json'' (Some (buf, None)))"

definition NewGetHealthRequest :: "client_lib \<Rightarrow> string \<Rightarrow> string + client_request" where
  "NewGetHealthRequest L server =
     or_fail (operation_url L server ''/api/v1alpha1/instances/health'') (bodyless L ''GET'')"

definition NewDeleteInstanceRequest ::
  "client_lib \<Rightarrow> string \<Rightarrow> string \<Rightarrow> string + client_request" where
  "NewDeleteInstanceRequest L server instanceId =
     or_fail (sp_path_string (lb_style L) ''instanceId'' instanceId) (\<lambda>pathParam0.
     or_fail (operation_url L server (''/api/v1alpha1/instances/'' @ pathParam0)) (bodyless L ''DELETE''))"

definition NewGetInstanceRequest ::
  "client_lib \<Rightarrow> string \<Rightarrow> string \<Rightarrow> string + client_request" where
  "NewGetInstanceRequest L server instanceId =
     or_fail (sp_path_string (lb_style L) ''instanceId'' instanceId) (\<lambda>pathParam0.
     or_fail (operation_url L server (''/api/v1alpha1/instances/'' @ pathParam0)) (bodyless L ''GET''))"

text \<open>The two date parameters, the same for reports and usage.\<close>

definition with_dates :: "client_lib \<Rightarrow> report_params option \<Rightarrow> url \<Rightarrow> string + url" where
  "with_dates L params queryURL =
     (case params of
        None \<Rightarrow> Inr queryURL
      | Some p \<Rightarrow>
          or_fail (query_param (sp_query_date (lb_style L)) ''start_date'' (StartDate p)
            (url_Query queryURL)) (\<lambda>vs.
          or_fail (query_param (sp_query_date (lb_style L)) ''end_date'' (EndDate p) vs)
            (\<lambda>vs. Inr (with_query queryURL vs))))"

definition NewGetCostReportRequest ::
  "client_lib \<Rightarrow> string \<Rightarrow> string \<Rightarrow> report_params option \<Rightarrow> string + client_request" where
  "NewGetCostReportRequest L server instanceId params =
     or_fail (sp_path_string (lb_style L) ''instanceId'' instanceId) (\<lambda>pathParam0.
     or_fail (operation_url L server
       (''/api/v1alpha1/instances/'' @ pathParam0 @ ''/cost-reports'')) (\<lambda>queryURL.
     or_fail (with_dates L params queryURL) (bodyless L ''GET'')))"

definition NewGetCostForecastRequest ::
  "client_lib \<Rightarrow> string \<Rightarrow> string \<Rightarrow> string + client_request" where
  "NewGetCostForecastRequest L server instanceId =
     or_fail (sp_path_string (lb_style L) ''instanceId'' instanceId) (\<lambda>pathParam0.
     or_fail (operation_url L server
       (''/api/v1alpha1/instances/'' @ pathParam0 @ ''/cost-reports/forecast'')) (bodyless L ''GET''))"

definition NewGetUsageRequest ::
  "client_lib \<Rightarrow> string \<Rightarrow> string \<Rightarrow> string \<Rightarrow> report_params option \<Rightarrow> string + client_request" where
  "NewGetUsageRequest L server instanceId metric params =
     or_fail (sp_path_string (lb_style L) ''instanceId'' instanceId) (\<lambda>pathParam0.
     or_fail (sp_path_string (lb_style L) ''metric'' metric) (\<lambda>pathParam1.
     or_fail (operation_url L server
       (''/api/v1alpha1/instances/'' @ pathParam0 @ ''/usage/'' @ pathParam1)) (\<lambda>queryURL.
     or_fail (with_dates L params queryURL) (bodyless L ''GET''))))"

subsection \<open>Sending\<close>

text \<open>
  The body shared by the client's methods. A client made by \<open>NewClient\<close> has a \<open>Doer\<close>; the
  panic of calling a nil one appears as an error here.
\<close>

definition send ::
  "'s api_client \<Rightarrow> ctx \<Rightarrow> 's request_editor list \<Rightarrow> string + client_request \<Rightarrow> 's \<Rightarrow>
   (string + client_response) \<times> 's" where
  "send c ctx reqEditors built s =
     (case built of
        Inl err \<Rightarrow> (Inl err, s)
      | Inr req \<Rightarrow>
          (case applyEditors c ctx (req\<lparr>cr_ctx := Some ctx\<rparr>) reqEditors s of
             (Inl err, s1) \<Rightarrow> (Inl err, s1)
           | (Inr req1, s1) \<Rightarrow>
               (case cl_Client c of
                  Some doer \<Rightarrow> doer req1 s1
                | None \<Rightarrow> (Inl ''nil pointer dereference'', s1))))"

definition client_ListInstances ::
  "client_lib \<Rightarrow> 's api_client \<Rightarrow> ctx \<Rightarrow> list_params option \<Rightarrow> 's request_editor list \<Rightarrow>
   's \<Rightarrow> (string + client_response) \<times> 's" where
  "client_ListInstances L c ctx params reqEditors =
     send c ctx reqEditors (NewListInstancesRequest L (cl_Server c) params)"

definition client_CreateInstanceWithBody ::
  "client_lib \<Rightarrow> 's api_client \<Rightarrow> ctx \<Rightarrow> string option option \<Rightarrow> string \<Rightarrow> (string \<times> string option) option \<Rightarrow> 's request_editor list \<Rightarrow>
   's \<Rightarrow> (string + client_response) \<times> 's" where
  "client_CreateInstanceWithBody L c ctx params contentType body reqEditors =
     send c ctx reqEditors (NewCreateInstanceRequestWithBody L (cl_Server c) params contentType body)"

definition client_CreateInstance ::
  "'x env \<Rightarrow> client_lib \<Rightarrow> 's api_client \<Rightarrow> ctx \<Rightarrow> string option option \<Rightarrow> api_cost_instance \<Rightarrow> 's request_editor list \<Rightarrow>
   's \<Rightarrow> (string + client_response) \<times> 's" where
  "client_CreateInstance E L c ctx params body reqEditors =
     send c ctx reqEditors (NewCreateInstanceRequest E L (cl_Server c) params body)"

definition client_GetHealth ::
  "client_lib \<Rightarrow> 's api_client \<Rightarrow> ctx \<Rightarrow> 's request_editor list \<Rightarrow>
   's \<Rightarrow> (string + client_response) \<times> 's" where
  "client_GetHealth L c ctx reqEditors =
     send c ctx reqEditors (NewGetHealthRequest L (cl_Server c))"

definition client_DeleteInstance ::
  "client_lib \<Rightarrow> 's api_client \<Rightarrow> ctx \<Rightarrow> string \<Rightarrow> 's request_editor list \<Rightarrow>
   's \<Rightarrow> (string + client_response) \<times> 's" where
  "client_DeleteInstance L c ctx instanceId reqEditors =
     send c ctx reqEditors (NewDeleteInstanceRequest L (cl_Server c) instanceId)"

definition client_GetInstance ::
  "client_lib \<Rightarrow> 's api_client \<Rightarrow> ctx \<Rightarrow> string \<Rightarrow> 's request_editor list \<Rightarrow>
   's \<Rightarrow> (string + client_response) \<times> 's" where
  "client_GetInstance L c ctx instanceId reqEditors =
     send c ctx reqEditors (NewGetInstanceRequest L (cl_Server c) instanceId)"

definition client_GetCostReport ::
  "client_lib \<Rightarrow> 's api_client \<Rightarrow> ctx \<Rightarrow> string \<Rightarrow> report_params option \<Rightarrow> 's request_editor list \<Rightarrow>
   's \<Rightarrow> (string + client_response) \<times> 's" where
  "client_GetCostReport L c ctx instanceId params reqEditors =
     send c ctx reqEditors (NewGetCostReportRequest L (cl_Server c) instanceId params)"

definition client_GetCostForecast ::
  "client_lib \<Rightarrow> 's api_client \<Rightarrow> ctx \<Rightarrow> string \<Rightarrow> 's request_editor list \<Rightarrow>
   's \<Rightarrow> (string + client_response) \<times> 's" where
  "client_GetCostForecast L c ctx instanceId reqEditors =
     send c ctx reqEditors (NewGetCostForecastRequest L (cl_Server c) instanceId)"

definition client_GetUsage ::
  "client_lib \<Rightarrow> 's api_client \<Rightarrow> ctx \<Rightarrow> string \<Rightarrow> string \<Rightarrow> report_params option \<Rightarrow> 's request_editor list \<Rightarrow>
   's \<Rightarrow> (string + client_response) \<times> 's" where
  "client_GetUsage L c ctx instanceId metric params reqEditors =
     send c ctx reqEditors (NewGetUsageRequest L (cl_Server c) instanceId metric params)"

subsection \<open>Parsed responses\<close>

text \<open>The client's own copy of \<open>Error\<close>: its type may be any text.\<close>

record client_error =
  pe_Detail :: "string option"
  pe_Instance :: "string option"
  pe_Status :: "int option"
  pe_Title :: string
  pe_Type :: string

definition zero_client_error :: client_error where
  "zero_client_error =
     \<lparr>pe_Detail = None, pe_Instance = None, pe_Status = None, pe_Title = [], pe_Type = []\<rparr>"

definition dec_client_error :: "client_error decoder" where
  "dec_client_error = dec_struct (\<lambda>ms e.
     case dec_field ''detail'' (dec_ptr [] dec_string) ms (pe_Detail e) of None \<Rightarrow> None | Some d \<Rightarrow>
     (case dec_field ''instance'' (dec_ptr [] dec_string) ms (pe_Instance e) of None \<Rightarrow> None | Some i \<Rightarrow>
     (case dec_field ''status'' (dec_ptr 0 (dec_int (- (2 ^ 31)) (2 ^ 31 - 1))) ms (pe_Status e) of None \<Rightarrow> None | Some s \<Rightarrow>
     (case dec_field ''title'' dec_string ms (pe_Title e) of None \<Rightarrow> None | Some t \<Rightarrow>
     (case dec_field ''type'' dec_string ms (pe_Type e) of None \<Rightarrow> None | Some y \<Rightarrow>
      Some \<lparr>pe_Detail = d, pe_Instance = i, pe_Status = s, pe_Title = t, pe_Type = y\<rparr>)))))"

definition zero_health :: api_health where
  "zero_health = \<lparr>hl_Path = None, hl_Status = None, hl_Type = None, hl_Uptime = None, hl_Version = None\<rparr>"

definition dec_health :: "api_health decoder" where
  "dec_health = dec_struct (\<lambda>ms h.
     case dec_field ''path'' (dec_ptr [] dec_string) ms (hl_Path h) of None \<Rightarrow> None | Some p \<Rightarrow>
     (case dec_field ''status'' (dec_ptr [] dec_string) ms (hl_Status h) of None \<Rightarrow> None | Some s \<Rightarrow>
     (case dec_field ''type'' (dec_ptr [] dec_string) ms (hl_Type h) of None \<Rightarrow> None | Some t \<Rightarrow>
     (case dec_field ''uptime'' (dec_ptr 0 (dec_int min_int64 max_int64)) ms (hl_Uptime h) of None \<Rightarrow> None | Some u \<Rightarrow>
     (case dec_field ''version'' (dec_ptr [] dec_string) ms (hl_Version h) of None \<Rightarrow> None | Some v \<Rightarrow>
      Some \<lparr>hl_Path = p, hl_Status = s, hl_Type = t, hl_Uptime = u, hl_Version = v\<rparr>)))))"

definition zero_list :: cost_instance_list where
  "zero_list = \<lparr>cl_Instances = None, cl_NextPageToken = None\<rparr>"

definition dec_instances :: "api_cost_instance list decoder" where
  "dec_instances j cur =
     (case j of JArr js \<Rightarrow> dec_list zero_instance dec_cost_instance js | _ \<Rightarrow> None)"

definition dec_cost_instance_list :: "cost_instance_list decoder" where
  "dec_cost_instance_list = dec_struct (\<lambda>ms l.
     case dec_field ''instances'' (dec_ptr [] dec_instances) ms (cl_Instances l) of None \<Rightarrow> None | Some is \<Rightarrow>
     (case dec_field ''next_page_token'' (dec_ptr [] dec_string) ms (cl_NextPageToken l) of None \<Rightarrow> None | Some t \<Rightarrow>
      Some \<lparr>cl_Instances = is, cl_NextPageToken = t\<rparr>))"

text \<open>Reading the body, the test of a case, and \<open>json.Unmarshal\<close> into a zero value.\<close>

definition read_body :: "client_response \<Rightarrow> string + string" where
  "read_body rsp = (case snd (cs_Body rsp) of Some err \<Rightarrow> Inl err | None \<Rightarrow> Inr (fst (cs_Body rsp)))"

definition json_with_status :: "client_response \<Rightarrow> int \<Rightarrow> bool" where
  "json_with_status rsp code \<longleftrightarrow>
     contains (header_get (cs_Header rsp) ''Content-Type'') ''json'' \<and> cs_StatusCode rsp = code"

definition unmarshal :: "'x env \<Rightarrow> 'a decoder \<Rightarrow> 'a \<Rightarrow> string \<Rightarrow> string + 'a" where
  "unmarshal E d zero bodyBytes =
     (let err = env_json_err E bodyBytes None
      in case json_unmarshal (env_float E) bodyBytes of
           None \<Rightarrow> Inl err
         | Some j \<Rightarrow> (case d j zero of None \<Rightarrow> Inl err | Some dest \<Rightarrow> Inr dest))"

text \<open>The methods \<open>Status\<close> and \<open>StatusCode\<close> of every parsed response.\<close>

definition http_Status :: "client_response option \<Rightarrow> string" where
  "http_Status r = (case r of Some rsp \<Rightarrow> cs_Status rsp | None \<Rightarrow> [])"

definition http_StatusCode :: "client_response option \<Rightarrow> int" where
  "http_StatusCode r = (case r of Some rsp \<Rightarrow> cs_StatusCode rsp | None \<Rightarrow> 0)"

record ListInstancesResponse =
  listed_Body :: string
  listed_HTTPResponse :: "client_response option"
  listed_JSON200 :: "cost_instance_list option"
  listed_ApplicationproblemJSON400 :: "client_error option"
  listed_ApplicationproblemJSON500 :: "client_error option"

definition ListInstancesResponse_Status :: "ListInstancesResponse \<Rightarrow> string" where
  "ListInstancesResponse_Status r = http_Status (listed_HTTPResponse r)"

definition ListInstancesResponse_StatusCode :: "ListInstancesResponse \<Rightarrow> int" where
  "ListInstancesResponse_StatusCode r = http_StatusCode (listed_HTTPResponse r)"

record CreateInstanceResponse =
  created_Body :: string
  created_HTTPResponse :: "client_response option"
  created_JSON201 :: "api_cost_instance option"
  created_ApplicationproblemJSON400 :: "client_error option"
  created_ApplicationproblemJSON409 :: "client_error option"
  created_ApplicationproblemJSON422 :: "client_error option"
  created_ApplicationproblemJSON500 :: "client_error option"

definition CreateInstanceResponse_Status :: "CreateInstanceResponse \<Rightarrow> string" where
  "CreateInstanceResponse_Status r = http_Status (created_HTTPResponse r)"

definition CreateInstanceResponse_StatusCode :: "CreateInstanceResponse \<Rightarrow> int" where
  "CreateInstanceResponse_StatusCode r = http_StatusCode (created_HTTPResponse r)"

record GetHealthResponse =
  health_Body :: string
  health_HTTPResponse :: "client_response option"
  health_JSON200 :: "api_health option"

definition GetHealthResponse_Status :: "GetHealthResponse \<Rightarrow> string" where
  "GetHealthResponse_Status r = http_Status (health_HTTPResponse r)"

definition GetHealthResponse_StatusCode :: "GetHealthResponse \<Rightarrow> int" where
  "GetHealthResponse_StatusCode r = http_StatusCode (health_HTTPResponse r)"

record DeleteInstanceResponse =
  deleted_Body :: string
  deleted_HTTPResponse :: "client_response option"
  deleted_ApplicationproblemJSON404 :: "client_error option"
  deleted_ApplicationproblemJSON500 :: "client_error option"

definition DeleteInstanceResponse_Status :: "DeleteInstanceResponse \<Rightarrow> string" where
  "DeleteInstanceResponse_Status r = http_Status (deleted_HTTPResponse r)"

definition DeleteInstanceResponse_StatusCode :: "DeleteInstanceResponse \<Rightarrow> int" where
  "DeleteInstanceResponse_StatusCode r = http_StatusCode (deleted_HTTPResponse r)"

record GetInstanceResponse =
  got_Body :: string
  got_HTTPResponse :: "client_response option"
  got_JSON200 :: "api_cost_instance option"
  got_ApplicationproblemJSON404 :: "client_error option"
  got_ApplicationproblemJSON500 :: "client_error option"

definition GetInstanceResponse_Status :: "GetInstanceResponse \<Rightarrow> string" where
  "GetInstanceResponse_Status r = http_Status (got_HTTPResponse r)"

definition GetInstanceResponse_StatusCode :: "GetInstanceResponse \<Rightarrow> int" where
  "GetInstanceResponse_StatusCode r = http_StatusCode (got_HTTPResponse r)"

record GetCostReportResponse =
  report_Body :: string
  report_HTTPResponse :: "client_response option"
  report_JSON200 :: "json_map option"
  report_ApplicationproblemJSON404 :: "client_error option"
  report_ApplicationproblemJSON500 :: "client_error option"
  report_ApplicationproblemJSON502 :: "client_error option"

definition GetCostReportResponse_Status :: "GetCostReportResponse \<Rightarrow> string" where
  "GetCostReportResponse_Status r = http_Status (report_HTTPResponse r)"

definition GetCostReportResponse_StatusCode :: "GetCostReportResponse \<Rightarrow> int" where
  "GetCostReportResponse_StatusCode r = http_StatusCode (report_HTTPResponse r)"

record GetCostForecastResponse =
  forecast_Body :: string
  forecast_HTTPResponse :: "client_response option"
  forecast_JSON200 :: "json_map option"
  forecast_ApplicationproblemJSON404 :: "client_error option"
  forecast_ApplicationproblemJSON500 :: "client_error option"
  forecast_ApplicationproblemJSON502 :: "client_error option"

definition GetCostForecastResponse_Status :: "GetCostForecastResponse \<Rightarrow> string" where
  "GetCostForecastResponse_Status r = http_Status (forecast_HTTPResponse r)"

definition GetCostForecastResponse_StatusCode :: "GetCostForecastResponse \<Rightarrow> int" where
  "GetCostForecastResponse_StatusCode r = http_StatusCode (forecast_HTTPResponse r)"

record GetUsageResponse =
  usage_Body :: string
  usage_HTTPResponse :: "client_response option"
  usage_JSON200 :: "json_map option"
  usage_ApplicationproblemJSON404 :: "client_error option"
  usage_ApplicationproblemJSON500 :: "client_error option"
  usage_ApplicationproblemJSON502 :: "client_error option"

definition GetUsageResponse_Status :: "GetUsageResponse \<Rightarrow> string" where
  "GetUsageResponse_Status r = http_Status (usage_HTTPResponse r)"

definition GetUsageResponse_StatusCode :: "GetUsageResponse \<Rightarrow> int" where
  "GetUsageResponse_StatusCode r = http_StatusCode (usage_HTTPResponse r)"

subsection \<open>Parsing responses\<close>

definition ParseListInstancesResponse :: "'x env \<Rightarrow> client_response \<Rightarrow> string + ListInstancesResponse" where
  "ParseListInstancesResponse E rsp =
     or_fail (read_body rsp) (\<lambda>bodyBytes.
       let response =
           \<lparr>listed_Body = bodyBytes, listed_HTTPResponse = Some rsp, listed_JSON200 = None,
             listed_ApplicationproblemJSON400 = None,
             listed_ApplicationproblemJSON500 = None\<rparr>
       in if json_with_status rsp 200 then
           or_fail (unmarshal E dec_cost_instance_list zero_list bodyBytes)
             (\<lambda>dest. Inr (response\<lparr>listed_JSON200 := Some dest\<rparr>))
         else if json_with_status rsp 400 then
           or_fail (unmarshal E dec_client_error zero_client_error bodyBytes)
             (\<lambda>dest. Inr (response\<lparr>listed_ApplicationproblemJSON400 := Some dest\<rparr>))
         else if json_with_status rsp 500 then
           or_fail (unmarshal E dec_client_error zero_client_error bodyBytes)
             (\<lambda>dest. Inr (response\<lparr>listed_ApplicationproblemJSON500 := Some dest\<rparr>))
         else Inr response)"

definition ParseCreateInstanceResponse :: "'x env \<Rightarrow> client_response \<Rightarrow> string + CreateInstanceResponse" where
  "ParseCreateInstanceResponse E rsp =
     or_fail (read_body rsp) (\<lambda>bodyBytes.
       let response =
           \<lparr>created_Body = bodyBytes, created_HTTPResponse = Some rsp,
             created_JSON201 = None, created_ApplicationproblemJSON400 = None,
             created_ApplicationproblemJSON409 = None, created_ApplicationproblemJSON422 = None,
             created_ApplicationproblemJSON500 = None\<rparr>
       in if json_with_status rsp 201 then
           or_fail (unmarshal E dec_cost_instance zero_instance bodyBytes)
             (\<lambda>dest. Inr (response\<lparr>created_JSON201 := Some dest\<rparr>))
         else if json_with_status rsp 400 then
           or_fail (unmarshal E dec_client_error zero_client_error bodyBytes)
             (\<lambda>dest. Inr (response\<lparr>created_ApplicationproblemJSON400 := Some dest\<rparr>))
         else if json_with_status rsp 409 then
           or_fail (unmarshal E dec_client_error zero_client_error bodyBytes)
             (\<lambda>dest. Inr (response\<lparr>created_ApplicationproblemJSON409 := Some dest\<rparr>))
         else if json_with_status rsp 422 then
           or_fail (unmarshal E dec_client_error zero_client_error bodyBytes)
             (\<lambda>dest. Inr (response\<lparr>created_ApplicationproblemJSON422 := Some dest\<rparr>))
         else if json_with_status rsp 500 then
           or_fail (unmarshal E dec_client_error zero_client_error bodyBytes)
             (\<lambda>dest. Inr (response\<lparr>created_ApplicationproblemJSON500 := Some dest\<rparr>))
         else Inr response)"

definition ParseGetHealthResponse :: "'x env \<Rightarrow> client_response \<Rightarrow> string + GetHealthResponse" where
  "ParseGetHealthResponse E rsp =
     or_fail (read_body rsp) (\<lambda>bodyBytes.
       let response =
           \<lparr>health_Body = bodyBytes, health_HTTPResponse = Some rsp,
             health_JSON200 = None\<rparr>
       in if json_with_status rsp 200 then
           or_fail (unmarshal E dec_health zero_health bodyBytes)
             (\<lambda>dest. Inr (response\<lparr>health_JSON200 := Some dest\<rparr>))
         else Inr response)"

definition ParseDeleteInstanceResponse :: "'x env \<Rightarrow> client_response \<Rightarrow> string + DeleteInstanceResponse" where
  "ParseDeleteInstanceResponse E rsp =
     or_fail (read_body rsp) (\<lambda>bodyBytes.
       let response =
           \<lparr>deleted_Body = bodyBytes, deleted_HTTPResponse = Some rsp,
             deleted_ApplicationproblemJSON404 = None,
             deleted_ApplicationproblemJSON500 = None\<rparr>
       in if json_with_status rsp 404 then
           or_fail (unmarshal E dec_client_error zero_client_error bodyBytes)
             (\<lambda>dest. Inr (response\<lparr>deleted_ApplicationproblemJSON404 := Some dest\<rparr>))
         else if json_with_status rsp 500 then
           or_fail (unmarshal E dec_client_error zero_client_error bodyBytes)
             (\<lambda>dest. Inr (response\<lparr>deleted_ApplicationproblemJSON500 := Some dest\<rparr>))
         else Inr response)"

definition ParseGetInstanceResponse :: "'x env \<Rightarrow> client_response \<Rightarrow> string + GetInstanceResponse" where
  "ParseGetInstanceResponse E rsp =
     or_fail (read_body rsp) (\<lambda>bodyBytes.
       let response =
           \<lparr>got_Body = bodyBytes, got_HTTPResponse = Some rsp, got_JSON200 = None,
             got_ApplicationproblemJSON404 = None, got_ApplicationproblemJSON500 = None\<rparr>
       in if json_with_status rsp 200 then
           or_fail (unmarshal E dec_cost_instance zero_instance bodyBytes)
             (\<lambda>dest. Inr (response\<lparr>got_JSON200 := Some dest\<rparr>))
         else if json_with_status rsp 404 then
           or_fail (unmarshal E dec_client_error zero_client_error bodyBytes)
             (\<lambda>dest. Inr (response\<lparr>got_ApplicationproblemJSON404 := Some dest\<rparr>))
         else if json_with_status rsp 500 then
           or_fail (unmarshal E dec_client_error zero_client_error bodyBytes)
             (\<lambda>dest. Inr (response\<lparr>got_ApplicationproblemJSON500 := Some dest\<rparr>))
         else Inr response)"

definition ParseGetCostReportResponse :: "'x env \<Rightarrow> client_response \<Rightarrow> string + GetCostReportResponse" where
  "ParseGetCostReportResponse E rsp =
     or_fail (read_body rsp) (\<lambda>bodyBytes.
       let response =
           \<lparr>report_Body = bodyBytes, report_HTTPResponse = Some rsp, report_JSON200 = None,
             report_ApplicationproblemJSON404 = None, report_ApplicationproblemJSON500 = None,
             report_ApplicationproblemJSON502 = None\<rparr>
       in if json_with_status rsp 200 then
           or_fail (unmarshal E dec_json_map None bodyBytes)
             (\<lambda>dest. Inr (response\<lparr>report_JSON200 := Some dest\<rparr>))
         else if json_with_status rsp 404 then
           or_fail (unmarshal E dec_client_error zero_client_error bodyBytes)
             (\<lambda>dest. Inr (response\<lparr>report_ApplicationproblemJSON404 := Some dest\<rparr>))
         else if json_with_status rsp 500 then
           or_fail (unmarshal E dec_client_error zero_client_error bodyBytes)
             (\<lambda>dest. Inr (response\<lparr>report_ApplicationproblemJSON500 := Some dest\<rparr>))
         else if json_with_status rsp 502 then
           or_fail (unmarshal E dec_client_error zero_client_error bodyBytes)
             (\<lambda>dest. Inr (response\<lparr>report_ApplicationproblemJSON502 := Some dest\<rparr>))
         else Inr response)"

definition ParseGetCostForecastResponse :: "'x env \<Rightarrow> client_response \<Rightarrow> string + GetCostForecastResponse" where
  "ParseGetCostForecastResponse E rsp =
     or_fail (read_body rsp) (\<lambda>bodyBytes.
       let response =
           \<lparr>forecast_Body = bodyBytes, forecast_HTTPResponse = Some rsp,
             forecast_JSON200 = None, forecast_ApplicationproblemJSON404 = None,
             forecast_ApplicationproblemJSON500 = None,
             forecast_ApplicationproblemJSON502 = None\<rparr>
       in if json_with_status rsp 200 then
           or_fail (unmarshal E dec_json_map None bodyBytes)
             (\<lambda>dest. Inr (response\<lparr>forecast_JSON200 := Some dest\<rparr>))
         else if json_with_status rsp 404 then
           or_fail (unmarshal E dec_client_error zero_client_error bodyBytes)
             (\<lambda>dest. Inr (response\<lparr>forecast_ApplicationproblemJSON404 := Some dest\<rparr>))
         else if json_with_status rsp 500 then
           or_fail (unmarshal E dec_client_error zero_client_error bodyBytes)
             (\<lambda>dest. Inr (response\<lparr>forecast_ApplicationproblemJSON500 := Some dest\<rparr>))
         else if json_with_status rsp 502 then
           or_fail (unmarshal E dec_client_error zero_client_error bodyBytes)
             (\<lambda>dest. Inr (response\<lparr>forecast_ApplicationproblemJSON502 := Some dest\<rparr>))
         else Inr response)"

definition ParseGetUsageResponse :: "'x env \<Rightarrow> client_response \<Rightarrow> string + GetUsageResponse" where
  "ParseGetUsageResponse E rsp =
     or_fail (read_body rsp) (\<lambda>bodyBytes.
       let response =
           \<lparr>usage_Body = bodyBytes, usage_HTTPResponse = Some rsp, usage_JSON200 = None,
             usage_ApplicationproblemJSON404 = None, usage_ApplicationproblemJSON500 = None,
             usage_ApplicationproblemJSON502 = None\<rparr>
       in if json_with_status rsp 200 then
           or_fail (unmarshal E dec_json_map None bodyBytes)
             (\<lambda>dest. Inr (response\<lparr>usage_JSON200 := Some dest\<rparr>))
         else if json_with_status rsp 404 then
           or_fail (unmarshal E dec_client_error zero_client_error bodyBytes)
             (\<lambda>dest. Inr (response\<lparr>usage_ApplicationproblemJSON404 := Some dest\<rparr>))
         else if json_with_status rsp 500 then
           or_fail (unmarshal E dec_client_error zero_client_error bodyBytes)
             (\<lambda>dest. Inr (response\<lparr>usage_ApplicationproblemJSON500 := Some dest\<rparr>))
         else if json_with_status rsp 502 then
           or_fail (unmarshal E dec_client_error zero_client_error bodyBytes)
             (\<lambda>dest. Inr (response\<lparr>usage_ApplicationproblemJSON502 := Some dest\<rparr>))
         else Inr response)"

subsection \<open>Sending and parsing\<close>

text \<open>\<open>ClientWithResponses\<close> embeds the client; its methods parse what the client's return.\<close>

definition NewClientWithResponses ::
  "'s doer \<Rightarrow> string \<Rightarrow> 's client_option list \<Rightarrow> string + 's api_client" where
  "NewClientWithResponses dflt server opts = client_NewClient dflt server opts"

definition parsed_by ::
  "(client_response \<Rightarrow> string + 'p) \<Rightarrow> (string + client_response) \<times> 's \<Rightarrow> (string + 'p) \<times> 's" where
  "parsed_by parse out = (or_fail (fst out) parse, snd out)"

definition ListInstancesWithResponse ::
  "'x env \<Rightarrow> client_lib \<Rightarrow> 's api_client \<Rightarrow> ctx \<Rightarrow> list_params option \<Rightarrow> 's request_editor list \<Rightarrow>
   's \<Rightarrow> (string + ListInstancesResponse) \<times> 's" where
  "ListInstancesWithResponse E L c ctx params reqEditors s =
     parsed_by (ParseListInstancesResponse E) (client_ListInstances L c ctx params reqEditors s)"

definition CreateInstanceWithBodyWithResponse ::
  "'x env \<Rightarrow> client_lib \<Rightarrow> 's api_client \<Rightarrow> ctx \<Rightarrow> string option option \<Rightarrow> string \<Rightarrow> (string \<times> string option) option \<Rightarrow> 's request_editor list \<Rightarrow>
   's \<Rightarrow> (string + CreateInstanceResponse) \<times> 's" where
  "CreateInstanceWithBodyWithResponse E L c ctx params contentType body reqEditors s =
     parsed_by (ParseCreateInstanceResponse E) (client_CreateInstanceWithBody L c ctx params contentType body reqEditors s)"

definition CreateInstanceWithResponse ::
  "'x env \<Rightarrow> client_lib \<Rightarrow> 's api_client \<Rightarrow> ctx \<Rightarrow> string option option \<Rightarrow> api_cost_instance \<Rightarrow> 's request_editor list \<Rightarrow>
   's \<Rightarrow> (string + CreateInstanceResponse) \<times> 's" where
  "CreateInstanceWithResponse E L c ctx params body reqEditors s =
     parsed_by (ParseCreateInstanceResponse E) (client_CreateInstance E L c ctx params body reqEditors s)"

definition GetHealthWithResponse ::
  "'x env \<Rightarrow> client_lib \<Rightarrow> 's api_client \<Rightarrow> ctx \<Rightarrow> 's request_editor list \<Rightarrow>
   's \<Rightarrow> (string + GetHealthResponse) \<times> 's" where
  "GetHealthWithResponse E L c ctx reqEditors s =
     parsed_by (ParseGetHealthResponse E) (client_GetHealth L c ctx reqEditors s)"

definition DeleteInstanceWithResponse ::
  "'x env \<Rightarrow> client_lib \<Rightarrow> 's api_client \<Rightarrow> ctx \<Rightarrow> string \<Rightarrow> 's request_editor list \<Rightarrow>
   's \<Rightarrow> (string + DeleteInstanceResponse) \<times> 's" where
  "DeleteInstanceWithResponse E L c ctx instanceId reqEditors s =
     parsed_by (ParseDeleteInstanceResponse E) (client_DeleteInstance L c ctx instanceId reqEditors s)"

definition GetInstanceWithResponse ::
  "'x env \<Rightarrow> client_lib \<Rightarrow> 's api_client \<Rightarrow> ctx \<Rightarrow> string \<Rightarrow> 's request_editor list \<Rightarrow>
   's \<Rightarrow> (string + GetInstanceResponse) \<times> 's" where
  "GetInstanceWithResponse E L c ctx instanceId reqEditors s =
     parsed_by (ParseGetInstanceResponse E) (client_GetInstance L c ctx instanceId reqEditors s)"

definition GetCostReportWithResponse ::
  "'x env \<Rightarrow> client_lib \<Rightarrow> 's api_client \<Rightarrow> ctx \<Rightarrow> string \<Rightarrow> report_params option \<Rightarrow> 's request_editor list \<Rightarrow>
   's \<Rightarrow> (string + GetCostReportResponse) \<times> 's" where
  "GetCostReportWithResponse E L c ctx instanceId params reqEditors s =
     parsed_by (ParseGetCostReportResponse E) (client_GetCostReport L c ctx instanceId params reqEditors s)"

definition GetCostForecastWithResponse ::
  "'x env \<Rightarrow> client_lib \<Rightarrow> 's api_client \<Rightarrow> ctx \<Rightarrow> string \<Rightarrow> 's request_editor list \<Rightarrow>
   's \<Rightarrow> (string + GetCostForecastResponse) \<times> 's" where
  "GetCostForecastWithResponse E L c ctx instanceId reqEditors s =
     parsed_by (ParseGetCostForecastResponse E) (client_GetCostForecast L c ctx instanceId reqEditors s)"

definition GetUsageWithResponse ::
  "'x env \<Rightarrow> client_lib \<Rightarrow> 's api_client \<Rightarrow> ctx \<Rightarrow> string \<Rightarrow> string \<Rightarrow> report_params option \<Rightarrow> 's request_editor list \<Rightarrow>
   's \<Rightarrow> (string + GetUsageResponse) \<times> 's" where
  "GetUsageWithResponse E L c ctx instanceId metric params reqEditors s =
     parsed_by (ParseGetUsageResponse E) (client_GetUsage L c ctx instanceId metric params reqEditors s)"

end
