(* ===== verification/TimeText.thy ===== *)
theory TimeText
  imports ApiEncode
begin

text \<open>
  Dates and times as text: \<open>parse_rfc3339\<close> reads back what \<open>format_rfc3339nano\<close> writes. The
  calendar is checked year by year and day by day on its 400-year cycle, with a monotone formula
  in between.
\<close>

subsection \<open>The calendar\<close>

text \<open>The first day of a year that starts in March, within the cycle of 400 years.\<close>

definition year_start :: "int \<Rightarrow> int" where
  "year_start y = 365 * y + y div 4 - y div 100 + y div 400"

definition year_index :: "int \<Rightarrow> int" where
  "year_index doe = doe - doe div 1460 + doe div 36524 - doe div 146096"

lemma div_Suc:
  fixes x k :: int
  assumes "0 < k"
  shows "(x + 1) div k = x div k + (if k dvd x + 1 then 1 else 0)"
proof -
  have "x = k * (x div k) + x mod k" "0 \<le> x mod k" "x mod k < k" using assms by simp_all
  show ?thesis
  proof (cases "x mod k = k - 1")
    case True
    then have e: "x + 1 = k * (x div k + 1)"
      using \<open>x = k * (x div k) + x mod k\<close> by (simp only: distrib_left mult_1_right)
    then have "k dvd x + 1" by (metis dvd_triv_left)
    moreover have "(x + 1) div k = x div k + 1" using assms by (subst e) simp
    ultimately show ?thesis by simp
  next
    case False
    then have r: "x mod k + 1 < k" using \<open>x mod k < k\<close> by simp
    have e: "x + 1 = k * (x div k) + (x mod k + 1)" using \<open>x = _ + _\<close> by simp
    have "(x + 1) div k = x div k"
      by (rule int_div_pos_eq [OF e]) (use r \<open>0 \<le> x mod k\<close> in simp_all)
    moreover have "(x + 1) mod k = x mod k + 1"
      by (rule int_mod_pos_eq [OF e]) (use r \<open>0 \<le> x mod k\<close> in simp_all)
    then have "\<not> k dvd x + 1" using \<open>0 \<le> x mod k\<close> by (simp add: dvd_eq_mod_eq_0)
    ultimately show ?thesis by simp
  qed
qed

lemma year_index_step: "year_index x \<le> year_index (x + 1)"
proof -
  have "146096 dvd x + 1 \<Longrightarrow> 36524 dvd x + 1" by (rule dvd_trans [of _ 146096]) simp_all
  then show ?thesis by (simp add: year_index_def div_Suc)
qed

lemma year_index_mono: "x \<le> y \<Longrightarrow> year_index x \<le> year_index y"
proof (induction y rule: int_ge_induct)
  case (step i)
  then show ?case using year_index_step [of i] by simp
qed simp

lemma year_index_bounds:
  "list_all (\<lambda>y. 365 * y \<le> year_index (year_start y)) [0..400]"
  "list_all (\<lambda>y. year_index (year_start y - 1) < 365 * y) [1..400]"
  by code_simp+

lemma year_of_day:
  assumes "0 \<le> doe" and "doe < 146097"
  shows "0 \<le> year_index doe div 365" "year_index doe div 365 < 400"
    "year_start (year_index doe div 365) \<le> doe" "doe < year_start (year_index doe div 365 + 1)"
proof -
  let ?y = "year_index doe div 365"
  have lo: "0 \<le> year_index doe" using year_index_mono [OF assms(1)] by (simp add: year_index_def)
  have hi: "year_index doe \<le> 145999"
    using year_index_mono [of doe 146096] assms(2) by (simp add: year_index_def)
  show y0: "0 \<le> ?y" "?y < 400" using lo hi by (simp_all add: pos_imp_zdiv_nonneg_iff)
  have y1: "?y + 1 \<in> {0..400}" using y0 by simp
  have range: "365 * ?y \<le> year_index doe" "year_index doe < 365 * (?y + 1)" by simp_all
  show "year_start ?y \<le> doe"
  proof (rule ccontr)
    assume "\<not> year_start ?y \<le> doe"
    then have "year_index doe \<le> year_index (year_start ?y - 1)" by (intro year_index_mono) simp
    moreover have "?y \<noteq> 0" using \<open>\<not> year_start ?y \<le> doe\<close> assms(1) by (auto simp: year_start_def)
    then have "?y \<in> {1..400}" using y0 by simp
    then have "year_index (year_start ?y - 1) < 365 * ?y"
      using year_index_bounds(2) unfolding list_all_iff set_upto by blast
    ultimately show False using range by simp
  qed
  show "doe < year_start (?y + 1)"
  proof (rule ccontr)
    assume "\<not> doe < year_start (?y + 1)"
    then have "year_index (year_start (?y + 1)) \<le> year_index doe" by (intro year_index_mono) simp
    moreover have "365 * (?y + 1) \<le> year_index (year_start (?y + 1))"
      using year_index_bounds(1) y1 unfolding list_all_iff set_upto by blast
    ultimately show False using range by simp
  qed
qed

text \<open>The days of a year that starts in March.\<close>

definition month_part :: "int \<Rightarrow> int" where
  "month_part doy = (5 * doy + 2) div 153"

definition day_part :: "int \<Rightarrow> int" where
  "day_part doy = doy - (153 * month_part doy + 2) div 5 + 1"

definition month_of_part :: "int \<Rightarrow> int" where
  "month_of_part mp = (if mp < 10 then mp + 3 else mp - 9)"

definition month_days :: "int \<Rightarrow> int" where
  "month_days m = (if m = 2 then 29 else if m \<in> {4, 6, 9, 11} then 30 else 31)"

lemma days_of_year:
  "list_all (\<lambda>doy. 0 \<le> month_part doy \<and> month_part doy < 12 \<and> 1 \<le> day_part doy \<and>
     day_part doy \<le> month_days (month_of_part (month_part doy)) \<and>
     (month_part doy = 11 \<and> day_part doy = 29 \<longleftrightarrow> doy = 365)) [0..365]"
  by code_simp

definition civil_of :: "int \<Rightarrow> int \<Rightarrow> int \<Rightarrow> api_date" where
  "civil_of era yoe doy =
     \<lparr>date_year = yoe + era * 400 + (if month_of_part (month_part doy) \<le> 2 then 1 else 0),
      date_month = month_of_part (month_part doy), date_day = day_part doy\<rparr>"

lemma civil_date_eq:
  "civil_date d =
     (let era = (d + 306) div 146097;
          doe = (d + 306) mod 146097;
          yoe = year_index doe div 365
      in civil_of era yoe (doe - (365 * yoe + yoe div 4 - yoe div 100)))"
  unfolding civil_date_def civil_of_def Let_def year_index_def month_part_def month_of_part_def
    day_part_def ..

lemma days_of_parts:
  assumes "0 \<le> yoe" and "yoe < 400" and "(if m > 2 then m - 3 else m + 9) = mp"
  shows "days_of_date \<lparr>date_year = yoe + era * 400 + (if m \<le> 2 then 1 else 0), date_month = m, date_day = day\<rparr> =
    era * 146097 + yoe * 365 + yoe div 4 - yoe div 100 + ((153 * mp + 2) div 5 + day - 1) - 306"
proof -
  have "(yoe + era * 400) mod 400 = yoe" "(yoe + era * 400) div 400 = era" using assms by simp_all
  then show ?thesis using assms(3) by (simp only: days_of_date_def Let_def api_date.select_convs) simp
qed

lemma civil_date_inverse:
  "days_of_date (civil_date d) = d"
  "date_month (civil_date d) \<in> {1..12}"
  "1 \<le> date_day (civil_date d)"
  "date_day (civil_date d) \<le> days_in_month (date_year (civil_date d)) (date_month (civil_date d))"
proof -
  define era where "era = (d + 306) div 146097"
  define doe where "doe = (d + 306) mod 146097"
  define yoe where "yoe = year_index doe div 365"
  define doy where "doy = doe - year_start yoe"
  define mp where "mp = month_part doy"
  have d: "d + 306 = era * 146097 + doe" by (simp add: era_def doe_def)
  have doe: "0 \<le> doe" "doe < 146097" by (simp_all add: doe_def)
  note y = year_of_day [OF doe, folded yoe_def]
  have y400: "yoe div 400 = 0" using y by simp
  have len: "year_start (yoe + 1) - year_start yoe =
      365 + (if 4 dvd yoe + 1 then 1 else 0) - (if 100 dvd yoe + 1 then 1 else 0) +
      (if 400 dvd yoe + 1 then 1 else 0)"
    by (simp add: year_start_def div_Suc)
  have "(4::int) dvd 100" by simp
  then have d100: "100 dvd yoe + 1 \<Longrightarrow> 4 dvd yoe + 1" by (rule dvd_trans)
  have "(100::int) dvd 400" by simp
  then have d400: "400 dvd yoe + 1 \<Longrightarrow> 100 dvd yoe + 1" by (rule dvd_trans)
  have doy: "0 \<le> doy" "doy \<le> 365"
    using y len d100 d400 by (auto simp: doy_def split: if_splits)
  have leap: "doy = 365 \<Longrightarrow> 4 dvd yoe + 1 \<and> (\<not> 100 dvd yoe + 1 \<or> 400 dvd yoe + 1)"
    using y(4) len d100 d400 by (auto simp: doy_def split: if_splits)
  have month: "0 \<le> mp" "mp < 12" "1 \<le> day_part doy" "day_part doy \<le> month_days (month_of_part mp)"
    "mp = 11 \<and> day_part doy = 29 \<longleftrightarrow> doy = 365"
    using days_of_year doy by (auto simp: list_all_iff mp_def)
  have civil: "civil_date d = \<lparr>date_year = yoe + era * 400 + (if month_of_part mp \<le> 2 then 1 else 0),
      date_month = month_of_part mp, date_day = day_part doy\<rparr>"
  proof -
    have "civil_date d = civil_of era yoe (doe - (365 * yoe + yoe div 4 - yoe div 100))"
      unfolding civil_date_eq Let_def era_def doe_def yoe_def ..
    also have "doe - (365 * yoe + yoe div 4 - yoe div 100) = doy"
      using y400 by (simp add: doy_def year_start_def)
    finally show ?thesis by (simp add: civil_of_def mp_def)
  qed
  have shift: "(if month_of_part mp > 2 then month_of_part mp - 3 else month_of_part mp + 9) = mp"
    using month(1,2) by (auto simp: month_of_part_def)
  have "days_of_date (civil_date d) = era * 146097 + yoe * 365 + yoe div 4 - yoe div 100 +
      ((153 * mp + 2) div 5 + day_part doy - 1) - 306"
    unfolding civil by (rule days_of_parts) (use shift y in simp_all)
  also have "(153 * mp + 2) div 5 + day_part doy - 1 = doy" by (simp add: day_part_def mp_def)
  finally show "days_of_date (civil_date d) = d" using d y400 by (simp add: doy_def year_start_def)
  show "date_month (civil_date d) \<in> {1..12}"
    using month(1,2) by (auto simp: civil month_of_part_def)
  show "1 \<le> date_day (civil_date d)" using month(3) by (simp add: civil)
  show "date_day (civil_date d) \<le> days_in_month (date_year (civil_date d)) (date_month (civil_date d))"
  proof (cases "month_of_part mp = 2")
    case False
    then show ?thesis using month(4) by (auto simp: civil days_in_month_def month_days_def)
  next
    case True
    then have "mp = 11" using month(1,2) by (auto simp: month_of_part_def split: if_splits)
    show ?thesis
    proof (cases "day_part doy = 29")
      case False
      then show ?thesis using True month(4) by (auto simp: civil days_in_month_def month_days_def)
    next
      case day: True
      then have l: "4 dvd yoe + 1" "\<not> 100 dvd yoe + 1 \<or> 400 dvd yoe + 1"
        using leap month(5) \<open>mp = 11\<close> by auto
      let ?Y = "yoe + era * 400 + 1"
      have e: "k dvd 400 \<Longrightarrow> k dvd ?Y \<longleftrightarrow> k dvd yoe + 1" for k :: int
        by (metis (no_types) add.assoc add.commute dvd_add_left_iff dvd_mult)
      have "4 dvd ?Y" "\<not> 100 dvd ?Y \<or> 400 dvd ?Y"
        using l e [of 4] e [of 100] e [of 400] by simp_all
      then have "days_in_month ?Y 2 = 29"
        by (auto simp: days_in_month_def dvd_eq_mod_eq_0)
      then show ?thesis using True day by (simp add: civil)
    qed
  qed
qed

subsection \<open>Fields of digits\<close>

lemma length_dec_digits: "n < 10 ^ k \<Longrightarrow> 0 < k \<Longrightarrow> length (dec_digits n) \<le> k"
proof (induction n arbitrary: k rule: dec_digits.induct)
  case (1 n)
  show ?case
  proof (cases "n < 10")
    case True
    then show ?thesis using "1.prems" by (simp add: dec_digits.simps [of n])
  next
    case False
    then obtain j where k: "k = Suc j" "0 < j" using "1.prems" by (cases k; cases "k - 1") auto
    then have "n div 10 < 10 ^ j" using "1.prems"(1) by (simp add: less_mult_imp_div_less mult.commute)
    from "1.IH" [OF False this k(2)] show ?thesis using False k(1) by (simp add: dec_digits.simps [of n])
  qed
qed

lemma dec_val_zeros: "dec_val 0 (replicate k (CHR ''0'') @ s) = dec_val 0 s"
  by (induction k) (simp_all add: is_digit_def)

lemma pad_digits:
  assumes "0 \<le> v" and "v < 10 ^ n" and "0 < n"
  shows "length (pad n v) = n" "dec_val 0 (pad n v) = Some (nat v)" "list_all is_digit (pad n v)"
proof -
  have "nat v < nat (10 ^ n)" using assms by simp
  then have "nat v < 10 ^ n" by (simp add: nat_power_eq)
  then have "length (itoa v) \<le> n" using assms length_dec_digits by (simp add: itoa_def)
  then show "length (pad n v) = n" by (simp add: pad_def Let_def)
  show "dec_val 0 (pad n v) = Some (nat v)"
    using assms(1) by (simp add: pad_def Let_def dec_val_zeros itoa_def dec_val_dec_digits)
  show "list_all is_digit (pad n v)"
    using assms(1) dec_digits_all_digits [of _ "nat v"]
    by (auto simp: pad_def Let_def itoa_def list_all_iff is_digit_def)
qed

lemma number_field_pad:
  assumes "0 < n" and "v < 10 ^ n" and "int lo \<le> v" and "v \<le> int hi"
  shows "number_field n lo hi (pad n v @ r) = Some (v, r)"
proof -
  have "0 \<le> v" using assms(3) by simp
  note p = pad_digits [OF this assms(2,1)]
  then show ?thesis using assms by (simp add: number_field_def) arith
qed

text \<open>The fraction: trailing zeros are cut off, and added again.\<close>

lemma all_same: "(\<forall>x \<in> set s. x = c) \<Longrightarrow> s = replicate (length s) c"
  by (induction s) auto

lemma trim_right_split: "\<exists>k. s = trim_right c s @ replicate k c"
proof -
  let ?z = "takeWhile (\<lambda>x. x = c) (rev s)"
  have "s = rev (?z @ dropWhile (\<lambda>x. x = c) (rev s))" by (simp only: takeWhile_dropWhile_id rev_rev_ident)
  then have "s = trim_right c s @ rev ?z" by (simp only: trim_right_def rev_append)
  moreover have "rev ?z = replicate (length ?z) c"
    using all_same [of ?z c] set_takeWhileD [of _ "\<lambda>x. x = c" "rev s"] by (metis rev_replicate)
  ultimately show ?thesis by metis
qed

lemma fraction_nano:
  "fraction (nano_text t @ CHR ''Z'' # r) = (t mod second, CHR ''Z'' # r)"
proof (cases "t mod second = 0")
  case True
  then show ?thesis by (simp add: nano_text_def fraction_def Let_def split: prod.split)
next
  case False
  define n where "n = t mod second"
  have n: "0 \<le> n" "n < 10 ^ 9" by (simp_all add: n_def)
  note p = pad_digits [OF n]
  define d where "d = trim_right (CHR ''0'') (pad 9 n)"
  obtain k where k: "pad 9 n = d @ replicate k (CHR ''0'')" using trim_right_split d_def by metis
  have "take 9 (d @ replicate 9 (CHR ''0'')) = pad 9 n"
  proof -
    have "length d + k = 9" using p(1) k by (metis length_append length_replicate zero_less_numeral)
    then have "d @ replicate 9 (CHR ''0'') = pad 9 n @ replicate (length d) (CHR ''0'')"
      using k by (simp add: replicate_add [symmetric] add.commute)
    then show ?thesis using p(1) by simp
  qed
  moreover have "d \<noteq> []"
  proof
    assume "d = []"
    then have "dec_val 0 (pad 9 n) = Some 0" using k dec_val_zeros [of k "[]"] by simp
    then show False using p(2) n(1) False by (simp add: n_def)
  qed
  moreover have "take_digits (d @ CHR ''Z'' # r) = (d, CHR ''Z'' # r)"
  proof -
    have "list_all is_digit d" using p(3) k by (simp add: list_all_append)
    then have "takeWhile is_digit (d @ CHR ''Z'' # r) = d \<and> dropWhile is_digit (d @ CHR ''Z'' # r) = CHR ''Z'' # r"
      by (induction d) (auto simp: is_digit_def)
    then show ?thesis by (simp add: take_digits_def)
  qed
  ultimately show ?thesis using False p(2) n(1)
    by (simp add: nano_text_def fraction_def Let_def n_def [symmetric] d_def [symmetric])
qed

subsection \<open>Times\<close>

definition valid_date :: "api_date \<Rightarrow> bool" where
  "valid_date d \<longleftrightarrow> 0 \<le> date_year d \<and> date_year d \<le> 9999 \<and> 1 \<le> date_month d \<and> date_month d \<le> 12 \<and>
     1 \<le> date_day d \<and> date_day d \<le> days_in_month (date_year d) (date_month d)"

lemma days_in_month_le: "days_in_month y m \<le> 31"
  by (simp add: days_in_month_def)

lemma date_fields:
  assumes "valid_date d"
  shows "number_field 4 0 9999 (pad 4 (date_year d) @ r) = Some (date_year d, r)"
    "number_field 2 1 12 (pad 2 (date_month d) @ r) = Some (date_month d, r)"
    "number_field 2 1 (nat (days_in_month (date_year d) (date_month d))) (pad 2 (date_day d) @ r) =
       Some (date_day d, r)"
  using assms days_in_month_le [of "date_year d" "date_month d"] unfolding valid_date_def
  by (intro number_field_pad; simp)+

text \<open>The text of a time is read back.\<close>

lemma parse_format_time:
  assumes "time_encodable t"
  shows "parse_rfc3339 (format_rfc3339nano t) = Some t"
proof -
  define d where "d = t div second div 86400"
  define s where "s = t div second mod 86400"
  have s: "0 \<le> s" "s < 86400" by (simp_all add: s_def)
  have valid: "valid_date (civil_date d)"
    using assms civil_date_inverse [of d]
    by (simp add: valid_date_def time_encodable_def d_def [symmetric] Let_def)
  have fields: "number_field 2 0 23 (pad 2 (s div 3600) @ r) = Some (s div 3600, r)"
    "number_field 2 0 59 (pad 2 (s div 60 mod 60) @ r) = Some (s div 60 mod 60, r)"
    "number_field 2 0 59 (pad 2 (s mod 60) @ r) = Some (s mod 60, r)" for r
    using s by (intro number_field_pad; simp)+
  have clock: "s div 3600 * 3600 + s div 60 mod 60 * 60 + s mod 60 = s"
  proof -
    have "s div 3600 = s div 60 div 60" by (simp add: zdiv_zmult2_eq [symmetric])
    then show ?thesis using div_mult_mod_eq [of s 60] div_mult_mod_eq [of "s div 60" 60] by linarith
  qed
  have total: "(d * 86400 + s) * second + t mod second = t"
    by (simp add: d_def s_def)
  have shape: "format_rfc3339nano t =
      pad 4 (date_year (civil_date d)) @ CHR ''-'' # pad 2 (date_month (civil_date d)) @ CHR ''-'' #
      pad 2 (date_day (civil_date d)) @ CHR ''T'' # pad 2 (s div 3600) @ CHR '':'' #
      pad 2 (s div 60 mod 60) @ CHR '':'' # pad 2 (s mod 60) @ nano_text t @ ''Z''"
    by (simp add: format_rfc3339nano_def date_text_def clock_text_def format_date_def Let_def
        d_def [symmetric] s_def [symmetric])
  have days: "days_of_date \<lparr>date_year = date_year (civil_date d), date_month = date_month (civil_date d),
      date_day = date_day (civil_date d)\<rparr> = d"
    using civil_date_inverse(1) [of d] api_date.surjective [of "civil_date d"]
    by (metis (full_types) old.unit.exhaust)
  have zone: "zone_offset ''Z'' = Some 0" by (simp add: zone_offset_def)
  show ?thesis
    unfolding parse_rfc3339_def shape
    by (simp add: date_fields [OF valid] fields expect_char_def fraction_nano zone days
        del: One_nat_def)
      (use total clock in \<open>simp add: algebra_simps\<close>)
qed

lemma dec_time_enc [simp]: "time_encodable t \<Longrightarrow> dec_time (enc_time t) cur = Some t"
  by (simp add: dec_time_def enc_time_def parse_format_time)

end
