(* ===== verification/ResponseText.thy ===== *)
theory ResponseText
  imports ApiClient TimeText JsonRoundtrip
begin

text \<open>
  The client's decoders undo the server's encoders: a response that the server writes as JSON is
  read by the client as the same value.
\<close>

lemma more_fold_names [simp]:
  "fold_name ''cluster_id'' = ''cluster_id''" "fold_name ''create_time'' = ''create_time''"
  "fold_name ''id'' = ''id''" "fold_name ''path'' = ''path''" "fold_name ''spec'' = ''spec''"
  "fold_name ''status'' = ''status''" "fold_name ''status_message'' = ''status_message''"
  "fold_name ''update_time'' = ''update_time''" "fold_name ''instances'' = ''instances''"
  "fold_name ''next_page_token'' = ''next_page_token''" "fold_name ''detail'' = ''detail''"
  "fold_name ''instance'' = ''instance''" "fold_name ''title'' = ''title''"
  "fold_name ''type'' = ''type''" "fold_name ''uptime'' = ''uptime''"
  "fold_name ''version'' = ''version''"
  by code_simp+

lemma enc_time_simps [simp]: "reread F (enc_time t) = enc_time t" "enc_time t \<noteq> JNull"
  by (simp_all add: enc_time_def)

lemma enc_spec_not_null [simp]: "enc_spec s \<noteq> JNull" "enc_cost_instance i \<noteq> JNull"
  by (simp_all add: enc_spec_def enc_cost_instance_def)

text \<open>An instance that JSON can express and that is read back.\<close>

definition readable_instance :: "float_fmt \<Rightarrow> api_cost_instance \<Rightarrow> bool" where
  "readable_instance F i \<longleftrightarrow> instance_encodable i \<and> spec_wf (ci_Spec i) \<and>
     printable F (enc_cost_instance i)"

lemma dec_cost_instance_reread:
  assumes "readable_instance F i"
  shows "dec_cost_instance (reread F (enc_cost_instance i)) zero_instance = Some i"
proof -
  have t: "t = Some x \<Longrightarrow> opt_time_encodable t \<Longrightarrow> dec_time (enc_time x) cur = Some x" for t x cur
    by (simp add: opt_time_encodable_def)
  have "dec_spec (reread F (enc_spec (ci_Spec i))) zero_spec = Some (ci_Spec i)"
    using assms by (intro dec_spec_reread) (simp_all add: readable_instance_def enc_cost_instance_def)
  moreover have "dec_field k (dec_ptr 0 dec_time) (enc_opt k enc_time t) None = Some t"
    if "opt_time_encodable t" for k t
    using that by (intro dec_field_enc_opt) (simp add: t)
  ultimately show ?thesis
    using assms by (simp add: readable_instance_def dec_cost_instance_def enc_cost_instance_def
        dec_struct_def dec_field_append zero_instance_def instance_encodable_def)
qed

lemma dec_cost_instance_list_reread:
  assumes "list_all (readable_instance F) (case cl_Instances l of None \<Rightarrow> [] | Some is \<Rightarrow> is)"
  shows "dec_cost_instance_list (reread F (enc_cost_instance_list l)) zero_list = Some l"
proof -
  have "list_all (readable_instance F) is \<Longrightarrow>
      dec_list zero_instance dec_cost_instance (map (\<lambda>i. reread F (enc_cost_instance i)) is) = Some is" for "is"
    by (induction "is") (simp_all add: dec_cost_instance_reread)
  then have "cl_Instances l = Some is \<Longrightarrow>
      dec_instances (JArr (map (\<lambda>i. reread F (enc_cost_instance i)) is)) [] = Some is" for "is"
    using assms by (simp add: dec_instances_def)
  then show ?thesis
    by (simp add: dec_cost_instance_list_def enc_cost_instance_list_def dec_struct_def dec_field_append
        zero_list_def comp_def)
qed

text \<open>A problem document, as the client sees it.\<close>

definition client_error_of :: "api_error \<Rightarrow> client_error" where
  "client_error_of e =
     \<lparr>pe_Detail = err_Detail e, pe_Instance = err_Instance e, pe_Status = err_Status e,
      pe_Title = err_Title e, pe_Type = error_type_string (err_Type e)\<rparr>"

lemma dec_client_error_reread:
  assumes "\<forall>s. err_Status e = Some s \<longrightarrow> - (2 ^ 31) \<le> s \<and> s < 2 ^ 31"
  shows "dec_client_error (reread F (enc_api_error e)) zero_client_error = Some (client_error_of e)"
proof -
  have "dec_field k (dec_ptr 0 (dec_int (- (2 ^ 31)) (2 ^ 31 - 1)))
      (enc_opt k (\<lambda>i. reread F (JInt i)) (err_Status e)) None = Some (err_Status e)" for k
    using assms by (intro dec_field_enc_opt conjI dec_int_reread)
      (simp_all add: min_int64_def max_int64_def)
  then show ?thesis
    by (simp add: dec_client_error_def enc_api_error_def dec_struct_def dec_field_append
        zero_client_error_def client_error_of_def del: reread.simps(2))
qed

lemma dec_health_reread:
  assumes "\<forall>u. hl_Uptime h = Some u \<longrightarrow> min_int64 \<le> u \<and> u \<le> max_int64"
  shows "dec_health (reread F (enc_health h)) zero_health = Some h"
proof -
  have "dec_field k (dec_ptr 0 (dec_int min_int64 max_int64))
      (enc_opt k (\<lambda>i. reread F (JInt i)) (hl_Uptime h)) None = Some (hl_Uptime h)" for k
    using assms by (intro dec_field_enc_opt conjI dec_int_reread) simp_all
  then show ?thesis
    by (simp add: dec_health_def enc_health_def dec_struct_def dec_field_append zero_health_def
        del: reread.simps(2))
qed

text \<open>
  The maps of the report proxies: their numbers are floats, and encoding has put their keys in
  order, so that the client gets the entries as they were written.
\<close>

fun floats_only :: "json \<Rightarrow> bool" where
  "floats_only (JInt i) = False"
| "floats_only (JArr vs) = list_all floats_only vs"
| "floats_only (JObj ms) = list_all (\<lambda>m. floats_only (snd m)) ms"
| "floats_only j = True"

lemma those_map_Some: "list_all (\<lambda>x. f x = Some (g x)) xs \<Longrightarrow> those (map f xs) = Some (map g xs)"
  by (induction xs) simp_all

lemma dec_any_reread: "printable F j \<Longrightarrow> floats_only j \<Longrightarrow> dec_any (reread F j) = Some j"
proof (induction j)
  case (JArr vs)
  then have "list_all (\<lambda>v. dec_any (reread F v) = Some (id v)) vs" by (simp add: list_all_iff)
  from those_map_Some [OF this] show ?case by (simp add: comp_def)
next
  case (JObj ms)
  then have "list_all (\<lambda>m. map_option (Pair (fst m)) (dec_any (reread F (snd m))) = Some (id m)) ms"
    by (fastforce simp: list_all_iff)
  from those_map_Some [OF this] show ?case by (simp add: comp_def)
qed (simp_all add: float_text_def)

lemma map_entries_distinct:
  "distinct (map fst (acc @ ms)) \<Longrightarrow> map_entries acc ms = acc @ ms"
proof (induction ms arbitrary: acc)
  case (Cons m ms)
  then have "fst m \<notin> fst ` set acc" by simp
  then have "filter (\<lambda>e. fst e \<noteq> fst m) acc = acc" by (intro filter_True ballI) (metis imageI)
  then show ?case using Cons by simp
qed simp

lemma map_entries_keys:
  "distinct (map fst acc) \<Longrightarrow> distinct (map fst (map_entries acc ms))"
proof (induction ms arbitrary: acc)
  case (Cons m ms)
  then have "distinct (map fst (filter (\<lambda>e. fst e \<noteq> fst m) acc @ [m]))"
    by (auto simp: distinct_map_filter)
  then show ?case using Cons.IH by simp
qed simp

text \<open>The entries of a map as it is written.\<close>

definition written_map :: "json_map \<Rightarrow> json_map" where
  "written_map m = (case enc_json_map m of JObj es \<Rightarrow> Some es | _ \<Rightarrow> None)"

lemma dec_json_map_reread:
  assumes "printable F (enc_json_map m)" and "floats_only (enc_json_map m)"
  shows "dec_json_map (reread F (enc_json_map m)) None = Some (written_map m)"
proof (cases m)
  case None
  then show ?thesis by (simp add: enc_json_map_def dec_json_map_def written_map_def)
next
  case (Some ms)
  then obtain es where es: "enc_json_map m = JObj es" "distinct (map fst es)"
    using map_entries_keys [of "[]" "map (\<lambda>m. (fst m, any_value (snd m))) ms"]
    by (simp add: enc_json_map_def distinct_map inj_on_def)
  have "dec_any (reread F (JObj es)) = Some (JObj es)" using assms es(1) dec_any_reread by metis
  then show ?thesis using es map_entries_distinct [of "[]" es]
    by (simp add: dec_json_map_def written_map_def)
qed

end
