(* ===== verification/ClientServer.thy ===== *)
theory ClientServer
  imports ServerProps ResponseText
begin

text \<open>
  The generated client against the generated server: a request that the client builds for an
  operation is routed to that operation with the same arguments, and what the service answers is
  what the client returns. Between them stand the parameter styles and binders of
  \<open>oapi-codegen/runtime\<close> and the chi router, about which documented behaviour is assumed.
\<close>

subsection \<open>Over the wire\<close>

text \<open>
  A request as the server sees it. \<open>net/http\<close> gives a request without a body an empty one. The
  path is the decoded one, which for the paths below equals the escaped one.
\<close>

definition received :: "ctx \<Rightarrow> client_request \<Rightarrow> in_request" where
  "received c req =
     \<lparr>ir_method = cr_Method req, ir_path = u_Path (cr_URL req), ir_query = url_Query (cr_URL req),
      ir_body = Some (case cr_Body req of None \<Rightarrow> ([], None) | Some b \<Rightarrow> b), ir_ctx = c\<rparr>"

text \<open>
  A response as the client sees it: the headers set before the first write, the status, and the
  bytes written. A handler that panics loses the connection. \<open>status_line\<close> is the text of a status.
\<close>

fun sent_headers :: "(string \<times> string) list \<Rightarrow> write_call list \<Rightarrow> (string \<times> string) list" where
  "sent_headers hs (SetHeader k v # cs) = sent_headers ((k, v) # filter (\<lambda>e. fst e \<noteq> k) hs) cs"
| "sent_headers hs _ = hs"

fun sent_body :: "write_call list \<Rightarrow> string" where
  "sent_body [] = []"
| "sent_body (WriteBody b # cs) = b @ sent_body cs"
| "sent_body (_ # cs) = sent_body cs"

definition arrived :: "(int \<Rightarrow> string) \<Rightarrow> handler_result \<Rightarrow> string + client_response" where
  "arrived status_line out =
     (case hr_panic out of
        Some _ \<Rightarrow> Inl ''EOF''
      | None \<Rightarrow>
          (let cs = hr_calls out;
               code = (case wire_status cs of None \<Rightarrow> 200 | Some k \<Rightarrow> k)
           in Inr \<lparr>cs_StatusCode = code, cs_Status = status_line code,
                cs_Header = sent_headers [] cs, cs_Body = (sent_body cs, None)\<rparr>))"

definition served_by ::
  "(int \<Rightarrow> string) \<Rightarrow> ctx \<Rightarrow> ('d, 'x) http_handler \<Rightarrow> ('d, 'x) world doer" where
  "served_by status_line c h req w =
     (let (out, w1) = h (received c req) w in (arrived status_line out, w1))"

subsection \<open>What is assumed of the libraries\<close>

definition int32 :: "int \<Rightarrow> bool" where
  "int32 i \<longleftrightarrow> - (2 ^ 31) \<le> i \<and> i < 2 ^ 31"

definition styled :: "string \<Rightarrow> string \<Rightarrow> string" where
  "styled name text = query_escape name @ ''='' @ query_escape text"

text \<open>
  \<open>StyleParamWithOptions\<close>: the simple style leaves unreserved text alone, the form style writes
  one pair.
\<close>

definition styles :: "param_style \<Rightarrow> bool" where
  "styles P \<longleftrightarrow>
     (\<forall>name v. plain_text v \<longrightarrow> sp_path_string P name v = Inr v) \<and>
     (\<forall>name v. plain_text name \<longrightarrow> sp_query_string P name v = Inr (styled name v)) \<and>
     (\<forall>name i. plain_text name \<longrightarrow> sp_query_int32 P name i = Inr (styled name (itoa i))) \<and>
     (\<forall>name d. plain_text name \<longrightarrow> sp_query_date P name d = Inr (styled name (format_date d)))"

text \<open>The binders read a parameter that is absent, or present once and well formed.\<close>

definition binds :: "param_bind \<Rightarrow> bool" where
  "binds B \<longleftrightarrow>
     (\<forall>name v. plain_text v \<and> v \<noteq> [] \<longrightarrow> bind_path_string B name v = Inr v) \<and>
     (\<forall>name q. distinct (map fst q) \<longrightarrow> bind_query_string B name q = Inr (map_of q name)) \<and>
     (\<forall>name q. distinct (map fst q) \<and> map_of q name = None \<longrightarrow> bind_query_int32 B name q = Inr None) \<and>
     (\<forall>name q i. distinct (map fst q) \<and> map_of q name = Some (itoa i) \<and> int32 i \<longrightarrow>
        bind_query_int32 B name q = Inr (Some i)) \<and>
     (\<forall>name q. distinct (map fst q) \<and> map_of q name = None \<longrightarrow> bind_query_date B name q = Inr None) \<and>
     (\<forall>name q d. distinct (map fst q) \<and> map_of q name = Some (format_date d) \<and> valid_date d \<longrightarrow>
        bind_query_date B name q = Inr (Some d))"

text \<open>chi finds the only route that matches, method and segment by segment.\<close>

definition route_params :: "string \<times> string \<Rightarrow> in_request \<Rightarrow> url_params option" where
  "route_params e r =
     (if fst e = ir_method r
      then seg_match (split_on (CHR ''/'') (snd e)) (split_on (CHR ''/'') (ir_path r)) else None)"

fun matches :: "nat \<Rightarrow> (string \<times> string) list \<Rightarrow> in_request \<Rightarrow> (nat \<times> url_params) list" where
  "matches n [] r = []"
| "matches n (e # table) r =
     (case route_params e r of
        None \<Rightarrow> matches (Suc n) table r
      | Some ps \<Rightarrow> (n, ps) # matches (Suc n) table r)"

definition finds_unique :: "chi_router \<Rightarrow> bool" where
  "finds_unique chi \<longleftrightarrow>
     (\<forall>table r hit. matches 0 table r = [hit] \<longrightarrow> chi_find chi table r = Some hit)"

subsection \<open>Requests of the client\<close>

text \<open>The request that the client builds for an operation, given as the server's request object.\<close>

fun client_builds ::
  "'x env \<Rightarrow> client_lib \<Rightarrow> string \<Rightarrow> request_object \<Rightarrow> string + client_request" where
  "client_builds E L server (ListInstancesRequestObject p) = NewListInstancesRequest L server (Some p)"
| "client_builds E L server (CreateInstanceRequestObject k (Some i)) =
     NewCreateInstanceRequest E L server (Some k) i"
| "client_builds E L server (CreateInstanceRequestObject k None) =
     NewCreateInstanceRequestWithBody L server (Some k) ''application/json'' None"
| "client_builds E L server GetHealthRequestObject = NewGetHealthRequest L server"
| "client_builds E L server (DeleteInstanceRequestObject k) = NewDeleteInstanceRequest L server k"
| "client_builds E L server (GetInstanceRequestObject k) = NewGetInstanceRequest L server k"
| "client_builds E L server (GetCostReportRequestObject k p) =
     NewGetCostReportRequest L server k (Some p)"
| "client_builds E L server (GetCostForecastRequestObject k) = NewGetCostForecastRequest L server k"
| "client_builds E L server (GetUsageRequestObject k m p) = NewGetUsageRequest L server k m (Some p)"

text \<open>The operation that the service runs for a request object.\<close>

fun service_runs ::
  "'x env \<Rightarrow> ('d, 'x) handler \<Rightarrow> request_object \<Rightarrow> ctx \<Rightarrow> ('d, 'x) world \<Rightarrow>
   api_response \<times> ('d, 'x) world" where
  "service_runs E H (ListInstancesRequestObject p) c w = ListInstances E H p w"
| "service_runs E H (CreateInstanceRequestObject k b) c w = CreateInstance E H c k b w"
| "service_runs E H GetHealthRequestObject c w = GetHealth E H w"
| "service_runs E H (DeleteInstanceRequestObject k) c w = DeleteInstance E H c k w"
| "service_runs E H (GetInstanceRequestObject k) c w = GetInstance E H k w"
| "service_runs E H (GetCostReportRequestObject k p) c w = GetCostReport E H c k p w"
| "service_runs E H (GetCostForecastRequestObject k) c w = GetCostForecast E H c k w"
| "service_runs E H (GetUsageRequestObject k m p) c w = GetUsage E H c k m p w"

fun visitor_of ::
  "'x env \<Rightarrow> response_io \<Rightarrow> request_object \<Rightarrow> api_response \<Rightarrow> visit option" where
  "visitor_of E K (ListInstancesRequestObject p) = VisitListInstancesResponse E K"
| "visitor_of E K (CreateInstanceRequestObject k b) = VisitCreateInstanceResponse E K"
| "visitor_of E K GetHealthRequestObject = VisitGetHealthResponse E K"
| "visitor_of E K (DeleteInstanceRequestObject k) = VisitDeleteInstanceResponse E K"
| "visitor_of E K (GetInstanceRequestObject k) = VisitGetInstanceResponse E K"
| "visitor_of E K (GetCostReportRequestObject k p) = VisitGetCostReportResponse E K"
| "visitor_of E K (GetCostForecastRequestObject k) = VisitGetCostForecastResponse E K"
| "visitor_of E K (GetUsageRequestObject k m p) = VisitGetUsageResponse E K"

definition service_answers ::
  "'x env \<Rightarrow> response_io \<Rightarrow> ('d, 'x) handler \<Rightarrow> request_object \<Rightarrow> ('d, 'x) http_handler" where
  "service_answers E K H q r w =
     finish_strict K (plain (strict_of E H)) (visitor_of E K q) r
       (call_result (answered (service_runs E H q (ir_ctx r) w)))"

text \<open>
  Arguments that a URL can carry: ids that are segments of unreserved characters (every id of the
  form that \<open>safeIDPattern\<close> asks of targets is one), not \<open>health\<close> where that is a route of its
  own, numbers and dates in range, and an instance that JSON can express.
\<close>

definition opt_date :: "api_date option \<Rightarrow> bool" where
  "opt_date d = (case d of None \<Rightarrow> True | Some x \<Rightarrow> valid_date x)"

definition dates_ok :: "report_params \<Rightarrow> bool" where
  "dates_ok p \<longleftrightarrow> opt_date (StartDate p) \<and> opt_date (EndDate p)"

fun addressable :: "float_fmt \<Rightarrow> request_object \<Rightarrow> bool" where
  "addressable F (ListInstancesRequestObject p) =
     (case MaxPageSize p of None \<Rightarrow> True | Some n \<Rightarrow> int32 n)"
| "addressable F (CreateInstanceRequestObject k b) =
     (case b of None \<Rightarrow> False | Some i \<Rightarrow> readable_instance F i)"
| "addressable F GetHealthRequestObject = True"
| "addressable F (DeleteInstanceRequestObject k) = segment k"
| "addressable F (GetInstanceRequestObject k) = (segment k \<and> k \<noteq> ''health'')"
| "addressable F (GetCostReportRequestObject k p) = (segment k \<and> dates_ok p)"
| "addressable F (GetCostForecastRequestObject k) = segment k"
| "addressable F (GetUsageRequestObject k m p) = (segment k \<and> segment m \<and> dates_ok p)"

lemma safe_id_segment: "safeIDPattern k \<Longrightarrow> segment k"
proof -
  assume s: "safeIDPattern k"
  have "safe_rest c \<Longrightarrow> url_unreserved c" for c
    by (auto simp: safe_rest_def safe_first_def url_unreserved_def in_range_def Let_def)
  moreover have "safe_first c \<Longrightarrow> safe_rest c" for c by (simp add: safe_rest_def)
  ultimately have "plain_text k"
    using s by (auto simp: safeIDPattern_def plain_text_def list_all_iff split: list.splits)
  moreover have "k \<noteq> []" "k \<noteq> ''.''" "k \<noteq> ''..''"
    using s by (auto simp: safeIDPattern_def safe_first_def in_range_def)
  ultimately show ?thesis by (simp add: segment_def)
qed

subsection \<open>Building\<close>

lemma set_join_with:
  "c \<in> set (join_with sep ps) \<Longrightarrow> c \<in> set sep \<or> (\<exists>p \<in> set ps. c \<in> set p)"
  by (induction sep ps rule: join_with.induct) auto

lemma query_text_encode: "query_text (values_encode vs)"
proof -
  have plain: "url_unreserved c \<Longrightarrow> c \<noteq> CHR ''#'' \<and> \<not> is_ctl c" for c
    using plain_path_char [of "[c]" c] by simp
  have marks: "\<not> is_ctl (CHR ''&'')" "\<not> is_ctl (CHR ''='')" "\<not> is_ctl (CHR ''+'')" "\<not> is_ctl (CHR ''%'')"
    by (simp_all add: is_ctl_def)
  have esc: "c \<in> set (query_escape s) \<Longrightarrow> c \<noteq> CHR ''#'' \<and> \<not> is_ctl c" for c s
    using query_escape_chars [of c s] plain [of c] marks by (auto simp: query_escape_eq)
  have "c \<noteq> CHR ''#'' \<and> \<not> is_ctl c" if "c \<in> set (values_encode vs)" for c
    using set_join_with [OF that [unfolded values_encode_def]] esc [of c] marks by auto
  then show ?thesis by (simp add: query_text_def list_all_iff)
qed

lemma values_encode_Nil [simp]: "values_encode [] = []"
  by (simp add: values_encode_def)

lemma relative_slash [simp]: "relative_path (CHR ''/'' # p) = ''./'' @ p"
  by (simp add: relative_path_def has_prefix_def)

lemma plain_join_path: "list_all segment es \<Longrightarrow> plain_path (CHR ''/'' # join_with ''/'' es)"
  using plain_path_join [of es] by (simp add: list_all_iff segment_def)

definition site_root :: "string \<Rightarrow> string \<Rightarrow> string" where
  "site_root sch auth = sch @ ''://'' @ auth @ ''/''"

definition path_of :: "string list \<Rightarrow> string" where
  "path_of es = CHR ''/'' # join_with ''/'' es"

lemma operation_url_site:
  assumes "site (lb_authority L) sch auth" and "list_all segment es" and "es \<noteq> []"
  shows "operation_url L (site_root sch auth) (path_of es) = Inr (site_url sch auth (path_of es) [])"
proof -
  have "url_parse (lb_authority L) (sch @ ''://'' @ auth @ ''/'' @ query_suffix []) =
      Inr (site_url sch auth ''/'' [])"
    by (rule parse_site [OF assms(1)]) (simp_all add: has_prefix_def query_text_def)
  then show ?thesis
    using resolve_site [OF assms(2,3)]
    by (simp add: operation_url_def site_root_def path_of_def query_suffix_def)
qed

definition site_request ::
  "string \<Rightarrow> string \<Rightarrow> string \<Rightarrow> string list \<Rightarrow> url_values \<Rightarrow> (string \<times> string option) option \<Rightarrow>
   client_request" where
  "site_request meth sch auth es vs body =
     \<lparr>cr_Method = meth,
      cr_URL = site_url sch (remove_empty_port auth) (path_of es) (values_encode vs),
      cr_Header = [], cr_Body = body, cr_ctx = None\<rparr>"

lemma built_site:
  assumes "site A sch auth" and "list_all segment es"
  shows "http_NewRequest A meth
      (url_String (site_url sch auth (path_of es) (values_encode vs))) body =
    Inr (site_request meth sch auth es vs body)"
proof -
  let ?q = "values_encode vs"
  have p: "plain_path (path_of es)" "has_prefix (path_of es) ''/''"
    using plain_join_path [OF assms(2)] by (simp_all add: path_of_def has_prefix_def)
  from parse_site [OF assms(1) p query_text_encode [of vs]] print_site [OF assms(1) p, of ?q] show ?thesis
    by (simp add: http_NewRequest_def site_request_def) (simp add: site_url_def)
qed

lemma received_site:
  "received c (site_request meth sch auth es vs body) =
     \<lparr>ir_method = meth, ir_path = path_of es, ir_query = sort_key fst vs,
      ir_body = Some (case body of None \<Rightarrow> ([], None) | Some b \<Rightarrow> b), ir_ctx = c\<rparr>"
  by (simp add: received_def site_request_def url_Query_def) (simp add: site_url_def empty_url_def)

lemma received_header [simp]: "received c (req\<lparr>cr_Header := h\<rparr>) = received c req"
  "received c (req\<lparr>cr_ctx := x\<rparr>) = received c req"
  by (simp_all add: received_def)

lemma url_Query_site [simp]: "url_Query (site_url sch auth p []) = []"
  by (simp add: url_Query_def site_url_def empty_url_def parse_query_def)

lemma with_query_site:
  "with_query (site_url sch auth p []) vs = site_url sch auth p (values_encode vs)"
  by (simp add: with_query_def site_url_def)

lemma query_param_styled:
  assumes "\<And>x. v = Some x \<Longrightarrow> style name x = Inr (styled name (t x))"
  shows "query_param style name v vs = Inr (vs @ (case v of None \<Rightarrow> [] | Some x \<Rightarrow> [(name, t x)]))"
proof (cases v)
  case (Some x)
  have "parse_query (styled name (t x)) = ([(name, t x)], None)"
    using parse_query_encode [of "[(name, t x)]"] by (simp add: values_encode_def styled_def)
  then show ?thesis using assms [OF Some] Some by (simp add: query_param_def add_fragment_def values_add_def)
qed (simp add: query_param_def)

lemma map_of_sorted:
  assumes "distinct (map fst vs)"
  shows "map_of (sort_key fst vs) = map_of vs" "distinct (map fst (sort_key fst vs))"
proof -
  have d: "distinct (map fst (sort_key fst vs))"
    using assms by (simp add: distinct_map distinct_sort inj_on_def)
  then show "distinct (map fst (sort_key fst vs))" .
  show "map_of (sort_key fst vs) = map_of vs"
    using map_of_inject_set [OF d assms] by simp
qed

text \<open>The path segments of the operations.\<close>

definition base_segments :: "string list" where
  "base_segments = [''api'', ''v1alpha1'', ''instances'']"

lemma segment_literals [simp]:
  "segment ''api''" "segment ''v1alpha1''" "segment ''instances''" "segment ''health''"
  "segment ''cost-reports''" "segment ''forecast''" "segment ''usage''"
  by code_simp+

lemma paths:
  "path_of base_segments = ''/api/v1alpha1/instances''"
  "path_of (base_segments @ [a]) = ''/api/v1alpha1/instances/'' @ a"
  "path_of (base_segments @ [a, b]) = ''/api/v1alpha1/instances/'' @ a @ ''/'' @ b"
  "path_of (base_segments @ [a, b, c]) = ''/api/v1alpha1/instances/'' @ a @ ''/'' @ b @ ''/'' @ c"
  by (simp_all add: path_of_def base_segments_def)

text \<open>The request of an operation, as the server sees it.\<close>

definition opt_entry :: "string \<Rightarrow> ('a \<Rightarrow> string) \<Rightarrow> 'a option \<Rightarrow> url_values" where
  "opt_entry name t v = (case v of None \<Rightarrow> [] | Some x \<Rightarrow> [(name, t x)])"

fun op_method :: "request_object \<Rightarrow> string" where
  "op_method (CreateInstanceRequestObject k b) = ''POST''"
| "op_method (DeleteInstanceRequestObject k) = ''DELETE''"
| "op_method q = ''GET''"

fun op_segments :: "request_object \<Rightarrow> string list" where
  "op_segments GetHealthRequestObject = base_segments @ [''health'']"
| "op_segments (DeleteInstanceRequestObject k) = base_segments @ [k]"
| "op_segments (GetInstanceRequestObject k) = base_segments @ [k]"
| "op_segments (GetCostReportRequestObject k p) = base_segments @ [k, ''cost-reports'']"
| "op_segments (GetCostForecastRequestObject k) = base_segments @ [k, ''cost-reports'', ''forecast'']"
| "op_segments (GetUsageRequestObject k m p) = base_segments @ [k, ''usage'', m]"
| "op_segments q = base_segments"

definition date_entries :: "report_params \<Rightarrow> url_values" where
  "date_entries p = opt_entry ''start_date'' format_date (StartDate p) @
     opt_entry ''end_date'' format_date (EndDate p)"

fun op_entries :: "request_object \<Rightarrow> url_values" where
  "op_entries (ListInstancesRequestObject p) =
     opt_entry ''page_token'' id (PageToken p) @ opt_entry ''max_page_size'' itoa (MaxPageSize p)"
| "op_entries (CreateInstanceRequestObject k b) = opt_entry ''id'' id k"
| "op_entries (GetCostReportRequestObject k p) = date_entries p"
| "op_entries (GetUsageRequestObject k m p) = date_entries p"
| "op_entries q = []"

fun op_body :: "'x env \<Rightarrow> request_object \<Rightarrow> string" where
  "op_body E (CreateInstanceRequestObject k (Some i)) = print_json (env_float E) (enc_cost_instance i)"
| "op_body E q = []"

definition op_request :: "'x env \<Rightarrow> ctx \<Rightarrow> request_object \<Rightarrow> in_request" where
  "op_request E c q =
     \<lparr>ir_method = op_method q, ir_path = path_of (op_segments q),
      ir_query = sort_key fst (op_entries q), ir_body = Some (op_body E q, None), ir_ctx = c\<rparr>"

lemma base_segments_ok [simp]: "list_all segment base_segments" "base_segments \<noteq> []"
  by (simp_all add: base_segments_def)

lemma op_segments_ok: "addressable F q \<Longrightarrow> list_all segment (op_segments q) \<and> op_segments q \<noteq> []"
  by (cases q) simp_all

lemma styles_path: "styles P \<Longrightarrow> segment k \<Longrightarrow> sp_path_string P name k = Inr k"
  by (simp add: styles_def segment_def)

lemma plain_names [simp]:
  "plain_text ''page_token''" "plain_text ''max_page_size''" "plain_text ''id''"
  "plain_text ''start_date''" "plain_text ''end_date''"
  by code_simp+

lemma query_param_opt:
  assumes "\<And>x. style name x = Inr (styled name (t x))"
  shows "query_param style name v vs = Inr (vs @ opt_entry name t v)"
  using query_param_styled [of v style name t] assms by (simp add: opt_entry_def)

lemma styles_query:
  assumes "styles P" and "plain_text name"
  shows "query_param (sp_query_string P) name v1 vs = Inr (vs @ opt_entry name id v1)"
    "query_param (sp_query_int32 P) name v2 vs = Inr (vs @ opt_entry name itoa v2)"
    "query_param (sp_query_date P) name v3 vs = Inr (vs @ opt_entry name format_date v3)"
  using assms by (auto simp: styles_def intro!: query_param_opt)

lemmas styles_named =
  styles_query(1) [OF _ plain_names(1)] styles_query(2) [OF _ plain_names(2)]
  styles_query(1) [OF _ plain_names(3)] styles_query(3) [OF _ plain_names(4)]
  styles_query(3) [OF _ plain_names(5)]

lemma with_dates_site:
  assumes "styles (lb_style L)"
  shows "with_dates L (Some p) (site_url sch auth path []) =
    Inr (site_url sch auth path (values_encode (date_entries p)))"
  using assms by (simp add: with_dates_def styles_named with_query_site date_entries_def)

lemma operation_url_paths:
  assumes "site (lb_authority L) sch auth" and "list_all segment es"
  shows "operation_url L (site_root sch auth) (path_of (base_segments @ es)) =
    Inr (site_url sch auth (path_of (base_segments @ es)) [])"
  using assms by (intro operation_url_site) simp_all

lemma bodyless_site:
  assumes "site (lb_authority L) sch auth" and "list_all segment es"
  shows "bodyless L meth (site_url sch auth (path_of (base_segments @ es)) (values_encode vs)) =
    Inr (site_request meth sch auth (base_segments @ es) vs None)"
  unfolding bodyless_def using assms by (intro built_site) simp_all

text \<open>The client builds this request for every operation that can be addressed.\<close>

lemma client_built:
  assumes "site (lb_authority L) sch auth" and "styles (lb_style L)"
    and "addressable (env_float E) q"
  shows "\<exists>req. client_builds E L (site_root sch auth) q = Inr req \<and>
    (\<forall>c. received c req = op_request E c q)"
proof -
  note url = operation_url_paths [OF assms(1)]
  note req = bodyless_site [OF assms(1)]
  note noq = req [of _ _ "[]", simplified values_encode_Nil]
  note path = styles_path [OF assms(2)]
  show ?thesis
  proof (cases q)
    case (ListInstancesRequestObject p)
    then show ?thesis
      using url [of "[]"] req [of "[]" "''GET''" "op_entries q"]
      by (simp add: NewListInstancesRequest_def paths styles_named [OF assms(2)] with_query_site
          op_request_def received_site)
  next
    case (CreateInstanceRequestObject k b)
    then obtain i where b: "b = Some i" and i: "readable_instance (env_float E) i"
      using assms(3) by (cases b) simp_all
    have "marshal_instance E i = Inr (print_json (env_float E) (enc_cost_instance i))"
      using i printable_finite by (auto simp: marshal_instance_def readable_instance_def)
    moreover have "http_NewRequest (lb_authority L) ''POST''
        (url_String (site_url sch auth (path_of base_segments) (values_encode (op_entries q)))) body =
        Inr (site_request ''POST'' sch auth base_segments (op_entries q) body)" for body
      by (rule built_site [OF assms(1)]) simp
    ultimately show ?thesis
      using url [of "[]"] CreateInstanceRequestObject b
      by (simp add: NewCreateInstanceRequest_def NewCreateInstanceRequestWithBody_def paths
          styles_named [OF assms(2)] with_query_site op_request_def received_site)
  next
    case GetHealthRequestObject
    then show ?thesis
      using url [of "[''health'']"] noq [of "[''health'']" "''GET''"]
      by (simp add: NewGetHealthRequest_def paths op_request_def received_site)
  next
    case (DeleteInstanceRequestObject k)
    then show ?thesis
      using url [of "[k]"] noq [of "[k]" "''DELETE''"] path [of k] assms(3)
      by (simp add: NewDeleteInstanceRequest_def paths op_request_def received_site)
  next
    case (GetInstanceRequestObject k)
    then show ?thesis
      using url [of "[k]"] noq [of "[k]" "''GET''"] path [of k] assms(3)
      by (simp add: NewGetInstanceRequest_def paths op_request_def received_site)
  next
    case (GetCostReportRequestObject k p)
    then show ?thesis
      using url [of "[k, ''cost-reports'']"] req [of "[k, ''cost-reports'']" "''GET''" "date_entries p"]
        path [of k] assms(3)
      by (simp add: NewGetCostReportRequest_def paths op_request_def received_site
          with_dates_site [OF assms(2)])
  next
    case (GetCostForecastRequestObject k)
    then show ?thesis
      using url [of "[k, ''cost-reports'', ''forecast'']"]
        noq [of "[k, ''cost-reports'', ''forecast'']" "''GET''"] path [of k] assms(3)
      by (simp add: NewGetCostForecastRequest_def paths op_request_def received_site)
  next
    case (GetUsageRequestObject k m p)
    then show ?thesis
      using url [of "[k, ''usage'', m]"] req [of "[k, ''usage'', m]" "''GET''" "date_entries p"]
        path [of k] path [of m] assms(3)
      by (simp add: NewGetUsageRequest_def paths op_request_def received_site
          with_dates_site [OF assms(2)])
  qed
qed

end
