(* ===== verification/ClientRoutes.thy ===== *)
theory ClientRoutes
  imports ClientServer
begin

text \<open>
  From the router to the service: the route, the parameters and the body of a request that the
  client built are those of the operation it was built for.
\<close>

subsection \<open>Routes\<close>

lemma split_path:
  assumes "list_all segment es" and "es \<noteq> []"
  shows "split_on (CHR ''/'') (path_of es) = [] # es"
proof -
  have "CHR ''/'' \<notin> set e" if "segment e" for e
    using that by (auto simp: segment_def plain_text_def list_all_iff url_unreserved_def)
  then have "split_on (CHR ''/'') (join_with ''/'' ([] # es)) = [] # es"
    using assms(1) by (intro split_join) (auto simp: list_all_iff)
  then show ?thesis using assms(2) by (cases es) (simp_all add: path_of_def)
qed

fun op_route :: "request_object \<Rightarrow> nat" where
  "op_route (ListInstancesRequestObject p) = 0"
| "op_route (CreateInstanceRequestObject k b) = 1"
| "op_route GetHealthRequestObject = 2"
| "op_route (DeleteInstanceRequestObject k) = 3"
| "op_route (GetInstanceRequestObject k) = 4"
| "op_route (GetCostReportRequestObject k p) = 5"
| "op_route (GetCostForecastRequestObject k) = 6"
| "op_route (GetUsageRequestObject k m p) = 7"

fun op_params :: "request_object \<Rightarrow> url_params" where
  "op_params (DeleteInstanceRequestObject k) = [(''instanceId'', k)]"
| "op_params (GetInstanceRequestObject k) = [(''instanceId'', k)]"
| "op_params (GetCostReportRequestObject k p) = [(''instanceId'', k)]"
| "op_params (GetCostForecastRequestObject k) = [(''instanceId'', k)]"
| "op_params (GetUsageRequestObject k m p) = [(''instanceId'', k), (''metric'', m)]"
| "op_params q = []"

lemma op_request_simps [simp]:
  "ir_method (op_request E c q) = op_method q" "ir_path (op_request E c q) = path_of (op_segments q)"
  "ir_query (op_request E c q) = sort_key fst (op_entries q)"
  "ir_body (op_request E c q) = Some (op_body E q, None)" "ir_ctx (op_request E c q) = c"
  by (simp_all add: op_request_def)

text \<open>The table of routes, split once.\<close>

definition route_segments :: "(string \<times> string list) list" where
  "route_segments =
     [(''GET'', [] # base_segments), (''POST'', [] # base_segments),
      (''GET'', [] # base_segments @ [''health'']),
      (''DELETE'', [] # base_segments @ [''{instanceId}'']),
      (''GET'', [] # base_segments @ [''{instanceId}'']),
      (''GET'', [] # base_segments @ [''{instanceId}'', ''cost-reports'']),
      (''GET'', [] # base_segments @ [''{instanceId}'', ''cost-reports'', ''forecast'']),
      (''GET'', [] # base_segments @ [''{instanceId}'', ''usage'', ''{metric}''])]"

lemma routes_split:
  "map (\<lambda>e. (fst e, split_on (CHR ''/'') (snd e))) (map fst (routes B [] S)) = route_segments"
  unfolding routes_table by code_simp

fun matches_segments :: "nat \<Rightarrow> (string \<times> string list) list \<Rightarrow> string \<Rightarrow> string list \<Rightarrow> (nat \<times> url_params) list" where
  "matches_segments n [] meth es = []"
| "matches_segments n ((m, p) # table) meth es =
     (case (if m = meth then seg_match p es else None) of
        None \<Rightarrow> matches_segments (Suc n) table meth es
      | Some ps \<Rightarrow> (n, ps) # matches_segments (Suc n) table meth es)"

lemma matches_split:
  "matches n table r = matches_segments n (map (\<lambda>e. (fst e, split_on (CHR ''/'') (snd e))) table)
     (ir_method r) (split_on (CHR ''/'') (ir_path r))"
  by (induction table arbitrary: n) (simp_all add: route_params_def split: option.split)

lemma op_matches:
  assumes "addressable F q" and "q \<noteq> GetHealthRequestObject"
  shows "matches 0 (map fst (routes B [] S)) (op_request E c q) = [(op_route q, op_params q)]"
proof -
  have "split_on (CHR ''/'') (path_of (op_segments q)) = [] # op_segments q"
    using op_segments_ok [OF assms(1)] by (intro split_path) simp_all
  then show ?thesis
    using assms unfolding matches_split routes_split
    by (cases q) (auto simp: route_segments_def base_segments_def has_prefix_def segment_def)
qed

lemma routed:
  assumes "finds_unique (lib_chi L)" and "static_first (lib_chi L)" and "addressable F q"
  shows "chi_find (lib_chi L) (map fst (routes B [] S)) (op_request E c q) =
    Some (op_route q, op_params q)"
proof (cases "q = GetHealthRequestObject")
  case True
  let ?table = "map fst (routes B [] S)" and ?r = "op_request E c q"
  have "2 < length ?table \<and> distinct ?table \<and> ?table ! 2 = (ir_method ?r, ir_path ?r) \<and>
      CHR ''{'' \<notin> set (ir_path ?r)"
    unfolding routes_table True by (simp add: paths)
  then show ?thesis using assms(2) True unfolding static_first_def by simp
next
  case False
  then show ?thesis
    using assms(1) op_matches [OF assms(3)] unfolding finds_unique_def by blast
qed

subsection \<open>Parameters\<close>

lemma map_of_opt_entry [simp]:
  "(m ++ map_of (opt_entry name t v)) name' =
     (if name = name' \<and> v \<noteq> None then map_option t v else m name')"
  "map_of (opt_entry name t v) name' = (if name = name' then map_option t v else None)"
  by (auto simp: opt_entry_def map_add_def split: option.split)

lemma op_entries_distinct [simp]: "distinct (map fst (op_entries q))"
  by (cases q) (auto simp: opt_entry_def date_entries_def split: option.split)

lemmas op_lookup = map_of_sorted(1) [OF op_entries_distinct] map_of_sorted(2) [OF op_entries_distinct]

lemma binds_query:
  assumes "binds B"
  shows "map_of (op_entries q) name = v \<Longrightarrow>
      bind_query_string B name (sort_key fst (op_entries q)) = Inr v"
    "map_of (op_entries q) name = map_option itoa n \<Longrightarrow> (case n of None \<Rightarrow> True | Some i \<Rightarrow> int32 i) \<Longrightarrow>
      bind_query_int32 B name (sort_key fst (op_entries q)) = Inr n"
    "map_of (op_entries q) name = map_option format_date d \<Longrightarrow> opt_date d \<Longrightarrow>
      bind_query_date B name (sort_key fst (op_entries q)) = Inr d"
proof -
  let ?vs = "sort_key fst (op_entries q)"
  note B = assms [unfolded binds_def]
  show "bind_query_string B name ?vs = Inr v" if "map_of (op_entries q) name = v"
    using B that op_lookup by metis
  show "bind_query_int32 B name ?vs = Inr n"
    if "map_of (op_entries q) name = map_option itoa n" "case n of None \<Rightarrow> True | Some i \<Rightarrow> int32 i"
    using B that op_lookup [of q] by (cases n) simp_all
  show "bind_query_date B name ?vs = Inr d"
    if "map_of (op_entries q) name = map_option format_date d" "opt_date d"
    using B that op_lookup [of q] by (cases d) (simp_all add: opt_date_def)
qed

lemma binds_path: "binds B \<Longrightarrow> segment k \<Longrightarrow> bind_path_string B name k = Inr k"
  by (simp add: binds_def segment_def)

lemma bind_param_ok [simp]: "b r = Inr v \<Longrightarrow> bind_param S name b rest r w = rest v r w"
  by (simp add: bind_param_def)

subsection \<open>The operation\<close>

lemma op_body_decodes:
  assumes "readable_instance (env_float E) i"
  shows "decode_body E dec_cost_instance zero_instance
      (op_body E (CreateInstanceRequestObject k (Some i)), None) = Inr i"
  using decode_print [of "env_float E" "enc_cost_instance i" "[]"] assms
    dec_cost_instance_reread [OF assms]
  by (simp add: decode_body_def readable_instance_def Let_def)

text \<open>The table of routes sends the request to the service's operation, with its arguments.\<close>

lemma client_served:
  assumes "finds_unique (lib_chi L)" and "static_first (lib_chi L)" and "binds (lib_bind L)"
    and "addressable (env_float E) q"
  shows "api_routes E L K H (op_request E c q) w = service_answers E K H q (op_request E c q) w"
proof -
  let ?S = "plain_siw (server_of E K (plain (strict_of E H))) (\<lambda>r. newBadRequestHandler E)"
  note found = routed [OF assms(1,2,4), of "lib_bind L" ?S E c]
  note query = binds_query [OF assms(3)]
  note path = binds_path [OF assms(3)]
  have "op_route q < length (routes (lib_bind L) [] ?S)" by (cases q) (simp_all add: routes_def)
  then have "api_routes E L K H (op_request E c q) w =
      snd (routes (lib_bind L) [] ?S ! op_route q) (op_params q) (op_request E c q) w"
    by (simp add: api_routes_def dispatch_def found)
  also have "\<dots> = service_answers E K H q (op_request E c q) w"
  proof (cases q)
    case (ListInstancesRequestObject p)
    then show ?thesis
      using query(1) [of q "''page_token''" "PageToken p"]
        query(2) [of q "''max_page_size''" "MaxPageSize p"] assms(4)
      by (cases p; cases "PageToken p") (simp_all add: routes_def siw_defs strict_defs service_answers_def with_strict_middlewares_def)
  next
    case (CreateInstanceRequestObject k b)
    then obtain i where b: "b = Some i" and i: "readable_instance (env_float E) i"
      using assms(4) by (cases b) simp_all
    show ?thesis
      using query(1) [of q "''id''" k] CreateInstanceRequestObject b op_body_decodes [OF i]
      by (simp add: option.map_id routes_def siw_defs strict_defs service_answers_def
          with_strict_middlewares_def)
  next
    case GetHealthRequestObject
    then show ?thesis
      by (simp add: routes_def siw_defs strict_defs service_answers_def with_strict_middlewares_def)
  next
    case (DeleteInstanceRequestObject k)
    then show ?thesis
      using path [of k] assms(4)
      by (simp add: routes_def siw_defs strict_defs service_answers_def with_strict_middlewares_def URLParam_def)
  next
    case (GetInstanceRequestObject k)
    then show ?thesis
      using path [of k] assms(4)
      by (simp add: routes_def siw_defs strict_defs service_answers_def with_strict_middlewares_def URLParam_def)
  next
    case (GetCostReportRequestObject k p)
    then show ?thesis
      using path [of k] assms(4) query(3) [of q "''start_date''" "StartDate p"]
        query(3) [of q "''end_date''" "EndDate p"]
      by (cases p) (simp add: routes_def siw_defs strict_defs service_answers_def with_strict_middlewares_def
          URLParam_def date_entries_def dates_ok_def)
  next
    case (GetCostForecastRequestObject k)
    then show ?thesis
      using path [of k] assms(4)
      by (simp add: routes_def siw_defs strict_defs service_answers_def with_strict_middlewares_def URLParam_def)
  next
    case (GetUsageRequestObject k m p)
    then show ?thesis
      using path [of k] path [of m] assms(4) query(3) [of q "''start_date''" "StartDate p"]
        query(3) [of q "''end_date''" "EndDate p"]
      by (cases p) (simp add: routes_def siw_defs strict_defs service_answers_def with_strict_middlewares_def
          URLParam_def date_entries_def dates_ok_def)
  qed
  finally show ?thesis .
qed

end
