(* ===== verification/ClientAnswers.thy ===== *)
theory ClientAnswers
  imports ClientRoutes
begin

text \<open>
  The way back: what the client makes of the responses of the server, and the two ways together.
\<close>

subsection \<open>What the client returns\<close>

text \<open>The parsed field of a response that is set, if any.\<close>

datatype seen =
    SeenInstance api_cost_instance
  | SeenList cost_instance_list
  | SeenHealth api_health
  | SeenReport json_map
  | SeenProblem client_error
  | SeenNothing

fun first_of :: "seen option list \<Rightarrow> seen" where
  "first_of [] = SeenNothing"
| "first_of (None # fs) = first_of fs"
| "first_of (Some s # fs) = s"

definition problems :: "client_error option list \<Rightarrow> seen option list" where
  "problems es = map (map_option SeenProblem) es"

definition see_listed :: "ListInstancesResponse \<Rightarrow> int \<times> seen" where
  "see_listed r = (ListInstancesResponse_StatusCode r,
     first_of (map_option SeenList (listed_JSON200 r) # problems
       [listed_ApplicationproblemJSON400 r, listed_ApplicationproblemJSON500 r]))"

definition see_created :: "CreateInstanceResponse \<Rightarrow> int \<times> seen" where
  "see_created r = (CreateInstanceResponse_StatusCode r,
     first_of (map_option SeenInstance (created_JSON201 r) # problems
       [created_ApplicationproblemJSON400 r, created_ApplicationproblemJSON409 r,
        created_ApplicationproblemJSON422 r, created_ApplicationproblemJSON500 r]))"

definition see_health :: "GetHealthResponse \<Rightarrow> int \<times> seen" where
  "see_health r = (GetHealthResponse_StatusCode r,
     first_of [map_option SeenHealth (health_JSON200 r)])"

definition see_deleted :: "DeleteInstanceResponse \<Rightarrow> int \<times> seen" where
  "see_deleted r = (DeleteInstanceResponse_StatusCode r,
     first_of (problems [deleted_ApplicationproblemJSON404 r, deleted_ApplicationproblemJSON500 r]))"

definition see_got :: "GetInstanceResponse \<Rightarrow> int \<times> seen" where
  "see_got r = (GetInstanceResponse_StatusCode r,
     first_of (map_option SeenInstance (got_JSON200 r) # problems
       [got_ApplicationproblemJSON404 r, got_ApplicationproblemJSON500 r]))"

definition see_report :: "GetCostReportResponse \<Rightarrow> int \<times> seen" where
  "see_report r = (GetCostReportResponse_StatusCode r,
     first_of (map_option SeenReport (report_JSON200 r) # problems
       [report_ApplicationproblemJSON404 r, report_ApplicationproblemJSON500 r,
        report_ApplicationproblemJSON502 r]))"

definition see_forecast :: "GetCostForecastResponse \<Rightarrow> int \<times> seen" where
  "see_forecast r = (GetCostForecastResponse_StatusCode r,
     first_of (map_option SeenReport (forecast_JSON200 r) # problems
       [forecast_ApplicationproblemJSON404 r, forecast_ApplicationproblemJSON500 r,
        forecast_ApplicationproblemJSON502 r]))"

definition see_usage :: "GetUsageResponse \<Rightarrow> int \<times> seen" where
  "see_usage r = (GetUsageResponse_StatusCode r,
     first_of (map_option SeenReport (usage_JSON200 r) # problems
       [usage_ApplicationproblemJSON404 r, usage_ApplicationproblemJSON500 r,
        usage_ApplicationproblemJSON502 r]))"

definition seen_as :: "('p \<Rightarrow> int \<times> seen) \<Rightarrow> (string + 'p) \<times> 's \<Rightarrow> (string + int \<times> seen) \<times> 's" where
  "seen_as f out = (map_sum id f (fst out), snd out)"

fun client_asks ::
  "'x env \<Rightarrow> client_lib \<Rightarrow> 's api_client \<Rightarrow> ctx \<Rightarrow> request_object \<Rightarrow> 's \<Rightarrow>
   (string + int \<times> seen) \<times> 's" where
  "client_asks E L c ctx (ListInstancesRequestObject p) s =
     seen_as see_listed (ListInstancesWithResponse E L c ctx (Some p) [] s)"
| "client_asks E L c ctx (CreateInstanceRequestObject k (Some i)) s =
     seen_as see_created (CreateInstanceWithResponse E L c ctx (Some k) i [] s)"
| "client_asks E L c ctx (CreateInstanceRequestObject k None) s =
     seen_as see_created
       (CreateInstanceWithBodyWithResponse E L c ctx (Some k) ''application/json'' None [] s)"
| "client_asks E L c ctx GetHealthRequestObject s =
     seen_as see_health (GetHealthWithResponse E L c ctx [] s)"
| "client_asks E L c ctx (DeleteInstanceRequestObject k) s =
     seen_as see_deleted (DeleteInstanceWithResponse E L c ctx k [] s)"
| "client_asks E L c ctx (GetInstanceRequestObject k) s =
     seen_as see_got (GetInstanceWithResponse E L c ctx k [] s)"
| "client_asks E L c ctx (GetCostReportRequestObject k p) s =
     seen_as see_report (GetCostReportWithResponse E L c ctx k (Some p) [] s)"
| "client_asks E L c ctx (GetCostForecastRequestObject k) s =
     seen_as see_forecast (GetCostForecastWithResponse E L c ctx k [] s)"
| "client_asks E L c ctx (GetUsageRequestObject k m p) s =
     seen_as see_usage (GetUsageWithResponse E L c ctx k m (Some p) [] s)"

subsection \<open>Building, sending, parsing\<close>

fun parse_seen :: "'x env \<Rightarrow> request_object \<Rightarrow> client_response \<Rightarrow> string + int \<times> seen" where
  "parse_seen E (ListInstancesRequestObject p) rsp = map_sum id see_listed (ParseListInstancesResponse E rsp)"
| "parse_seen E (CreateInstanceRequestObject k b) rsp = map_sum id see_created (ParseCreateInstanceResponse E rsp)"
| "parse_seen E GetHealthRequestObject rsp = map_sum id see_health (ParseGetHealthResponse E rsp)"
| "parse_seen E (DeleteInstanceRequestObject k) rsp = map_sum id see_deleted (ParseDeleteInstanceResponse E rsp)"
| "parse_seen E (GetInstanceRequestObject k) rsp = map_sum id see_got (ParseGetInstanceResponse E rsp)"
| "parse_seen E (GetCostReportRequestObject k p) rsp = map_sum id see_report (ParseGetCostReportResponse E rsp)"
| "parse_seen E (GetCostForecastRequestObject k) rsp =
     map_sum id see_forecast (ParseGetCostForecastResponse E rsp)"
| "parse_seen E (GetUsageRequestObject k m p) rsp = map_sum id see_usage (ParseGetUsageResponse E rsp)"

lemma seen_parsed [simp]:
  "seen_as f (parsed_by parse out) = (or_fail (fst out) (\<lambda>rsp. map_sum id f (parse rsp)), snd out)"
  by (simp add: seen_as_def parsed_by_def or_fail_def split: sum.split)

lemma client_asks_eq:
  "client_asks E L c ctx q s =
     (let out = send c ctx [] (client_builds E L (cl_Server c) q) s
      in (or_fail (fst out) (parse_seen E q), snd out))"
proof (cases q)
  case (CreateInstanceRequestObject k b)
  then show ?thesis
    by (cases b) (simp_all add: Let_def or_fail_def CreateInstanceWithResponse_def client_CreateInstance_def
        CreateInstanceWithBodyWithResponse_def client_CreateInstanceWithBody_def
          split: sum.split)
qed (simp_all add: Let_def or_fail_def ListInstancesWithResponse_def client_ListInstances_def
    GetHealthWithResponse_def client_GetHealth_def DeleteInstanceWithResponse_def
    client_DeleteInstance_def GetInstanceWithResponse_def client_GetInstance_def
    GetCostReportWithResponse_def client_GetCostReport_def GetCostForecastWithResponse_def
    client_GetCostForecast_def GetUsageWithResponse_def client_GetUsage_def split: sum.split)

lemma send_plain:
  "cl_RequestEditors c = [] \<Longrightarrow> cl_Client c = Some d \<Longrightarrow>
   send c ctx [] (Inr req) s = d (req\<lparr>cr_ctx := Some ctx\<rparr>) s"
  by (simp add: send_def applyEditors_def)

lemma new_client_site:
  assumes "server \<in> {site_root sch auth, sch @ ''://'' @ auth}" and "site A sch auth"
  shows "client_NewClient dflt server [WithHTTPClient d] =
    Inr \<lparr>cl_Server = site_root sch auth, cl_Client = Some d, cl_RequestEditors = []\<rparr>"
proof -
  have "auth \<noteq> []" "last auth \<noteq> CHR ''/''"
    using assms(2) by (auto simp: site_def has_host_def list_all_iff)
  then obtain a x where "auth = a @ [x]" "x \<noteq> CHR ''/''" by (cases auth rule: rev_cases) auto
  then show ?thesis
    using assms(1) by (auto simp: client_NewClient_def WithHTTPClient_def site_root_def Let_def)
qed

subsection \<open>Parsing what a visitor wrote\<close>

fun view :: "api_response \<Rightarrow> seen" where
  "view (OkInstance code i) = SeenInstance i"
| "view (OkList l) = SeenList l"
| "view (OkHealth h) = SeenHealth h"
| "view (OkReport m) = SeenReport (written_map m)"
| "view (Problem code e) = SeenProblem (client_error_of e)"
| "view NoContent = SeenNothing"

text \<open>A response whose text JSON can express: valid UTF-8, floats that print, times in range.\<close>

fun readable_response :: "float_fmt \<Rightarrow> api_response \<Rightarrow> bool" where
  "readable_response F (OkInstance code i) = readable_instance F i"
| "readable_response F (OkList l) =
     (list_all (readable_instance F) (case cl_Instances l of None \<Rightarrow> [] | Some is \<Rightarrow> is) \<and>
      printable F (enc_cost_instance_list l))"
| "readable_response F (OkHealth h) =
     (printable F (enc_health h) \<and>
      (case hl_Uptime h of None \<Rightarrow> True | Some u \<Rightarrow> min_int64 \<le> u \<and> u \<le> max_int64))"
| "readable_response F (OkReport m) =
     (printable F (enc_json_map m) \<and> floats_only (enc_json_map m))"
| "readable_response F (Problem code e) = printable F (enc_api_error e)"
| "readable_response F NoContent = True"

definition answer_of :: "(int \<Rightarrow> string) \<Rightarrow> string \<Rightarrow> int \<Rightarrow> string \<Rightarrow> client_response" where
  "answer_of status_line ctype code b =
     \<lparr>cs_StatusCode = code, cs_Status = status_line code, cs_Header = [(''Content-Type'', ctype)],
      cs_Body = (b, None)\<rparr>"

lemma arrived_json:
  "arrived status_line (returned [SetHeader ''Content-Type'' ctype, WriteHeader code, WriteBody b]) =
   Inr (answer_of status_line ctype code b)"
  "arrived status_line (returned [WriteHeader code]) =
   Inr \<lparr>cs_StatusCode = code, cs_Status = status_line code, cs_Header = [], cs_Body = ([], None)\<rparr>"
  by (simp_all add: arrived_def answer_of_def)

lemma json_types [simp]: "contains ''application/json'' ''json''"
  "contains ''application/problem+json'' ''json''" "\<not> contains [] ''json''"
  by code_simp+

lemma answer_simps [simp]:
  "read_body (answer_of sl ctype code b) = Inr b"
  "json_with_status (answer_of sl ''application/json'' code b) code' \<longleftrightarrow> code = code'"
  "json_with_status (answer_of sl ''application/problem+json'' code b) code' \<longleftrightarrow> code = code'"
  "http_StatusCode (Some (answer_of sl ctype code b)) = code"
  by (simp_all add: answer_of_def read_body_def json_with_status_def header_get_def http_StatusCode_def
      del: contains.simps)

lemma empty_answer_simps [simp]:
  "read_body \<lparr>cs_StatusCode = code, cs_Status = t, cs_Header = [], cs_Body = ([], None)\<rparr> = Inr []"
  "\<not> json_with_status \<lparr>cs_StatusCode = code, cs_Status = t, cs_Header = [], cs_Body = ([], None)\<rparr> code'"
  "http_StatusCode (Some \<lparr>cs_StatusCode = code, cs_Status = t, cs_Header = [], cs_Body = ([], None)\<rparr>) = code"
  by (simp_all add: read_body_def json_with_status_def header_get_def http_StatusCode_def
      del: contains.simps)

lemma unmarshal_line:
  assumes "printable (env_float E) j" and "d (reread (env_float E) j) zero = Some v"
  shows "unmarshal E d zero (print_json (env_float E) j @ [CHR 0x0A]) = Inr v"
  using unmarshal_print_line [OF assms(1)] assms(2) by (simp add: unmarshal_def Let_def)

text \<open>The calls on the writer for a response.\<close>

definition json_calls :: "'x env \<Rightarrow> string \<Rightarrow> int \<Rightarrow> json \<Rightarrow> write_call list" where
  "json_calls E ctype code j =
     [SetHeader ''Content-Type'' ctype, WriteHeader code,
      WriteBody (print_json (env_float E) j @ [CHR 0x0A])]"

fun wire_of :: "'x env \<Rightarrow> api_response \<Rightarrow> write_call list" where
  "wire_of E (OkInstance code i) = json_calls E ''application/json'' code (enc_cost_instance i)"
| "wire_of E (OkList l) = json_calls E ''application/json'' 200 (enc_cost_instance_list l)"
| "wire_of E (OkHealth h) = json_calls E ''application/json'' 200 (enc_health h)"
| "wire_of E (OkReport m) = json_calls E ''application/json'' 200 (enc_json_map m)"
| "wire_of E (Problem code e) = json_calls E ''application/problem+json'' code (enc_api_error e)"
| "wire_of E NoContent = [WriteHeader 204]"

lemma readable_list_encodable:
  "list_all (readable_instance F) is \<Longrightarrow> list_all instance_encodable is"
  by (auto simp: list_all_iff readable_instance_def)

lemma visitor_wire:
  assumes "visitor_of E K q resp \<noteq> None" and "readable_response (env_float E) resp"
    and "\<And>b. io_write_err K b = None"
  shows "visitor_of E K q resp = Some (wire_of E resp, None)"
proof -
  have "readable_instance F i \<Longrightarrow> instance_encodable i \<and> json_finite (enc_cost_instance i)" for F i
    using printable_finite by (auto simp: readable_instance_def)
  then show ?thesis
    using assms by (cases q; cases resp)
      (auto simp: visit_defs write_json_def write_problem_def write_instance_def write_report_def
        json_calls_def Let_def printable_finite readable_list_encodable split: if_splits)
qed

lemmas parse_defs = ParseListInstancesResponse_def ParseCreateInstanceResponse_def
  ParseGetHealthResponse_def ParseDeleteInstanceResponse_def ParseGetInstanceResponse_def
  ParseGetCostReportResponse_def ParseGetCostForecastResponse_def ParseGetUsageResponse_def

lemmas see_defs = see_listed_def see_created_def see_health_def see_deleted_def see_got_def
  see_report_def see_forecast_def see_usage_def problems_def

lemmas status_code_defs = ListInstancesResponse_StatusCode_def CreateInstanceResponse_StatusCode_def
  GetHealthResponse_StatusCode_def DeleteInstanceResponse_StatusCode_def
  GetInstanceResponse_StatusCode_def GetCostReportResponse_StatusCode_def
  GetCostForecastResponse_StatusCode_def GetUsageResponse_StatusCode_def

lemma arrived_calls [simp]:
  "arrived sl (returned (json_calls E ctype code j)) =
   Inr (answer_of sl ctype code (print_json (env_float E) j @ [CHR 0x0A]))"
  by (simp add: json_calls_def arrived_json)

text \<open>What the client reads back, by the kind of response.\<close>

lemma read_back:
  assumes "readable_response (env_float E) resp"
  shows "resp = OkInstance code i \<Longrightarrow> unmarshal E dec_cost_instance zero_instance
      (print_json (env_float E) (enc_cost_instance i) @ [CHR 0x0A]) = Inr i"
    "resp = OkList l \<Longrightarrow> unmarshal E dec_cost_instance_list zero_list
      (print_json (env_float E) (enc_cost_instance_list l) @ [CHR 0x0A]) = Inr l"
    "resp = OkHealth h \<Longrightarrow> unmarshal E dec_health zero_health
      (print_json (env_float E) (enc_health h) @ [CHR 0x0A]) = Inr h"
    "resp = OkReport m \<Longrightarrow> unmarshal E dec_json_map None
      (print_json (env_float E) (enc_json_map m) @ [CHR 0x0A]) = Inr (written_map m)"
    "resp = Problem code e \<Longrightarrow> err_Status e = Some code \<Longrightarrow> int32 code \<Longrightarrow>
      unmarshal E dec_client_error zero_client_error
        (print_json (env_float E) (enc_api_error e) @ [CHR 0x0A]) = Inr (client_error_of e)"
  using assms by (auto intro!: unmarshal_line dec_cost_instance_reread dec_cost_instance_list_reread
      dec_health_reread dec_json_map_reread dec_client_error_reread
      simp: readable_instance_def int32_def)

text \<open>Every response that a visitor accepts is one that the client has a field for.\<close>

lemma parse_wire:
  assumes "conforms (visitor_of E K q) resp" and "readable_response (env_float E) resp"
  shows "\<exists>rsp. arrived sl (returned (wire_of E resp)) = Inr rsp \<and>
    parse_seen E q rsp = Inr (response_status resp, view resp)"
proof -
  note reread = read_back [OF assms(2)]
  have v: "visitor_of E K q resp \<noteq> None" using assms(1) by (simp add: conforms_def)
  show ?thesis
  proof (cases resp)
    case (Problem code e)
    then have e: "err_Status e = Some code" using assms(1) by (simp add: conforms_def)
    have "code \<in> {400, 404, 409, 422, 500, 502}"
      using v Problem by (cases q) (auto simp: visit_defs split: if_splits)
    then have "int32 code" by (auto simp: int32_def)
    then show ?thesis
      using v reread(5) [OF Problem e] Problem
      by (cases q) (auto simp: visit_defs parse_defs see_defs status_code_defs Let_def split: if_splits)
  next
    case NoContent
    then show ?thesis
      using v by (cases q) (auto simp: visit_defs parse_defs see_defs status_code_defs Let_def
          arrived_json)
  next
    case (OkInstance code i)
    then show ?thesis
      using v reread(1) [OF OkInstance]
      by (cases q) (auto simp: visit_defs parse_defs see_defs status_code_defs Let_def split: if_splits)
  next
    case (OkList l)
    then show ?thesis
      using v reread(2) [OF OkList]
      by (cases q) (auto simp: visit_defs parse_defs see_defs status_code_defs Let_def)
  next
    case (OkReport m)
    then show ?thesis
      using v reread(4) [OF OkReport]
      by (cases q) (auto simp: visit_defs parse_defs see_defs status_code_defs Let_def)
  next
    case (OkHealth h)
    then show ?thesis
      using v reread(3) [OF OkHealth]
      by (cases q) (auto simp: visit_defs parse_defs see_defs status_code_defs Let_def)
  qed
qed

text \<open>
  What the middlewares answer on their own account is not part of the client: it has no field
  for a 413, nor for a 400 of the operations on one instance, and returns these without an error.
\<close>

fun on_collection :: "request_object \<Rightarrow> bool" where
  "on_collection (ListInstancesRequestObject p) = True"
| "on_collection (CreateInstanceRequestObject k b) = True"
| "on_collection q = False"

lemma refusal_not_parsed:
  "parse_seen E q (answer_of sl ''application/problem+json'' 413 b) = Inr (413, SeenNothing)"
  "\<not> on_collection q \<Longrightarrow>
   parse_seen E q (answer_of sl ''application/problem+json'' 400 b) = Inr (400, SeenNothing)"
  by (cases q; simp add: parse_defs see_defs status_code_defs Let_def)+

lemma service_conforms: "conforms (visitor_of E K q) (fst (service_runs E H q c w))"
  by (cases q) (simp_all add: operations_conform CreateInstance_conforms)

text \<open>An answer of the service, through the strict handler and the client's parser.\<close>

lemma answer_seen:
  assumes "service_runs E H q (ir_ctx r) w = (resp, w1)" and "readable_response (env_float E) resp"
    and "\<And>b. io_write_err K b = None"
  shows "\<exists>calls rsp. service_answers E K H q r w = (returned calls, w1) \<and>
    arrived sl (returned calls) = Inr rsp \<and> parse_seen E q rsp = Inr (response_status resp, view resp)"
proof -
  have c: "conforms (visitor_of E K q) resp"
    using service_conforms [of E K q H "ir_ctx r" w] assms(1) by simp
  then have "visitor_of E K q resp = Some (wire_of E resp, None)"
    using visitor_wire [OF _ assms(2,3)] by (simp add: conforms_def)
  then have "service_answers E K H q r w = (returned (wire_of E resp), w1)"
    by (simp add: service_answers_def assms(1) answered_def call_result_def finish_strict_def Let_def)
  with parse_wire [OF c assms(2)] show ?thesis by blast
qed

subsection \<open>Through the middlewares\<close>

text \<open>Reading the clock.\<close>

definition tick :: "'x env \<Rightarrow> ('d, 'x) world \<Rightarrow> ('d, 'x) world" where
  "tick E w = snd (on_ext (env_now E) w)"

definition same_service :: "('d, 'x) world \<Rightarrow> ('d, 'x) world \<Rightarrow> bool" where
  "same_service w w' \<longleftrightarrow> db w' = db w \<and> outgoing w' = outgoing w \<and> published w' = published w \<and>
     InstancesManaged w' = InstancesManaged w"

lemma chain_passes:
  assumes "h r (tick E (tick E w)) = (returned calls, w1)"
  shows "\<exists>w2. rfc7807RecoveryMiddleware E (Middleware E (requestLoggingMiddleware E h)) r w =
    (returned calls, w2) \<and> same_service w1 w2"
proof -
  obtain t1 v1 where 1: "on_ext (env_now E) w = (t1, v1)" by fastforce
  obtain t2 v2 where 2: "on_ext (env_now E) v1 = (t2, v2)" by fastforce
  obtain t3 w2 where 3: "on_ext (env_now E) w1 = (t3, w2)" by fastforce
  obtain t4 w3 where 4: "on_ext (env_now E) w2 = (t4, w3)" by fastforce
  have "same_service w1 w3"
    using arg_cong [OF 3, of snd] arg_cong [OF 4, of snd]
    by (metis on_ext_db on_ext_other same_service_def snd_conv)
  moreover have "tick E (tick E w) = v2" by (simp add: tick_def 1 2)
  ultimately show ?thesis
    using assms by (simp add: rfc7807RecoveryMiddleware_def Middleware_def requestLoggingMiddleware_def
        1 2 3 4 count_http_request_def same_service_def)
qed

text \<open>The context that the service sees, and the requests that the server lets in.\<close>

definition service_ctx :: "server_config \<Rightarrow> ctx \<Rightarrow> ctx" where
  "service_ctx cfg c = (if RequestTimeout cfg > 0 then WithTimeout c (RequestTimeout cfg) else c)"

definition admitted ::
  "'x env \<Rightarrow> ('r, 'd, 'x) libraries \<Rightarrow> server_config \<Rightarrow> request_object \<Rightarrow> ctx \<Rightarrow> bool" where
  "admitted E L cfg q c \<longleftrightarrow>
     (MaxBodySize cfg > 0 \<longrightarrow> int (length (op_body E q)) \<le> MaxBodySize cfg) \<and>
     (case lib_validator L of
        None \<Rightarrow> True
      | Some V \<Rightarrow>
          (let r = op_request E (service_ctx cfg c) q
           in case va_FindRoute V r of
                Inl _ \<Rightarrow> True
              | Inr (route, ps) \<Rightarrow> va_ValidateRequest V route ps r = None))"

lemma timed_op: "timed_request cfg (op_request E c q) = op_request E (service_ctx cfg c) q"
  by (simp add: timed_request_def service_ctx_def op_request_def)

lemma inner_admits:
  assumes "admitted E L cfg q c"
  shows "inner_chain E L cfg K H (op_request E (service_ctx cfg c) q) w =
    api_routes E L K H (op_request E (service_ctx cfg c) q) w"
  using assms by (auto simp: inner_chain_def admitted_def Let_def bodySizeLimitMiddleware_def
      max_bytes_reader_def openAPIValidationMiddleware_def split: option.splits sum.splits)

lemma clean_segments_id:
  "list_all segment es \<Longrightarrow> clean_segments es acc = rev acc @ es"
  by (induction es arbitrary: acc) (simp_all add: segment_def)

lemma last_join:
  "es \<noteq> [] \<Longrightarrow> last es \<noteq> [] \<Longrightarrow> join_with sep es \<noteq> [] \<and> last (join_with sep es) = last (last es)"
  by (induction sep es rule: join_with.induct) auto

lemma segment_last:
  assumes "list_all segment es \<and> es \<noteq> []"
  shows "last es \<noteq> []" "CHR ''/'' \<notin> set (last es)"
proof -
  have "segment (last es)" using assms by (simp add: list_all_iff)
  then show "last es \<noteq> []" "CHR ''/'' \<notin> set (last es)"
    by (auto simp: segment_def plain_text_def list_all_iff url_unreserved_def)
qed

lemma op_api_path:
  assumes "addressable F q"
  shows "api_path (op_request E c q)"
proof -
  let ?es = "op_segments q"
  note ok = op_segments_ok [OF assms]
  have "last ?es \<noteq> []" "CHR ''/'' \<notin> set (last ?es)"
    using ok segment_last by simp_all
  then have "last (path_of ?es) \<noteq> CHR ''/''"
    using ok last_join [of ?es "''/''"] by (simp add: path_of_def) (metis last_in_set)
  then have "cleanPath (path_of ?es) = path_of ?es"
    using ok split_path [of ?es] by (simp add: cleanPath_def clean_segments_id path_of_def)
  moreover have "path_of ?es \<noteq> ''/metrics''"
    by (cases q) (simp_all add: base_segments_def path_of_def)
  ultimately show ?thesis by (simp add: api_path_def)
qed

subsection \<open>There and back\<close>

lemma server_answers_client:
  assumes "finds_unique (lib_chi L)" and "static_first (lib_chi L)" and "binds (lib_bind L)"
    and "addressable (env_float E) q" and "admitted E L cfg q c" and "\<And>b. io_write_err K b = None"
    and "service_runs E H q (service_ctx cfg c) (tick E (tick E w)) = (resp, w1)"
    and "readable_response (env_float E) resp"
  shows "\<exists>calls rsp w2. served_handler (api_server E L cfg K H) (op_request E c q) w = (returned calls, w2) \<and>
    same_service w1 w2 \<and> arrived sl (returned calls) = Inr rsp \<and>
    parse_seen E q rsp = Inr (response_status resp, view resp)"
proof -
  let ?r = "op_request E (service_ctx cfg c) q"
  have "service_runs E H q (ir_ctx ?r) (tick E (tick E w)) = (resp, w1)" using assms(7) by simp
  from answer_seen [OF this assms(8,6), of sl]
  obtain calls rsp where a: "service_answers E K H q ?r (tick E (tick E w)) = (returned calls, w1)"
    and p: "arrived sl (returned calls) = Inr rsp" "parse_seen E q rsp = Inr (response_status resp, view resp)"
    by blast
  have "inner_chain E L cfg K H ?r (tick E (tick E w)) = (returned calls, w1)"
    using inner_admits [OF assms(5)] client_served [OF assms(1-4)] a by metis
  from chain_passes [where h = "inner_chain E L cfg K H", OF this]
  obtain w2 where "rfc7807RecoveryMiddleware E (Middleware E (requestLoggingMiddleware E
      (inner_chain E L cfg K H))) ?r w = (returned calls, w2)" "same_service w1 w2"
    by blast
  with p show ?thesis by (auto simp: served_inner [OF op_api_path [OF assms(4)]] timed_op)
qed

lemma client_asks_server:
  assumes "site (lb_authority C) sch auth" and "styles (lb_style C)"
    and "server \<in> {site_root sch auth, sch @ ''://'' @ auth}"
    and "client_NewClient dflt server [WithHTTPClient (served_by sl c h)] = Inr cl"
    and "addressable (env_float E) q"
    and "h (op_request E c q) w = (out, w2)" and "arrived sl out = Inr rsp"
  shows "client_asks E C cl ctx q w = (parse_seen E q rsp, w2)"
proof -
  have cl: "cl = \<lparr>cl_Server = site_root sch auth, cl_Client = Some (served_by sl c h), cl_RequestEditors = []\<rparr>"
    using new_client_site [OF assms(3,1), of dflt "served_by sl c h"] assms(4) by simp
  obtain req where req: "client_builds E C (site_root sch auth) q = Inr req" "received c req = op_request E c q"
    using client_built [OF assms(1,2,5)] by blast
  then have "send cl ctx [] (client_builds E C (cl_Server cl) q) w = (Inr rsp, w2)"
    using assms(6,7) by (simp add: cl send_plain served_by_def)
  then show ?thesis by (simp add: client_asks_eq Let_def)
qed



end
