(* ===== verification/ClientRuns.thy ===== *)
theory ClientRuns
  imports ClientAnswers
begin

text \<open>
  The client against the server on concrete libraries: a router that matches segment by segment,
  binders that parse the text of a parameter, and a client that talks to the sample server.
\<close>

subsection \<open>The sample router\<close>

lemma find_pattern_matches:
  "find_pattern n table r = (case matches n table r of [] \<Rightarrow> None | hit # _ \<Rightarrow> Some hit)"
  by (induction n table r rule: find_pattern.induct) (auto simp: route_params_def split: option.split)

lemma seg_match_same: "\<forall>s \<in> set ss. CHR ''{'' \<notin> set s \<Longrightarrow> seg_match ss ss = Some []"
  by (induction ss) (auto simp: has_prefix_iff)

lemma set_split_on: "p \<in> set (split_on sep s) \<Longrightarrow> set p \<subseteq> set s"
proof (induction s arbitrary: p)
  case (Cons c s)
  then show ?case by (auto split: list.splits if_splits) blast+
qed simp

lemma find_static_matches:
  "find_static n table r = Some k \<Longrightarrow> (k, []) \<in> set (matches n table r)"
proof (induction n table r rule: find_static.induct)
  case (2 n e table r)
  show ?case
  proof (cases "e = (ir_method r, ir_path r) \<and> CHR ''{'' \<notin> set (snd e)")
    case True
    then have "seg_match (split_on (CHR ''/'') (ir_path r)) (split_on (CHR ''/'') (ir_path r)) = Some []"
      using set_split_on by (intro seg_match_same) fastforce
    then show ?thesis using True 2(2) by (auto simp: route_params_def)
  next
    case False
    then have "find_static (Suc n) table r = Some k"
      using 2(2) by (simp only: find_static.simps if_False)
    from 2(1) [OF False this] show ?thesis by (simp split: option.split)
  qed
qed simp

lemma segment_finds_unique: "finds_unique segment_chi"
  unfolding finds_unique_def
proof (intro allI impI)
  fix table r and hit :: "nat \<times> url_params"
  assume m: "matches 0 table r = [hit]"
  show "chi_find segment_chi table r = Some hit"
  proof (cases "find_static 0 table r")
    case None
    then show ?thesis using m by (simp add: segment_chi_def find_pattern_matches)
  next
    case (Some k)
    then show ?thesis using find_static_matches [OF Some] m by (simp add: segment_chi_def)
  qed
qed

subsection \<open>The sample binders\<close>

definition parse_date :: "string \<Rightarrow> api_date option" where
  "parse_date s =
     (case number_field 4 0 9999 s of None \<Rightarrow> None | Some (y, s1) \<Rightarrow>
     (case expect_char (CHR ''-'') s1 of None \<Rightarrow> None | Some s2 \<Rightarrow>
     (case number_field 2 1 12 s2 of None \<Rightarrow> None | Some (mo, s3) \<Rightarrow>
     (case expect_char (CHR ''-'') s3 of None \<Rightarrow> None | Some s4 \<Rightarrow>
     (case number_field 2 1 (nat (days_in_month y mo)) s4 of None \<Rightarrow> None | Some (d, s5) \<Rightarrow>
      if s5 = [] then Some \<lparr>date_year = y, date_month = mo, date_day = d\<rparr> else None)))))"

lemma parse_format_date: "valid_date d \<Longrightarrow> parse_date (format_date d) = Some d"
  using date_fields [of d] date_fields(3) [of d "[]"]
  by (simp add: parse_date_def format_date_def expect_char_def)

definition bind_with ::
  "(string \<Rightarrow> 'v option) \<Rightarrow> string \<Rightarrow> (string \<times> string) list \<Rightarrow> go_error + 'v option" where
  "bind_with parse name q =
     (case map_of q name of
        None \<Rightarrow> Inr None
      | Some t \<Rightarrow> (case parse t of None \<Rightarrow> Inl (PlainError t) | Some v \<Rightarrow> Inr (Some v)))"

definition exact_bind :: param_bind where
  "exact_bind =
     \<lparr>bind_query_string = \<lambda>name q. Inr (map_of q name),
      bind_query_int32 = bind_with atoi,
      bind_query_date = bind_with parse_date,
      bind_path_string = \<lambda>name raw. Inr raw\<rparr>"

lemma exact_binds: "binds exact_bind"
  using atoi_itoa by (simp add: binds_def exact_bind_def bind_with_def parse_format_date int32_def
      min_int64_def max_int64_def)

subsection \<open>The sample client\<close>

definition sample_style :: param_style where
  "sample_style =
     \<lparr>sp_path_string = \<lambda>name v. Inr (escape EncodePathSegment v),
      sp_query_string = \<lambda>name v. Inr (styled name v),
      sp_query_int32 = \<lambda>name i. Inr (styled name (itoa i)),
      sp_query_date = \<lambda>name d. Inr (styled name (format_date d))\<rparr>"

definition sample_client_lib :: client_lib where
  "sample_client_lib = \<lparr>lb_authority = Inr, lb_style = sample_style\<rparr>"

definition client_libs :: "(unit, 'd, 'x) libraries" where
  "client_libs = sample_libs\<lparr>lib_bind := exact_bind\<rparr>"

lemma client_libs_fine:
  "site (lb_authority sample_client_lib) ''http'' ''dcm:8080''"
  "styles (lb_style sample_client_lib)"
  "finds_unique (lib_chi client_libs)" "static_first (lib_chi client_libs)"
  "binds (lib_bind client_libs)"
proof -
  show "site (lb_authority sample_client_lib) ''http'' ''dcm:8080''"
    by (simp add: sample_client_lib_def site_def has_host_def in_range_def is_ctl_def)
qed (simp_all add: client_libs_def sample_libs_def segment_finds_unique segment_static_first
    exact_binds sample_client_lib_def styles_def sample_style_def plain_escape)

definition sample_usage :: request_object where
  "sample_usage = GetUsageRequestObject ''i1'' ''cpu''
     \<lparr>StartDate = Some \<lparr>date_year = 2024, date_month = 2, date_day = 29\<rparr>, EndDate = None\<rparr>"

lemma sample_usage_addressable: "addressable F sample_usage"
  by (simp add: sample_usage_def) code_simp


subsection \<open>A run\<close>

definition sample_asked :: request_object where
  "sample_asked = GetInstanceRequestObject ''i1''"

definition sample_found :: cost_instance where
  "sample_found = sample_row ''i1'' ''c1'' ''READY'' ''s1''"

definition sample_url_server :: "(mem_db, script) world doer" where
  "sample_url_server = served_by (\<lambda>code. itoa code) (Ctx 0)
     (served_handler (api_server script_env client_libs sample_server sample_io script_handler))"

lemma script_tick [simp]: "tick script_env w = w"
  by (simp add: tick_def)

lemma sample_readable:
  "readable_response (env_float script_env) (OkInstance 200 (toAPICostInstance script_env sample_found))"
proof -
  have "list_all (\<lambda>f. f (enc_cost_instance (toAPICostInstance script_env sample_found)))
      [printable (env_float script_env)]"
    by code_simp
  moreover have "instance_encodable (toAPICostInstance script_env sample_found)" by code_simp
  moreover have "spec_wf (ci_Spec (toAPICostInstance script_env sample_found))" by code_simp
  ultimately show ?thesis by (simp add: readable_instance_def)
qed

lemma sample_runs:
  "service_runs script_env script_handler sample_asked c (start [sample_found] [] []) =
    (OkInstance 200 (toAPICostInstance script_env sample_found),
     (start [sample_found] [] [])\<lparr>db := mem_tick (db (start [sample_found] [] []))\<rparr>)"
  by (simp add: sample_asked_def GetInstance_def script_find mem_table_def sample_found_def
      sample_row_def)

lemma sample_admitted: "admitted script_env client_libs sample_server sample_asked c"
  by (simp add: admitted_def client_libs_def sample_libs_def sample_validator_def sample_asked_def
      sample_server_def)


end
