(* ===== verification/ApiEnums.thy ===== *)
theory ApiEnums
  imports ApiTypes
begin

text \<open>
  The server (\<open>internal/api/server/server.gen.go\<close>) and the client (\<open>pkg/client/client.gen.go\<close>) are
  generated with their own copies of the API's enumerations. Each copy is translated here from its
  own constants and its own \<open>Valid\<close> method; that they accept the same values as the ones of
  \<open>api/v1alpha1\<close> is a lemma, so that a value means the same on both sides of the wire.
\<close>

subsection \<open>The copies of the server\<close>

definition server_CostInstanceStatus_Valid :: "string \<Rightarrow> bool" where
  "server_CostInstanceStatus_Valid e \<longleftrightarrow>
     e \<in> set [''DELETED'', ''DELETING'', ''ERROR'', ''PROVISIONING'', ''READY'']"

definition server_CostModelSpecDistribution_Valid :: "string \<Rightarrow> bool" where
  "server_CostModelSpecDistribution_Valid e \<longleftrightarrow>
     e \<in> set [''cpu'', ''memory'']"

definition server_CostSpecServiceType_Valid :: "string \<Rightarrow> bool" where
  "server_CostSpecServiceType_Valid e \<longleftrightarrow>
     e \<in> set [''cost'']"

definition server_ErrorType_Valid :: "string \<Rightarrow> bool" where
  "server_ErrorType_Valid e \<longleftrightarrow>
     e \<in> set [''ALREADY_EXISTS'', ''BAD_GATEWAY'', ''INTERNAL'', ''INVALID_ARGUMENT'',
       ''NOT_FOUND'', ''PERMISSION_DENIED'', ''UNAUTHENTICATED'', ''UNAVAILABLE'',
       ''UNPROCESSABLE_ENTITY'']"

definition server_MarkupUnit_Valid :: "string \<Rightarrow> bool" where
  "server_MarkupUnit_Valid e \<longleftrightarrow>
     e \<in> set [''percent'']"

definition server_RateCostType_Valid :: "string \<Rightarrow> bool" where
  "server_RateCostType_Valid e \<longleftrightarrow>
     e \<in> set [''Infrastructure'', ''Supplementary'']"

definition server_RateMetric_Valid :: "string \<Rightarrow> bool" where
  "server_RateMetric_Valid e \<longleftrightarrow>
     e \<in> set [''cluster_cost_per_month'', ''cpu_core_request_per_hour'',
       ''cpu_core_usage_per_hour'', ''memory_gb_request_per_hour'',
       ''memory_gb_usage_per_hour'', ''node_cost_per_month'', ''pvc_cost_per_month'',
       ''storage_gb_request_per_month'', ''storage_gb_usage_per_month'']"

definition server_GetUsageParamsMetric_Valid :: "string \<Rightarrow> bool" where
  "server_GetUsageParamsMetric_Valid e \<longleftrightarrow>
     e \<in> set [''compute'', ''memory'', ''storage'']"

subsection \<open>The copies of the client\<close>

definition client_CostInstanceStatus_Valid :: "string \<Rightarrow> bool" where
  "client_CostInstanceStatus_Valid e \<longleftrightarrow>
     e \<in> set [''DELETED'', ''DELETING'', ''ERROR'', ''PROVISIONING'', ''READY'']"

definition client_CostModelSpecDistribution_Valid :: "string \<Rightarrow> bool" where
  "client_CostModelSpecDistribution_Valid e \<longleftrightarrow>
     e \<in> set [''cpu'', ''memory'']"

definition client_CostSpecServiceType_Valid :: "string \<Rightarrow> bool" where
  "client_CostSpecServiceType_Valid e \<longleftrightarrow>
     e \<in> set [''cost'']"

definition client_ErrorType_Valid :: "string \<Rightarrow> bool" where
  "client_ErrorType_Valid e \<longleftrightarrow>
     e \<in> set [''ALREADY_EXISTS'', ''BAD_GATEWAY'', ''INTERNAL'', ''INVALID_ARGUMENT'',
       ''NOT_FOUND'', ''PERMISSION_DENIED'', ''UNAUTHENTICATED'', ''UNAVAILABLE'',
       ''UNPROCESSABLE_ENTITY'']"

definition client_MarkupUnit_Valid :: "string \<Rightarrow> bool" where
  "client_MarkupUnit_Valid e \<longleftrightarrow>
     e \<in> set [''percent'']"

definition client_RateCostType_Valid :: "string \<Rightarrow> bool" where
  "client_RateCostType_Valid e \<longleftrightarrow>
     e \<in> set [''Infrastructure'', ''Supplementary'']"

definition client_RateMetric_Valid :: "string \<Rightarrow> bool" where
  "client_RateMetric_Valid e \<longleftrightarrow>
     e \<in> set [''cluster_cost_per_month'', ''cpu_core_request_per_hour'',
       ''cpu_core_usage_per_hour'', ''memory_gb_request_per_hour'',
       ''memory_gb_usage_per_hour'', ''node_cost_per_month'', ''pvc_cost_per_month'',
       ''storage_gb_request_per_month'', ''storage_gb_usage_per_month'']"

definition client_GetUsageParamsMetric_Valid :: "string \<Rightarrow> bool" where
  "client_GetUsageParamsMetric_Valid e \<longleftrightarrow>
     e \<in> set [''compute'', ''memory'', ''storage'']"

subsection \<open>Agreement\<close>

lemma server_enumerations:
  "server_CostInstanceStatus_Valid = CostInstanceStatus_Valid"
  "server_CostModelSpecDistribution_Valid = CostModelSpecDistribution_Valid"
  "server_CostSpecServiceType_Valid = CostSpecServiceType_Valid"
  "server_ErrorType_Valid = ErrorType_Valid"
  "server_MarkupUnit_Valid = MarkupUnit_Valid"
  "server_RateCostType_Valid = RateCostType_Valid"
  "server_RateMetric_Valid = RateMetric_Valid"
  "server_GetUsageParamsMetric_Valid = GetUsageParamsMetric_Valid"
  by (simp_all add: fun_eq_iff server_CostInstanceStatus_Valid_def CostInstanceStatus_Valid_def
    server_CostModelSpecDistribution_Valid_def CostModelSpecDistribution_Valid_def
    server_CostSpecServiceType_Valid_def CostSpecServiceType_Valid_def server_ErrorType_Valid_def
    ErrorType_Valid_def server_MarkupUnit_Valid_def MarkupUnit_Valid_def
    server_RateCostType_Valid_def RateCostType_Valid_def server_RateMetric_Valid_def
    RateMetric_Valid_def server_GetUsageParamsMetric_Valid_def GetUsageParamsMetric_Valid_def)

lemma client_enumerations:
  "client_CostInstanceStatus_Valid = CostInstanceStatus_Valid"
  "client_CostModelSpecDistribution_Valid = CostModelSpecDistribution_Valid"
  "client_CostSpecServiceType_Valid = CostSpecServiceType_Valid"
  "client_ErrorType_Valid = ErrorType_Valid"
  "client_MarkupUnit_Valid = MarkupUnit_Valid"
  "client_RateCostType_Valid = RateCostType_Valid"
  "client_RateMetric_Valid = RateMetric_Valid"
  "client_GetUsageParamsMetric_Valid = GetUsageParamsMetric_Valid"
  by (simp_all add: fun_eq_iff client_CostInstanceStatus_Valid_def CostInstanceStatus_Valid_def
    client_CostModelSpecDistribution_Valid_def CostModelSpecDistribution_Valid_def
    client_CostSpecServiceType_Valid_def CostSpecServiceType_Valid_def client_ErrorType_Valid_def
    ErrorType_Valid_def client_MarkupUnit_Valid_def MarkupUnit_Valid_def
    client_RateCostType_Valid_def RateCostType_Valid_def client_RateMetric_Valid_def
    RateMetric_Valid_def client_GetUsageParamsMetric_Valid_def GetUsageParamsMetric_Valid_def)

text \<open>The types of the problems that the service answers are known to the client.\<close>

lemma error_types_known: "client_ErrorType_Valid (error_type_string t)"
  by (cases t) (simp_all add: client_ErrorType_Valid_def)

end
