(* ===== verification/OpenApiDoc.thy ===== *)
theory OpenApiDoc
  imports ApiServer
begin

text \<open>
  \<open>api/v1alpha1/spec.gen.go\<close>: the embedded OpenAPI document and how it is unpacked and loaded, and
  the use that \<open>apiserver.New\<close> makes of it. Unpacking takes the chunks as an
  argument, so that its lemmas hold of any document; decompression (\<open>compress/gzip\<close>) and kin-openapi are parameters.
\<close>

subsection \<open>base64.StdEncoding\<close>

definition std_char :: "nat \<Rightarrow> char" where
  "std_char n = (if n = 62 then CHR ''+'' else if n = 63 then CHR ''/'' else b64_char n)"

definition std_val :: "char \<Rightarrow> nat option" where
  "std_val c =
     (if c = CHR ''+'' then Some 62 else if c = CHR ''/'' then Some 63
      else if c = CHR ''-'' \<or> c = CHR ''_'' then None else b64_val c)"

definition std_encode :: "string \<Rightarrow> string" where
  "std_encode s =
     (let t = map std_char (b64_encode_bytes (map of_char s))
      in t @ replicate ((4 - length t mod 4) mod 4) (CHR ''=''))"

text \<open>
  \<open>DecodeString\<close>: line ends are skipped, the length is a multiple of four, and at most two
  \<open>=\<close> fill up the end.
\<close>

definition std_decode :: "string \<Rightarrow> string option" where
  "std_decode s =
     (let t = filter (\<lambda>c. c \<noteq> CHR 0x0A \<and> c \<noteq> CHR 0x0D) s;
          d = trim_right (CHR ''='') t
      in if length t mod 4 \<noteq> 0 \<or> length t > length d + 2 then None
         else (case those (map std_val d) of
                 None \<Rightarrow> None
               | Some vs \<Rightarrow> map_option (map char_of) (b64_decode_vals vs)))"

lemma std_val_char: "n < 64 \<Longrightarrow> std_val (std_char n) = Some n"
proof -
  assume n: "n < 64"
  show ?thesis
  proof (cases "n = 62 \<or> n = 63")
    case False
    then have "n < 62" using n by simp
    then have "b64_char n \<noteq> CHR ''+'' \<and> b64_char n \<noteq> CHR ''/'' \<and> b64_char n \<noteq> CHR ''-'' \<and>
        b64_char n \<noteq> CHR ''_''"
      using b64_val_char [OF n] by (auto simp: b64_val_def)
    then show ?thesis using False b64_val_char [OF n] by (simp add: std_val_def std_char_def)
  qed (auto simp: std_val_def std_char_def)
qed

lemma std_char_plain:
  assumes "n < 64"
  shows "std_char n \<noteq> CHR ''='' \<and> std_char n \<noteq> CHR 0x0A \<and> std_char n \<noteq> CHR 0x0D"
  using std_val_char [OF assms] by (auto simp: std_val_def b64_val_def)

lemma those_std: "\<forall>v \<in> set vs. v < 64 \<Longrightarrow> those (map std_val (map std_char vs)) = Some vs"
  by (induction vs) (auto simp: std_val_char)

lemma b64_length_mod: "length (b64_encode_bytes bs) mod 4 \<noteq> 1"
  by (induction bs rule: b64_encode_bytes.induct) simp_all

lemma trim_right_replicate:
  "c \<notin> set s \<Longrightarrow> trim_right c (s @ replicate n c) = s"
proof -
  assume c: "c \<notin> set s"
  have "dropWhile (\<lambda>x. x = c) (replicate n c @ rev s) = rev s"
    using c by (induction n) (simp_all, cases s rule: rev_cases, auto)
  then show ?thesis by (simp add: trim_right_def)
qed

lemma std_decode_encode: "std_decode (std_encode s) = Some s"
proof -
  let ?bs = "map of_char s :: nat list"
  define vs where "vs = b64_encode_bytes ?bs"
  define n where "n = (4 - length vs mod 4) mod 4"
  have vals: "\<forall>v \<in> set vs. v < 64" unfolding vs_def by (rule b64_encode_bytes_bound) auto
  have e: "std_encode s = map std_char vs @ replicate n (CHR ''='')"
    by (simp add: std_encode_def vs_def n_def)
  have "length vs mod 4 \<noteq> 1" unfolding vs_def by (rule b64_length_mod)
  moreover have "length vs mod 4 < 4" by simp
  ultimately have "length vs mod 4 \<in> {0, 2, 3}" by auto
  then have "n \<le> 2 \<and> (length vs mod 4 + n) mod 4 = 0" by (auto simp: n_def)
  then have n: "n \<le> 2" "(length vs + n) mod 4 = 0" by (simp_all add: mod_add_left_eq)
  have "filter (\<lambda>c. c \<noteq> CHR 0x0A \<and> c \<noteq> CHR 0x0D) (std_encode s) = std_encode s"
    using vals std_char_plain unfolding e by (intro filter_True) auto
  moreover have "trim_right (CHR ''='') (std_encode s) = map std_char vs"
    using vals std_char_plain unfolding e by (intro trim_right_replicate) fastforce
  moreover have "b64_decode_vals vs = Some ?bs"
    unfolding vs_def by (rule b64_decode_encode_bytes) auto
  moreover have "map char_of ?bs = s" by (induction s) auto
  ultimately show ?thesis
    using n those_std [OF vals] e by (simp add: std_decode_def)
qed

subsection \<open>The document\<close>

text \<open>The chunks, as the generator wrote them.\<close>

definition swaggerSpec :: "string list" where
  "swaggerSpec =
    [''H4sIAAAAAAAC/+xbb3PbNtL/Khi0L+w8lGQnaftU9+JGtdREU1v2SHLuepFPA5MrCQ0JsADoWPXou98s'',
     ''QJCUSNlK06TtTN5ZBLBY7J/f/rCkH2gok1QKEEbT7gNNmWIJGFD211Bow0QIw+iKmRU+iUCHiqeGS0G7'',
     ''tH920YrhDmISSm0Iz6cTBVpmKgTCIxCGLzgoGlCOS1IUFFDBEqBdyosNaEAV/JpxBRHtGpVBQHW4goQ5'',
     ''rYwBhcv/+5a1fjtpfX9zlP/Runk4Cb493fjnx//8mgbUrFMUr43iYkk3m42XZo91JrXxR6sfqucOc8c1'',
     ''v+UxN+vyXLcsfAcRuV2Tn+S7jAY0VTIFZThYuWGcaQNqzqO61DFoGd9BRC5TEJMVXxiSTyfDPjlaKJmQ'',
     ''M/fgDSjNpTi2JmHRpYjX3iQ75wpoqIAZmBueNJzkDAe5FASHtWFJSgO6kCphhnZpxAy07MID9mk6Uun9'',
     ''Bn+30TpNbmvlfz3b9tiTGqSNETj2O+dx9aQYnUKIYr5WsKBd+lWnjP9OHiIdjI8JzsP5hplMN9g2UwqE'',
     ''Ifl4QEFkCe2+pVfjyzfDyfByNBy9ogEdD3r9n2lAB+Px5ZgGtD84H0zdkP1z0Kc3h6htt5knoDVbNrj6'',
     ''dZYw0UIx7DaGXCvipx+wQZZG+wPpnGlD3IyPjqVNNdHfOn/cFLPk7S8QGhrQ+xaDtOUDqwICGlf5jNSd'',
     ''B//nBqWkcaZYXAEW9IzmYpnFTFUelxDxTr7LWpjwrVTJOx6Bakdh0uayU8xFlauQcc61qdvoii25YAYi'',
     ''EnNtiFxsY6KuoUU5gj8MJPqQuCxwa1McgSnF1vhbwL2Zp2wJcyPfgajrOMXHZCEVwakkdbFRd9C2M/Lj'',
     ''X4BhETPskSRM/JTds8bsFmL7F4sijstYfLU1oxaQ21v8BOvWHYszILmoBiVdTXkiM+ykgCbs/hzEEiHl'',
     ''2xcBTbjwP08/DLcej267280+g8oI4kmORzvogqGT4DgJpVjwZaYsktcMG3Hc+TZz61DMgmUxpmSYYoHa'',
     ''Fnt5B2oFLCLVZUQbxQws1xUQc4sTSKRaV/QvvZMw9S5LnwrYCzcLjcIMNKDoGBElggUXNig0OZIJNzZC'',
     ''pxwUeb6laUuKeI1l8aBsQdn1LNkX3Y/4oSj/iFV8wcNmV2C6z63PDsnj0vlYxW0xCdfbHrye9GseHE4u'',
     ''ycvnp98Rv4SEMoKdWttr/efm4cWmITzRp2UWP6mjn4sFCNQdD2HuBO7a6SLThtwCmVkrzGg1lKQ2jSFk'',
     ''mFqCOUSPqZtZKx1VlSonK0TvS7xpsfMuji0AjQrESGJWQJycgt7UXO4H5nvoUUHxihAa9pucUsgprVuk'',
     ''sZNQC4TptmokN8LjcFTVt8k4A6WkarDLj2fku/8/+Y6gf2LOhCGAM3H3VApdN0wEhvG4Edd5hXgX/CFT'',
     ''vKW89ele/rO1hgvz4nk5lwsDS1A2sriJoXFzb18fnMPRm975sD/vjV9dXwxGUxrQ0eV0/uPl9Qgd1Tu3'',
     ''9G0++PdwMp3QgF4NxhfDCbK7eX8wGg5w0vWodz19PRhNh2e9qX0yHE0H41Hv3A2+6Q3Pez+cD+yvq/Hl'',
     ''2WAywd9zXDJFbvhDrz9/1ZsO/tX7Gd1yqFV2nOsjwB6+ybuvgcVNHNo995wR2VIMpgHgPAM/kKweNNU7'',
     ''ZO+ZDyCunrPumVoJjDt3szpAs2bbFmQ/v214eYUWH0xkV84nVerqHnni6lzhb8Qlk80XHsBj85l4pIui'',
     ''au/At31OUlAhCONY4bbvM8FNNXHyqY3Abnna3k3caPXuILPb2AI4FzxB8SeFUJElt+i6HXd4GVarplC3'',
     ''tb/hZu8s6pg5UpLmIl5H4aFYKKaNykKTKaiBsaUJYcy0rtKDAmR2F0+yNI0hQVPvo1dgFG/gIz85Lycp'',
     ''MxzZrJvnSW2Fvc1DqWCe4e1vnoKar2SGNaQYQWuCNtUxx/bmy9v6snKoYZ02UuH8rYWJFDY6K4PVpX5Y'',
     ''yAjm1ubVp76PUhtI78Ldhx8QgJZs/hHhl3vHb1QPwI2tcwvpIkoYFtrkyZteSAyulMzxIVM26Y1JdbfT'',
     ''WXKzym7boUw6UZhgLvuQ3j7LxHEf4pOd9K6GljYnTOBFdLm3iaXLLtZMjCEir5kh53y5MjoFiIiN5QuU'',
     ''YiOUHOWq2pbXcXsmZmK64tpuyDVJmbKXXaRLfc/VUUwss2hLTv/s4pjkByJMRF53PRO248jFMnBaWxId'',
     ''2DnhCnkOakxCljJ7Fg7aHrXWSdNWu6++ImjhMSy5vdngFccz2ZlokWfPRiyB7rNnpI6Zbjw37nSd2mmW'',
     ''0tqByxScQI3Pz8aD3nQQENfHCQhyhRkmfsxDQFZUuryXsnAF5Hn7pObx9+/ft5kdbku17ORrded8eDYY'',
     ''TQYtXFNyGosAzkc+BK4qIVCpSV162j5xa2UKgqWcdumL9kn7ZV6/LN51WMo7d6csTlfstLPVkthDkU2m'',
     ''hCaMpLV+B4t3+sDaRaPrmBoMGr0Ttm1qtXNGHUa0S8952eNwlbZsSL/d389YgAlXGPYYh0VzA7VSoLPY'',
     ''aN9//jUDtS4b0JVuSbXhXGMD9WJ2j2BBHEJU9sGrg7JGwnLqWyxNWyfs3jVrNP8NtnYv6s43J0Gd7yZu'',
     ''a9o9PTmpoNZpnfBsbGfRUXTr0ucnJx6SsHh3HyhL0zivWJ1ftKNGpSKHNqNsR8yi3k7fsLkTtgnoy0c1'',
     ''SZW8jSH5vw/TyN1eGtQYijsW84jkFQj3/+bz7o98j8U2/EG5y5OtKjpLEuQAuanqGWQvs0vtaIR/drMJ'',
     ''aCqbmpC24w+YnnvfYWC2MFEHzzaZroBMrmZCWeQEhWIs3ORXzCMEZJm67l289ptYtD62css780wUYou3'',
     ''EFwTptciXCkpZKb/4SABRJRKLkyeNZrwJIGIMwPxeibec7Mi1ZZ6fk1x2haHMooJnbeQjLRI/DOROIIH'',
     ''wCOFwO9AE240WXCFauc1h2BdaFvc3kYiZ8th2TF+FIrOYg7CtJACLgVETa9EyFFvcNU6ffHiuE2GCyIT'',
     ''bgxEgbVaHhlLEKByD15fD/vtPdjBI/qHvh+7cQQHtPlBRutPghEuMbbf8W1q+HT6Cfd+rLUXFkEquMHg'',
     ''i/4KKPXy5PvPuX9uCxbj5XhN4J5ro/PE5jrPbKvX8+efT6+80+VbaUIiVKB+0v1YyExEf0lMdwhCGBHw'',
     ''fhvX98D6JthHyPwt/ilehliy2urn5Nz8aeb1Csxr31T4ZKzhtW9G1Ay61YXaMWQ+Fq4gfFcxXS7sUbs9'',
     ''lJ8YbJzZYmjqDVyxTIOzX7XmYclTkMi7fKyseOSILwgT6+M23i5sKZmJFccL79pejBTY0IhcqXJ3Rk2c'',
     ''zaXCKaPLaS48IkfcEK6LstnSoUwhsvsnbO2ijEizAkVCKXSWgNLHTWWrbw+4v2w1eaec0tn55KOBQr58'',
     ''6jWJNXEDlr78E7Dsrw0QzleeSD0BDsHTme/a7jbnWfG2aufbHI4hFiHxQS4Ubn3G0AgKnzCUTv6kap/b'',
     ''6UtYNoflKyy3jQb74LJVhd+ObbUoSKUy+zsMV0rec9B5j9ZOJsh+8ZmRFpwDx/djZvyNv392USg7E8O+'',
     ''f4HH0lTJVCEIFQRiwWO8lzRA5yswGCdju+lHh3vw0EjdtWHKzCPXfC6dufUpTdO7nmZpIKIPl/Wxidj8'',
     ''DcfWe5RqJ7QhE3O/4tWL2E/f7Pd0X9LRpyNq8RkptmU8WaqNApY8Dgm552wXYW/ZKrPo98JDZyEVhMz1'',
     ''OJ7GCT97FykeyfIf/QZ/dln7+GwqTv8ln/52+VT47lNklH0f13lwd4/Nk6lkp39YsSW21s7E7yq21/nH'',
     ''qR9dZ7ePY8X6V6NGEl8yG74/L97k7f/2vPyOKUkzA+VnccXLzYZ3kF+KfzNcOdd8gam/E0xlFZ89ilEu'',
     ''nW/cf1vYczU1ysdSlq+9O7Z85gIe7yrEfAHhOoyBFDiiy1QYVl4uPewPulTJ+zU5sgfPmcZxKcQdoC6g'',
     ''Slkfl1CF6bqcahur8RS+O3az+V8AAAD//7hT9/2YMwAA'']"

text \<open>
  \<open>oa_load\<close> is \<open>LoadFromData\<close> of a loader that allows external references and reads them with the
  given function, which is told the text of an URL; \<open>oa_router\<close> makes the validator for a document
  without its servers.
\<close>

record ('doc, 'r) openapi_libs =
  oa_base64_err :: "string \<Rightarrow> string"
  oa_gunzip :: "string \<Rightarrow> string + string"
  oa_load :: "(string \<Rightarrow> string + string) \<Rightarrow> string \<Rightarrow> string + 'doc"
  oa_router :: "'doc \<Rightarrow> string + 'r validator"

definition decodeSpec :: "('doc, 'r) openapi_libs \<Rightarrow> string list \<Rightarrow> string + string" where
  "decodeSpec D chunks =
     (let joined = concat chunks
      in case std_decode joined of
           None \<Rightarrow> Inl (''error base64 decoding spec: '' @ oa_base64_err D joined)
         | Some zipped \<Rightarrow>
             (case oa_gunzip D zipped of
                Inl err \<Rightarrow> Inl (''error decompressing spec: '' @ err)
              | Inr buf \<Rightarrow> Inr buf))"

text \<open>\<open>rawSpec\<close>: the result is computed once and handed out by every call.\<close>

type_synonym spec_source = "unit \<Rightarrow> string + string"

definition decodeSpecCached :: "('doc, 'r) openapi_libs \<Rightarrow> string list \<Rightarrow> spec_source" where
  "decodeSpecCached D chunks = (let result = decodeSpec D chunks in (\<lambda>_. result))"

definition PathToRawSpec ::
  "('doc, 'r) openapi_libs \<Rightarrow> string list \<Rightarrow> string \<Rightarrow> string \<rightharpoonup> spec_source" where
  "PathToRawSpec D chunks pathToFile =
     (if length pathToFile > 0 then [pathToFile \<mapsto> decodeSpecCached D chunks] else Map.empty)"

text \<open>\<open>path.Clean\<close>, which keeps leading \<open>..\<close> of a path that is not rooted.\<close>

primrec path_segments :: "bool \<Rightarrow> string list \<Rightarrow> string list \<Rightarrow> string list" where
  "path_segments rooted [] acc = rev acc"
| "path_segments rooted (s # ss) acc =
     (if s = [] \<or> s = ''.'' then path_segments rooted ss acc
      else if s = ''..'' then
        (if acc \<noteq> [] \<and> hd acc \<noteq> ''..'' then path_segments rooted ss (tl acc)
         else if rooted then path_segments rooted ss acc
         else path_segments rooted ss (s # acc))
      else path_segments rooted ss (s # acc))"

definition path_Clean :: "string \<Rightarrow> string" where
  "path_Clean p =
     (let rooted = has_prefix p ''/'';
          q = join_with ''/'' (path_segments rooted (split_on (CHR ''/'') p) [])
      in if rooted then CHR ''/'' # q else if q = [] then ''.'' else q)"

definition read_external :: "(string \<rightharpoonup> spec_source) \<Rightarrow> string \<Rightarrow> string + string" where
  "read_external resolvePath url =
     (let pathToFile = path_Clean url
      in case resolvePath pathToFile of
           None \<Rightarrow> Inl (''path not found: '' @ pathToFile)
         | Some getSpec \<Rightarrow> getSpec ())"

definition GetSwagger :: "('doc, 'r) openapi_libs \<Rightarrow> string list \<Rightarrow> string + 'doc" where
  "GetSwagger D chunks =
     (let resolvePath = PathToRawSpec D chunks []
      in case decodeSpecCached D chunks () of
           Inl err \<Rightarrow> Inl err
         | Inr specData \<Rightarrow> oa_load D (read_external resolvePath) specData)"

text \<open>
  What \<open>apiserver.New\<close> does with it: without a document, or without a router for it, requests are
  not validated.
\<close>

definition request_validator ::
  "('doc, 'r) openapi_libs \<Rightarrow> 'r validator option" where
  "request_validator D =
     (case GetSwagger D swaggerSpec of
        Inl err \<Rightarrow> None
      | Inr spec \<Rightarrow> (case oa_router D spec of Inl routerErr \<Rightarrow> None | Inr specRouter \<Rightarrow> Some specRouter))"

text \<open>The server that \<open>New\<close> builds, with the validator of its document.\<close>

definition server_with_document ::
  "'x env \<Rightarrow> ('doc, 'r) openapi_libs \<Rightarrow> ('r, 'd, 'x) libraries \<Rightarrow> server_config \<Rightarrow>
   ('d, 'x) server_interface \<Rightarrow> ('d, 'x) server" where
  "server_with_document E D L cfg handler =
     server_New E (L\<lparr>lib_validator := request_validator D\<rparr>) cfg handler"

text \<open>
  The document is loaded as it was embedded, however it was cut into chunks, and on its own: no
  reference out of it is resolved, since the table of external documents is empty.
\<close>

lemma GetSwagger_embedded:
  assumes "concat chunks = std_encode z" and "oa_gunzip D z = Inr doc"
  shows "GetSwagger D chunks = oa_load D (\<lambda>url. Inl (''path not found: '' @ path_Clean url)) doc"
proof -
  have "read_external (PathToRawSpec D chunks []) = (\<lambda>url. Inl (''path not found: '' @ path_Clean url))"
    by (simp add: fun_eq_iff read_external_def PathToRawSpec_def Let_def)
  then show ?thesis
    using assms by (simp add: GetSwagger_def decodeSpecCached_def decodeSpec_def std_decode_encode Let_def)
qed

text \<open>A document that cannot be unpacked or loaded only disables the validation of requests.\<close>

lemma request_validator_iff:
  "request_validator D = Some V \<longleftrightarrow>
     (\<exists>spec. GetSwagger D swaggerSpec = Inr spec \<and> oa_router D spec = Inr V)"
  by (auto simp: request_validator_def split: sum.split)

lemma middlewares_of_document:
  "request_validator D = None \<Longrightarrow>
   middleware_stack E (request_validator D) cfg = middleware_stack E None cfg"
  "length (middleware_stack E (request_validator D) cfg) =
     3 + (if MaxBodySize cfg > 0 then 1 else 0) + (if request_validator D = None then 0 else 1)"
  by (auto simp: middleware_stack_def split: option.split)

end
