(* ===== verification/CreateSteps.thy ===== *)
theory CreateSteps
  imports Lifecycle
begin

text \<open>
  \<open>CreateInstance\<close> call by call. The Go server runs every request in a goroutine of its own, so
  that between two calls of a create (to the store, to Koku, to the publisher) other requests may
  run. A create in progress is a control point with the local variables that are still used;
  \<open>create_step\<close> runs it up to and including its next call. A call of the store is one SQL
  statement, hence atomic; a call of the Koku client only touches the outside world, so that its
  requests and waits count as one step.
\<close>

subsection \<open>Control points\<close>

datatype create_point =
    Reserving cost_instance
  | LookingUp cost_instance
  | is_Resetting: Resetting cost_instance
  | CreatingSource cost_instance
  | is_MarkingError: MarkingError cost_instance koku_error
  | CreatingModel cost_instance
  | Saving cost_instance
  | Announcing string cost_instance
  | Replied api_response

record create_job =
  cj_ctx :: ctx
  cj_spec :: cost_spec
  cj_sourceName :: string
  cj_point :: create_point

definition job_target :: "create_job \<Rightarrow> string" where
  "job_target j = ResourceId (Target (cj_spec j))"

text \<open>The lines before the first call, and the checks.\<close>

definition create_begin ::
  "'x env \<Rightarrow> ctx \<Rightarrow> string option \<Rightarrow> api_cost_instance option \<Rightarrow> ('d, 'x) world \<Rightarrow>
   create_job \<times> ('d, 'x) world" where
  "create_begin E ctx param_id body w =
     (let (uuid, w0) = on_ext (env_uuid E) w;
          iid = (case param_id of None \<Rightarrow> uuid | Some p \<Rightarrow> if p = [] then uuid else p)
      in (case create_checks E body of
            Inl resp \<Rightarrow>
              \<lparr>cj_ctx = ctx, cj_spec = zero_spec, cj_sourceName = [], cj_point = Replied resp\<rparr>
          | Inr (spec, specJSON) \<Rightarrow>
              (let name = metadata_Name (Metadata spec)
               in \<lparr>cj_ctx = ctx, cj_spec = spec,
                   cj_sourceName = (if name = [] then ''dcm-'' @ iid else name),
                   cj_point = Reserving (new_instance iid spec specJSON)\<rparr>), w0))"

fun point_step ::
  "'x env \<Rightarrow> ('d, 'x) handler \<Rightarrow> ctx \<Rightarrow> cost_spec \<Rightarrow> string \<Rightarrow> create_point \<Rightarrow> ('d, 'x) world \<Rightarrow>
   create_point \<times> ('d, 'x) world" where
  "point_step E H ctx spec sourceName (Reserving inst) w =
     (let ((err, inst1), w1) = st_Create (hd_store H) inst w
      in (case err of
            None \<Rightarrow> CreatingSource inst1
          | Some ErrAlreadyExists \<Rightarrow> LookingUp inst1
          | Some _ \<Rightarrow> Replied (internal_error ''failed to persist instance''), w1))"
| "point_step E H ctx spec sourceName (LookingUp inst) w =
     (let (res, w1) = st_GetByTarget (hd_store H) (ResourceId (Target spec)) w
      in (case res of
            Inl _ \<Rightarrow> Replied (internal_error ''failed to look up existing instance'')
          | Inr existing \<Rightarrow>
              if Status existing \<noteq> ''ERROR'' \<and> Status existing \<noteq> ''DELETED'' then Replied conflict
              else Resetting (inst\<lparr>ID := ID existing, KokuSourceUUID := [], KokuCostModelUUID := []\<rparr>),
          w1))"
| "point_step E H ctx spec sourceName (Resetting inst) w =
     (let ((err, inst1), w1) = st_Update (hd_store H) inst w
      in (case err of
            Some _ \<Rightarrow> Replied (internal_error ''failed to reset instance for retry'')
          | None \<Rightarrow> CreatingSource inst1, w1))"
| "point_step E H ctx spec sourceName (CreatingSource inst) w =
     (let (res, w1) = kk_CreateSource (hd_koku H) ctx (ResourceId (Target spec)) sourceName w
      in (case res of
            Inl err \<Rightarrow> MarkingError inst err
          | Inr src \<Rightarrow>
              CreatingModel (inst\<lparr>KokuSourceUUID := src_UUID src, StatusMessage := msg_source_created\<rparr>),
          w1))"
| "point_step E H ctx spec sourceName (MarkingError inst err) w =
     (let (derr, w1) = st_UpdateStatus (hd_store H) (ID inst) ''ERROR''
            (''failed to create Koku source: '' @ koku_error_text err) w
      in (Replied (internal_error ''failed to create Koku source''), w1))"
| "point_step E H ctx spec sourceName (CreatingModel inst) w =
     (let (res, w1) = create_cost_model H ctx spec sourceName inst w
      in (case res of Inl resp \<Rightarrow> Replied resp | Inr inst1 \<Rightarrow> Saving inst1, w1))"
| "point_step E H ctx spec sourceName (Saving inst) w =
     (let ((err, inst1), w1) = st_Update (hd_store H) inst w in (Announcing (ID inst) inst1, w1))"
| "point_step E H ctx spec sourceName (Announcing iid inst) w =
     (let (err, w1) = pub_Publish (hd_publisher H) ctx iid ''PROVISIONING'' (StatusMessage inst) w
      in (Replied (OkInstance 201 (toAPICostInstance E inst)), add_managed 1 w1))"
| "point_step E H ctx spec sourceName (Replied resp) w = (Replied resp, w)"

definition create_step ::
  "'x env \<Rightarrow> ('d, 'x) handler \<Rightarrow> create_job \<times> ('d, 'x) world \<Rightarrow> create_job \<times> ('d, 'x) world" where
  "create_step E H jw =
     (let (j, w) = jw;
          (p, w1) = point_step E H (cj_ctx j) (cj_spec j) (cj_sourceName j) (cj_point j) w
      in (j\<lparr>cj_point := p\<rparr>, w1))"

lemma create_step_simps [simp]:
  "cj_ctx (fst (create_step E H (j, w))) = cj_ctx j"
  "cj_spec (fst (create_step E H (j, w))) = cj_spec j"
  "job_target (fst (create_step E H (j, w))) = job_target j"
  by (simp_all add: create_step_def job_target_def split: prod.split)

subsection \<open>Alone, the steps are the operation\<close>

primrec run_points ::
  "'x env \<Rightarrow> ('d, 'x) handler \<Rightarrow> ctx \<Rightarrow> cost_spec \<Rightarrow> string \<Rightarrow> nat \<Rightarrow>
   create_point \<times> ('d, 'x) world \<Rightarrow> create_point \<times> ('d, 'x) world" where
  "run_points E H ctx spec name 0 pw = pw"
| "run_points E H ctx spec name (Suc n) pw =
     run_points E H ctx spec name n (point_step E H ctx spec name (fst pw) (snd pw))"

primrec create_run ::
  "'x env \<Rightarrow> ('d, 'x) handler \<Rightarrow> nat \<Rightarrow> create_job \<times> ('d, 'x) world \<Rightarrow> create_job \<times> ('d, 'x) world" where
  "create_run E H 0 jw = jw"
| "create_run E H (Suc n) jw = create_run E H n (create_step E H jw)"

lemma run_replied [simp]: "run_points E H ctx spec name n (Replied resp, w) = (Replied resp, w)"
  by (induction n) simp_all

lemma create_run_points:
  "create_run E H n (j, w) =
   (let (p, w1) = run_points E H (cj_ctx j) (cj_spec j) (cj_sourceName j) n (cj_point j, w)
    in (j\<lparr>cj_point := p\<rparr>, w1))"
  by (induction n arbitrary: j w) (simp_all add: create_step_def Let_def split: prod.split)

definition replied :: "api_response \<times> ('d, 'x) world \<Rightarrow> create_point \<times> ('d, 'x) world" where
  "replied out = (Replied (fst out), snd out)"

lemma run_saving:
  "run_points E H ctx spec name (Suc (Suc n)) (Saving inst, w) =
   replied (create_finish E H ctx (ID inst) inst w)"
  by (simp add: create_finish_def replied_def Let_def split: prod.split)

lemma create_cost_model_ID:
  "create_cost_model H ctx spec name inst w = (Inr inst1, w1) \<Longrightarrow> ID inst1 = ID inst"
  by (auto simp: create_cost_model_def Let_def split: option.splits prod.splits sum.splits if_splits)

lemma run_source:
  "run_points E H ctx spec name (Suc (Suc (Suc (Suc n)))) (CreatingSource inst, w) =
   replied (create_provision E H ctx spec name inst w)"
proof -
  obtain res w1 where 1: "kk_CreateSource (hd_koku H) ctx (ResourceId (Target spec)) name w = (res, w1)"
    by fastforce
  show ?thesis
  proof (cases res)
    case (Inl err)
    then show ?thesis by (simp add: 1 create_provision_def replied_def Let_def split: prod.split)
  next
    case (Inr src)
    let ?i = "inst\<lparr>KokuSourceUUID := src_UUID src, StatusMessage := msg_source_created\<rparr>"
    obtain step w2 where 2: "create_cost_model H ctx spec name ?i w1 = (step, w2)" by fastforce
    show ?thesis
    proof (cases step)
      case (Inl resp)
      then show ?thesis using Inr by (simp add: 1 2 create_provision_def replied_def Let_def)
    next
      case (Inr inst2)
      then have "ID inst2 = ID inst" using create_cost_model_ID [of H ctx spec name ?i w1] 2 by simp
      then show ?thesis
        using \<open>res = Inr src\<close> Inr run_saving [of E H ctx spec name n inst2 w2]
        by (simp add: 1 2 create_provision_def Let_def)
    qed
  qed
qed

text \<open>From the reservation on.\<close>

lemma run_reserving:
  "run_points E H ctx spec name 7 (Reserving inst, w) =
   (let (res, w1) = create_reserve H (ResourceId (Target spec)) inst w
    in case res of
         Inl resp \<Rightarrow> (Replied resp, w1)
       | Inr inst1 \<Rightarrow> replied (create_provision E H ctx spec name inst1 w1))"
proof -
  obtain err i1 w1 where 1: "st_Create (hd_store H) inst w = ((err, i1), w1)" by (metis surj_pair)
  note source = run_source [of E H ctx spec name]
  have seven: "7 = Suc (Suc (Suc (Suc (Suc (Suc (Suc 0))))))" by simp
  obtain found w2 where 2: "st_GetByTarget (hd_store H) (ResourceId (Target spec)) w1 = (found, w2)"
    by fastforce
  show ?thesis
  proof (cases "err = Some ErrAlreadyExists \<and> \<not> isl found")
    case False
    then show ?thesis
      unfolding seven using source [of "Suc (Suc 0)" i1 w1]
      by (auto simp: 1 2 create_reserve_def Let_def split: option.split store_error.split sum.split)
  next
    case True
    then obtain r where r: "found = Inr r" by (cases found) simp_all
    obtain uerr i3 w3 where 3: "st_Update (hd_store H)
        (i1\<lparr>ID := ID r, KokuSourceUUID := [], KokuCostModelUUID := []\<rparr>) w2 = ((uerr, i3), w3)"
      by (metis surj_pair)
    show ?thesis
      unfolding seven using source [of 0 i3 w3] True
      by (auto simp: 1 2 3 r create_reserve_def Let_def split: option.split)
  qed
qed

lemma run_alone:
  assumes "CreateInstance E H ctx pid body w = (resp, w')"
  shows "\<exists>j. create_run E H 7 (create_begin E ctx pid body w) = (j, w') \<and> cj_point j = Replied resp"
proof (cases "create_checks E body")
  case (Inl err)
  then show ?thesis
    using assms by (auto simp: CreateInstance_def create_begin_def create_run_points Let_def
        split: prod.splits)
next
  case (Inr sj)
  then obtain spec js where sj: "create_checks E body = Inr (spec, js)" by (cases sj) simp
  obtain uuid w0 where u: "on_ext (env_uuid E) w = (uuid, w0)" by fastforce
  show ?thesis
    using assms by (auto simp: CreateInstance_def create_begin_def create_run_points Let_def sj u
        run_reserving replied_def split: prod.splits sum.splits)
qed

end
