(* ===== verification/CreateRaces.thy ===== *)
theory CreateRaces
  imports CreateSteps Script
begin

text \<open>
  Any number of creates at once, call by call, among whole steps of the rest of the service. What
  holds of the table in every interleaving, when a target is reserved for one create only, and two
  interleavings in which a create does not have its row to itself.
\<close>

subsection \<open>Interleavings\<close>

text \<open>
  A new create arrives, a create makes its next call, or something else happens. \<open>ok\<close> restricts
  the creates in progress that are looked at.
\<close>

inductive raced ::
  "'x env \<Rightarrow> ('d, 'x) handler \<Rightarrow> (('d, 'x) world \<Rightarrow> ('d, 'x) world \<Rightarrow> bool) \<Rightarrow>
   (create_job list \<Rightarrow> bool) \<Rightarrow> create_job list \<times> ('d, 'x) world \<Rightarrow>
   create_job list \<times> ('d, 'x) world \<Rightarrow> bool"
  for E H others ok s0 where
  start: "raced E H others ok s0 s0"
| arrive: "raced E H others ok s0 (js, w) \<Longrightarrow> create_begin E c pid body w = (j, w') \<Longrightarrow>
    raced E H others ok s0 (js @ [j], w')"
| call: "raced E H others ok s0 (js, w) \<Longrightarrow> i < length js \<Longrightarrow>
    create_step E H (js ! i, w) = (j, w') \<Longrightarrow> ok (js[i := j]) \<Longrightarrow>
    raced E H others ok s0 (js[i := j], w')"
| other: "raced E H others ok s0 (js, w) \<Longrightarrow> others w w' \<Longrightarrow> raced E H others ok s0 (js, w')"

lemmas raced_induct = raced.induct [split_format (complete)]

subsection \<open>What a create relies on and what it does to the table\<close>

text \<open>Rows are never removed and keep their targets.\<close>

definition rows_kept :: "(string \<rightharpoonup> cost_instance) \<Rightarrow> (string \<rightharpoonup> cost_instance) \<Rightarrow> bool" where
  "rows_kept R R' \<longleftrightarrow>
     (\<forall>k r. R k = Some r \<longrightarrow> (\<exists>r'. R' k = Some r' \<and> TargetResourceID r' = TargetResourceID r))"

definition row_of :: "(string \<rightharpoonup> cost_instance) \<Rightarrow> string \<Rightarrow> string \<Rightarrow> bool" where
  "row_of R k t \<longleftrightarrow> (\<exists>r. R k = Some r \<and> TargetResourceID r = t)"

definition fresh_data :: "string \<Rightarrow> cost_instance \<Rightarrow> bool" where
  "fresh_data t i \<longleftrightarrow> TargetResourceID i = t \<and> Status i = ''PROVISIONING''"

fun owns :: "(string \<rightharpoonup> cost_instance) \<Rightarrow> string \<Rightarrow> create_point \<Rightarrow> bool" where
  "owns R t (Reserving i) = fresh_data t i"
| "owns R t (LookingUp i) = fresh_data t i"
| "owns R t (MarkingError i e) = row_of R (ID i) t"
| "owns R t (Announcing k i) = row_of R k t"
| "owns R t (Replied resp) =
     (case resp of OkInstance _ _ \<Rightarrow> \<exists>k. row_of R k t | _ \<Rightarrow> True)"
| "owns R t (Resetting i) = (fresh_data t i \<and> row_of R (ID i) t)"
| "owns R t (CreatingSource i) = (fresh_data t i \<and> row_of R (ID i) t)"
| "owns R t (CreatingModel i) = (fresh_data t i \<and> row_of R (ID i) t)"
| "owns R t (Saving i) = (fresh_data t i \<and> row_of R (ID i) t)"

definition writes :: "(string \<rightharpoonup> cost_instance) \<Rightarrow> string \<Rightarrow> string \<Rightarrow> (string \<rightharpoonup> cost_instance) \<Rightarrow> bool" where
  "writes R t st R' \<longleftrightarrow> R' = R \<or>
     (\<exists>r. R' = R(ID r \<mapsto> r) \<and> TargetResourceID r = t \<and> Status r = st \<and>
        (row_of R (ID r) t \<or> R (ID r) = None \<and> target_free R (ID r) t))"

text \<open>A create that got past the reservation and has not failed.\<close>

fun holds :: "create_point \<Rightarrow> bool" where
  "holds (CreatingSource i) = True"
| "holds (CreatingModel i) = True"
| "holds (Saving i) = True"
| "holds (Announcing k i) = True"
| "holds (Replied (OkInstance _ _)) = True"
| "holds p = False"

lemma rows_kept_refl [simp]: "rows_kept R R"
  by (simp add: rows_kept_def)

lemma rows_kept_trans: "rows_kept A B \<Longrightarrow> rows_kept B C \<Longrightarrow> rows_kept A C"
  unfolding rows_kept_def by metis

lemma row_of_kept: "row_of R k t \<Longrightarrow> rows_kept R R' \<Longrightarrow> row_of R' k t"
  by (auto simp: row_of_def rows_kept_def)

lemma owns_kept:
  assumes "owns R t p" and "rows_kept R R'"
  shows "owns R' t p"
  using assms row_of_kept [OF _ assms(2)]
  by (cases "(R, t, p)" rule: owns.cases) (auto split: api_response.splits)

lemma writes_kept: "writes R t st R' \<Longrightarrow> rows_kept R R'"
  by (auto simp: writes_def rows_kept_def row_of_def)

lemma writes_refl [simp]: "writes R t st R"
  by (simp add: writes_def)

lemma row_of_upd [simp]: "row_of (R(k \<mapsto> r)) k t \<longleftrightarrow> TargetResourceID r = t"
  by (simp add: row_of_def)

lemma fresh_same_data: "fresh_data t i \<Longrightarrow> same_data i i' \<Longrightarrow> fresh_data t i' \<and> ID i' = ID i"
  using same_data_fields [of i i'] by (simp add: fresh_data_def)

text \<open>What one call does to the control point and the table.\<close>

definition one_call ::
  "string \<Rightarrow> create_point \<Rightarrow> (string \<rightharpoonup> cost_instance) \<Rightarrow> create_point \<Rightarrow> (string \<rightharpoonup> cost_instance) \<Rightarrow> bool" where
  "one_call t p R p' R' \<longleftrightarrow> owns R' t p' \<and>
     writes R t (if is_MarkingError p then ''ERROR'' else ''PROVISIONING'') R' \<and>
     (holds p' \<longrightarrow> holds p \<or> is_Resetting p \<or> (\<forall>k. \<not> row_of R k t)) \<and>
     (is_Resetting p' \<longrightarrow> (\<exists>r \<in> ran R. TargetResourceID r = t \<and> \<not> active r))"

context handlers
begin

lemma cost_model_point:
  assumes "create_cost_model H c spec name i w = (res, w')"
  shows "T w' = T w \<and> (case res of Inl resp \<Rightarrow> \<exists>d. resp = bad_request d
    | Inr i' \<Rightarrow> ID i' = ID i \<and> (fresh_data t i \<longrightarrow> fresh_data t i'))"
proof (cases "wanted_rates spec")
  case None
  then show ?thesis using assms by (auto simp: create_cost_model_def)
next
  case (Some q)
  obtain cms rs where q: "q = (cms, rs)" by fastforce
  obtain r w1 where k: "kk_CreateCostModel (hd_koku H) c (name @ ''-cost-model'') (KokuSourceUUID i)
      (convertRates rs (spec_currency spec)) (koku_markup_of cms) (distribution_of cms) w = (r, w1)"
    by fastforce
  have "T w1 = T w"
    using CreateCostModel_frame [of w c "name @ ''-cost-model''" "KokuSourceUUID i"
        "convertRates rs (spec_currency spec)" "koku_markup_of cms" "distribution_of cms"] k
    by (intro table_frame) (simp add: koku_bounded_frame)
  then show ?thesis
    using assms by (auto simp: create_cost_model_def fresh_data_def Some q k Let_def
        split: if_splits sum.splits)
qed

lemma writes_row:
  assumes "fresh_data t i" and "same_data i i'" and "row_of R (ID i) t \<or> R (ID i) = None \<and> target_free R (ID i) t"
    and "R' = R(ID i \<mapsto> i')"
  shows "writes R t ''PROVISIONING'' R'" "row_of R' (ID i') t" "fresh_data t i'"
proof -
  have f: "fresh_data t i'" "ID i' = ID i" using fresh_same_data [OF assms(1,2)] by simp_all
  then show "fresh_data t i'" "row_of R' (ID i') t" using assms(4) by (simp_all add: fresh_data_def)
  have "R' = R(ID i' \<mapsto> i') \<and> TargetResourceID i' = t \<and> Status i' = ''PROVISIONING'' \<and>
      (row_of R (ID i') t \<or> R (ID i') = None \<and> target_free R (ID i') t)"
    using f assms(3,4) by (simp add: fresh_data_def)
  then show "writes R t ''PROVISIONING'' R'" unfolding writes_def by blast
qed

lemma no_row:
  assumes "T w (ID i) = None" and "target_free (T w) (ID i) t"
  shows "\<not> row_of (T w) k t"
proof
  assume "row_of (T w) k t"
  then obtain r where r: "T w k = Some r" "TargetResourceID r = t" by (auto simp: row_of_def)
  then have "ID r = ID i" using assms(2) by (auto simp: target_free_def intro: ranI)
  then show False using table_key [OF r(1)] r(1) assms(1) by simp
qed

text \<open>One call of a create.\<close>

lemma point_step_spec:
  assumes "point_step E H c spec name p w = (p', w')" and t: "t = ResourceId (Target spec)"
    and "owns (T w) t p"
  shows "one_call t p (T w) p' (T w')"
proof (cases p)
  case (Reserving i)
  obtain err i1 where 1: "st_Create (hd_store H) i w = ((err, i1), w')"
    and p': "p' = (case err of None \<Rightarrow> CreatingSource i1 | Some ErrAlreadyExists \<Rightarrow> LookingUp i1
      | Some _ \<Rightarrow> Replied (internal_error ''failed to persist instance''))"
    using assms(1) Reserving by (auto split: prod.splits)
  have i: "fresh_data t i" using assms(3) Reserving by simp
  show ?thesis
  proof (cases err)
    case None
    note ok = Create_ok [OF 1 [unfolded None]]
    have free: "T w (ID i) = None \<and> target_free (T w) (ID i) t" using ok i by (simp add: fresh_data_def)
    then show ?thesis
      using writes_row [OF i, of i1 "T w" "T w'"] ok no_row [of w i t]
      by (simp add: one_call_def Reserving p' None)
  next
    case (Some e)
    then have "same_data i i1 \<and> T w' = T w" using Create_failed 1 by simp
    then show ?thesis
      using fresh_same_data [OF i] by (auto simp: one_call_def Reserving p' Some internal_error_def
          split: store_error.splits)
  qed
next
  case (LookingUp i)
  obtain res where 1: "st_GetByTarget (hd_store H) t w = (res, w')"
    and p': "p' = (case res of
            Inl _ \<Rightarrow> Replied (internal_error ''failed to look up existing instance'')
          | Inr existing \<Rightarrow>
              if Status existing \<noteq> ''ERROR'' \<and> Status existing \<noteq> ''DELETED'' then Replied conflict
              else Resetting (i\<lparr>ID := ID existing, KokuSourceUUID := [], KokuCostModelUUID := []\<rparr>))"
    using assms(1) LookingUp t by (auto split: prod.splits)
  have same: "T w' = T w" by (rule GetByTarget_same [OF 1])
  show ?thesis
  proof (cases res)
    case (Inl e)
    then show ?thesis using same by (simp add: one_call_def LookingUp p' internal_error_def)
  next
    case (Inr r)
    then have r: "r \<in> ran (T w)" "TargetResourceID r = t" using GetByTarget_hit 1 by simp_all
    then have "row_of (T w) (ID r) t" using table_key by (auto simp: row_of_def ran_def)
    then show ?thesis
      using same r assms(3) by (auto simp: one_call_def LookingUp p' Inr conflict_def active_def fresh_data_def)
  qed
next
  case (Resetting i)
  obtain err i1 where 1: "st_Update (hd_store H) i w = ((err, i1), w')"
    and p': "p' = (case err of
            Some _ \<Rightarrow> Replied (internal_error ''failed to reset instance for retry'')
          | None \<Rightarrow> CreatingSource i1)"
    using assms(1) Resetting by (auto split: prod.splits)
  have i: "fresh_data t i" "row_of (T w) (ID i) t" using assms(3) Resetting by simp_all
  show ?thesis
  proof (cases err)
    case None
    note ok = Update_ok [OF 1 [unfolded None]]
    then show ?thesis
      using writes_row [OF i(1), of i1 "T w" "T w'"] i(2) by (simp add: one_call_def Resetting p' None)
  next
    case (Some e)
    then have "T w' = T w" using Update_failed 1 by simp
    then show ?thesis by (simp add: one_call_def Resetting p' Some internal_error_def)
  qed
next
  case (CreatingSource i)
  obtain res where 1: "kk_CreateSource (hd_koku H) c t name w = (res, w')"
    and p': "p' = (case res of
            Inl err \<Rightarrow> MarkingError i err
          | Inr src \<Rightarrow>
              CreatingModel (i\<lparr>KokuSourceUUID := src_UUID src, StatusMessage := msg_source_created\<rparr>))"
    using assms(1) CreatingSource t by (auto split: prod.splits)
  have "T w' = T w"
    using CreateSource_frame [of w c t name] 1 by (intro table_frame) (simp add: koku_bounded_frame)
  then show ?thesis
    using assms(3) by (auto simp: one_call_def CreatingSource p' fresh_data_def split: sum.split)
next
  case (MarkingError i e)
  obtain err where 1: "st_UpdateStatus (hd_store H) (ID i) ''ERROR''
      (''failed to create Koku source: '' @ koku_error_text e) w = (err, w')"
    and p': "p' = Replied (internal_error ''failed to create Koku source'')"
    using assms(1) MarkingError by (auto split: prod.splits)
  have i: "row_of (T w) (ID i) t" using assms(3) MarkingError by simp
  have "writes (T w) t ''ERROR'' (T w')"
  proof (cases err)
    case None
    from UpdateStatus_ok [OF 1 [unfolded None]] obtain r u
      where r: "T w (ID i) = Some r" "T w' = (T w)(ID i \<mapsto>
        set_status ''ERROR'' (''failed to create Koku source: '' @ koku_error_text e) u r)"
      by blast
    then have "ID r = ID i" "TargetResourceID r = t" using i table_key by (auto simp: row_of_def)
    then show ?thesis
      using r(2) i unfolding writes_def by (metis set_status_fields(1,3,4))
  next
    case (Some e)
    then show ?thesis using UpdateStatus_failed 1 by simp
  qed
  then show ?thesis by (simp add: one_call_def MarkingError p' internal_error_def)
next
  case (CreatingModel i)
  obtain res where 1: "create_cost_model H c spec name i w = (res, w')"
    and p': "p' = (case res of Inl resp \<Rightarrow> Replied resp | Inr i1 \<Rightarrow> Saving i1)"
    using assms(1) CreatingModel by (auto split: prod.splits)
  show ?thesis
    using cost_model_point [OF 1, of t] assms(3)
    by (auto simp: one_call_def CreatingModel p' bad_request_def split: sum.splits)
next
  case (Saving i)
  obtain err i1 where 1: "st_Update (hd_store H) i w = ((err, i1), w')"
    and p': "p' = Announcing (ID i) i1"
    using assms(1) Saving by (auto split: prod.splits)
  have i: "fresh_data t i" "row_of (T w) (ID i) t" using assms(3) Saving by simp_all
  show ?thesis
  proof (cases err)
    case None
    note ok = Update_ok [OF 1 [unfolded None]]
    then show ?thesis
      using writes_row [OF i(1), of i1 "T w" "T w'"] i fresh_same_data [OF i(1), of i1]
      by (simp add: one_call_def Saving p')
  next
    case (Some e)
    then have "T w' = T w" using Update_failed 1 by simp
    then show ?thesis using i by (simp add: one_call_def Saving p')
  qed
next
  case (Announcing k i)
  obtain err w1 where 1: "pub_Publish (hd_publisher H) c k ''PROVISIONING'' (StatusMessage i) w = (err, w1)"
    and p': "p' = Replied (OkInstance 201 (toAPICostInstance E i))" "w' = add_managed 1 w1"
    using assms(1) Announcing by (auto split: prod.splits)
  have "T w1 = T w" using Publish_spec [OF 1] by blast
  moreover have "T w' = T w1" by (rule table_frame) (simp add: p')
  ultimately show ?thesis using assms(3) by (auto simp: one_call_def Announcing p')
next
  case (Replied resp)
  then show ?thesis using assms(1,3) by (auto simp: one_call_def)
qed

lemma create_step_spec:
  assumes "create_step E H (j, w) = (j', w')" and "owns (T w) (job_target j) (cj_point j)"
  shows "job_target j' = job_target j \<and>
    one_call (job_target j) (cj_point j) (T w) (cj_point j') (T w')"
proof -
  obtain p where "point_step E H (cj_ctx j) (cj_spec j) (cj_sourceName j) (cj_point j) w = (p, w')"
    and j': "j' = j\<lparr>cj_point := p\<rparr>"
    using assms(1) by (auto simp: create_step_def split: prod.splits)
  from point_step_spec [OF this(1) _ assms(2)] show ?thesis by (simp add: j' job_target_def)
qed

lemma create_begin_spec:
  assumes "create_begin E c pid body w = (j, w')"
  shows "T w' = T w \<and> owns R (job_target j) (cj_point j) \<and> \<not> holds (cj_point j) \<and>
    \<not> is_Resetting (cj_point j) \<and> \<not> is_MarkingError (cj_point j)"
proof -
  have "w' = snd (on_ext (env_uuid E) w)"
    using assms by (auto simp: create_begin_def Let_def split: prod.splits)
  then have "T w' = T w" by (intro table_frame) simp
  moreover have "create_checks E body = Inl resp \<Longrightarrow> \<exists>code e. resp = Problem code e" for resp
    by (auto simp: create_checks_def bad_request_def internal_error_def Let_def
        split: option.splits if_splits)
  ultimately show ?thesis
    using assms by (auto simp: create_begin_def job_target_def fresh_data_def new_instance_def Let_def
        split: prod.splits sum.splits)
qed

end

subsection \<open>Invariants of every interleaving\<close>

definition good_table :: "(string \<rightharpoonup> cost_instance) \<Rightarrow> bool" where
  "good_table R \<longleftrightarrow> unique_targets R \<and> (\<forall>r \<in> ran R. CostInstanceStatus_Valid (Status r))"

definition all_own :: "create_job list \<Rightarrow> (string \<rightharpoonup> cost_instance) \<Rightarrow> bool" where
  "all_own js R \<longleftrightarrow> (\<forall>j \<in> set js. owns R (job_target j) (cj_point j))"

lemma all_own_upd:
  assumes "all_own js R" and "rows_kept R R'" and "owns R' (job_target j) (cj_point j)"
  shows "all_own (js[i := j]) R'"
  using assms owns_kept set_update_subset_insert [of js i j] by (fastforce simp: all_own_def)

lemma writes_good:
  assumes "writes R t st R'" and "good_table R" and "CostInstanceStatus_Valid st"
    and key: "\<And>k r. R k = Some r \<Longrightarrow> ID r = k"
  shows "good_table R'"
proof (cases "R' = R")
  case False
  then obtain r where r: "R' = R(ID r \<mapsto> r)" "TargetResourceID r = t" "Status r = st"
    and k: "row_of R (ID r) t \<or> R (ID r) = None \<and> target_free R (ID r) t"
    using assms(1) by (auto simp: writes_def)
  have other: "a \<in> ran R \<Longrightarrow> TargetResourceID a = t \<Longrightarrow> R (ID r) = Some a" for a
  proof -
    assume a: "a \<in> ran R" "TargetResourceID a = t"
    then have ka: "R (ID a) = Some a" using key by (auto simp: ran_def)
    show ?thesis
    proof (cases "row_of R (ID r) t")
      case True
      then obtain q where "R (ID r) = Some q" "TargetResourceID q = t" by (auto simp: row_of_def)
      then show ?thesis using a assms(2) by (auto simp: good_table_def unique_targets_def intro: ranI)
    next
      case False
      then show ?thesis using k a ka by (auto simp: target_free_def)
    qed
  qed
  have sub: "a \<in> ran R' \<Longrightarrow> a = r \<or> (a \<in> ran R \<and> R (ID r) \<noteq> Some a)" for a
    using key unfolding r(1) by (auto simp: ran_def split: if_splits)
  have "unique_targets R'" unfolding unique_targets_def
  proof (intro ballI impI)
    fix a b assume ab: "a \<in> ran R'" "b \<in> ran R'" "TargetResourceID a = TargetResourceID b"
    show "a = b"
      using sub [OF ab(1)] sub [OF ab(2)] ab(3) other r(2) assms(2)
      by (auto simp: good_table_def unique_targets_def)
  qed
  moreover have "\<forall>a \<in> ran R'. CostInstanceStatus_Valid (Status a)"
    using sub r(3) assms(2,3) by (auto simp: good_table_def)
  ultimately show ?thesis by (simp add: good_table_def)
qed (simp add: assms(2))

context handlers
begin

lemma raced_invariants:
  assumes "raced E H others ok (js0, w0) (js, w)"
    and others: "\<And>w w'. others w w' \<Longrightarrow> rows_kept (T w) (T w') \<and> (good_table (T w) \<longrightarrow> good_table (T w'))"
    and "all_own js0 (T w0)" and "good_table (T w0)"
  shows "all_own js (T w) \<and> rows_kept (T w0) (T w) \<and> good_table (T w)"
  using assms(1)
proof (induction "(js, w)" arbitrary: js w rule: raced.induct)
  case start
  then show ?case using assms(3,4) by simp
next
  case (arrive js w c pid body j w')
  then show ?case using create_begin_spec [OF arrive(3), of "T w"] by (simp add: all_own_def)
next
  case (call js w i j w')
  have own: "owns (T w) (job_target (js ! i)) (cj_point (js ! i))"
    using call(2,3) by (simp add: all_own_def)
  note one = create_step_spec [OF call(4) own]
  then have wr: "writes (T w) (job_target j)
      (if is_MarkingError (cj_point (js ! i)) then ''ERROR'' else ''PROVISIONING'') (T w')"
    and o: "owns (T w') (job_target j) (cj_point j)"
    by (simp_all add: one_call_def)
  have "good_table (T w')"
    using call(2) table_key by (intro writes_good [OF wr]) simp_all
  moreover have "all_own (js[i := j]) (T w')"
    using call(2) by (intro all_own_upd [OF _ writes_kept [OF wr] o]) simp
  ultimately show ?case using call(2) rows_kept_trans writes_kept [OF wr] by blast
next
  case (other js w w')
  then show ?case
    using others [OF other(3)] owns_kept rows_kept_trans by (auto simp: all_own_def)
qed

end

subsection \<open>One create per target\<close>

definition holder :: "string \<Rightarrow> create_job \<Rightarrow> bool" where
  "holder t j \<longleftrightarrow> job_target j = t \<and> holds (cj_point j)"

definition live_target :: "(string \<rightharpoonup> cost_instance) \<Rightarrow> string \<Rightarrow> bool" where
  "live_target R t \<longleftrightarrow> (\<forall>r \<in> ran R. TargetResourceID r = t \<longrightarrow> active r)"

text \<open>No create of the target is about to record that Koku refused its source.\<close>

definition no_failure :: "string \<Rightarrow> create_job list \<Rightarrow> bool" where
  "no_failure t js \<longleftrightarrow> (\<forall>j \<in> set js. job_target j = t \<longrightarrow> \<not> is_MarkingError (cj_point j))"

definition exclusive :: "string \<Rightarrow> create_job list \<Rightarrow> bool" where
  "exclusive t js \<longleftrightarrow>
     (\<forall>i < length js. \<forall>k < length js. holder t (js ! i) \<and> holder t (js ! k) \<longrightarrow> i = k)"

definition undisputed :: "string \<Rightarrow> create_job list \<Rightarrow> (string \<rightharpoonup> cost_instance) \<Rightarrow> bool" where
  "undisputed t js R \<longleftrightarrow> all_own js R \<and> live_target R t \<and> no_failure t js \<and> exclusive t js \<and>
     (\<forall>j \<in> set js. job_target j = t \<longrightarrow> \<not> is_Resetting (cj_point j))"

lemma holds_row: "owns R t p \<Longrightarrow> holds p \<Longrightarrow> \<exists>k. row_of R k t"
  by (cases "(R, t, p)" rule: owns.cases) (auto split: api_response.splits)

lemma writes_live:
  assumes "writes R t' st R'" and "live_target R t" and "t' = t \<longrightarrow> st = ''PROVISIONING''"
  shows "live_target R' t"
proof (cases "R' = R")
  case False
  then obtain r where "R' = R(ID r \<mapsto> r)" "TargetResourceID r = t'" "Status r = st"
    using assms(1) by (auto simp: writes_def)
  then show ?thesis
    using assms(2,3) by (auto simp: live_target_def active_def ran_def split: if_splits)
qed (simp add: assms(2))

lemma exclusive_snoc: "exclusive t js \<Longrightarrow> \<not> holder t j \<Longrightarrow> exclusive t (js @ [j])"
  by (auto simp: exclusive_def nth_append less_Suc_eq)

lemma exclusive_upd:
  assumes "exclusive t js" and "i < length js"
    and "holder t j \<Longrightarrow> holder t (js ! i) \<or> (\<forall>k \<in> set js. \<not> holder t k)"
  shows "exclusive t (js[i := j])"
  unfolding exclusive_def
proof (intro allI impI)
  fix a b
  assume ab: "a < length (js[i := j])" "b < length (js[i := j])"
    and h: "holder t (js[i := j] ! a) \<and> holder t (js[i := j] ! b)"
  show "a = b"
  proof (cases "holder t j \<longrightarrow> holder t (js ! i)")
    case True
    then have "holder t (js[i := j] ! k) \<Longrightarrow> k < length js \<Longrightarrow> holder t (js ! k)" for k
      by (cases "k = i") simp_all
    then have "holder t (js ! a) \<and> holder t (js ! b)" using h ab by simp
    then show ?thesis using assms(1) ab by (simp add: exclusive_def)
  next
    case False
    then have none: "\<forall>k < length js. \<not> holder t (js ! k)" using assms(3) by simp
    have "holder t (js[i := j] ! k) \<Longrightarrow> k < length js \<Longrightarrow> k = i" for k
      using none by (cases "k = i") simp_all
    then have "a = i" "b = i" using h ab by simp_all
    then show ?thesis by simp
  qed
qed

context handlers
begin

lemma raced_exclusive:
  assumes "raced E H others (no_failure t) (js0, w0) (js, w)"
    and others: "\<And>w w'. others w w' \<Longrightarrow> rows_kept (T w) (T w') \<and>
      (live_target (T w) t \<longrightarrow> live_target (T w') t)"
    and "undisputed t js0 (T w0)"
  shows "undisputed t js (T w)"
  using assms(1)
proof (induction "(js, w)" arbitrary: js w rule: raced.induct)
  case start
  then show ?case using assms(3) by simp
next
  case (arrive js w c pid body j w')
  then show ?case
    using create_begin_spec [OF arrive(3), of "T w"] exclusive_snoc [of t js j]
    by (auto simp: undisputed_def all_own_def no_failure_def holder_def)
next
  case (call js w i j w')
  let ?j = "js ! i"
  have IH: "undisputed t js (T w)" by (rule call(2))
  have i: "?j \<in> set js" using call(3) by simp
  have own: "owns (T w) (job_target ?j) (cj_point ?j)"
    using IH i by (simp add: undisputed_def all_own_def)
  note one = create_step_spec [OF call(4) own]
  then have wr: "writes (T w) (job_target ?j)
      (if is_MarkingError (cj_point ?j) then ''ERROR'' else ''PROVISIONING'') (T w')"
    and o: "owns (T w') (job_target j) (cj_point j)"
    and h: "holds (cj_point j) \<longrightarrow> holds (cj_point ?j) \<or> is_Resetting (cj_point ?j) \<or>
      (\<forall>k. \<not> row_of (T w) k (job_target ?j))"
    and r: "is_Resetting (cj_point j) \<longrightarrow>
      (\<exists>r \<in> ran (T w). TargetResourceID r = job_target ?j \<and> \<not> active r)"
    and same: "job_target j = job_target ?j"
    by (simp_all add: one_call_def)
  have quiet: "job_target ?j = t \<longrightarrow> \<not> is_Resetting (cj_point ?j) \<and> \<not> is_MarkingError (cj_point ?j)"
    using IH i by (simp add: undisputed_def no_failure_def)
  have "all_own (js[i := j]) (T w')"
    using IH by (intro all_own_upd [OF _ writes_kept [OF wr] o]) (simp add: undisputed_def)
  moreover have "live_target (T w') t"
    using IH quiet by (intro writes_live [OF wr]) (simp_all add: undisputed_def)
  moreover have "exclusive t (js[i := j])"
  proof (rule exclusive_upd [OF _ call(3)])
    assume "holder t j"
    then have t: "job_target ?j = t" and "holds (cj_point ?j) \<or> (\<forall>k. \<not> row_of (T w) k t)"
      using h quiet same by (simp_all add: holder_def)
    moreover have "\<exists>m. row_of (T w) m t" if "k \<in> set js" "holder t k" for k
      using holds_row [of "T w" t "cj_point k"] that IH by (auto simp: undisputed_def all_own_def holder_def)
    ultimately show "holder t ?j \<or> (\<forall>k \<in> set js. \<not> holder t k)"
      unfolding holder_def using t by metis
  qed (use IH in \<open>simp add: undisputed_def\<close>)
  moreover have "job_target j = t \<longrightarrow> \<not> is_Resetting (cj_point j)"
    using r IH same by (auto simp: undisputed_def live_target_def)
  ultimately show ?case
    using IH call(5) set_update_subset_insert [of js i j] by (auto simp: undisputed_def)
next
  case (other js w w')
  then show ?case
    using others [OF other(3)] owns_kept by (auto simp: undisputed_def all_own_def)
qed

end

end
