(* ===== verification/RaceRuns.thy ===== *)
theory RaceRuns
  imports CreateRaces
begin

text \<open>
  Interleavings of creates for one target on the concrete set-up: a schedule of calls, and the runs
  that the witnesses and the races of \<open>RaceProps\<close> use.
\<close>

subsection \<open>Schedules\<close>

text \<open>The indices of the creates that make the next calls.\<close>

primrec schedule ::
  "'x env \<Rightarrow> ('d, 'x) handler \<Rightarrow> nat list \<Rightarrow> create_job list \<times> ('d, 'x) world \<Rightarrow>
   create_job list \<times> ('d, 'x) world" where
  "schedule E H [] s = s"
| "schedule E H (i # is) s =
     (let (j, w) = create_step E H (fst s ! i, snd s) in schedule E H is ((fst s)[i := j], w))"

lemma schedule_raced:
  assumes "raced E H others (\<lambda>js. True) s0 s" and "list_all (\<lambda>i. i < length (fst s)) is"
  shows "raced E H others (\<lambda>js. True) s0 (schedule E H is s)"
  using assms
proof (induction "is" arbitrary: s)
  case (Cons i "is")
  obtain j w where 1: "create_step E H (fst s ! i, snd s) = (j, w)" by fastforce
  have "raced E H others (\<lambda>js. True) s0 ((fst s)[i := j], w)"
    using Cons.prems 1 by (intro raced.call [of _ _ _ _ _ "fst s" "snd s"]) simp_all
  from Cons.IH [OF this] Cons.prems show ?case by (simp add: 1)
qed simp

subsection \<open>Creates of the sample target\<close>

definition job :: "string \<Rightarrow> create_point \<Rightarrow> create_job" where
  "job k p = \<lparr>cj_ctx = Ctx 0, cj_spec = sample_spec ''c1'' None [], cj_sourceName = ''dcm-'' @ k,
     cj_point = p\<rparr>"

definition asked :: "string \<Rightarrow> cost_instance" where
  "asked k = new_instance k (sample_spec ''c1'' None []) (sample_json ''c1'' None [])"

lemma asked_simps [simp]:
  "ID (asked k) = k" "TargetResourceID (asked k) = ''c1''" "Status (asked k) = ''PROVISIONING''"
  "CreatedAt (asked k) = 0" "KokuSourceUUID (asked k) = []" "KokuCostModelUUID (asked k) = []"
  by (simp_all add: asked_def new_instance_def)

lemma job_begin:
  "k \<noteq> [] \<Longrightarrow> create_begin script_env (Ctx 0) (Some k) (sample_body (sample_spec ''c1'' None [])) w =
    (job k (Reserving (asked k)), w)"
  by (simp add: create_begin_def sample_ok job_def asked_def)

lemma job_step: "create_step E H (job k p, w) =
    (let (p', w') = point_step E H (Ctx 0) (sample_spec ''c1'' None []) (''dcm-'' @ k) p w in (job k p', w'))"
  by (simp add: create_step_def job_def Let_def split: prod.split)

lemma uuid_decoded2:
  "decodeJSON script_env dec_source_response
     \<lparr>src_UUID = [], src_Name = [], src_SourceType = [], src_Paused = False\<rparr>
     \<lparr>rs_status = 201, rs_body = uuid_body ''s2'', rs_body_err = None\<rparr> =
   Inr \<lparr>src_UUID = ''s2'', src_Name = [], src_SourceType = [], src_Paused = False\<rparr>"
  by code_simp

definition takeover_start :: "(mem_db, script) world" where
  "takeover_start = start [sample_row ''i1'' ''c1'' ''ERROR'' []] []
  [answer 201 (uuid_body ''s1''), answer 201 (uuid_body ''s2'')]"

subsection \<open>Runs\<close>

definition created_a :: cost_instance where
  "created_a = (asked ''a'')\<lparr>KokuSourceUUID := ''s1'', StatusMessage := msg_source_created,
     CreatedAt := 5, UpdatedAt := 5\<rparr>"

definition retried :: "string \<Rightarrow> string \<Rightarrow> time \<Rightarrow> cost_instance" where
  "retried k source t = (asked k)\<lparr>ID := ''i1'', KokuSourceUUID := source,
     StatusMessage := msg_source_created, CreatedAt := t, UpdatedAt := t + 6\<rparr>"

lemma takeover_run:
  "\<exists>w. schedule script_env script_handler [0, 1, 0, 1, 0, 1, 0, 1, 0, 1, 0, 1, 0, 1]
      ([job ''a'' (Reserving (asked ''a'')), job ''b'' (Reserving (asked ''b''))], takeover_start) =
      ([job ''a'' (Replied (OkInstance 201 (toAPICostInstance script_env (retried ''a'' ''s1'' 5)))),
        job ''b'' (Replied (OkInstance 201 (toAPICostInstance script_env (retried ''b'' ''s2'' 6))))],
       w) \<and>
    mem_rows (db w) = [''i1'' \<mapsto> retried ''b'' ''s2'' 6] \<and> InstancesManaged w = 2 \<and>
    outgoing w = [source_posted ''c1'' ''dcm-a'', source_posted ''c1'' ''dcm-b'']"
  by (simp add: takeover_start_def job_step script_Create script_find script_Update clash_def
      target_clash_def mem_table_def stamp_new_def sample_row_def Let_def
      script_CreateSource [where rest = "[answer 201 (uuid_body ''s2'')]"]
      script_CreateSource [where rest = "[]"] uuid_decoded uuid_decoded2
      create_cost_model_def script_publish mem_rows_def)
    (simp add: retried_def asked_def new_instance_def)

lemma undone_run:
  "\<exists>w1 w2 w3. create_run script_env script_handler 3
      (create_begin script_env (Ctx 0) (Some ''a'') (sample_body (sample_spec ''c1'' None []))
        (start [] [] [answer 201 (uuid_body ''s1'')])) = (job ''a'' (Saving created_a), w1) \<and>
    DeleteInstance script_env script_handler (Ctx 1) ''a'' w1 = (NoContent, w2) \<and>
    create_run script_env script_handler 2 (job ''a'' (Saving created_a), w2) =
      (job ''a'' (Replied (OkInstance 201 (toAPICostInstance script_env
        (created_a\<lparr>UpdatedAt := 8\<rparr>)))), w3) \<and>
    mem_rows (db w3) = [''a'' \<mapsto> created_a\<lparr>UpdatedAt := 8\<rparr>] \<and>
    outgoing w3 = [source_posted ''c1'' ''dcm-a''] \<and>
    published w3 = [script_event ''a'' ''DELETED'' ''instance deleted'',
      script_event ''a'' ''PROVISIONING'' msg_source_created]"
  by (simp add: numeral_3_eq_3 numeral_2_eq_2 created_a_def job_begin job_step script_Create
      script_find script_Update script_UpdateStatus clash_def target_clash_def mem_table_def
      stamp_new_def Let_def DeleteInstance_def delete_upstream_def set_status_def
      script_CreateSource [where rest = "[]"] uuid_decoded create_cost_model_def script_publish
      mem_rows_def)
    (simp add: asked_def new_instance_def)

definition stamped :: "string \<Rightarrow> time \<Rightarrow> cost_instance" where
  "stamped k t = (asked k)\<lparr>CreatedAt := t, UpdatedAt := t\<rparr>"

lemma conflict_steps:
  "\<exists>w1 w2 w3.
    create_step script_env script_handler (job ''a'' (Reserving (asked ''a'')), start [] [] []) =
      (job ''a'' (CreatingSource (stamped ''a'' 5)), w1) \<and>
    create_step script_env script_handler (job ''b'' (Reserving (asked ''b'')), w1) =
      (job ''b'' (LookingUp (stamped ''b'' 6)), w2) \<and>
    create_step script_env script_handler (job ''b'' (LookingUp (stamped ''b'' 6)), w2) =
      (job ''b'' (Replied conflict), w3) \<and> mem_rows (db w3) = [''a'' \<mapsto> stamped ''a'' 5]"
  by (simp add: stamped_def job_step script_Create script_find clash_def mem_table_def stamp_new_def
      mem_rows_def Let_def)

lemma arrived:
  "raced script_env script_handler others ok ([], w)
     ([job ''a'' (Reserving (asked ''a'')), job ''b'' (Reserving (asked ''b''))], w)"
proof -
  have "raced script_env script_handler others ok ([], w) ([] @ [job ''a'' (Reserving (asked ''a''))], w)"
    by (rule raced.arrive [OF raced.start job_begin]) simp
  from raced.arrive [OF this job_begin, of "''b''"] show ?thesis by simp
qed

lemma conflict_run:
  assumes "ok [job ''a'' (CreatingSource (stamped ''a'' 5)), job ''b'' (Reserving (asked ''b''))]"
    and "ok [job ''a'' (CreatingSource (stamped ''a'' 5)), job ''b'' (LookingUp (stamped ''b'' 6))]"
    and "ok [job ''a'' (CreatingSource (stamped ''a'' 5)), job ''b'' (Replied conflict)]"
  shows "\<exists>w. mem_rows (db w) = [''a'' \<mapsto> stamped ''a'' 5] \<and>
    raced script_env script_handler others ok ([], start [] [] [])
      ([job ''a'' (CreatingSource (stamped ''a'' 5)), job ''b'' (Replied conflict)], w)"
proof -
  let ?raced = "raced script_env script_handler others ok ([], start [] [] [])"
  let ?a = "job ''a'' (CreatingSource (stamped ''a'' 5))"
  obtain w1 w2 w3 where s:
    "create_step script_env script_handler (job ''a'' (Reserving (asked ''a'')), start [] [] []) = (?a, w1)"
    "create_step script_env script_handler (job ''b'' (Reserving (asked ''b'')), w1) =
      (job ''b'' (LookingUp (stamped ''b'' 6)), w2)"
    "create_step script_env script_handler (job ''b'' (LookingUp (stamped ''b'' 6)), w2) =
      (job ''b'' (Replied conflict), w3)" and rows: "mem_rows (db w3) = [''a'' \<mapsto> stamped ''a'' 5]"
    using conflict_steps by (elim exE conjE)
  have "?raced ([?a, job ''b'' (Reserving (asked ''b''))], w1)"
    using raced.call [where i = 0 and ok = ok, OF arrived] s(1) assms(1) by simp
  from raced.call [where i = 1, OF this] s(2) assms(2)
  have "?raced ([?a, job ''b'' (LookingUp (stamped ''b'' 6))], w2)" by simp
  from raced.call [where i = 1, OF this] s(3) assms(3)
  have "?raced ([?a, job ''b'' (Replied conflict)], w3)" by simp
  then show ?thesis using rows by blast
qed

end
