(* ===== verification/RaceProps.thy ===== *)
theory RaceProps
  imports RaceRuns ServiceProps
begin

text \<open>
  Properties of creates that run at the same time, call by call (\<open>CreateSteps\<close>, \<open>CreateRaces\<close>),
  over the service as the main program wires it.
\<close>

subsection \<open>What the rest of the service does meanwhile\<close>

text \<open>
  Between two calls of a create, other operations run whole or in part. The only write of a delete
  and of the reconciler is an update of a status, which is also a step of its own here, so that
  their calls may be interleaved with a create's as well.
\<close>

inductive meanwhile ::
  "'x env \<Rightarrow> ('d, 'x) handler \<Rightarrow> ('d, 'x) reconciler \<Rightarrow> ('d, 'x) world \<Rightarrow> ('d, 'x) world \<Rightarrow> bool"
  for E H RC where
  operation: "service_step E H RC w w' \<Longrightarrow> meanwhile E H RC w w'"
| status: "st_UpdateStatus (hd_store H) k s m w = (err, w') \<Longrightarrow> CostInstanceStatus_Valid s \<Longrightarrow>
    meanwhile E H RC w w'"
| lookup: "st_Get (hd_store H) k w = (res, w') \<Longrightarrow> meanwhile E H RC w w'"
| outside: "db w' = db w \<Longrightarrow> meanwhile E H RC w w'"

lemma life_rows_kept: "life_step (life R) (life R') \<Longrightarrow> rows_kept R R'"
  using life_step_target [of "life R" "life R'"] by (fastforce simp: rows_kept_def life_def)

lemma known_life: "known_statuses (life R) \<longleftrightarrow> (\<forall>r \<in> ran R. CostInstanceStatus_Valid (Status r))"
  by (fastforce simp: known_statuses_def life_def ran_def)

context service
begin

lemma good_life: "good_table (T w) \<longleftrightarrow> one_per_target (life (T w)) \<and> known_statuses (life (T w))"
  by (simp add: good_table_def unique_targets_life known_life)

lemma step_good:
  assumes "service_step E H RC w w'"
  shows "rows_kept (T w) (T w') \<and> (good_table (T w) \<longrightarrow> good_table (T w'))"
  using step_refines [OF assms] life_rows_kept life_step_one_per_target life_step_known
  by (auto simp: good_life)

lemma status_good:
  assumes "st_UpdateStatus (hd_store H) k s m w = (err, w')" and "CostInstanceStatus_Valid s"
  shows "rows_kept (T w) (T w') \<and> (good_table (T w) \<longrightarrow> good_table (T w'))"
proof (cases err)
  case None
  from h.UpdateStatus_ok [OF assms(1) [unfolded None]] obtain r u
    where r: "T w k = Some r" "T w' = (T w)(k \<mapsto> set_status s m u r)" by blast
  then have "ID r = k" using h.table_key by simp
  then have "writes (T w) (TargetResourceID r) s (T w')"
    using r unfolding writes_def row_of_def by (metis set_status_fields(1,3,4))
  then show ?thesis
    using writes_kept writes_good [OF _ _ assms(2)] h.table_key by blast
next
  case (Some e)
  from h.UpdateStatus_failed [OF assms(1) [unfolded Some]] show ?thesis by simp
qed

lemma meanwhile_good:
  assumes "meanwhile E H RC w w'"
  shows "rows_kept (T w) (T w') \<and> (good_table (T w) \<longrightarrow> good_table (T w'))"
  using assms
proof cases
  case operation
  then show ?thesis by (rule step_good)
next
  case status
  then show ?thesis by (rule status_good)
next
  case lookup
  from h.Get_same [OF this] show ?thesis by simp
next
  case outside
  from h.table_frame [OF this] show ?thesis by simp
qed

end

lemma exclusive_length: "exclusive t js \<Longrightarrow> length (filter (holder t) js) \<le> 1"
  unfolding length_filter_conv_card by (simp add: card_le_Suc0_iff_eq exclusive_def)

subsection \<open>Properties\<close>


text \<open>C5. However the calls of any number of creates are interleaved with each other and with the
  other operations and the single database calls of deletes and reconciler passes: no two instances
  ever have the same target, every status is one of the API's, a row is never removed and never
  changes its target, and a create that answered 201 has a row of its target.\<close>

theorem interleaved_invariants:
  assumes "gorm_db G R" and "status_publisher P"
    and "H = app_handler G E C P ck" and "RC = app_reconciler G E C P i t"
    and "raced E H (meanwhile E H RC) (\<lambda>js. True) ([], w0) (js, w)" and "R (db w0) = Map.empty"
    and "raced E H (meanwhile E H RC) (\<lambda>js. True) (js, w) (js', w')"
  shows "unique_targets (R (db w)) \<and>
    (\<forall>r \<in> ran (R (db w)). CostInstanceStatus_Valid (Status r)) \<and>
    (\<forall>k r. R (db w) k = Some r \<longrightarrow>
       (\<exists>r'. R (db w') k = Some r' \<and> TargetResourceID r' = TargetResourceID r)) \<and>
    (\<forall>j \<in> set js. \<forall>code inst. cj_point j = Replied (OkInstance code inst) \<longrightarrow>
       (\<exists>r \<in> ran (R (db w)). TargetResourceID r = job_target j))"
proof -
  note sv = app_service [OF assms(1,2), of E C ck i t, folded assms(3,4)]
  note hs = app_handlers [OF assms(1,2), of E C ck, folded assms(3)]
  note inv = handlers.raced_invariants [OF hs _ service.meanwhile_good [OF sv]]
  have "all_own [] (R (db w0))" and "good_table (R (db w0))"
    by (simp_all add: all_own_def good_table_def unique_targets_def assms(6))
  note now = inv [OF assms(5) _ this]
  then have "all_own js (R (db w))" and "good_table (R (db w))" by simp_all
  note later = inv [OF assms(7) _ this]
  show ?thesis using now later
    by (fastforce simp: good_table_def rows_kept_def all_own_def row_of_def intro: ranI)
qed

theorem interleaved_invariants_witness:
  "\<exists>w. raced script_env script_handler
      (meanwhile script_env script_handler (script_reconciler 0)) (\<lambda>js. True) ([], start [] [] [])
      ([job ''a'' (CreatingSource (stamped ''a'' 5)), job ''b'' (Replied conflict)], w) \<and>
    mem_rows (db w) = [''a'' \<mapsto> stamped ''a'' 5] \<and> unique_targets (mem_rows (db w))"
proof -
  obtain w where run: "raced script_env script_handler
      (meanwhile script_env script_handler (script_reconciler 0)) (\<lambda>js. True) ([], start [] [] [])
      ([job ''a'' (CreatingSource (stamped ''a'' 5)), job ''b'' (Replied conflict)], w)"
    and rows: "mem_rows (db w) = [''a'' \<mapsto> stamped ''a'' 5]"
    using conflict_run [of "\<lambda>js. True", OF TrueI TrueI TrueI] by blast
  have "mem_rows (db (start [] [] [])) = Map.empty" by (simp add: mem_rows_def mem_table_def)
  from interleaved_invariants [OF mem_contract nats_contract script_handler_def script_reconciler_def
      run this raced.start]
  show ?thesis using run rows by blast
qed

text \<open>C6. While every instance of a target is active, whatever else runs, and no create of it is
  about to record that Koku refused its source, at most one create of the target gets past the
  reservation: of any number of creates for it, interleaved in any way, one at most posts a source
  or answers 201.\<close>

theorem reservation_exclusive:
  assumes "gorm_db G R" and "status_publisher P" and "H = app_handler G E C P ck"
    and "RC = app_reconciler G E C P i d"
    and "raced E H
      (\<lambda>w w'. meanwhile E H RC w w' \<and> (live_target (R (db w)) t \<longrightarrow> live_target (R (db w')) t))
      (no_failure t) ([], w0) (js, w)"
    and "live_target (R (db w0)) t"
  shows "length (filter (holder t) js) \<le> 1 \<and> live_target (R (db w)) t"
proof -
  note sv = app_service [OF assms(1,2), of E C ck i d, folded assms(3,4)]
  note hs = app_handlers [OF assms(1,2), of E C ck, folded assms(3)]
  have "undisputed t [] (R (db w0))"
    by (simp add: undisputed_def all_own_def no_failure_def exclusive_def assms(6))
  from handlers.raced_exclusive [OF hs assms(5) _ this] service.meanwhile_good [OF sv]
  have "undisputed t js (R (db w))" by blast
  then show ?thesis using exclusive_length by (simp add: undisputed_def)
qed

theorem reservation_exclusive_witness:
  "\<exists>w. raced script_env script_handler
      (\<lambda>w w'. meanwhile script_env script_handler (script_reconciler 0) w w' \<and>
        (live_target (mem_rows (db w)) ''c1'' \<longrightarrow> live_target (mem_rows (db w')) ''c1''))
      (no_failure ''c1'') ([], start [] [] [])
      ([job ''a'' (CreatingSource (stamped ''a'' 5)), job ''b'' (Replied conflict)], w) \<and>
    mem_rows (db w) = [''a'' \<mapsto> stamped ''a'' 5] \<and>
    length (filter (holder ''c1'')
      [job ''a'' (CreatingSource (stamped ''a'' 5)), job ''b'' (Replied conflict)]) \<le> 1"
proof -
  let ?others = "\<lambda>w w'. meanwhile script_env script_handler (script_reconciler 0) w w' \<and>
    (live_target (mem_rows (db w)) ''c1'' \<longrightarrow> live_target (mem_rows (db w')) ''c1'')"
  have quiet: "no_failure ''c1'' [job a p, job b q]"
    if "\<not> is_MarkingError p" and "\<not> is_MarkingError q" for a b p q
    using that by (simp add: no_failure_def job_def)
  have "no_failure ''c1'' [job ''a'' (CreatingSource i), job ''b'' (Reserving j)]"
    and "no_failure ''c1'' [job ''a'' (CreatingSource i), job ''b'' (LookingUp j)]"
    and "no_failure ''c1'' [job ''a'' (CreatingSource i), job ''b'' (Replied resp)]" for i j resp
    by (simp_all add: quiet)
  from conflict_run [where ok = "no_failure ''c1''" and others = ?others, OF this] obtain w
    where rows: "mem_rows (db w) = [''a'' \<mapsto> stamped ''a'' 5]"
    and run: "raced script_env script_handler ?others (no_failure ''c1'') ([], start [] [] [])
      ([job ''a'' (CreatingSource (stamped ''a'' 5)), job ''b'' (Replied conflict)], w)"
    by (rule exE, elim conjE)
  have "live_target (mem_rows (db (start [] [] []))) ''c1''"
    by (simp add: live_target_def mem_rows_def mem_table_def)
  from reservation_exclusive [OF mem_contract nats_contract script_handler_def script_reconciler_def
      run this]
  show ?thesis by (intro exI [of _ w] conjI run rows) (rule conjunct1)
qed

subsection \<open>Races\<close>



end
