(* ===== verification/Spec2Isabelle.thy ===== *)
theory Spec2Isabelle
  imports Reports Paging ClientProps MainProgram SpecStorage ClientRuns ApiEnums OpenApiDoc
    RaceProps
begin

text \<open>
  A verification development for the Koku cost service provider, a Go service that manages cost
  instances: each ties a DCM target (a cluster) to a source and a cost model in Koku, the
  metering backend, and proxies Koku's reports for it.

  \<^bold>\<open>The program\<close>

  \<open>cmd/koku-cost-provider/main.go\<close> loads the configuration, opens the SQLite store, connects to
  NATS, and serves the API. A request passes the mux, the middlewares and the generated router
  (\<open>internal/apiserver\<close>, \<open>internal/api/server\<close>) to the handler (\<open>internal/handler\<close>), which calls
  the store (\<open>internal/store\<close>), Koku (\<open>internal/koku\<close>) and the publisher of status events
  (\<open>internal/monitoring\<close>). In the background the reconciler (\<open>internal/reconciler\<close>) polls Koku
  for the instances that are being provisioned, and the registrar (\<open>internal/registration\<close>)
  registers the provider with DCM. Other programs use the API through the generated client
  (\<open>pkg/client\<close>).

  \<^bold>\<open>Theories and sources\<close>

  \<^item> \<open>Prelude\<close>, \<open>GoLib\<close>, \<open>Json\<close>: Go's integers and durations, \<open>strconv\<close>, \<open>strings\<close>, base64,
    \<open>net/url\<close>, \<open>encoding/json\<close> with its decoding rules.
  \<^item> \<open>ApiTypes\<close>, \<open>ApiEncode\<close>: \<open>api/v1alpha1/types.gen.go\<close>, the types with their JSON forms;
    \<open>ApiEnums\<close>: the copies of the enumerations that the server and the client are generated with.
  \<^item> \<open>World\<close>, \<open>Http\<close>: the state and the outside world (below), and HTTP handlers.
  \<^item> \<open>Metrics\<close>, \<open>Health\<close>, \<open>Monitoring\<close>, \<open>KokuClient\<close>, \<open>Store\<close>, \<open>Handler\<close>, \<open>Reconciler\<close>,
    \<open>Registration\<close>, \<open>Config\<close>: the packages of the same names under \<open>internal/\<close>.
  \<^item> \<open>ServerErrors\<close>, \<open>Router\<close>, \<open>StrictServer\<close>: \<open>internal/api/server/server.gen.go\<close> (parameter
    errors, parameter binding and routes, response visitors and the strict handlers) and
    \<open>internal/apiserver/errors.go\<close>.
  \<^item> \<open>Middlewares\<close>, \<open>ApiServer\<close>: \<open>internal/apiserver/middleware.go\<close> and \<open>server.go\<close>.
  \<^item> \<open>OpenApiDoc\<close>: \<open>api/v1alpha1/spec.gen.go\<close>, the embedded document and how it is unpacked and
    loaded, and the validator that \<open>apiserver.New\<close> makes of it.
  \<^item> \<open>CreateSteps\<close>: \<open>CreateInstance\<close> once more, cut after each of its calls.
  \<^item> \<open>NetUrl\<close>, \<open>ApiClient\<close>: \<open>net/url\<close> (parsing, resolving and printing URLs, queries), and
    \<open>pkg/client/client.gen.go\<close>: the client with its options, the request builders, sending, and
    the parsed responses.
  \<^item> \<open>App\<close>, \<open>MainProgram\<close>: how \<open>main.go\<close> puts handler, reconciler and server together, and its
    \<open>run\<close>.

  \<^bold>\<open>State and effects\<close>

  The state is the record \<open>world\<close>: the database's state and the rest of the outside world, both
  of an arbitrary type, the process's own mutable data (metrics, the health checker's cache), and
  the logs of requests sent to Koku and of events published, which record effects. The outside
  operations (clock, UUIDs, HTTP, contexts, sleeping, NATS) are the fields of \<open>env\<close>, about which
  nothing is assumed; the statements of GORM are the fields of \<open>gorm\<close>, whose documented behaviour
  is the locale \<open>gorm_db\<close>. Every operation is a function from its arguments and the state to its
  result and the new state; Go errors are values of sum and option types, and a panic is a value
  that an HTTP handler can end with.

  \<^bold>\<open>Interfaces\<close>

  The Go interfaces are records of functions, and their contracts are locales:
  \<open>instance_store_laws\<close> (given by \<open>gorm_db\<close> for the store over any database that behaves as GORM
  documents), \<open>koku_api\<close> (given by the Koku client), \<open>status_publisher\<close> and
  \<open>recording_publisher\<close> (given by the publishers). The lemmas of the handler and of the reconciler
  are proved once, in the locales \<open>handlers\<close> and \<open>reconcilers\<close>, and the ones about runs of the
  whole service in \<open>service\<close>. All are interpreted on the program's own components; the database is
  instantiated with an in-memory one that can fail at any statement (\<open>MemDb\<close>).

  \<^bold>\<open>What is shown\<close>

  \<^item> Operations of the handler (\<open>ServiceProps\<close>, \<open>Paging\<close>, \<open>Reports\<close>): the outcome of create on
    every branch, the exclusive reservation of targets, soft delete, complete listings, report
    proxies.
  \<^item> The service over time (\<open>Lifecycle\<close>, \<open>ServiceProps\<close>): every interleaving of requests, passes
    of the reconciler and changes of the outside world refines an abstract life cycle of
    instances; its invariants hold in every reachable state. The steps are whole operations;
    \<open>Reports\<close> shows what a delete in the middle of a pass does.
  \<^item> Creates at the same time (\<open>CreateSteps\<close>, \<open>CreateRaces\<close>, \<open>RaceRuns\<close>, \<open>RaceProps\<close>): a create
    is a control point that makes one call per step. Alone it is \<open>CreateInstance\<close>; interleaved with
    other creates, with whole operations and with the single writes of deletes and of the
    reconciler, the invariants of the table still hold, and a target is reserved for one create
    only as long as none of its instances has failed or been deleted. Two races beyond that
    condition are shown as runs. A call of the Koku client is one step, whatever it sends.
  \<^item> The Koku client (\<open>KokuProps\<close>, \<open>ClientProps\<close>): what is sent, how often, and what is returned;
    label normalization.
  \<^item> The HTTP layer (\<open>ServerProps\<close>): responses conform to the interface of their operation, the
    status on the wire is the one of the response, every request is answered, refused requests
    never reach the service, panics become problem documents.
  \<^item> Texts that are written and read again: JSON values (\<open>JsonRoundtrip\<close>), the stored
    specification of an instance (\<open>SpecStorage\<close>), times and dates (\<open>TimeText\<close>), URLs and queries
    (\<open>NetUrl\<close>), responses (\<open>ResponseText\<close>).
  \<^item> Client and server together (\<open>ClientServer\<close>, \<open>ClientRoutes\<close>, \<open>ClientAnswers\<close>, and
    \<open>ClientRuns\<close> on concrete libraries): a request that the client builds reaches the operation it
    was built for with the arguments of the caller, and the caller gets what the service answered.
  \<^item> Start and end (\<open>Config\<close>, \<open>Registration\<close>, \<open>MainProgram\<close>): validated configuration,
    redaction, the bounded backoff of the registration, the optional NATS connection, shutdown.

  Several properties state behaviour that the code does not seem to intend: they are theorems
  about the code as it is.

  \<^bold>\<open>Loops and bounds\<close>

  The retry loop of the client counts down from three. The JSON parser has fuel of twice the
  length of its input plus two, one unit per call, and each value or member consumes a byte; that
  this is enough for every text that the program prints is part of \<open>JsonRoundtrip\<close>. The
  loops that wait for timers (reconciler, registrar, readiness probe) recurse over the list of
  their wake-ups; where such a list ends, the loop is in a state of its own (\<open>Running\<close>, \<open>Pending\<close>,
  \<open>Probing\<close>). Times and durations are integers, with the saturation of \<open>time.Since\<close> and the
  wrap-around of the doubled backoff written out; floats are their bit patterns.

  \<^bold>\<open>Not modelled\<close>

  Logging, and the text of JSON floats and of the errors of \<open>encoding/json\<close> (parameters). The
  libraries: chi, the parameter binding of oapi-codegen, kin-openapi, the environment parser,
  GORM and SQLite, NATS, Prometheus and the DCM client are parameters. The escaped form of a
  path, the location of times (UTC throughout) and string escapes inside a JSON time are not told
  apart from the plain ones. In the client, the styling of parameters and the grammar of an URL's
  authority are parameters. The structs that \<open>server.gen.go\<close> and \<open>client.gen.go\<close> repeat word
  for word are modelled once, in \<open>ApiTypes\<close>. Of the OpenAPI document the text is an opaque
  string: what the validator built from it accepts is a parameter, and so is \<open>compress/gzip\<close>.
\<close>

end
